(* ===== verification/Prelude.thy ===== *)
theory Prelude
  imports Main "HOL-Library.Word" "HOL-Library.Sublist"
begin

text \<open>
  Shared vocabulary of the development.

  \<^item> Errors: the nine stable classes of \<^verbatim>\<open>plugins/module_utils/errors.py\<close>, the classified
    exceptions that carry one of them, and the Python exceptions that escape unclassified.
  \<^item> Actions: code that mutates an object and may raise is a function from the state to an
    outcome and the state at that point, so the state left behind by an exception is visible.
  \<^item> Contracts: \<open>keeps R\<close> (every run of an action relates its start and end state by \<open>R\<close>) and
    \<open>commutes f\<close> (an action does not notice the update \<open>f\<close>), with one rule per construct.
  \<^item> Bytes: \<^verbatim>\<open>bytes\<close> is a list of 8-bit words; little- and big-endian integers as
    \<^verbatim>\<open>struct.pack\<close> and \<^verbatim>\<open>struct.unpack_from\<close> read and write them.
\<close>

unbundle bit_operations_syntax

named_theorems keeps_intros \<open>rules that build a two-state contract of an action\<close>
named_theorems commutes_intros \<open>rules that build a commutation of an action with an update\<close>

section \<open>Errors\<close>

datatype error_class =
    CONNECTION | TLS_VALIDATION | AUTHENTICATION | UNSUPPORTED_CAPABILITY | INVALID_STATE
  | TIMEOUT | PROTOCOL | REMOTE_OPERATION | IDENTITY_MISMATCH

text \<open>
  A classified exception: its class, whether the mutation may have been applied, and the
  \<^verbatim>\<open>ReturnValue\<close> it carries.  Message text is diagnostic; theory \<open>Redaction\<close> models what becomes of it.
\<close>

record amt_error =
  error_class :: error_class
  indeterminate :: bool
  return_value :: "int option"

datatype py_exc = ValueError | StructError | IndexError | KeyError | TypeError | OSError
  | UnicodeDecodeError | SocketTimeout | AttributeError | RequestException

text \<open>\<open>OutOfFuel\<close>: a loop of the code that may run forever did not end within the rounds given to it.\<close>

datatype exn = AmtError amt_error | PyError py_exc | OutOfFuel

definition amt_error_of :: "error_class \<Rightarrow> exn" where
  "amt_error_of c = AmtError \<lparr>error_class = c, indeterminate = False, return_value = None\<rparr>"

abbreviation "ProtocolError \<equiv> amt_error_of PROTOCOL"
abbreviation "ConnectionError \<equiv> amt_error_of CONNECTION"
abbreviation "TlsValidationError \<equiv> amt_error_of TLS_VALIDATION"
abbreviation "AuthenticationError \<equiv> amt_error_of AUTHENTICATION"
abbreviation "UnsupportedCapabilityError \<equiv> amt_error_of UNSUPPORTED_CAPABILITY"
abbreviation "InvalidStateError \<equiv> amt_error_of INVALID_STATE"

definition TimeoutError :: "bool \<Rightarrow> exn" where
  "TimeoutError ind = AmtError \<lparr>error_class = TIMEOUT, indeterminate = ind, return_value = None\<rparr>"

definition RemoteOperationError :: "int \<Rightarrow> exn" where
  "RemoteOperationError rv =
     AmtError \<lparr>error_class = REMOTE_OPERATION, indeterminate = False, return_value = Some rv\<rparr>"

lemma amt_error_of_inject [simp]: "amt_error_of c = amt_error_of d \<longleftrightarrow> c = d"
  by (simp add: amt_error_of_def)

lemma amt_error_of_not_py [simp]: "amt_error_of c \<noteq> PyError p" "PyError p \<noteq> amt_error_of c"
  "amt_error_of c \<noteq> OutOfFuel" "OutOfFuel \<noteq> amt_error_of c"
  by (simp_all add: amt_error_of_def)

text \<open>\<^verbatim>\<open>isinstance(err, AmtError)\<close>, and the class of a classified exception.\<close>

fun is_amt_error :: "exn \<Rightarrow> bool" where
  "is_amt_error (AmtError _) = True"
| "is_amt_error (PyError _) = False"
| "is_amt_error OutOfFuel = False"

definition has_class :: "error_class set \<Rightarrow> exn \<Rightarrow> bool" where
  "has_class cs x = (case x of AmtError e \<Rightarrow> error_class e \<in> cs | _ \<Rightarrow> False)"

lemma has_class_simps [simp]:
  "has_class cs (amt_error_of c) \<longleftrightarrow> c \<in> cs"
  "has_class cs (TimeoutError i) \<longleftrightarrow> TIMEOUT \<in> cs"
  "has_class cs (RemoteOperationError v) \<longleftrightarrow> REMOTE_OPERATION \<in> cs"
  "\<not> has_class cs (PyError p)" "\<not> has_class cs OutOfFuel"
  by (simp_all add: has_class_def amt_error_of_def TimeoutError_def RemoteOperationError_def)

section \<open>Actions: state passing with exceptions\<close>

datatype 'a outcome = Ok 'a | Raise exn

type_synonym ('s, 'a) action = "'s \<Rightarrow> 'a outcome \<times> 's"

definition ret :: "'a \<Rightarrow> ('s, 'a) action" where
  "ret x = (\<lambda>s. (Ok x, s))"

definition throw :: "exn \<Rightarrow> ('s, 'a) action" where
  "throw x = (\<lambda>s. (Raise x, s))"

definition gets :: "('s \<Rightarrow> 'a) \<Rightarrow> ('s, 'a) action" where
  "gets f = (\<lambda>s. (Ok (f s), s))"

definition modify :: "('s \<Rightarrow> 's) \<Rightarrow> ('s, unit) action" where
  "modify f = (\<lambda>s. (Ok (), f s))"

definition bindA :: "('s, 'a) action \<Rightarrow> ('a \<Rightarrow> ('s, 'b) action) \<Rightarrow> ('s, 'b) action" where
  "bindA m k = (\<lambda>s. case m s of (Ok x, t) \<Rightarrow> k x t | (Raise e, t) \<Rightarrow> (Raise e, t))"

definition thenA :: "('s, unit) action \<Rightarrow> ('s, 'b) action \<Rightarrow> ('s, 'b) action" where
  "thenA m n = bindA m (\<lambda>_. n)"

text \<open>\<^verbatim>\<open>try: m except <p>: h\<close>: the handler runs from the state the exception left behind.\<close>

definition catchA :: "('s, 'a) action \<Rightarrow> (exn \<Rightarrow> bool) \<Rightarrow> (exn \<Rightarrow> ('s, 'a) action) \<Rightarrow> ('s, 'a) action" where
  "catchA m p h = (\<lambda>s. case m s of
      (Ok x, t) \<Rightarrow> (Ok x, t)
    | (Raise e, t) \<Rightarrow> (if p e then h e t else (Raise e, t)))"

text \<open>A pure computation that may raise, run as an action.\<close>

definition liftA :: "'a outcome \<Rightarrow> ('s, 'a) action" where
  "liftA r = (\<lambda>s. (r, s))"

lemmas action_defs = ret_def throw_def gets_def modify_def bindA_def thenA_def catchA_def liftA_def

lemma bindA_ret [simp]: "bindA (ret x) k = k x"
  by (simp add: action_defs)

lemma bindA_gets [simp]: "bindA (gets f) k s = k (f s) s"
  by (simp add: action_defs)

lemma bindA_throw [simp]: "bindA (throw x) k = throw x"
  by (simp add: action_defs)

lemma bindA_liftA_Ok [simp]: "bindA (liftA (Ok x)) k = k x"
  by (simp add: action_defs)

lemma bindA_liftA_Raise [simp]: "bindA (liftA (Raise x)) k = throw x"
  by (simp add: action_defs)

lemma bindA_assoc [simp]: "bindA (bindA m k) l = bindA m (\<lambda>x. bindA (k x) l)"
  by (auto simp: action_defs fun_eq_iff split: prod.splits outcome.splits)

lemma thenA_modify [simp]: "thenA (modify f) n s = n (f s)"
  by (simp add: action_defs)

lemma bindA_modify [simp]: "bindA (modify f) k s = k () (f s)"
  by (simp add: action_defs)

lemma thenA_gets [simp]: "thenA (bindA (gets f) k) n s = thenA (k (f s)) n s"
  by (simp add: action_defs)

lemma run_simps [simp]:
  "ret x s = (Ok x, s)" "throw e s = (Raise e, s)" "gets f s = (Ok (f s), s)"
  "modify g s = (Ok (), g s)" "liftA r s = (r, s)"
  by (simp_all add: action_defs)

lemma bindA_eq_Ok:
  "m s = (Ok x, t) \<Longrightarrow> bindA m k s = k x t"
  "m s = (Raise e, t) \<Longrightarrow> bindA m k s = (Raise e, t)"
  by (simp_all add: action_defs)

lemma thenA_eq_Ok:
  "m s = (Ok x, t) \<Longrightarrow> thenA m n s = n t"
  "m s = (Raise e, t) \<Longrightarrow> thenA m n s = (Raise e, t)"
  by (simp_all add: action_defs)

lemma bindA_OkE:
  assumes "bindA m k s = (Ok y, u)"
  obtains x t where "m s = (Ok x, t)" and "k x t = (Ok y, u)"
  using assms by (auto simp: action_defs split: prod.splits outcome.splits)

lemma thenA_OkE:
  assumes "thenA m n s = (Ok y, u)"
  obtains t where "m s = (Ok (), t)" and "n t = (Ok y, u)"
  using assms by (auto simp: thenA_def elim: bindA_OkE)

subsection \<open>Two-state contracts\<close>

definition keeps :: "('s \<Rightarrow> 's \<Rightarrow> bool) \<Rightarrow> ('s, 'a) action \<Rightarrow> bool" where
  "keeps R m \<longleftrightarrow> (\<forall>s. R s (snd (m s)))"

lemma keepsD: "keeps R m \<Longrightarrow> m s = (r, t) \<Longrightarrow> R s t"
  unfolding keeps_def by (metis snd_conv)

lemma keepsI: "(\<And>s r t. m s = (r, t) \<Longrightarrow> R s t) \<Longrightarrow> keeps R m"
  unfolding keeps_def by (metis prod.collapse)

text \<open>
  The contract is stated once for any preorder on states; the rules follow the constructs
  an operation is built from, so a component's handlers inherit a contract from its primitives.
\<close>

locale contract =
  fixes R :: "'s \<Rightarrow> 's \<Rightarrow> bool"
  assumes refl: "R s s"
    and trans: "R s t \<Longrightarrow> R t u \<Longrightarrow> R s u"
begin

lemma pure [keeps_intros]:
  "keeps R (ret x)" "keeps R (throw e)" "keeps R (gets f)" "keeps R (liftA r)"
  by (simp_all add: keeps_def refl)

lemma bind [keeps_intros]: "keeps R m \<Longrightarrow> (\<And>x. keeps R (k x)) \<Longrightarrow> keeps R (bindA m k)"
  by (auto simp: keeps_def bindA_def split: prod.splits outcome.splits)
     (metis snd_conv refl trans)+

lemma thenn [keeps_intros]: "keeps R m \<Longrightarrow> keeps R n \<Longrightarrow> keeps R (thenA m n)"
  unfolding thenA_def by (intro bind)

lemma catch [keeps_intros]: "keeps R m \<Longrightarrow> (\<And>e. keeps R (h e)) \<Longrightarrow> keeps R (catchA m p h)"
  by (auto simp: keeps_def catchA_def split: prod.splits outcome.splits)
     (metis snd_conv refl trans)+

lemma modify_iff: "keeps R (modify f) \<longleftrightarrow> (\<forall>s. R s (f s))"
  by (simp add: keeps_def)

end

lemma keeps_if [keeps_intros]: "(b \<Longrightarrow> keeps R m) \<Longrightarrow> (\<not> b \<Longrightarrow> keeps R n) \<Longrightarrow> keeps R (if b then m else n)"
  by simp

lemma keeps_case_option [keeps_intros]:
  "(x = None \<Longrightarrow> keeps R m) \<Longrightarrow> (\<And>y. x = Some y \<Longrightarrow> keeps R (k y)) \<Longrightarrow>
     keeps R (case x of None \<Rightarrow> m | Some y \<Rightarrow> k y)"
  by (cases x) auto

lemma keeps_case_outcome [keeps_intros]:
  "(\<And>x. r = Ok x \<Longrightarrow> keeps R (m x)) \<Longrightarrow> (\<And>e. r = Raise e \<Longrightarrow> keeps R (k e)) \<Longrightarrow>
     keeps R (case r of Ok x \<Rightarrow> m x | Raise e \<Rightarrow> k e)"
  by (cases r) auto

lemma keeps_case_list [keeps_intros]:
  "(xs = [] \<Longrightarrow> keeps R m) \<Longrightarrow> (\<And>y ys. xs = y # ys \<Longrightarrow> keeps R (k y ys)) \<Longrightarrow>
     keeps R (case xs of [] \<Rightarrow> m | y # ys \<Rightarrow> k y ys)"
  by (cases xs) auto

subsection \<open>Actions that do not notice an update\<close>

definition commutes :: "('s \<Rightarrow> 's) \<Rightarrow> ('s, 'a) action \<Rightarrow> bool" where
  "commutes f m \<longleftrightarrow> (\<forall>s. m (f s) = apsnd f (m s))"

lemma commutesD: "commutes f m \<Longrightarrow> m (f s) = apsnd f (m s)"
  by (simp add: commutes_def)

lemma commutes_pure [commutes_intros]:
  "commutes f (ret x)" "commutes f (throw e)" "commutes f (liftA r)"
  by (simp_all add: commutes_def)

lemma commutes_bind [commutes_intros]:
  "commutes f m \<Longrightarrow> (\<And>x. commutes f (k x)) \<Longrightarrow> commutes f (bindA m k)"
  by (auto simp: commutes_def bindA_def apsnd_def map_prod_def split: prod.splits outcome.splits)

lemma commutes_then [commutes_intros]: "commutes f m \<Longrightarrow> commutes f n \<Longrightarrow> commutes f (thenA m n)"
  unfolding thenA_def by (intro commutes_bind)

lemma commutes_if [commutes_intros]:
  "(b \<Longrightarrow> commutes f m) \<Longrightarrow> (\<not> b \<Longrightarrow> commutes f n) \<Longrightarrow> commutes f (if b then m else n)"
  by simp

lemma commutes_case_option [commutes_intros]:
  "(x = None \<Longrightarrow> commutes f m) \<Longrightarrow> (\<And>y. x = Some y \<Longrightarrow> commutes f (k y)) \<Longrightarrow>
     commutes f (case x of None \<Rightarrow> m | Some y \<Rightarrow> k y)"
  by (cases x) auto

lemma commutes_case_list [commutes_intros]:
  "(xs = [] \<Longrightarrow> commutes f m) \<Longrightarrow> (\<And>y ys. xs = y # ys \<Longrightarrow> commutes f (k y ys)) \<Longrightarrow>
     commutes f (case xs of [] \<Rightarrow> m | y # ys \<Rightarrow> k y ys)"
  by (cases xs) auto

lemma commutes_gets: "(\<And>s. g (f s) = g s) \<Longrightarrow> commutes f (gets g)"
  by (simp add: commutes_def)

lemma commutes_modify: "(\<And>s. h (f s) = f (h s)) \<Longrightarrow> commutes f (modify h)"
  by (simp add: commutes_def)

subsection \<open>Traces\<close>

text \<open>
  \<open>posts log es m\<close>: a run of \<open>m\<close> appends a prefix of the events \<open>es\<close> to the log, and all of them
  when it returns.  So the events happen in this order, each at most once, whatever is raised.
\<close>

definition posts :: "('s \<Rightarrow> 'e list) \<Rightarrow> 'e list \<Rightarrow> ('s, 'a) action \<Rightarrow> bool" where
  "posts log es m \<longleftrightarrow> (\<forall>s. \<exists>ds. log (snd (m s)) = log s @ ds \<and> prefix ds es
     \<and> (\<forall>x. fst (m s) = Ok x \<longrightarrow> ds = es))"

named_theorems posts_intros \<open>rules that build the trace of an action\<close>

lemma postsI:
  "(\<And>s r t. m s = (r, t) \<Longrightarrow> \<exists>ds. log t = log s @ ds \<and> prefix ds es \<and> (\<forall>x. r = Ok x \<longrightarrow> ds = es)) \<Longrightarrow>
     posts log es m"
  unfolding posts_def by (metis prod.collapse)

lemma postsD:
  "posts log es m \<Longrightarrow> m s = (r, t) \<Longrightarrow>
     \<exists>ds. log t = log s @ ds \<and> prefix ds es \<and> (\<forall>x. r = Ok x \<longrightarrow> ds = es)"
  unfolding posts_def by (metis fst_conv snd_conv)

lemma posts_pure [posts_intros]:
  "posts log [] (ret x)" "posts log es (throw e)" "posts log [] (gets f)" "posts log [] (liftA r)"
  by (simp_all add: posts_def)

lemma posts_bind:
  assumes "posts log as m" "\<And>x. posts log bs (k x)"
  shows "posts log (as @ bs) (bindA m k)"
proof (rule postsI)
  fix s r t assume run: "bindA m k s = (r, t)"
  obtain q u where m: "m s = (q, u)" by (cases "m s")
  from postsD [OF assms(1) m] obtain ds where
    ds: "log u = log s @ ds" "prefix ds as" "\<And>x. q = Ok x \<Longrightarrow> ds = as" by blast
  show "\<exists>ds. log t = log s @ ds \<and> prefix ds (as @ bs) \<and> (\<forall>x. r = Ok x \<longrightarrow> ds = as @ bs)"
  proof (cases q)
    case (Ok x)
    with run m have "k x u = (r, t)" by (simp add: bindA_def)
    from postsD [OF assms(2) this] ds Ok show ?thesis by auto
  next
    case (Raise e)
    with run m ds show ?thesis by (auto simp: bindA_def intro: prefix_prefix)
  qed
qed

lemma posts_then: "posts log as m \<Longrightarrow> posts log bs n \<Longrightarrow> posts log (as @ bs) (thenA m n)"
  unfolding thenA_def by (intro posts_bind)

lemma posts_bind_silent [posts_intros]:
  "posts log [] m \<Longrightarrow> (\<And>x. posts log bs (k x)) \<Longrightarrow> posts log bs (bindA m k)"
  using posts_bind [of log "[]" m bs k] by simp

lemma posts_then_silent [posts_intros]: "posts log [] m \<Longrightarrow> posts log bs n \<Longrightarrow> posts log bs (thenA m n)"
  using posts_then [of log "[]" m bs n] by simp

lemma posts_bind_event:
  "posts log [e] m \<Longrightarrow> (\<And>x. posts log bs (k x)) \<Longrightarrow> posts log (e # bs) (bindA m k)"
  using posts_bind [of log "[e]" m bs k] by simp

lemma posts_catch_silent [posts_intros]:
  assumes "posts log [] m" "\<And>e. posts log [] (h e)"
  shows "posts log [] (catchA m p h)"
proof (rule postsI)
  fix s r t assume run: "catchA m p h s = (r, t)"
  obtain q u where m: "m s = (q, u)" by (cases "m s")
  from postsD [OF assms(1) m] have "log u = log s" by simp
  moreover have "log t = log u"
    using run m postsD [OF assms(2)] by (fastforce simp: catchA_def split: outcome.splits if_splits)
  ultimately show "\<exists>ds. log t = log s @ ds \<and> prefix ds [] \<and> (\<forall>x. r = Ok x \<longrightarrow> ds = [])" by simp
qed

lemma posts_if [posts_intros]:
  "(b \<Longrightarrow> posts log es m) \<Longrightarrow> (\<not> b \<Longrightarrow> posts log es n) \<Longrightarrow> posts log es (if b then m else n)"
  by simp

lemma posts_case_option [posts_intros]:
  "(x = None \<Longrightarrow> posts log es m) \<Longrightarrow> (\<And>y. x = Some y \<Longrightarrow> posts log es (k y)) \<Longrightarrow>
     posts log es (case x of None \<Rightarrow> m | Some y \<Rightarrow> k y)"
  by (cases x) auto

lemma posts_case_list [posts_intros]:
  "(xs = [] \<Longrightarrow> posts log es m) \<Longrightarrow> (\<And>y ys. xs = y # ys \<Longrightarrow> posts log es (k y ys)) \<Longrightarrow>
     posts log es (case xs of [] \<Rightarrow> m | y # ys \<Rightarrow> k y ys)"
  by (cases xs) auto

lemma posts_case_outcome [posts_intros]:
  "(\<And>x. r = Ok x \<Longrightarrow> posts log es (m x)) \<Longrightarrow> (\<And>e. r = Raise e \<Longrightarrow> posts log es (k e)) \<Longrightarrow>
     posts log es (case r of Ok x \<Rightarrow> m x | Raise e \<Rightarrow> k e)"
  by (cases r) auto

lemma posts_modify: "(\<And>s. log (f s) = log s) \<Longrightarrow> posts log [] (modify f)"
  by (simp add: posts_def)

subsection \<open>Loops\<close>

text \<open>
  A \<^verbatim>\<open>while\<close> loop is a step that says whether to go round again, and a recursive action that
  unfolds to it.  Given a well-founded relation the step decreases, the loop inherits the step's
  contracts.
\<close>

locale action_loop =
  fixes step :: "('s, bool) action"
    and loop :: "('s, unit) action"
    and rel :: "('s \<times> 's) set"
  assumes wf_rel: "wf rel"
    and decreases: "step s = (Ok True, t) \<Longrightarrow> (t, s) \<in> rel"
    and unfold: "loop s = (case step s of
        (Ok b, t) \<Rightarrow> if b then loop t else (Ok (), t)
      | (Raise x, t) \<Rightarrow> (Raise x, t))"
begin

lemma loop_induct: "(\<And>s. (\<And>t. step s = (Ok True, t) \<Longrightarrow> P t) \<Longrightarrow> P s) \<Longrightarrow> P s"
  by (rule wf_induct_rule [OF wf_rel]) (blast intro: decreases)

lemma loop_cases:
  obtains (again) t where "step s = (Ok True, t)" "loop s = loop t"
  | (finished) t where "step s = (Ok False, t)" "loop s = (Ok (), t)"
  | (raised) x t where "step s = (Raise x, t)" "loop s = (Raise x, t)"
proof (cases "step s")
  case (Pair r t)
  then show thesis
    using unfold [of s] again finished raised by (cases r) (auto split: if_splits)
qed

lemma loop_keeps:
  assumes "contract R" and "keeps R step"
  shows "keeps R loop"
proof -
  have "R s (snd (loop s))" for s
  proof (induction s rule: loop_induct)
    case (1 s)
    have step: "R s (snd (step s))" using assms(2) by (simp add: keeps_def)
    show ?case
      by (cases s rule: loop_cases) (use step 1 contract.trans [OF assms(1)] in fastforce)+
  qed
  then show ?thesis by (simp add: keeps_def)
qed

lemma loop_commutes:
  assumes "commutes f step"
  shows "commutes f loop"
proof -
  have "loop (f s) = apsnd f (loop s)" for s
  proof (induction s rule: loop_induct)
    case (1 s)
    have fs: "step (f s) = apsnd f (step s)" using assms by (simp add: commutes_def)
    show ?case
      by (cases s rule: loop_cases) (use fs 1 unfold [of "f s"] in auto)
  qed
  then show ?thesis by (simp add: commutes_def)
qed

text \<open>An invariant of the step that only speaks of states it does not raise from.\<close>

lemma loop_invariant:
  assumes "\<And>s b t. I s \<Longrightarrow> step s = (Ok b, t) \<Longrightarrow> I t"
  shows "I s \<Longrightarrow> loop s = (Ok (), t) \<Longrightarrow> I t"
proof (induction s rule: loop_induct)
  case (1 s)
  show ?case
    by (cases s rule: loop_cases) (use 1 assms in auto)
qed

end

section \<open>Bytes\<close>

type_synonym byte = "8 word"
type_synonym bytes = "byte list"

text \<open>\<^verbatim>\<open>bs[i]\<close> for a non-negative index, and \<^verbatim>\<open>bs[i:j]\<close>.\<close>

definition idx :: "bytes \<Rightarrow> nat \<Rightarrow> byte outcome" where
  "idx bs i = (if i < length bs then Ok (bs ! i) else Raise (PyError IndexError))"

definition slice :: "bytes \<Rightarrow> nat \<Rightarrow> nat \<Rightarrow> bytes" where
  "slice bs i j = take (j - i) (drop i bs)"

lemma length_slice: "j \<le> length bs \<Longrightarrow> length (slice bs i j) = j - i"
  by (auto simp: slice_def)

lemma idx_in_range [simp]: "i < length bs \<Longrightarrow> idx bs i = Ok (bs ! i)"
  by (simp add: idx_def)

lemma int_and_255: "(n :: int) AND 255 = n mod 256"
proof -
  have "n AND 255 = n AND mask 8" by (simp add: mask_eq_exp_minus_1)
  also have "\<dots> = take_bit 8 n" by (simp only: take_bit_eq_mask)
  finally show ?thesis by (simp add: take_bit_eq_mod)
qed

subsection \<open>Little- and big-endian integers\<close>

fun le_bytes :: "nat \<Rightarrow> int \<Rightarrow> bytes" where
  "le_bytes 0 v = []"
| "le_bytes (Suc n) v = word_of_int v # le_bytes n (v div 256)"

fun le_int :: "bytes \<Rightarrow> int" where
  "le_int [] = 0"
| "le_int (b # bs) = uint b + 256 * le_int bs"

definition be_bytes :: "nat \<Rightarrow> int \<Rightarrow> bytes" where
  "be_bytes n v = rev (le_bytes n v)"

definition be_int :: "bytes \<Rightarrow> int" where
  "be_int bs = le_int (rev bs)"

text \<open>\<^verbatim>\<open>struct.pack("<H"|"<I"|">I"|...)\<close> of one unsigned integer of \<open>n\<close> bytes: out of range raises.\<close>

definition pack_le :: "nat \<Rightarrow> int \<Rightarrow> bytes outcome" where
  "pack_le n v = (if 0 \<le> v \<and> v < 256 ^ n then Ok (le_bytes n v) else Raise (PyError StructError))"

definition pack_be :: "nat \<Rightarrow> int \<Rightarrow> bytes outcome" where
  "pack_be n v = (if 0 \<le> v \<and> v < 256 ^ n then Ok (be_bytes n v) else Raise (PyError StructError))"

definition unpack_le :: "nat \<Rightarrow> bytes \<Rightarrow> nat \<Rightarrow> int outcome" where
  "unpack_le n bs off =
     (if off + n \<le> length bs then Ok (le_int (take n (drop off bs))) else Raise (PyError StructError))"

definition unpack_be :: "nat \<Rightarrow> bytes \<Rightarrow> nat \<Rightarrow> int outcome" where
  "unpack_be n bs off =
     (if off + n \<le> length bs then Ok (be_int (take n (drop off bs))) else Raise (PyError StructError))"

lemma unpack_le_in_range [simp]:
  "off + n \<le> length bs \<Longrightarrow> unpack_le n bs off = Ok (le_int (take n (drop off bs)))"
  by (simp add: unpack_le_def)

lemma unpack_be_in_range [simp]:
  "off + n \<le> length bs \<Longrightarrow> unpack_be n bs off = Ok (be_int (take n (drop off bs)))"
  by (simp add: unpack_be_def)

lemma length_le_bytes [simp]: "length (le_bytes n v) = n"
  by (induction n arbitrary: v) auto

lemma length_be_bytes [simp]: "length (be_bytes n v) = n"
  by (simp add: be_bytes_def)

lemma le_int_le_bytes: "le_int (le_bytes n v) = v mod 256 ^ n"
proof (induction n arbitrary: v)
  case 0
  then show ?case by simp
next
  case (Suc n)
  have "v mod (256 * 256 ^ n) = v mod 256 + 256 * (v div 256 mod 256 ^ n)"
    by (simp add: mod_mult2_eq zmod_zmult2_eq)
  then show ?case using Suc by (simp add: unsigned_of_int take_bit_eq_mod)
qed

lemma le_int_bounds: "0 \<le> le_int bs \<and> le_int bs < 256 ^ length bs"
proof (induction bs)
  case Nil
  then show ?case by simp
next
  case (Cons b bs)
  have "0 \<le> uint b" "uint b < 256"
    using uint_ge_0 [of b] uint_bounded [of b] by simp_all
  with Cons show ?case by simp
qed

lemma le_bytes_le_int: "le_bytes (length bs) (le_int bs) = bs"
proof (induction bs)
  case Nil
  then show ?case by simp
next
  case (Cons b bs)
  have b: "0 \<le> uint b" "uint b < 256"
    using uint_ge_0 [of b] uint_bounded [of b] by simp_all
  then have "(uint b + 256 * le_int bs) div 256 = le_int bs"
    by simp
  moreover have "word_of_int (uint b + 256 * le_int bs) = b"
  proof -
    have "(256 :: byte) = 0" by simp
    then have "(256 :: byte) * word_of_int (le_int bs) = 0" by (simp only: mult_zero_left)
    then show ?thesis by simp
  qed
  ultimately show ?case using Cons by simp
qed

text \<open>Packing then unpacking gives the value back, at either byte order.\<close>

lemma pack_unpack_le: "pack_le n v = Ok bs \<Longrightarrow> unpack_le n bs 0 = Ok v"
  by (auto simp: pack_le_def le_int_le_bytes split: if_splits)

lemma pack_unpack_be: "pack_be n v = Ok bs \<Longrightarrow> unpack_be n bs 0 = Ok v"
  by (auto simp: pack_be_def be_bytes_def be_int_def le_int_le_bytes split: if_splits)

lemma be_int_nonneg: "0 \<le> be_int bs"
  using le_int_bounds [of "rev bs"] by (simp add: be_int_def)

section \<open>Chunks\<close>

text \<open>A list cut into pieces of \<open>n\<close> elements, the last one shorter; one piece when \<open>n\<close> is 0.\<close>

function chunks :: "nat \<Rightarrow> 'a list \<Rightarrow> 'a list list" where
  "chunks n xs = (if xs = [] then []
     else if n = 0 \<or> length xs \<le> n then [xs]
     else take n xs # chunks n (drop n xs))"
  by pat_completeness auto
termination
  by (relation "measure (\<lambda>(n, xs). length xs)") auto

declare chunks.simps [simp del]

lemma chunks_Nil [simp]: "chunks n [] = []"
  by (simp add: chunks.simps)

lemma chunks_single: "xs \<noteq> [] \<Longrightarrow> n = 0 \<or> length xs \<le> n \<Longrightarrow> chunks n xs = [xs]"
  by (simp add: chunks.simps)

lemma chunks_more: "0 < n \<Longrightarrow> n < length xs \<Longrightarrow> chunks n xs = take n xs # chunks n (drop n xs)"
  by (subst chunks.simps) auto

lemma concat_chunks [simp]: "concat (chunks n xs) = xs"
  by (induction n xs rule: chunks.induct) (subst chunks.simps, auto)

lemma chunks_eq_Nil [simp]: "chunks n xs = [] \<longleftrightarrow> xs = []"
  by (simp add: chunks.simps)

lemma chunks_bound: "0 < n \<Longrightarrow> x \<in> set (chunks n xs) \<Longrightarrow> length x \<le> n"
proof (induction n xs rule: chunks.induct)
  case (1 n xs)
  show ?case
  proof (cases "xs = [] \<or> length xs \<le> n")
    case True
    with 1 show ?thesis by (cases "xs = []") (auto simp: chunks_single)
  next
    case False
    with 1 show ?thesis by (auto simp: chunks_more)
  qed
qed

end
