(* ===== verification/Ider_Frames.thy ===== *)
theory Ider_Frames
  imports Prelude
begin

text \<open>
  Wire constants and outbound frame layouts of the IDE-R engine
  (\<^verbatim>\<open>plugins/module_utils/ider.py\<close>): command identifiers, the canned SCSI reply arrays, the
  8-byte frame header and the three SCSI reply payloads.  The lemmas give the length of every
  frame, the position of each header field and the round trip of the length and sequence fields.
\<close>

section \<open>Command identifiers, devices, start modes\<close>

definition CMD_OPEN_SESSION :: byte where "CMD_OPEN_SESSION = 0x40"
definition CMD_OPEN_SESSION_REPLY :: byte where "CMD_OPEN_SESSION_REPLY = 0x41"
definition CMD_CLOSE :: byte where "CMD_CLOSE = 0x43"
definition CMD_KEEPALIVE_PING :: byte where "CMD_KEEPALIVE_PING = 0x44"
definition CMD_KEEPALIVE_PONG :: byte where "CMD_KEEPALIVE_PONG = 0x45"
definition CMD_RESET_OCCURRED :: byte where "CMD_RESET_OCCURRED = 0x46"
definition CMD_RESET_OCCURRED_RESPONSE :: byte where "CMD_RESET_OCCURRED_RESPONSE = 0x47"
definition CMD_DISABLE_ENABLE_FEATURES :: byte where "CMD_DISABLE_ENABLE_FEATURES = 0x48"
definition CMD_STATUS_DATA :: byte where "CMD_STATUS_DATA = 0x49"
definition CMD_ERROR_OCCURRED :: byte where "CMD_ERROR_OCCURRED = 0x4A"
definition CMD_HEARTBEAT :: byte where "CMD_HEARTBEAT = 0x4B"
definition CMD_COMMAND_WRITTEN :: byte where "CMD_COMMAND_WRITTEN = 0x50"
definition CMD_COMMAND_END_RESPONSE :: byte where "CMD_COMMAND_END_RESPONSE = 0x51"
definition CMD_GET_DATA_FROM_HOST :: byte where "CMD_GET_DATA_FROM_HOST = 0x52"
definition CMD_DATA_FROM_HOST :: byte where "CMD_DATA_FROM_HOST = 0x53"
definition CMD_DATA_TO_HOST :: byte where "CMD_DATA_TO_HOST = 0x54"

lemmas cmd_defs = CMD_OPEN_SESSION_def CMD_OPEN_SESSION_REPLY_def CMD_CLOSE_def
  CMD_KEEPALIVE_PING_def CMD_KEEPALIVE_PONG_def CMD_RESET_OCCURRED_def
  CMD_RESET_OCCURRED_RESPONSE_def CMD_DISABLE_ENABLE_FEATURES_def CMD_STATUS_DATA_def
  CMD_ERROR_OCCURRED_def CMD_HEARTBEAT_def CMD_COMMAND_WRITTEN_def
  CMD_COMMAND_END_RESPONSE_def CMD_GET_DATA_FROM_HOST_def CMD_DATA_FROM_HOST_def
  CMD_DATA_TO_HOST_def

text \<open>Fixed-length inbound commands: command id to total frame length.\<close>

definition FIXED_LENGTH_COMMANDS :: "byte \<rightharpoonup> nat" where
  "FIXED_LENGTH_COMMANDS = map_of
     [(CMD_CLOSE, 8), (CMD_KEEPALIVE_PING, 8), (CMD_KEEPALIVE_PONG, 8), (CMD_HEARTBEAT, 8),
      (CMD_RESET_OCCURRED, 9), (CMD_STATUS_DATA, 13), (CMD_ERROR_OCCURRED, 11),
      (CMD_COMMAND_WRITTEN, 28)]"

definition DEVICE_FLOPPY :: byte where "DEVICE_FLOPPY = 0xA0"
definition DEVICE_CDROM :: byte where "DEVICE_CDROM = 0xB0"

definition START_MODE_ON_REBOOT :: int where "START_MODE_ON_REBOOT = 0x01 + 0x08"
definition START_MODE_GRACEFUL :: int where "START_MODE_GRACEFUL = 0x01 + 0x10"
definition START_MODE_IMMEDIATE :: int where "START_MODE_IMMEDIATE = 0x01 + 0x18"

definition MAX_READ_WRITE_BUFFER :: int where "MAX_READ_WRITE_BUFFER = 8192"

lemma device_codes_distinct [simp]: "DEVICE_CDROM \<noteq> DEVICE_FLOPPY" "DEVICE_FLOPPY \<noteq> DEVICE_CDROM"
  by (simp_all add: DEVICE_CDROM_def DEVICE_FLOPPY_def)

section \<open>Canned SCSI replies\<close>

definition MS_LS120_DISK_PAGE :: bytes where
  "MS_LS120_DISK_PAGE =
   [0x00, 0x26, 0x31, 0x80, 0x00, 0x00, 0x00, 0x00, 0x05, 0x1E, 0x10, 0xA9, 0x08, 0x20, 0x02, 0x00,
    0x03, 0xC3, 0x00, 0x00, 0x00, 0x00, 0x00, 0x00, 0x00, 0x00, 0x00, 0x00, 0x28, 0x00, 0x00, 0x00,
    0x00, 0x00, 0x00, 0x00, 0x02, 0xD0, 0x00, 0x00]"

definition MS_3F_LS120 :: bytes where
  "MS_3F_LS120 =
   [0x00, 0x5C, 0x24, 0x80, 0x00, 0x00, 0x00, 0x00, 0x01, 0x0A, 0x00, 0x01, 0x00, 0x00, 0x00, 0x00,
    0x02, 0x00, 0x00, 0x00, 0x03, 0x16, 0x00, 0xA0, 0x00, 0x00, 0x00, 0x00, 0x00, 0x12, 0x02, 0x00,
    0x00, 0x00, 0x00, 0x00, 0x00, 0x00, 0xA0, 0x00, 0x00, 0x00, 0x05, 0x1E, 0x10, 0xA9, 0x08, 0x20,
    0x02, 0x00, 0x03, 0xC3, 0x00, 0x00, 0x00, 0x00, 0x00, 0x00, 0x00, 0x00, 0x00, 0x00, 0x28, 0x00,
    0x00, 0x00, 0x00, 0x00, 0x00, 0x00, 0x02, 0xD0, 0x00, 0x00, 0x08, 0x0A, 0x00, 0x00, 0x00, 0x00,
    0x00, 0x00, 0x00, 0x00, 0x00, 0x00, 0x0B, 0x06, 0x00, 0x00, 0x00, 0x11, 0x24, 0x31]"

definition MS_FLOPPY_DISK_PAGE :: bytes where
  "MS_FLOPPY_DISK_PAGE =
   [0x00, 0x26, 0x24, 0x80, 0x00, 0x00, 0x00, 0x00, 0x05, 0x1E, 0x04, 0xB0, 0x02, 0x12, 0x02, 0x00,
    0x00, 0x50, 0x00, 0x00, 0x00, 0x00, 0x00, 0x00, 0x00, 0x00, 0x00, 0x00, 0x28, 0x00, 0x00, 0x00,
    0x00, 0x00, 0x00, 0x00, 0x02, 0xD0, 0x00, 0x00]"

definition MS_3F_FLOPPY :: bytes where
  "MS_3F_FLOPPY =
   [0x00, 0x5C, 0x24, 0x80, 0x00, 0x00, 0x00, 0x00, 0x01, 0x0A, 0x00, 0x01, 0x00, 0x00, 0x00, 0x00,
    0x02, 0x00, 0x00, 0x00, 0x03, 0x16, 0x00, 0xA0, 0x00, 0x00, 0x00, 0x00, 0x00, 0x12, 0x02, 0x00,
    0x00, 0x00, 0x00, 0x00, 0x00, 0x00, 0xA0, 0x00, 0x00, 0x00, 0x05, 0x1E, 0x04, 0xB0, 0x02, 0x12,
    0x02, 0x00, 0x00, 0x50, 0x00, 0x00, 0x00, 0x00, 0x00, 0x00, 0x00, 0x00, 0x00, 0x00, 0x28, 0x00,
    0x00, 0x00, 0x00, 0x00, 0x00, 0x00, 0x02, 0xD0, 0x00, 0x00, 0x08, 0x0A, 0x00, 0x00, 0x00, 0x00,
    0x00, 0x00, 0x00, 0x00, 0x00, 0x00, 0x0B, 0x06, 0x00, 0x00, 0x00, 0x11, 0x24, 0x31]"

definition MS_CD_1A :: bytes where
  "MS_CD_1A =
   [0x00, 0x12, 0x01, 0x80, 0x00, 0x00, 0x00, 0x00, 0x1A, 0x0A, 0x00, 0x00, 0x00, 0x00, 0x00, 0x00,
    0x00, 0x00, 0x00, 0x00]"

definition MS_CD_1D :: bytes where
  "MS_CD_1D =
   [0x00, 0x12, 0x01, 0x80, 0x00, 0x00, 0x00, 0x00, 0x1D, 0x0A, 0x00, 0x00, 0x00, 0x00, 0x00, 0x00,
    0x00, 0x00, 0x00, 0x00]"

definition MS_CD_2A :: bytes where
  "MS_CD_2A =
   [0x00, 0x20, 0x01, 0x80, 0x00, 0x00, 0x00, 0x00, 0x2A, 0x18, 0x00, 0x00, 0x00, 0x00, 0x20, 0x00,
    0x00, 0x00, 0x00, 0x00, 0x00, 0x80, 0x00, 0x00, 0x00, 0x00, 0x00, 0x00, 0x00, 0x00, 0x00, 0x00,
    0x00, 0x00]"

definition MS_3F_CD :: bytes where
  "MS_3F_CD =
   [0x00, 0x28, 0x01, 0x80, 0x00, 0x00, 0x00, 0x00, 0x01, 0x06, 0x00, 0xFF, 0x00, 0x00, 0x00, 0x00,
    0x2A, 0x18, 0x00, 0x00, 0x00, 0x00, 0x02, 0x00, 0x00, 0x00, 0x00, 0x00, 0x00, 0x80, 0x00, 0x00,
    0x00, 0x00, 0x00, 0x00, 0x00, 0x00, 0x00, 0x00, 0x00, 0x00]"

definition MS_FLOPPY_ERROR_RECOVERY :: bytes where
  "MS_FLOPPY_ERROR_RECOVERY =
   [0x00, 0x12, 0x24, 0x80, 0x00, 0x00, 0x00, 0x00, 0x01, 0x0A, 0x00, 0x01, 0x00, 0x00, 0x00, 0x00,
    0x02, 0x00, 0x00, 0x00]"

definition MS_LS120_ERROR_RECOVERY :: bytes where
  "MS_LS120_ERROR_RECOVERY =
   [0x00, 0x12, 0x31, 0x80, 0x00, 0x00, 0x00, 0x00, 0x01, 0x0A, 0x00, 0x01, 0x00, 0x00, 0x00, 0x00,
    0x02, 0x00, 0x00, 0x00]"

definition MS_CD_ERROR_RECOVERY :: bytes where
  "MS_CD_ERROR_RECOVERY =
   [0x00, 0x0E, 0x01, 0x80, 0x00, 0x00, 0x00, 0x00, 0x01, 0x06, 0x00, 0xFF, 0x00, 0x00, 0x00, 0x00]"

definition CD_CONFIG_PROFILE_LIST :: bytes where
  "CD_CONFIG_PROFILE_LIST =
   [0x00, 0x00, 0x03, 0x04, 0x00, 0x08, 0x01, 0x00]"

definition CD_CONFIG_CORE :: bytes where
  "CD_CONFIG_CORE =
   [0x00, 0x01, 0x03, 0x04, 0x00, 0x00, 0x00, 0x02]"

definition CD_CONFIG_MORPHING :: bytes where
  "CD_CONFIG_MORPHING =
   [0x00, 0x02, 0x03, 0x04, 0x00, 0x00, 0x00, 0x00]"

definition CD_CONFIG_REMOVABLE :: bytes where
  "CD_CONFIG_REMOVABLE =
   [0x00, 0x03, 0x03, 0x04, 0x29, 0x00, 0x00, 0x02]"

definition CD_CONFIG_RANDOM :: bytes where
  "CD_CONFIG_RANDOM =
   [0x00, 0x10, 0x01, 0x08, 0x00, 0x00, 0x08, 0x00, 0x00, 0x01, 0x00, 0x00]"

definition CD_CONFIG_READ :: bytes where
  "CD_CONFIG_READ =
   [0x00, 0x1E, 0x03, 0x00]"

definition CD_CONFIG_POWER :: bytes where
  "CD_CONFIG_POWER =
   [0x01, 0x00, 0x03, 0x00]"

definition CD_CONFIG_TIMEOUT :: bytes where
  "CD_CONFIG_TIMEOUT =
   [0x01, 0x05, 0x03, 0x00]"

definition GET_PERFORMANCE_REPLY :: bytes where
  "GET_PERFORMANCE_REPLY =
   [0x00, 0x00, 0x00, 0x04, 0x02, 0x00, 0x00, 0x00]"

text \<open>\<^verbatim>\<open>_mode_sense_10_page\<close>: a private copy with the write-protect bit of byte 3 set or cleared.\<close>

definition WRITE_PROTECT_BIT :: byte where "WRITE_PROTECT_BIT = 0x80"

definition mode_sense_10_page :: "bytes \<Rightarrow> bool \<Rightarrow> bytes outcome" where
  "mode_sense_10_page data writable =
     (if length data \<le> 3 then Raise (PyError IndexError)
      else if writable then Ok (data[3 := (data ! 3) AND NOT WRITE_PROTECT_BIT])
      else Ok (data[3 := (data ! 3) OR WRITE_PROTECT_BIT]))"

section \<open>Frames\<close>

text \<open>\<^verbatim>\<open>_header\<close>.  The sequence counter is a 32-bit word, as the mask \<^verbatim>\<open>seq & 0xFFFFFFFF\<close> makes it.\<close>

definition header_attributes :: "byte \<Rightarrow> bool \<Rightarrow> bool \<Rightarrow> byte" where
  "header_attributes cmdid completed dma =
     (let attributes = (if dma then 0 OR 0x01 else 0)
      in if completed \<and> cmdid > 50 then attributes OR 0x02 else attributes)"

definition header :: "byte \<Rightarrow> 32 word \<Rightarrow> bool \<Rightarrow> bool \<Rightarrow> bytes" where
  "header cmdid seq completed dma =
     [cmdid, 0x00, 0x00, header_attributes cmdid completed dma] @ le_bytes 4 (uint seq)"

text \<open>
  \<^verbatim>\<open>_send_command_end_response\<close>: the payload.  With \<open>error\<close> set the sense triple does not go
  on the wire.
\<close>

definition command_end_payload :: "bool \<Rightarrow> byte \<Rightarrow> byte \<Rightarrow> byte \<Rightarrow> byte \<Rightarrow> bytes" where
  "command_end_payload error sense device asc asq =
     (if error
      then replicate 12 0 @ [0xC5, 0x00, 0x03, 0x00, 0x00, 0x00, device, 0x50, 0x00, 0x00, 0x00]
      else replicate 12 0 @
        [0x87, push_bit 4 sense, 0x03, 0x00, 0x00, 0x00, device, 0x51, sense, asc, asq])"

text \<open>
  \<^verbatim>\<open>n & 0xFF\<close> and \<^verbatim>\<open>(n >> 8) & 0xFF\<close> of a Python integer: the two bytes every length field is
  written with.  A length of 65536 or more loses its high part here.
\<close>

definition len_lo :: "int \<Rightarrow> byte" where "len_lo n = word_of_int (n AND 0xFF)"
definition len_hi :: "int \<Rightarrow> byte" where "len_hi n = word_of_int (drop_bit 8 n AND 0xFF)"

text \<open>\<^verbatim>\<open>_send_data_to_host\<close>: prefix, suffix and data.\<close>

definition data_to_host_prefix :: "byte \<Rightarrow> int \<Rightarrow> bool \<Rightarrow> bytes" where
  "data_to_host_prefix device len dma =
     (let dmalen = (if dma then 0 else len)
      in [0x00, len_lo len, len_hi len, 0x00, if dma then 0xB4 else 0xB5, 0x00, 0x02, 0x00,
          len_lo dmalen, len_hi dmalen, device, 0x58])"

definition data_to_host_suffix :: "byte \<Rightarrow> bool \<Rightarrow> bytes" where
  "data_to_host_suffix device completed =
     (if completed
      then [0x85, 0x00, 0x03, 0x00, 0x00, 0x00, device, 0x50, 0x00, 0x00, 0x00, 0x00, 0x00, 0x00]
      else replicate 14 0)"

definition data_to_host_payload :: "byte \<Rightarrow> bool \<Rightarrow> bytes \<Rightarrow> bool \<Rightarrow> bytes" where
  "data_to_host_payload device completed data dma =
     data_to_host_prefix device (int (length data)) dma @ data_to_host_suffix device completed @ data"

text \<open>\<^verbatim>\<open>_send_get_data_from_host\<close>.\<close>

definition get_data_payload :: "byte \<Rightarrow> int \<Rightarrow> bytes" where
  "get_data_payload device chunk =
     [0x00, len_lo chunk, len_hi chunk, 0x00, 0xB5, 0x00, 0x00, 0x00, len_lo chunk, len_hi chunk,
      device, 0x58] @ replicate 11 0"

section \<open>Reading frames back\<close>

definition frame_cmd :: "bytes \<Rightarrow> byte" where "frame_cmd f = f ! 0"
definition frame_seq :: "bytes \<Rightarrow> int" where "frame_seq f = le_int (slice f 4 8)"
definition frame_payload :: "bytes \<Rightarrow> bytes" where "frame_payload f = drop 8 f"

text \<open>The data bytes of a \<^verbatim>\<open>DATA_TO_HOST\<close> frame, and the length its header field announces.\<close>

definition frame_data :: "bytes \<Rightarrow> bytes" where "frame_data f = drop 34 f"
definition frame_data_len :: "bytes \<Rightarrow> int" where "frame_data_len f = le_int (slice f 9 11)"
definition frame_completed :: "bytes \<Rightarrow> bool" where "frame_completed f = bit (f ! 3) 1"

lemma length_header [simp]: "length (header cmdid seq completed dma) = 8"
  by (simp add: header_def)

lemma length_command_end_payload [simp]: "length (command_end_payload e s d a q) = 23"
  by (simp add: command_end_payload_def)

lemma length_data_to_host_payload [simp]:
  "length (data_to_host_payload d c data dma) = 26 + length data"
  by (simp add: data_to_host_payload_def data_to_host_prefix_def data_to_host_suffix_def Let_def)

lemma length_get_data_payload [simp]: "length (get_data_payload d c) = 23"
  by (simp add: get_data_payload_def)

lemma frame_cmd_header [simp]: "frame_cmd (header c s co d @ p) = c"
  by (simp add: frame_cmd_def header_def)

lemma frame_payload_header [simp]: "frame_payload (header c s co d @ p) = p"
  by (simp add: frame_payload_def)

lemma frame_seq_header [simp]: "frame_seq (header c s co d @ p) = uint s"
proof -
  have "slice (header c s co d @ p) 4 8 = le_bytes 4 (uint s)"
    by (simp add: slice_def header_def)
  moreover have "uint s < 256 ^ 4"
    using uint_bounded [of s] by simp
  ultimately show ?thesis
    by (simp add: frame_seq_def le_int_le_bytes)
qed

lemma header_attributes_completed:
  "c > 50 \<Longrightarrow> bit (header_attributes c co d) (Suc 0) = co"
  by (cases co; cases d; simp add: header_attributes_def)

lemma frame_completed_header [simp]:
  "c > 50 \<Longrightarrow> frame_completed (header c s co d @ p) = co"
  by (simp add: frame_completed_def header_def header_attributes_completed)

lemma len_bytes_value: "le_int [len_lo n, len_hi n] = n mod 65536"
proof -
  have lo: "uint (len_lo n) = n mod 256"
    by (simp add: len_lo_def int_and_255 unsigned_of_int take_bit_eq_mod)
  have hi: "uint (len_hi n) = (n div 256) mod 256"
    by (simp add: len_hi_def int_and_255 unsigned_of_int take_bit_eq_mod drop_bit_eq_div)
  have "n mod 65536 = n mod (256 * 256)" by simp
  also have "\<dots> = n mod 256 + 256 * (n div 256 mod 256)"
    by (simp only: zmod_zmult2_eq)
  finally show ?thesis by (simp add: lo hi)
qed

end
