(* ===== verification/Ider_Media.thy ===== *)
theory Ider_Media
  imports Ider_Frames
begin

text \<open>
  Virtual media (\<^verbatim>\<open>MediaImage\<close> of \<^verbatim>\<open>plugins/module_utils/ider.py\<close>): the checks of the
  constructor against the file system, and reading and writing the open backing file.

  The file system is a parameter (a record of the answers of \<^verbatim>\<open>pathlib\<close>, \<^verbatim>\<open>stat\<close> and \<^verbatim>\<open>open\<close>).
  \<open>content\<close> is what the open handle sees, so an outside truncation is an update of that field.
  The locale \<open>block_store\<close> states what the engine relies on when it reads and writes an image;
  its lemmas (consecutive writes are one write, consecutive reads are one read) are proved there
  once and interpreted on the image operations.
\<close>

section \<open>The backing file\<close>

text \<open>Writing \<open>data\<close> at an offset: a gap past the end is filled with zeros, as POSIX does.\<close>

definition splice_at :: "nat \<Rightarrow> 'a list \<Rightarrow> 'a list \<Rightarrow> 'a list" where
  "splice_at off data c = take off c @ data @ drop (off + length data) c"

definition file_write :: "nat \<Rightarrow> bytes \<Rightarrow> bytes \<Rightarrow> bytes" where
  "file_write off data c =
     (if data = [] then c else splice_at off data (c @ replicate (off - length c) 0))"

definition file_read :: "nat \<Rightarrow> int \<Rightarrow> bytes \<Rightarrow> bytes" where
  "file_read off len c = (if len < 0 then drop off c else take (nat len) (drop off c))"

lemma length_splice: "off + length data \<le> length c \<Longrightarrow> length (splice_at off data c) = length c"
  by (simp add: splice_at_def)

lemma take_drop_splice: "off \<le> length c \<Longrightarrow> take (length data) (drop off (splice_at off data c)) = data"
  by (simp add: splice_at_def)

lemma splice_Nil [simp]: "off \<le> length c \<Longrightarrow> splice_at off [] c = c"
  by (simp add: splice_at_def)

lemma splice_splice:
  assumes "off \<le> length c"
  shows "splice_at (off + length a) b (splice_at off a c) = splice_at off (a @ b) c"
  using assms by (simp add: splice_at_def add_ac)

lemma file_write_splice: "off \<le> length c \<Longrightarrow> file_write off data c = splice_at off data c"
  by (simp add: file_write_def)

section \<open>The image and its constructor\<close>

type_synonym path = "string list"

record filesystem =
  fs_is_symlink :: "path \<Rightarrow> bool"
  fs_resolve :: "path \<Rightarrow> path option"
  fs_content :: "path \<Rightarrow> bytes"
  fs_can_open :: "path \<Rightarrow> bool \<Rightarrow> bool"

record MediaImage =
  image_path :: path
  device_code :: byte
  sector_shift :: nat
  image_size :: int
  blocks :: int
  writable :: bool
  bytes_read :: int
  bytes_written :: int
  media_change_reported :: bool
  content :: bytes
  closed :: bool

text \<open>\<^verbatim>\<open>Path.parents\<close> of a resolved path: its proper prefixes.\<close>

definition parents :: "path \<Rightarrow> path list" where
  "parents p = map (\<lambda>n. take n p) [0..<length p]"

text \<open>\<^verbatim>\<open>MediaImage._validate_path\<close>: the leaf is tested before it is resolved.\<close>

definition validate_path :: "filesystem \<Rightarrow> path \<Rightarrow> path option \<Rightarrow> path outcome" where
  "validate_path fs path allowed_directory =
     (if fs_is_symlink fs path then Raise (PyError ValueError)
      else case fs_resolve fs path of
        None \<Rightarrow> Raise (PyError OSError)
      | Some resolved \<Rightarrow>
          (case allowed_directory of
             None \<Rightarrow> Ok resolved
           | Some d \<Rightarrow>
               (case fs_resolve fs d of
                  None \<Rightarrow> Raise (PyError OSError)
                | Some allowed_resolved \<Rightarrow>
                    (if allowed_resolved \<noteq> resolved \<and> allowed_resolved \<notin> set (parents resolved)
                     then Raise (PyError ValueError)
                     else Ok resolved))))"

text \<open>\<^verbatim>\<open>MediaImage.__init__\<close>, its checks in the source's order.\<close>

definition open_image ::
  "filesystem \<Rightarrow> path \<Rightarrow> int \<Rightarrow> bool \<Rightarrow> path option \<Rightarrow> MediaImage outcome" where
  "open_image fs path dev wr allowed_directory =
     (if dev \<noteq> uint DEVICE_FLOPPY \<and> dev \<noteq> uint DEVICE_CDROM then Raise (PyError ValueError)
      else if dev = uint DEVICE_CDROM \<and> wr then Raise (PyError ValueError)
      else case validate_path fs path allowed_directory of
        Raise x \<Rightarrow> Raise x
      | Ok resolved \<Rightarrow>
          (let c = fs_content fs resolved;
               sz = int (length c);
               shift = (if dev = uint DEVICE_CDROM then 11 else 9)
           in if sz mod 512 \<noteq> 0 then Raise (PyError ValueError)
              else if \<not> fs_can_open fs resolved wr then Raise (PyError OSError)
              else Ok \<lparr>image_path = resolved, device_code = word_of_int dev, sector_shift = shift,
                       image_size = sz, blocks = drop_bit shift sz, writable = wr,
                       bytes_read = 0, bytes_written = 0, media_change_reported = False,
                       content = c, closed = False\<rparr>))"

section \<open>Reading and writing\<close>

text \<open>\<^verbatim>\<open>MediaImage.read\<close>: \<^verbatim>\<open>seek\<close> then \<^verbatim>\<open>read\<close>, and the counter.\<close>

definition image_read :: "int \<Rightarrow> int \<Rightarrow> (MediaImage, bytes) action" where
  "image_read offset len = (\<lambda>i.
     if closed i then (Raise (PyError ValueError), i)
     else if offset < 0 then (Raise (PyError OSError), i)
     else let data = file_read (nat offset) len (content i)
          in (Ok data, i\<lparr>bytes_read := bytes_read i + int (length data)\<rparr>))"

text \<open>\<^verbatim>\<open>MediaImage.write\<close>: refuses a read-only image and anything that would grow the file.\<close>

definition image_write :: "int \<Rightarrow> bytes \<Rightarrow> (MediaImage, unit) action" where
  "image_write offset data = (\<lambda>i.
     if \<not> writable i then (Raise ProtocolError, i)
     else if offset < 0 \<or> offset + int (length data) > image_size i then (Raise ProtocolError, i)
     else if closed i then (Raise (PyError ValueError), i)
     else (Ok (), i\<lparr>content := file_write (nat offset) data (content i),
                    bytes_written := bytes_written i + int (length data)\<rparr>))"

definition image_close :: "(MediaImage, unit) action" where
  "image_close = modify (\<lambda>i. i\<lparr>closed := True\<rparr>)"

text \<open>An image whose file still has the size it was opened with, and whose handle is open.\<close>

definition intact :: "MediaImage \<Rightarrow> bool" where
  "intact i \<longleftrightarrow> \<not> closed i \<and> int (length (content i)) = image_size i"

section \<open>The contract of an image\<close>

fun write_all :: "(int \<Rightarrow> bytes \<Rightarrow> ('m, unit) action) \<Rightarrow> int \<Rightarrow> bytes list \<Rightarrow> ('m, unit) action" where
  "write_all wr off [] = ret ()"
| "write_all wr off (d # ds) = thenA (wr off d) (write_all wr (off + int (length d)) ds)"

locale block_store =
  fixes rd :: "int \<Rightarrow> int \<Rightarrow> ('m, bytes) action"
    and wr :: "int \<Rightarrow> bytes \<Rightarrow> ('m, unit) action"
    and bytes_of :: "'m \<Rightarrow> bytes"
    and good :: "'m \<Rightarrow> bool"
    and may_write :: "'m \<Rightarrow> bool"
  assumes rd_ok: "good m \<Longrightarrow> 0 \<le> off \<Longrightarrow> 0 \<le> len \<Longrightarrow>
      \<exists>m'. rd off len m = (Ok (take (nat len) (drop (nat off) (bytes_of m))), m')
        \<and> bytes_of m' = bytes_of m \<and> good m' \<and> may_write m' = may_write m"
    and wr_ok: "good m \<Longrightarrow> may_write m \<Longrightarrow> 0 \<le> off \<Longrightarrow>
      off + int (length data) \<le> int (length (bytes_of m)) \<Longrightarrow>
      \<exists>m'. wr off data m = (Ok (), m') \<and> bytes_of m' = splice_at (nat off) data (bytes_of m)
        \<and> good m' \<and> may_write m'"
    and wr_refused: "\<not> may_write m \<Longrightarrow> \<exists>x. wr off data m = (Raise x, m)"
    and wr_bounded: "good m \<Longrightarrow> off < 0 \<or> int (length (bytes_of m)) < off + int (length data) \<Longrightarrow>
      \<exists>x. wr off data m = (Raise x, m)"
begin

text \<open>Consecutive writes are one write of the concatenation.\<close>

lemma write_all_ok:
  "good m \<Longrightarrow> may_write m \<Longrightarrow> 0 \<le> off \<Longrightarrow>
   off + int (length (concat ds)) \<le> int (length (bytes_of m)) \<Longrightarrow>
   \<exists>m'. write_all wr off ds m = (Ok (), m') \<and> good m' \<and> may_write m'
     \<and> bytes_of m' = splice_at (nat off) (concat ds) (bytes_of m)"
proof (induction ds arbitrary: off m)
  case Nil
  then show ?case by auto
next
  case (Cons d ds)
  then have "off + int (length d) \<le> int (length (bytes_of m))" by simp
  from wr_ok [OF Cons.prems(1-3) this] obtain m1 where
    m1: "wr off d m = (Ok (), m1)" "bytes_of m1 = splice_at (nat off) d (bytes_of m)"
      "good m1" "may_write m1" by blast
  have len: "length (bytes_of m1) = length (bytes_of m)"
    using Cons.prems m1(2) by (simp add: length_splice)
  have "\<exists>m'. write_all wr (off + int (length d)) ds m1 = (Ok (), m') \<and> good m' \<and> may_write m'
      \<and> bytes_of m' = splice_at (nat (off + int (length d))) (concat ds) (bytes_of m1)"
    using Cons.prems m1 len by (intro Cons.IH) auto
  moreover have "splice_at (nat (off + int (length d))) (concat ds) (bytes_of m1)
      = splice_at (nat off) (concat (d # ds)) (bytes_of m)"
    using Cons.prems by (simp add: m1(2) splice_splice nat_add_distrib)
  ultimately show ?case
    using m1(1) by (auto simp: thenA_def bindA_def)
qed

text \<open>Reading back what was written gives the data.\<close>

lemma write_read:
  assumes "good m" "may_write m" "0 \<le> off" "off + int (length data) \<le> int (length (bytes_of m))"
  shows "\<exists>m'. thenA (wr off data) (rd off (int (length data))) m = (Ok data, m')"
proof -
  obtain m1 where m1: "wr off data m = (Ok (), m1)" "bytes_of m1 = splice_at (nat off) data (bytes_of m)"
    "good m1" using wr_ok [OF assms] by blast
  have "take (length data) (drop (nat off) (bytes_of m1)) = data"
    using assms by (simp add: m1(2) take_drop_splice)
  with rd_ok [OF m1(3) assms(3), of "int (length data)"] m1(1) show ?thesis
    by (auto simp: thenA_def bindA_def)
qed

end

interpretation img: block_store image_read image_write content intact writable
  by unfold_locales
     (auto simp: image_read_def image_write_def file_read_def intact_def file_write_splice length_splice)

lemma image_write_content:
  "content (snd (image_write off data i)) = content i \<or>
   writable i \<and> 0 \<le> off \<and> off + int (length data) \<le> image_size i \<and>
   content (snd (image_write off data i)) = file_write (nat off) data (content i)"
  by (auto simp: image_write_def)

lemma open_image_cases:
  assumes "open_image fs path dev wr allowed = Ok i"
  shows "dev \<in> {uint DEVICE_FLOPPY, uint DEVICE_CDROM}"
    and "dev = uint DEVICE_CDROM \<Longrightarrow> \<not> writable i"
    and "device_code i = word_of_int dev" and "writable i = wr" and "intact i"
    and "image_size i mod 512 = 0" and "blocks i = drop_bit (sector_shift i) (image_size i)"
    and "sector_shift i = (if dev = uint DEVICE_CDROM then 11 else 9)"
    and "validate_path fs path allowed = Ok (image_path i)"
    and "content i = fs_content fs (image_path i)"
  using assms by (auto simp: open_image_def intact_def Let_def split: if_splits outcome.splits)

end
