(* ===== verification/Ider_Engine.thy ===== *)
theory Ider_Engine
  imports Ider_Media
begin

text \<open>
  The IDE-R state machine (\<^verbatim>\<open>IderEngine\<close> of \<^verbatim>\<open>plugins/module_utils/ider.py\<close>): its state, the
  outbound framing, the SCSI target emulation with the read and write paths, and the dispatch of
  one complete inbound message.  \<^verbatim>\<open>feed\<close> is in theory \<open>Ider_Feed\<close>.

  \<open>send_bytes\<close> is the callable given to the constructor: it sees the frames already handed over
  and the new one, and may raise; \<open>wire\<close> is the list of frames it accepted.  Images are shared
  objects (device table, pending write, read requests hold the same one), so they live in a store
  \<open>images\<close> and are referred to by number.
\<close>

section \<open>State\<close>

type_synonym ref = nat

record PendingWrite =
  pw_device :: byte
  pw_image :: ref
  pw_byte_offset :: int
  expected_length :: int
  received :: int

record ReadRequest =
  rq_device :: byte
  rq_image :: ref
  rq_byte_offset :: int
  remaining :: int
  rq_dma :: bool

record OpenSessionInfo =
  major :: int
  minor :: int
  fw_major :: int
  fw_minor :: int
  readbfr :: int
  writebfr :: int
  proto :: int
  iana :: int

definition default_session_info :: OpenSessionInfo where
  "default_session_info = \<lparr>major = 0, minor = 0, fw_major = 0, fw_minor = 0, readbfr = 0,
     writebfr = 0, proto = 0, iana = 0\<rparr>"

record IderEngine =
  send_bytes :: "bytes list \<Rightarrow> bytes \<Rightarrow> exn option"
  start_mode :: int
  rx_timeout :: int
  tx_timeout :: int
  heartbeat :: int
  in_seq :: "32 word"
  out_seq :: "32 word"
  buf :: bytes
  stopped :: bool
  devices :: "byte \<rightharpoonup> ref"
  session_info :: OpenSessionInfo
  session_open :: bool
  enabled :: bool
  feature_toggle_ok :: "bool option"
  errors_seen :: "int list"
  pending_write :: "PendingWrite option"
  read_state :: "ReadRequest option"
  read_queue :: "ReadRequest list"
  reset_pending :: bool
  bytes_to_amt :: int
  bytes_from_amt :: int
  wire :: "bytes list"
  images :: "ref \<Rightarrow> MediaImage"

text \<open>\<^verbatim>\<open>IderEngine.__init__\<close>, over a store of images that exist already.\<close>

definition new_engine ::
  "(bytes list \<Rightarrow> bytes \<Rightarrow> exn option) \<Rightarrow> int \<Rightarrow> int \<Rightarrow> int \<Rightarrow> int \<Rightarrow> (ref \<Rightarrow> MediaImage) \<Rightarrow> IderEngine" where
  "new_engine send mode rx tx hb store = \<lparr>
     send_bytes = send, start_mode = mode, rx_timeout = rx, tx_timeout = tx, heartbeat = hb,
     in_seq = 0, out_seq = 0, buf = [], stopped = False,
     devices = Map.empty, session_info = default_session_info, session_open = False,
     enabled = False, feature_toggle_ok = None, errors_seen = [],
     pending_write = None, read_state = None, read_queue = [], reset_pending = False,
     bytes_to_amt = 0, bytes_from_amt = 0, wire = [], images = store\<rparr>"

definition attach_device :: "ref \<Rightarrow> (IderEngine, unit) action" where
  "attach_device r = modify (\<lambda>e. e\<lparr>devices := (devices e)(device_code (images e r) \<mapsto> r)\<rparr>)"

text \<open>A method call on a shared image.\<close>

definition on_image :: "ref \<Rightarrow> (MediaImage, 'a) action \<Rightarrow> (IderEngine, 'a) action" where
  "on_image r m = (\<lambda>e. case m (images e r) of (x, i) \<Rightarrow> (x, e\<lparr>images := (images e)(r := i)\<rparr>))"

section \<open>Outbound framing\<close>

definition send_command :: "byte \<Rightarrow> bytes \<Rightarrow> bool \<Rightarrow> bool \<Rightarrow> (IderEngine, unit) action" where
  "send_command cmdid payload completed dma = (\<lambda>e.
     let frame = header cmdid (out_seq e) completed dma @ payload;
         e' = e\<lparr>out_seq := out_seq e + 1, bytes_to_amt := bytes_to_amt e + int (length frame)\<rparr>
     in case send_bytes e (wire e) frame of
          None \<Rightarrow> (Ok (), e'\<lparr>wire := wire e @ [frame]\<rparr>)
        | Some x \<Rightarrow> (Raise x, e'))"

definition send_disable_enable_features :: "byte \<Rightarrow> bytes \<Rightarrow> (IderEngine, unit) action" where
  "send_disable_enable_features feature_type data =
     send_command CMD_DISABLE_ENABLE_FEATURES (feature_type # data) False False"

definition send_command_end_response ::
  "bool \<Rightarrow> byte \<Rightarrow> byte \<Rightarrow> byte \<Rightarrow> byte \<Rightarrow> (IderEngine, unit) action" where
  "send_command_end_response error sense device asc asq =
     send_command CMD_COMMAND_END_RESPONSE (command_end_payload error sense device asc asq) True False"

definition send_data_to_host :: "byte \<Rightarrow> bool \<Rightarrow> bytes \<Rightarrow> bool \<Rightarrow> (IderEngine, unit) action" where
  "send_data_to_host device completed data dma =
     send_command CMD_DATA_TO_HOST (data_to_host_payload device completed data dma) completed dma"

definition send_get_data_from_host :: "byte \<Rightarrow> int \<Rightarrow> (IderEngine, unit) action" where
  "send_get_data_from_host device chunk =
     send_command CMD_GET_DATA_FROM_HOST (get_data_payload device chunk) False False"

text \<open>\<^verbatim>\<open>start\<close>: \<^verbatim>\<open>struct.pack("<HHHI", ...)\<close> raises when a timeout does not fit 16 bits.\<close>

definition start_session :: "(IderEngine, unit) action" where
  "start_session =
     bindA (gets rx_timeout) (\<lambda>rx. bindA (gets tx_timeout) (\<lambda>tx. bindA (gets heartbeat) (\<lambda>hb.
     bindA (liftA (pack_le 2 rx)) (\<lambda>b1. bindA (liftA (pack_le 2 tx)) (\<lambda>b2.
     bindA (liftA (pack_le 2 hb)) (\<lambda>b3. bindA (liftA (pack_le 4 1)) (\<lambda>b4.
       send_command CMD_OPEN_SESSION (b1 @ b2 @ b3 @ b4) False False)))))))"

section \<open>The read path\<close>

text \<open>
  One iteration of \<^verbatim>\<open>_pump_read\<close>'s loop body (entered with a read in progress); the result says
  whether the loop goes round again.
\<close>

definition advance_read :: "ReadRequest \<Rightarrow> bytes \<Rightarrow> ReadRequest" where
  "advance_read st data = st\<lparr>rq_byte_offset := rq_byte_offset st + int (length data),
                             remaining := remaining st - int (length data)\<rparr>"

definition pump_chunk :: "int \<Rightarrow> ReadRequest \<Rightarrow> (IderEngine, ReadRequest) action" where
  "pump_chunk rbfr st =
     bindA (on_image (rq_image st) (image_read (rq_byte_offset st)
              (if rbfr \<noteq> 0 then min (remaining st) rbfr else remaining st))) (\<lambda>data.
       if data = [] then
         thenA (send_command_end_response False 0x03 (rq_device st) 0x11 0x00)
               (let st' = st\<lparr>remaining := 0\<rparr>
                in thenA (modify (\<lambda>e. e\<lparr>read_state := Some st'\<rparr>)) (ret st'))
       else
         (let st' = advance_read st data
          in thenA (modify (\<lambda>e. e\<lparr>read_state := Some st'\<rparr>))
               (thenA (send_data_to_host (rq_device st) (remaining st' \<le> 0) data (rq_dma st))
                  (ret st'))))"

text \<open>Tear a finished request down, answer a reset that came in meanwhile, take the next one.\<close>

definition pump_next :: "(IderEngine, bool) action" where
  "pump_next =
     thenA (modify (\<lambda>e. e\<lparr>read_state := None\<rparr>))
       (bindA (gets reset_pending) (\<lambda>rp.
          if rp then
            thenA (send_command CMD_RESET_OCCURRED_RESPONSE [] False False)
              (thenA (modify (\<lambda>e. e\<lparr>read_queue := [], reset_pending := False\<rparr>)) (ret False))
          else
            bindA (gets read_queue) (\<lambda>q. case q of
                [] \<Rightarrow> ret True
              | r # rs \<Rightarrow> thenA (modify (\<lambda>e. e\<lparr>read_state := Some r, read_queue := rs\<rparr>)) (ret True))))"

definition pump_step :: "int \<Rightarrow> (IderEngine, bool) action" where
  "pump_step rbfr = bindA (gets read_state) (\<lambda>rs. case rs of
      None \<Rightarrow> ret False
    | Some st \<Rightarrow> bindA (pump_chunk rbfr st) (\<lambda>st'.
        bindA (gets reset_pending) (\<lambda>rp.
          if remaining st' > 0 \<and> \<not> rp then ret True else pump_next)))"

text \<open>
  What shrinks: the requests left, then the bytes left of the one in progress.  The guard for an
  empty read is what makes the second part shrink.
\<close>

definition reads_left :: "IderEngine \<Rightarrow> nat" where
  "reads_left e = length (read_queue e) + (if read_state e = None then 0 else 1)"

definition bytes_left :: "IderEngine \<Rightarrow> nat" where
  "bytes_left e = (case read_state e of None \<Rightarrow> 0 | Some st \<Rightarrow> nat (remaining st))"

definition read_measure :: "(IderEngine \<times> IderEngine) set" where
  "read_measure = measures [reads_left, bytes_left]"

lemma wf_read_measure: "wf read_measure"
  by (simp add: read_measure_def)

lemma send_command_cases:
  obtains (sent) "send_command c p co d e =
      (Ok (), e\<lparr>out_seq := out_seq e + 1, bytes_to_amt := bytes_to_amt e + int (8 + length p),
               wire := wire e @ [header c (out_seq e) co d @ p]\<rparr>)"
  | (failed) x where "send_command c p co d e =
      (Raise x, e\<lparr>out_seq := out_seq e + 1, bytes_to_amt := bytes_to_amt e + int (8 + length p)\<rparr>)"
proof (cases "send_bytes e (wire e) (header c (out_seq e) co d @ p)")
  case None
  then show thesis by (intro sent) (simp add: send_command_def Let_def)
next
  case (Some x)
  then show thesis by (intro failed) (simp add: send_command_def Let_def)
qed

lemma send_command_reads:
  "send_command c p co d e = (r, e') \<Longrightarrow>
     read_state e' = read_state e \<and> read_queue e' = read_queue e \<and> reset_pending e' = reset_pending e"
  by (cases rule: send_command_cases [of c p co d e]; auto)

lemma on_image_reads:
  "on_image r m e = (x, e') \<Longrightarrow>
     read_state e' = read_state e \<and> read_queue e' = read_queue e \<and> reset_pending e' = reset_pending e"
  by (auto simp: on_image_def split: prod.splits)

lemma pump_chunk_Ok:
  assumes "pump_chunk rbfr st e = (Ok st', e')"
  shows "read_queue e' = read_queue e \<and> read_state e' = Some st' \<and> reset_pending e' = reset_pending e
    \<and> (remaining st' > 0 \<longrightarrow> remaining st' < remaining st)"
proof -
  from assms obtain data e1 where rd: "on_image (rq_image st) (image_read (rq_byte_offset st)
      (if rbfr \<noteq> 0 then min (remaining st) rbfr else remaining st)) e = (Ok data, e1)"
    and k: "(if data = [] then
         thenA (send_command_end_response False 0x03 (rq_device st) 0x11 0x00)
               (thenA (modify (\<lambda>e. e\<lparr>read_state := Some (st\<lparr>remaining := 0\<rparr>)\<rparr>)) (ret (st\<lparr>remaining := 0\<rparr>)))
       else
         thenA (modify (\<lambda>e. e\<lparr>read_state := Some (advance_read st data)\<rparr>))
               (thenA (send_data_to_host (rq_device st) (remaining (advance_read st data) \<le> 0) data (rq_dma st))
                  (ret (advance_read st data)))) e1 = (Ok st', e')"
    unfolding pump_chunk_def Let_def by (elim bindA_OkE)
  note e1 = on_image_reads [OF rd]
  show ?thesis
  proof (cases "data = []")
    case True
    with k e1 show ?thesis
      by (auto simp: send_command_end_response_def elim!: thenA_OkE dest!: send_command_reads)
  next
    case False
    with k e1 show ?thesis
      by (auto simp: send_data_to_host_def advance_read_def elim!: thenA_OkE dest!: send_command_reads)
  qed
qed

lemma pump_next_Ok:
  "pump_next e = (Ok True, e') \<Longrightarrow> read_state e \<noteq> None \<Longrightarrow> reads_left e' < reads_left e"
  by (auto simp: pump_next_def reads_left_def elim!: bindA_OkE thenA_OkE split: if_splits list.splits)

lemma pump_step_decreases:
  assumes "pump_step rbfr e = (Ok True, e')"
  shows "(e', e) \<in> read_measure"
proof -
  from assms obtain st st' e1 where st: "read_state e = Some st"
    and c: "pump_chunk rbfr st e = (Ok st', e1)"
    and k: "(if remaining st' > 0 \<and> \<not> reset_pending e1 then ret True else pump_next) e1 = (Ok True, e')"
    by (auto simp: pump_step_def elim!: bindA_OkE split: option.splits)
  note p = pump_chunk_Ok [OF c]
  show ?thesis
  proof (cases "remaining st' > 0 \<and> \<not> reset_pending e1")
    case True
    with k p st show ?thesis by (auto simp: read_measure_def reads_left_def bytes_left_def)
  next
    case False
    with k have "pump_next e1 = (Ok True, e')" by simp
    from pump_next_Ok [OF this] p st show ?thesis
      by (simp add: read_measure_def reads_left_def)
  qed
qed

function pump_loop :: "int \<Rightarrow> (IderEngine, unit) action" where
  "pump_loop rbfr e = (case pump_step rbfr e of
      (Ok b, e') \<Rightarrow> if b then pump_loop rbfr e' else (Ok (), e')
    | (Raise x, e') \<Rightarrow> (Raise x, e'))"
  by pat_completeness auto
termination
  by (relation "inv_image read_measure snd")
     (auto intro: wf_inv_image wf_read_measure pump_step_decreases)

declare pump_loop.simps [simp del]

interpretation pump: action_loop "pump_step rbfr" "pump_loop rbfr" read_measure for rbfr
proof
  show "wf read_measure" by (rule wf_read_measure)
next
  fix s t assume "pump_step rbfr s = (Ok True, t)"
  then show "(t, s) \<in> read_measure" by (rule pump_step_decreases)
next
  fix s show "pump_loop rbfr s = (case pump_step rbfr s of
      (Ok b, t) \<Rightarrow> if b then pump_loop rbfr t else (Ok (), t) | (Raise x, t) \<Rightarrow> (Raise x, t))"
    by (simp add: pump_loop.simps [of rbfr s])
qed

text \<open>\<^verbatim>\<open>_pump_read\<close>: the negotiated buffer size is read once; 0 means unlimited.\<close>

definition pump_read :: "(IderEngine, unit) action" where
  "pump_read = bindA (gets session_info) (\<lambda>si. pump_loop (readbfr si))"

text \<open>\<^verbatim>\<open>_scsi_read\<close>.\<close>

definition scsi_read :: "byte \<Rightarrow> ref option \<Rightarrow> int \<Rightarrow> int \<Rightarrow> bool \<Rightarrow> (IderEngine, unit) action" where
  "scsi_read device img lba len dma = (case img of
      None \<Rightarrow> send_command_end_response True 0x02 device 0x3A 0x00
    | Some r \<Rightarrow> bindA (gets (\<lambda>e. images e r)) (\<lambda>i.
        if len < 0 \<or> lba + len > blocks i then send_command_end_response True 0x05 device 0x21 0x00
        else if len = 0 then send_command_end_response True 0x00 device 0x00 0x00
        else
          (let request = \<lparr>rq_device = device, rq_image = r,
                          rq_byte_offset = push_bit (sector_shift i) lba,
                          remaining = push_bit (sector_shift i) len, rq_dma = dma\<rparr>
           in bindA (gets read_state) (\<lambda>rs.
                if rs \<noteq> None then modify (\<lambda>e. e\<lparr>read_queue := read_queue e @ [request]\<rparr>)
                else thenA (modify (\<lambda>e. e\<lparr>read_state := Some request\<rparr>)) pump_read))))"

section \<open>The write path\<close>

text \<open>\<^verbatim>\<open>_scsi_write_request\<close>.\<close>

definition scsi_write_request :: "byte \<Rightarrow> ref option \<Rightarrow> int \<Rightarrow> int \<Rightarrow> (IderEngine, unit) action" where
  "scsi_write_request device img lba len =
     (if device \<noteq> DEVICE_FLOPPY then send_command_end_response True 0x02 device 0x3A 0x00
      else case img of
        None \<Rightarrow> send_command_end_response True 0x02 device 0x3A 0x00
      | Some r \<Rightarrow> bindA (gets (\<lambda>e. images e r)) (\<lambda>i.
          if len < 0 \<or> lba + len > blocks i then send_command_end_response True 0x05 device 0x21 0x00
          else if len = 0 then send_command_end_response True 0x00 device 0x00 0x00
          else if \<not> writable i then send_command_end_response False 0x07 device 0x27 0x00
          else
            thenA (modify (\<lambda>e. e\<lparr>pending_write := Some \<lparr>pw_device = device, pw_image = r,
                      pw_byte_offset = push_bit 9 lba, expected_length = 512 * len, received = 0\<rparr>\<rparr>))
              (send_get_data_from_host device (512 * len))))"

text \<open>\<^verbatim>\<open>_on_data_from_host\<close>, given the payload bytes it cut out of the message.\<close>

definition accept_data :: "bytes \<Rightarrow> (IderEngine, unit) action" where
  "accept_data data = bindA (gets pending_write) (\<lambda>pw. case pw of
      None \<Rightarrow> send_command_end_response False 0x05 DEVICE_FLOPPY 0x20 0x00
    | Some pending \<Rightarrow>
        (if int (length data) > expected_length pending - received pending then
           thenA (modify (\<lambda>e. e\<lparr>pending_write := None\<rparr>))
             (send_command_end_response False 0x05 (pw_device pending) 0x21 0x00)
         else
           thenA (on_image (pw_image pending)
                    (image_write (pw_byte_offset pending + received pending) data))
             (let pending' = pending\<lparr>received := received pending + int (length data)\<rparr>
              in if received pending' \<ge> expected_length pending' then
                   thenA (modify (\<lambda>e. e\<lparr>pending_write := None\<rparr>))
                     (send_command_end_response False 0x00 (pw_device pending) 0x00 0x00)
                 else modify (\<lambda>e. e\<lparr>pending_write := Some pending'\<rparr>))))"

definition on_data_from_host :: "bytes \<Rightarrow> (IderEngine, unit) action" where
  "on_data_from_host message =
     bindA (liftA (unpack_le 2 message 9)) (\<lambda>len. accept_data (slice message 14 (14 + nat len)))"

end
