(* ===== verification/Ider_Scsi.thy ===== *)
theory Ider_Scsi
  imports Ider_Engine
begin

text \<open>
  The SCSI command handlers, the session handlers and the dispatch of one inbound message of
  \<^verbatim>\<open>IderEngine\<close>.  The contracts of the handlers are in theory \<open>Ider_Contract\<close>.
\<close>

section \<open>Reading a CDB\<close>

definition cdb_at :: "bytes \<Rightarrow> nat \<Rightarrow> (IderEngine, byte) action" where
  "cdb_at cdb i = liftA (idx cdb i)"

text \<open>\<^verbatim>\<open>((cdb[1] & 0x1F) << 16) | (cdb[2] << 8) | cdb[3]\<close> and \<^verbatim>\<open>cdb[4] or 256\<close>.\<close>

definition lba6 :: "byte \<Rightarrow> byte \<Rightarrow> byte \<Rightarrow> int" where
  "lba6 c1 c2 c3 = (push_bit 16 (uint c1 AND 0x1F) OR push_bit 8 (uint c2)) OR uint c3"

definition len6 :: "byte \<Rightarrow> int" where
  "len6 c4 = (if c4 = 0 then 256 else uint c4)"

definition with_cdb6 :: "bytes \<Rightarrow> (int \<Rightarrow> int \<Rightarrow> (IderEngine, unit) action) \<Rightarrow> (IderEngine, unit) action" where
  "with_cdb6 cdb k =
     bindA (cdb_at cdb 1) (\<lambda>c1. bindA (cdb_at cdb 2) (\<lambda>c2. bindA (cdb_at cdb 3) (\<lambda>c3.
     bindA (cdb_at cdb 4) (\<lambda>c4. k (lba6 c1 c2 c3) (len6 c4)))))"

text \<open>\<^verbatim>\<open>struct.unpack_from(">I", cdb, 2)\<close> and \<^verbatim>\<open>struct.unpack_from(">H", cdb, 7)\<close>.\<close>

definition with_cdb10 :: "bytes \<Rightarrow> (int \<Rightarrow> int \<Rightarrow> (IderEngine, unit) action) \<Rightarrow> (IderEngine, unit) action" where
  "with_cdb10 cdb k =
     bindA (liftA (unpack_be 4 cdb 2)) (\<lambda>lba. bindA (liftA (unpack_be 2 cdb 7)) (\<lambda>len. k lba len))"

section \<open>SCSI handlers\<close>

definition scsi_test_unit_ready :: "byte \<Rightarrow> ref option \<Rightarrow> (IderEngine, unit) action" where
  "scsi_test_unit_ready device img = (case img of
      None \<Rightarrow> send_command_end_response True 0x02 device 0x3A 0x00
    | Some r \<Rightarrow> bindA (gets (\<lambda>e. media_change_reported (images e r))) (\<lambda>reported.
        if \<not> reported then
          thenA (on_image r (modify (\<lambda>i. i\<lparr>media_change_reported := True\<rparr>)))
            (send_command_end_response True 0x06 device 0x28 0x00)
        else send_command_end_response True 0x00 device 0x00 0x00))"

definition scsi_mode_sense_6 :: "byte \<Rightarrow> ref option \<Rightarrow> bytes \<Rightarrow> bool \<Rightarrow> (IderEngine, unit) action" where
  "scsi_mode_sense_6 device img cdb dma =
     bindA (cdb_at cdb 2) (\<lambda>c2.
     bindA (if c2 = 0x3F then bindA (cdb_at cdb 3) (\<lambda>c3. ret (c3 = 0x00)) else ret False) (\<lambda>all_pages.
       if all_pages then
         (case img of
            None \<Rightarrow> send_command_end_response True 0x02 device 0x3A 0x00
          | Some r \<Rightarrow> bindA (gets (\<lambda>e. writable (images e r))) (\<lambda>w.
              let a = (if device = DEVICE_FLOPPY then 0x00 else 0x05);
                  b = (if w then 0x00 else 0x80)
              in send_data_to_host device True [0, a, b, 0] dma))
       else send_command_end_response True 0x05 device 0x24 0x00))"

definition scsi_read_format_capacities :: "byte \<Rightarrow> ref option \<Rightarrow> bool \<Rightarrow> (IderEngine, unit) action" where
  "scsi_read_format_capacities device img dma = (case img of
      None \<Rightarrow> send_command_end_response False 0x05 device 0x24 0x00
    | Some r \<Rightarrow> bindA (gets (\<lambda>e. image_size (images e r))) (\<lambda>sz.
        if sz = 0 then send_command_end_response False 0x05 device 0x24 0x00
        else bindA (liftA (pack_be 4 8)) (\<lambda>p.
          send_data_to_host device True
            (p @ [0x00, 0x00, 0x0B, 0x40, 0x02, 0x00, 0x02, 0x00]) dma)))"

text \<open>
  \<^verbatim>\<open>_scsi_read_capacity\<close>: \<^verbatim>\<open>struct.pack(">I", blocks - 1)\<close> raises when the block count is 0 or
  more than 32 bits hold.  The reply carries the raw device flags.
\<close>

definition scsi_read_capacity :: "byte \<Rightarrow> ref option \<Rightarrow> byte \<Rightarrow> bool \<Rightarrow> (IderEngine, unit) action" where
  "scsi_read_capacity device img device_flags dma = (case img of
      None \<Rightarrow> send_command_end_response False 0x02 device 0x3A 0x00
    | Some r \<Rightarrow> bindA (gets (\<lambda>e. images e r)) (\<lambda>i.
        if image_size i = 0 then send_command_end_response False 0x02 device 0x3A 0x00
        else
          (let blocksize_hi = (if device = DEVICE_CDROM then 0x08 else 0x02)
           in bindA (liftA (pack_be 4 (blocks i - 1))) (\<lambda>p.
                send_data_to_host device_flags True (p @ [0x00, 0x00, blocksize_hi, 0x00]) dma))))"

definition scsi_read_toc :: "byte \<Rightarrow> bytes \<Rightarrow> bool \<Rightarrow> (IderEngine, unit) action" where
  "scsi_read_toc device cdb dma =
     (if device \<noteq> DEVICE_CDROM then send_command_end_response True 0x05 device 0x20 0x00
      else bindA (cdb_at cdb 1) (\<lambda>c1. bindA (cdb_at cdb 2) (\<lambda>c2.
        let msf = c1 AND 0x02; fmt0 = c2 AND 0x07
        in bindA (if fmt0 = 0 then bindA (cdb_at cdb 9) (\<lambda>c9. ret (drop_bit 6 c9)) else ret fmt0) (\<lambda>fmt.
          if fmt = 1 then
            send_data_to_host device True
              [0x00, 0x0A, 0x01, 0x01, 0x00, 0x14, 0x01, 0x00, 0x00, 0x00, 0x00, 0x00] dma
          else if fmt = 0 then
            send_data_to_host device True
              (if msf \<noteq> 0
               then [0x00, 0x12, 0x01, 0x01, 0x00, 0x14, 0x01, 0x00, 0x00, 0x00, 0x02, 0x00,
                     0x00, 0x14, 0xAA, 0x00, 0x00, 0x00, 0x34, 0x13]
               else [0x00, 0x12, 0x01, 0x01, 0x00, 0x14, 0x01, 0x00, 0x00, 0x00, 0x00, 0x00,
                     0x00, 0x14, 0xAA, 0x00, 0x00, 0x00, 0x00, 0x00]) dma
          else ret ()))))"

text \<open>
  \<^verbatim>\<open>_scsi_get_configuration\<close>: the cascade of independent \<^verbatim>\<open>if\<close>s, each overwriting \<open>r\<close>.
\<close>

definition cd_config_select :: "bool \<Rightarrow> int \<Rightarrow> bytes option" where
  "cd_config_select sendall firstcode =
     (let r = None;
          r = (if firstcode = 0x0 then Some CD_CONFIG_PROFILE_LIST else r);
          r = (if firstcode = 0x1 \<or> sendall \<and> firstcode < 0x1 then Some CD_CONFIG_CORE else r);
          r = (if firstcode = 0x2 \<or> sendall \<and> firstcode < 0x2 then Some CD_CONFIG_MORPHING else r);
          r = (if firstcode = 0x3 \<or> sendall \<and> firstcode < 0x3 then Some CD_CONFIG_REMOVABLE else r);
          r = (if firstcode = 0x10 \<or> sendall \<and> firstcode < 0x10 then Some CD_CONFIG_RANDOM else r);
          r = (if firstcode = 0x1E \<or> sendall \<and> firstcode < 0x1E then Some CD_CONFIG_READ else r);
          r = (if firstcode = 0x100 \<or> sendall \<and> firstcode < 0x100 then Some CD_CONFIG_POWER else r);
          r = (if firstcode = 0x105 \<or> sendall \<and> firstcode < 0x105 then Some CD_CONFIG_TIMEOUT else r)
      in r)"

text \<open>\<^verbatim>\<open>struct.pack(">II", a, b)\<close>.\<close>

definition pack_be2 :: "int \<Rightarrow> int \<Rightarrow> (IderEngine, bytes) action" where
  "pack_be2 a b = bindA (liftA (pack_be 4 a)) (\<lambda>x. bindA (liftA (pack_be 4 b)) (\<lambda>y. ret (x @ y)))"

definition scsi_get_configuration :: "byte \<Rightarrow> bytes \<Rightarrow> bool \<Rightarrow> (IderEngine, unit) action" where
  "scsi_get_configuration device cdb dma =
     bindA (cdb_at cdb 1) (\<lambda>c1.
     bindA (liftA (unpack_be 2 cdb 2)) (\<lambda>firstcode.
     bindA (liftA (unpack_be 2 cdb 7)) (\<lambda>buflen.
       if buflen = 0 then bindA (pack_be2 0x003C 0x0008) (\<lambda>p. send_data_to_host device True p dma)
       else
         bindA (case cd_config_select (c1 \<noteq> 2) firstcode of
                  None \<Rightarrow> pack_be2 0x0008 4
                | Some r \<Rightarrow> bindA (pack_be2 0x0008 (int (length r) + 4)) (\<lambda>p. ret (p @ r))) (\<lambda>body.
           send_data_to_host device True
             (if int (length body) > buflen then take (nat buflen) body else body) dma))))"

definition scsi_get_event_status :: "byte \<Rightarrow> ref option \<Rightarrow> bytes \<Rightarrow> bool \<Rightarrow> (IderEngine, unit) action" where
  "scsi_get_event_status device img cdb dma =
     bindA (cdb_at cdb 1) (\<lambda>c1.
     bindA (if c1 \<noteq> 0x01 then bindA (cdb_at cdb 4) (\<lambda>c4. ret (c4 \<noteq> 0x10)) else ret False) (\<lambda>reject.
       if reject then send_command_end_response True 0x05 device 0x26 0x01
       else send_data_to_host device True
              [0x00, if img \<noteq> None then 0x02 else 0x00, 0x80, 0x00] dma))"

text \<open>\<^verbatim>\<open>_scsi_mode_sense_10\<close>: which canned page answers which page code.\<close>

definition mode_sense_10_select :: "byte \<Rightarrow> int \<Rightarrow> byte \<Rightarrow> bytes option" where
  "mode_sense_10_select device sector_count page =
     (if page = 0x01 then
        (if device = DEVICE_FLOPPY
         then Some (if sector_count \<le> 0xB40 then MS_FLOPPY_ERROR_RECOVERY else MS_LS120_ERROR_RECOVERY)
         else Some MS_CD_ERROR_RECOVERY)
      else if page = 0x05 then
        (if device = DEVICE_FLOPPY
         then Some (if sector_count \<le> 0xB40 then MS_FLOPPY_DISK_PAGE else MS_LS120_DISK_PAGE)
         else None)
      else if page = 0x3F then
        (if device = DEVICE_FLOPPY
         then Some (if sector_count \<le> 0xB40 then MS_3F_FLOPPY else MS_3F_LS120)
         else Some MS_3F_CD)
      else if page = 0x1A \<and> device = DEVICE_CDROM then Some MS_CD_1A
      else if page = 0x1D \<and> device = DEVICE_CDROM then Some MS_CD_1D
      else if page = 0x2A \<and> device = DEVICE_CDROM then Some MS_CD_2A
      else None)"

definition scsi_mode_sense_10 :: "byte \<Rightarrow> ref option \<Rightarrow> bytes \<Rightarrow> bool \<Rightarrow> (IderEngine, unit) action" where
  "scsi_mode_sense_10 device img cdb dma =
     bindA (liftA (unpack_be 2 cdb 7)) (\<lambda>buflen.
       if buflen = 0 then bindA (pack_be2 0x003C 0x0008) (\<lambda>p. send_data_to_host device True p dma)
       else
         bindA (gets (\<lambda>e. case img of None \<Rightarrow> 0 | Some r \<Rightarrow> blocks (images e r))) (\<lambda>sector_count.
         bindA (cdb_at cdb 2) (\<lambda>c2.
           case mode_sense_10_select device sector_count (c2 AND 0x3F) of
             None \<Rightarrow> send_command_end_response False 0x05 device 0x20 0x00
           | Some r \<Rightarrow>
               bindA (gets (\<lambda>e. case img of None \<Rightarrow> False | Some i \<Rightarrow> writable (images e i))) (\<lambda>w.
               bindA (liftA (mode_sense_10_page r w)) (\<lambda>p. send_data_to_host device True p dma)))))"

section \<open>SCSI dispatch\<close>

definition handle_scsi :: "byte \<Rightarrow> bytes \<Rightarrow> byte \<Rightarrow> byte \<Rightarrow> (IderEngine, unit) action" where
  "handle_scsi device cdb feature_register device_flags =
     (let dma = (feature_register AND 1 \<noteq> 0)
      in bindA (gets (\<lambda>e. devices e device)) (\<lambda>img.
         bindA (cdb_at cdb 0) (\<lambda>op.
           if op = 0x00 then scsi_test_unit_ready device img
           else if op = 0x08 then with_cdb6 cdb (\<lambda>lba len. scsi_read device img lba len dma)
           else if op = 0x0A then with_cdb6 cdb (\<lambda>lba len. scsi_write_request device img lba len)
           else if op = 0x1A then scsi_mode_sense_6 device img cdb dma
           else if op = 0x1B then send_command_end_response True 0 device 0 0
           else if op = 0x1E then
             (case img of
                None \<Rightarrow> send_command_end_response True 0x02 device 0x3A 0x00
              | Some r \<Rightarrow> send_command_end_response True 0x00 device 0x00 0x00)
           else if op = 0x23 then scsi_read_format_capacities device img dma
           else if op = 0x25 then scsi_read_capacity device img device_flags dma
           else if op = 0x28 then with_cdb10 cdb (\<lambda>lba len. scsi_read device img lba len dma)
           else if op = 0x2A \<or> op = 0x2E then with_cdb10 cdb (\<lambda>lba len. scsi_write_request device img lba len)
           else if op = 0x43 then scsi_read_toc device cdb dma
           else if op = 0x46 then scsi_get_configuration device cdb dma
           else if op = 0x4A then scsi_get_event_status device img cdb dma
           else if op = 0x51 then send_command_end_response False 0x05 device 0x20 0x00
           else if op = 0x55 then send_command_end_response True 0x05 device 0x20 0x00
           else if op = 0x5A then scsi_mode_sense_10 device img cdb dma
           else if op = 0xAC then send_data_to_host device True GET_PERFORMANCE_REPLY dma
           else send_command_end_response False 0x05 device 0x20 0x00)))"

definition on_command_written :: "bytes \<Rightarrow> (IderEngine, unit) action" where
  "on_command_written message =
     bindA (liftA (idx message 14)) (\<lambda>device_flags.
     bindA (liftA (idx message 9)) (\<lambda>feature_register.
       handle_scsi (if device_flags AND 0x10 \<noteq> 0 then DEVICE_CDROM else DEVICE_FLOPPY)
         (slice message 16 28) feature_register device_flags))"

section \<open>Session handlers\<close>

definition send_feature_toggle :: "(IderEngine, unit) action" where
  "send_feature_toggle =
     bindA (gets start_mode) (\<lambda>m. bindA (liftA (pack_le 4 m)) (\<lambda>p. send_disable_enable_features 3 p))"

definition parse_open_session_reply :: "bytes \<Rightarrow> (IderEngine, OpenSessionInfo) action" where
  "parse_open_session_reply m =
     bindA (liftA (idx m 8)) (\<lambda>a. bindA (liftA (idx m 9)) (\<lambda>b.
     bindA (liftA (idx m 10)) (\<lambda>c. bindA (liftA (idx m 11)) (\<lambda>d.
     bindA (liftA (unpack_le 2 m 16)) (\<lambda>r. bindA (liftA (unpack_le 2 m 18)) (\<lambda>w.
     bindA (liftA (idx m 21)) (\<lambda>p. bindA (liftA (unpack_le 4 m 25)) (\<lambda>i.
       ret \<lparr>major = uint a, minor = uint b, fw_major = uint c, fw_minor = uint d,
            readbfr = r, writebfr = w, proto = uint p, iana = i\<rparr>))))))))"

definition on_open_session_reply :: "bytes \<Rightarrow> (IderEngine, unit) action" where
  "on_open_session_reply message =
     bindA (parse_open_session_reply message) (\<lambda>info.
       if proto info \<noteq> 0 \<or> readbfr info > MAX_READ_WRITE_BUFFER \<or> writebfr info > MAX_READ_WRITE_BUFFER then
         thenA (modify (\<lambda>e. e\<lparr>stopped := True\<rparr>)) (throw ProtocolError)
       else
         thenA (modify (\<lambda>e. e\<lparr>session_info := info, session_open := True\<rparr>)) send_feature_toggle)"

definition on_status_data :: "bytes \<Rightarrow> (IderEngine, unit) action" where
  "on_status_data message =
     bindA (liftA (idx message 8)) (\<lambda>status_type.
     bindA (liftA (unpack_le 4 message 9)) (\<lambda>val.
       if status_type = 1 then (if val AND 1 \<noteq> 0 then send_feature_toggle else ret ())
       else if status_type = 2 then modify (\<lambda>e. e\<lparr>enabled := (val AND 2 \<noteq> 0)\<rparr>)
       else if status_type = 3 then modify (\<lambda>e. e\<lparr>feature_toggle_ok := Some (val = 1)\<rparr>)
       else ret ()))"

definition on_reset_occurred :: "(IderEngine, unit) action" where
  "on_reset_occurred = bindA (gets read_state) (\<lambda>rs.
     if rs = None then send_command CMD_RESET_OCCURRED_RESPONSE [] False False
     else modify (\<lambda>e. e\<lparr>reset_pending := True\<rparr>))"

definition on_error_occurred :: "bytes \<Rightarrow> (IderEngine, unit) action" where
  "on_error_occurred message =
     bindA (liftA (idx message 8)) (\<lambda>b. modify (\<lambda>e. e\<lparr>errors_seen := errors_seen e @ [uint b]\<rparr>))"

definition dispatch :: "bytes \<Rightarrow> (IderEngine, unit) action" where
  "dispatch message = bindA (liftA (idx message 0)) (\<lambda>cmdid.
     if cmdid = CMD_OPEN_SESSION_REPLY then on_open_session_reply message
     else if cmdid = CMD_CLOSE then modify (\<lambda>e. e\<lparr>stopped := True\<rparr>)
     else if cmdid = CMD_KEEPALIVE_PING then send_command CMD_KEEPALIVE_PONG [] False False
     else if cmdid = CMD_KEEPALIVE_PONG then ret ()
     else if cmdid = CMD_RESET_OCCURRED then on_reset_occurred
     else if cmdid = CMD_STATUS_DATA then on_status_data message
     else if cmdid = CMD_ERROR_OCCURRED then on_error_occurred message
     else if cmdid = CMD_HEARTBEAT then ret ()
     else if cmdid = CMD_COMMAND_WRITTEN then on_command_written message
     else if cmdid = CMD_DATA_FROM_HOST then on_data_from_host message
     else ret ())"

end
