(* ===== verification/Ider_Contract.thy ===== *)
theory Ider_Contract
  imports Ider_Scsi
begin

text \<open>
  The contract of the engine's handlers.  \<open>engine_contract\<close> fixes a preorder on engine states and
  assumes that sending a frame, calling an image method and each field update of the handlers
  keep it; the lemmas lift it to every handler, to the read pump and to \<open>dispatch\<close>.  It is
  interpreted three times: for the fields the handlers never touch, for the outbound sequence
  numbers, and for the safety of the media images.  The last section shows that the handlers do
  not notice the input buffer, which is what makes \<^verbatim>\<open>feed\<close> independent of how TCP cuts the stream.
\<close>

locale engine_contract = contract R for R :: "IderEngine \<Rightarrow> IderEngine \<Rightarrow> bool" +
  assumes send: "keeps R (send_command c p co d)"
    and rd: "keeps R (on_image r (image_read off len))"
    and wr: "keeps R (on_image r (image_write off data))"
    and report: "keeps R (on_image r (modify (\<lambda>i. i\<lparr>media_change_reported := True\<rparr>)))"
    and fields: "R e (e\<lparr>read_state := rs\<rparr>)" "R e (e\<lparr>read_queue := q\<rparr>)"
      "R e (e\<lparr>reset_pending := rp\<rparr>)" "R e (e\<lparr>pending_write := pw\<rparr>)" "R e (e\<lparr>stopped := True\<rparr>)"
      "R e (e\<lparr>session_info := si\<rparr>)" "R e (e\<lparr>session_open := so\<rparr>)" "R e (e\<lparr>enabled := en\<rparr>)"
      "R e (e\<lparr>feature_toggle_ok := ft\<rparr>)" "R e (e\<lparr>errors_seen := es\<rparr>)"
begin

lemma updates:
  "keeps R (modify (\<lambda>e. e\<lparr>read_state := rs\<rparr>))"
  "keeps R (modify (\<lambda>e. e\<lparr>read_queue := [], reset_pending := rp\<rparr>))"
  "keeps R (modify (\<lambda>e. e\<lparr>read_state := rs, read_queue := q\<rparr>))"
  "keeps R (modify (\<lambda>e. e\<lparr>read_queue := read_queue e @ [x]\<rparr>))"
  "keeps R (modify (\<lambda>e. e\<lparr>reset_pending := rp\<rparr>))"
  "keeps R (modify (\<lambda>e. e\<lparr>pending_write := pw\<rparr>))"
  "keeps R (modify (\<lambda>e. e\<lparr>stopped := True\<rparr>))"
  "keeps R (modify (\<lambda>e. e\<lparr>session_info := si, session_open := so\<rparr>))"
  "keeps R (modify (\<lambda>e. e\<lparr>enabled := en\<rparr>))"
  "keeps R (modify (\<lambda>e. e\<lparr>feature_toggle_ok := ft\<rparr>))"
  "keeps R (modify (\<lambda>e. e\<lparr>errors_seen := errors_seen e @ [n]\<rparr>))"
  by (auto simp: modify_iff intro: fields trans [OF fields(1) fields(2)]
        trans [OF fields(2) fields(3)] trans [OF fields(6) fields(7)])

lemmas primitives = send rd wr report updates

lemma senders:
  "keeps R (send_disable_enable_features t b)"
  "keeps R (send_command_end_response er s dv a q)"
  "keeps R (send_data_to_host dv co b dm)"
  "keeps R (send_get_data_from_host dv n)"
  by (simp_all add: send_disable_enable_features_def send_command_end_response_def
        send_data_to_host_def send_get_data_from_host_def send)

lemma pump_chunk: "keeps R (pump_chunk n st)"
  unfolding pump_chunk_def Let_def by (intro keeps_intros primitives senders)

lemma pump_next: "keeps R pump_next"
  unfolding pump_next_def by (intro keeps_intros primitives senders)

lemma pump_step: "keeps R (pump_step n)"
  unfolding pump_step_def by (intro keeps_intros pump_chunk pump_next)

lemma pump_read: "keeps R pump_read"
  unfolding pump_read_def
  by (intro keeps_intros pump.loop_keeps pump_step) (rule contract_axioms)

lemma scsi_read: "keeps R (scsi_read dv img lba len dma)"
  unfolding scsi_read_def Let_def by (intro keeps_intros primitives senders pump_read)

lemma scsi_write_request: "keeps R (scsi_write_request dv img lba len)"
  unfolding scsi_write_request_def by (intro keeps_intros primitives senders)

lemma accept_data: "keeps R (accept_data data)"
  unfolding accept_data_def Let_def by (intro keeps_intros primitives senders)

lemma cdb: "keeps R (cdb_at b n)" "keeps R (pack_be2 x y)"
  "(\<And>x y. keeps R (k x y)) \<Longrightarrow> keeps R (with_cdb6 b k)"
  "(\<And>x y. keeps R (k x y)) \<Longrightarrow> keeps R (with_cdb10 b k)"
  unfolding cdb_at_def pack_be2_def with_cdb6_def with_cdb10_def by (intro keeps_intros; assumption?)+

lemmas parts = primitives senders cdb

lemma replies:
  "keeps R (scsi_test_unit_ready dv img)"
  "keeps R (scsi_mode_sense_6 dv img b dma)"
  "keeps R (scsi_read_format_capacities dv img dma)"
  "keeps R (scsi_read_capacity dv img fl dma)"
  "keeps R (scsi_read_toc dv b dma)"
  "keeps R (scsi_get_configuration dv b dma)"
  "keeps R (scsi_get_event_status dv img b dma)"
  "keeps R (scsi_mode_sense_10 dv img b dma)"
  unfolding scsi_test_unit_ready_def scsi_mode_sense_6_def scsi_read_format_capacities_def
    scsi_read_capacity_def scsi_read_toc_def scsi_get_configuration_def scsi_get_event_status_def
    scsi_mode_sense_10_def Let_def
  by (intro keeps_intros parts)+

lemma handle_scsi: "keeps R (handle_scsi dv b fr fl)"
  unfolding handle_scsi_def Let_def
  by (intro keeps_intros parts replies scsi_read scsi_write_request)

lemma session:
  "keeps R send_feature_toggle" "keeps R on_reset_occurred" "keeps R (on_status_data m)"
  "keeps R (on_error_occurred m)" "keeps R (parse_open_session_reply m)"
  unfolding send_feature_toggle_def on_reset_occurred_def on_status_data_def on_error_occurred_def
    parse_open_session_reply_def
  by (intro keeps_intros parts)+

lemma dispatch: "keeps R (dispatch m)"
  unfolding dispatch_def on_open_session_reply_def on_command_written_def on_data_from_host_def
  by (intro keeps_intros parts session handle_scsi accept_data)

end

section \<open>Fields no handler writes\<close>

definition untouched :: "IderEngine \<Rightarrow> IderEngine \<Rightarrow> bool" where
  "untouched e e' \<longleftrightarrow> buf e' = buf e \<and> in_seq e' = in_seq e \<and> bytes_from_amt e' = bytes_from_amt e
     \<and> send_bytes e' = send_bytes e \<and> devices e' = devices e \<and> start_mode e' = start_mode e
     \<and> rx_timeout e' = rx_timeout e \<and> tx_timeout e' = tx_timeout e \<and> heartbeat e' = heartbeat e"

interpretation untouched: engine_contract untouched
  by unfold_locales
     (auto simp: untouched_def on_image_def Let_def intro!: keepsI
        elim: send_command_cases split: prod.splits option.splits
        simp: send_command_def)

section \<open>Outbound sequence numbers\<close>

text \<open>
  \<open>link_up\<close>: the transport accepts every frame.  \<open>wire_ok\<close>: frame \<open>i\<close> on the wire carries the
  sequence number \<open>i\<close> modulo \<open>2 ^ 32\<close>, and the byte counter is the sum of the frame lengths.
\<close>

definition link_up :: "IderEngine \<Rightarrow> bool" where
  "link_up e \<longleftrightarrow> (\<forall>w f. send_bytes e w f = None)"

definition wire_ok :: "IderEngine \<Rightarrow> bool" where
  "wire_ok e \<longleftrightarrow> out_seq e = of_nat (length (wire e))
     \<and> bytes_to_amt e = sum_list (map (\<lambda>f. int (length f)) (wire e))
     \<and> (\<forall>i < length (wire e). frame_seq (wire e ! i) = int i mod 2 ^ 32)"

definition outbound :: "IderEngine \<Rightarrow> IderEngine \<Rightarrow> bool" where
  "outbound e e' \<longleftrightarrow> send_bytes e' = send_bytes e \<and> (link_up e \<and> wire_ok e \<longrightarrow> wire_ok e')
     \<and> (\<exists>fs. wire e' = wire e @ fs)"

lemma wire_ok_send:
  assumes "wire_ok e"
  shows "wire_ok (e\<lparr>out_seq := out_seq e + 1, bytes_to_amt := bytes_to_amt e + int (8 + length p),
                   wire := wire e @ [header c (out_seq e) co d @ p]\<rparr>)"
  using assms by (auto simp: wire_ok_def nth_append unsigned_of_nat take_bit_eq_mod of_nat_mod less_Suc_eq)

lemma outbound_send: "outbound e (snd (send_command c p co d e))"
proof (cases "send_bytes e (wire e) (header c (out_seq e) co d @ p)")
  case None
  then have eq: "snd (send_command c p co d e) =
      e\<lparr>out_seq := out_seq e + 1, bytes_to_amt := bytes_to_amt e + int (8 + length p),
        wire := wire e @ [header c (out_seq e) co d @ p]\<rparr>"
    by (simp add: send_command_def Let_def)
  show ?thesis unfolding eq outbound_def using wire_ok_send [where e = e and p = p and c = c and co = co and d = d] by simp
next
  case (Some x)
  then have "\<not> link_up e" by (auto simp: link_up_def)
  with Some show ?thesis by (simp add: send_command_def Let_def outbound_def)
qed

lemma outbound_same:
  "send_bytes e' = send_bytes e \<Longrightarrow> wire e' = wire e \<Longrightarrow> out_seq e' = out_seq e \<Longrightarrow>
   bytes_to_amt e' = bytes_to_amt e \<Longrightarrow> outbound e e'"
  by (simp add: outbound_def wire_ok_def)

interpretation outbound: engine_contract outbound
proof unfold_locales
  fix s t u
  show "outbound s s" by (simp add: outbound_def)
  show "outbound s t \<Longrightarrow> outbound t u \<Longrightarrow> outbound s u"
    by (auto simp: outbound_def link_up_def)
  show "keeps outbound (send_command c p co d)" for c p co d
    by (simp add: keeps_def outbound_send)
qed (auto simp: keeps_def on_image_def intro!: outbound_same split: prod.splits)

section \<open>Safety of the media\<close>

text \<open>
  What a run may do to an image: its identity and geometry stay, a read-only image keeps its
  content, no content grows past the size the image was opened with, and the counters only grow.
\<close>

definition image_step :: "MediaImage \<Rightarrow> MediaImage \<Rightarrow> bool" where
  "image_step i j \<longleftrightarrow> image_path j = image_path i \<and> device_code j = device_code i
     \<and> sector_shift j = sector_shift i \<and> image_size j = image_size i \<and> blocks j = blocks i
     \<and> writable j = writable i \<and> closed j = closed i
     \<and> (\<not> writable i \<longrightarrow> content j = content i)
     \<and> (int (length (content i)) = image_size i \<longrightarrow> int (length (content j)) = image_size i)
     \<and> (int (length (content i)) \<le> image_size i \<longrightarrow> int (length (content j)) \<le> image_size i)
     \<and> (media_change_reported i \<longrightarrow> media_change_reported j)
     \<and> bytes_read i \<le> bytes_read j \<and> bytes_written i \<le> bytes_written j"

definition media_safe :: "IderEngine \<Rightarrow> IderEngine \<Rightarrow> bool" where
  "media_safe e e' \<longleftrightarrow> (\<forall>r. image_step (images e r) (images e' r))"

lemma image_step_refl: "image_step i i"
  by (simp add: image_step_def)

lemma image_step_trans: "image_step i j \<Longrightarrow> image_step j k \<Longrightarrow> image_step i k"
  by (auto simp: image_step_def)

lemma length_file_write:
  "length (file_write off data c) = (if data = [] then length c else max (length c) (off + length data))"
  by (auto simp: file_write_def splice_at_def)

lemma image_step_write: "image_step i (snd (image_write off data i))"
  by (auto simp: image_step_def image_write_def length_file_write)

lemma media_safe_on_image:
  "(\<And>i. image_step i (snd (m i))) \<Longrightarrow> keeps media_safe (on_image r m)"
  by (auto simp: keeps_def media_safe_def on_image_def image_step_refl split: prod.splits) (metis snd_conv)

lemma media_safe_same: "images e' = images e \<Longrightarrow> media_safe e e'"
  by (simp add: media_safe_def image_step_refl)

interpretation media: engine_contract media_safe
proof unfold_locales
  fix s t u
  show "media_safe s s" by (simp add: media_safe_same)
  show "media_safe s t \<Longrightarrow> media_safe t u \<Longrightarrow> media_safe s u"
    by (auto simp: media_safe_def intro: image_step_trans)
  show "keeps media_safe (send_command c p co d)" for c p co d
    by (auto simp: keeps_def send_command_def Let_def intro!: media_safe_same split: option.splits)
  show "keeps media_safe (on_image r (image_read off len))" for r off len
    by (rule media_safe_on_image) (auto simp: image_step_def image_read_def Let_def)
  show "keeps media_safe (on_image r (image_write off data))" for r off data
    by (rule media_safe_on_image) (rule image_step_write)
  show "keeps media_safe (on_image r (modify (\<lambda>i. i\<lparr>media_change_reported := True\<rparr>)))" for r
    by (rule media_safe_on_image) (simp add: image_step_def)
qed (simp_all add: media_safe_same)

section \<open>Handlers do not notice the input buffer\<close>

definition put_input :: "bytes \<Rightarrow> int \<Rightarrow> IderEngine \<Rightarrow> IderEngine" where
  "put_input b n e = e\<lparr>bytes_from_amt := n, buf := b\<rparr>"

lemma put_input_fields [simp]:
  "read_state (put_input b n e) = read_state e" "read_queue (put_input b n e) = read_queue e"
  "reset_pending (put_input b n e) = reset_pending e" "images (put_input b n e) = images e"
  "pending_write (put_input b n e) = pending_write e" "session_info (put_input b n e) = session_info e"
  "start_mode (put_input b n e) = start_mode e" "devices (put_input b n e) = devices e"
  "errors_seen (put_input b n e) = errors_seen e" "stopped (put_input b n e) = stopped e"
  "in_seq (put_input b n e) = in_seq e" "buf (put_input b n e) = b"
  "bytes_from_amt (put_input b n e) = n"
  by (simp_all add: put_input_def)

lemma ignores_gets:
  "(\<And>e. g (put_input b n e) = g e) \<Longrightarrow> commutes (put_input b n) (gets g)"
  by (rule commutes_gets)

lemma ignores_updates:
  "commutes (put_input b n) (modify (\<lambda>e. e\<lparr>read_state := rs\<rparr>))"
  "commutes (put_input b n) (modify (\<lambda>e. e\<lparr>read_queue := [], reset_pending := rp\<rparr>))"
  "commutes (put_input b n) (modify (\<lambda>e. e\<lparr>read_state := rs, read_queue := q\<rparr>))"
  "commutes (put_input b n) (modify (\<lambda>e. e\<lparr>read_queue := read_queue e @ [x]\<rparr>))"
  "commutes (put_input b n) (modify (\<lambda>e. e\<lparr>reset_pending := rp\<rparr>))"
  "commutes (put_input b n) (modify (\<lambda>e. e\<lparr>pending_write := pw\<rparr>))"
  "commutes (put_input b n) (modify (\<lambda>e. e\<lparr>stopped := True\<rparr>))"
  "commutes (put_input b n) (modify (\<lambda>e. e\<lparr>session_info := si, session_open := so\<rparr>))"
  "commutes (put_input b n) (modify (\<lambda>e. e\<lparr>enabled := en\<rparr>))"
  "commutes (put_input b n) (modify (\<lambda>e. e\<lparr>feature_toggle_ok := ft\<rparr>))"
  "commutes (put_input b n) (modify (\<lambda>e. e\<lparr>errors_seen := errors_seen e @ [k]\<rparr>))"
  by (rule commutes_modify; simp add: put_input_def)+

lemma ignores_on_image: "commutes (put_input b n) (on_image r m)"
  by (auto simp: commutes_def on_image_def put_input_def split: prod.splits)

lemma ignores_send: "commutes (put_input b n) (send_command c p co d)"
  by (auto simp: commutes_def send_command_def put_input_def Let_def split: option.splits)

lemma ignores_senders:
  "commutes (put_input b n) (send_disable_enable_features t p)"
  "commutes (put_input b n) (send_command_end_response er s dv a q)"
  "commutes (put_input b n) (send_data_to_host dv co p dm)"
  "commutes (put_input b n) (send_get_data_from_host dv k)"
  by (simp_all add: send_disable_enable_features_def send_command_end_response_def
        send_data_to_host_def send_get_data_from_host_def ignores_send)

lemmas ignores_parts = ignores_gets ignores_updates ignores_on_image ignores_send ignores_senders

lemma ignores_pump: "commutes (put_input b n) pump_read"
proof -
  have "commutes (put_input b n) (pump_step k)" for k
    unfolding pump_step_def pump_chunk_def pump_next_def Let_def
    by (intro commutes_intros ignores_parts) simp_all
  then show ?thesis
    unfolding pump_read_def
    by (intro commutes_intros ignores_parts pump.loop_commutes) simp_all
qed

lemma ignores_cdb: "commutes (put_input b n) (cdb_at m i)" "commutes (put_input b n) (pack_be2 x y)"
  "(\<And>x y. commutes (put_input b n) (k x y)) \<Longrightarrow> commutes (put_input b n) (with_cdb6 m k)"
  "(\<And>x y. commutes (put_input b n) (k x y)) \<Longrightarrow> commutes (put_input b n) (with_cdb10 m k)"
  unfolding cdb_at_def pack_be2_def with_cdb6_def with_cdb10_def by (intro commutes_intros; assumption?)+

lemma ignores_scsi_read: "commutes (put_input b n) (scsi_read dv img lba len dma)"
  unfolding scsi_read_def Let_def
  by (intro commutes_intros ignores_parts ignores_pump) simp_all

lemma ignores_scsi_write: "commutes (put_input b n) (scsi_write_request dv img lba len)"
  unfolding scsi_write_request_def by (intro commutes_intros ignores_parts) simp_all

lemma ignores_ready: "commutes (put_input b n) (scsi_test_unit_ready dv img)"
  unfolding scsi_test_unit_ready_def by (intro commutes_intros ignores_parts) simp_all

lemma ignores_sense_6: "commutes (put_input b n) (scsi_mode_sense_6 dv img m dma)"
  unfolding scsi_mode_sense_6_def Let_def
  by (intro commutes_intros ignores_parts ignores_cdb) simp_all

lemma ignores_capacities: "commutes (put_input b n) (scsi_read_format_capacities dv img dma)"
  unfolding scsi_read_format_capacities_def by (intro commutes_intros ignores_parts) simp_all

lemma ignores_capacity: "commutes (put_input b n) (scsi_read_capacity dv img fl dma)"
  unfolding scsi_read_capacity_def Let_def by (intro commutes_intros ignores_parts) simp_all

lemma ignores_toc: "commutes (put_input b n) (scsi_read_toc dv m dma)"
  unfolding scsi_read_toc_def Let_def by (intro commutes_intros ignores_parts ignores_cdb)

lemma ignores_configuration: "commutes (put_input b n) (scsi_get_configuration dv m dma)"
  unfolding scsi_get_configuration_def by (intro commutes_intros ignores_parts ignores_cdb)

lemma ignores_event_status: "commutes (put_input b n) (scsi_get_event_status dv img m dma)"
  unfolding scsi_get_event_status_def by (intro commutes_intros ignores_parts ignores_cdb)

lemma ignores_sense_10: "commutes (put_input b n) (scsi_mode_sense_10 dv img m dma)"
  unfolding scsi_mode_sense_10_def
  by (intro commutes_intros ignores_parts ignores_cdb) (simp_all split: option.splits)

lemmas ignores_replies = ignores_ready ignores_sense_6 ignores_capacities ignores_capacity
  ignores_toc ignores_configuration ignores_event_status ignores_sense_10

lemma ignores_handle_scsi: "commutes (put_input b n) (handle_scsi dv m fr fl)"
  unfolding handle_scsi_def Let_def
  by (intro commutes_intros ignores_parts ignores_cdb ignores_replies ignores_scsi_read
        ignores_scsi_write) simp_all

lemma ignores_dispatch: "commutes (put_input b n) (dispatch m)"
  unfolding dispatch_def on_open_session_reply_def on_command_written_def on_data_from_host_def
    send_feature_toggle_def on_reset_occurred_def on_status_data_def on_error_occurred_def
    parse_open_session_reply_def accept_data_def Let_def
  by (intro commutes_intros ignores_parts ignores_handle_scsi) simp_all

end
