(* ===== verification/Ider_Feed.thy ===== *)
theory Ider_Feed
  imports Ider_Contract
begin

text \<open>
  Inbound framing of the IDE-R engine (\<^verbatim>\<open>feed\<close> and \<^verbatim>\<open>_peek_length\<close> of
  \<^verbatim>\<open>plugins/module_utils/ider.py\<close>): cutting messages out of the byte stream, the sequence check
  and the teardown.  The lemmas relate the byte-level loop to a message-level run, show that the
  result does not depend on how the stream is cut into chunks, and lift the contracts to
  whole streams.
\<close>

section \<open>Frame lengths\<close>

definition frame_length :: "bytes \<Rightarrow> nat option outcome" where
  "frame_length b = (case idx b 0 of
      Raise x \<Rightarrow> Raise x
    | Ok cmdid \<Rightarrow>
        (case FIXED_LENGTH_COMMANDS cmdid of
           Some n \<Rightarrow> Ok (Some n)
         | None \<Rightarrow>
             if cmdid = CMD_OPEN_SESSION_REPLY then
               (if length b < 30 then Ok None else Ok (Some (30 + unat (b ! 29))))
             else if cmdid = CMD_DATA_FROM_HOST then
               (if length b < 14 then Ok None
                else Ok (Some (14 + nat (le_int (take 2 (drop 9 b))))))
             else Raise ProtocolError))"

definition tear_down :: "(IderEngine, unit) action" where
  "tear_down = modify (\<lambda>e. e\<lparr>stopped := True, buf := []\<rparr>)"

text \<open>\<^verbatim>\<open>_peek_length\<close>: an unknown command tears the session down.\<close>

definition peek_length :: "(IderEngine, nat option) action" where
  "peek_length = bindA (gets buf) (\<lambda>b. case frame_length b of
      Ok r \<Rightarrow> ret r
    | Raise x \<Rightarrow> if x = ProtocolError then thenA tear_down (throw x) else throw x)"

text \<open>One iteration of \<^verbatim>\<open>feed\<close>'s loop; the result says whether the loop goes round again.\<close>

definition take_message :: "bytes \<Rightarrow> nat \<Rightarrow> (IderEngine, bool) action" where
  "take_message b n =
     bindA (liftA (unpack_le 4 b 4)) (\<lambda>seq. bindA (gets in_seq) (\<lambda>expected.
       if seq \<noteq> uint expected then thenA tear_down (throw ProtocolError)
       else
         thenA (modify (\<lambda>e. e\<lparr>in_seq := in_seq e + 1, buf := drop n b\<rparr>))
           (thenA (dispatch (take n b)) (bindA (gets stopped) (\<lambda>st. ret (\<not> st))))))"

definition feed_step :: "(IderEngine, bool) action" where
  "feed_step = bindA (gets buf) (\<lambda>b.
     if length b < 8 then ret False
     else bindA peek_length (\<lambda>len. case len of
         None \<Rightarrow> ret False
       | Some n \<Rightarrow> if length b < n then ret False else take_message b n))"

lemma fixed_length_ge: "FIXED_LENGTH_COMMANDS c = Some n \<Longrightarrow> 8 \<le> n"
  by (auto simp: FIXED_LENGTH_COMMANDS_def split: if_splits)

lemma frame_length_ge: "frame_length b = Ok (Some n) \<Longrightarrow> 8 \<le> n"
  by (auto simp: frame_length_def idx_def dest: fixed_length_ge split: if_splits option.splits)

lemma peek_length_Ok: "peek_length e = (Ok r, e') \<longleftrightarrow> frame_length (buf e) = Ok r \<and> e' = e"
  by (auto simp: peek_length_def tear_down_def split: outcome.splits)

lemma buf_dispatch: "dispatch m e = (r, e') \<Longrightarrow> untouched e e'"
  by (rule keepsD [OF untouched.dispatch])

text \<open>A message is taken out in one go: refused on a wrong sequence number, else dispatched.\<close>

lemma take_message_eq:
  "8 \<le> length b \<Longrightarrow> take_message b n e =
     (if le_int (take 4 (drop 4 b)) \<noteq> uint (in_seq e)
      then (Raise ProtocolError, e\<lparr>stopped := True, buf := []\<rparr>)
      else case dispatch (take n b) (e\<lparr>in_seq := in_seq e + 1, buf := drop n b\<rparr>) of
          (Ok _, e') \<Rightarrow> (Ok (\<not> stopped e'), e')
        | (Raise x, e') \<Rightarrow> (Raise x, e'))"
  by (simp add: take_message_def tear_down_def)
     (simp add: thenA_def bindA_def split: prod.splits outcome.splits)

lemma take_message_True:
  assumes "take_message b n e = (Ok True, e')"
  shows "buf e' = drop n b"
  using assms by (auto simp: take_message_def elim!: bindA_OkE thenA_OkE split: if_splits
      dest!: buf_dispatch simp: untouched_def)

lemma feed_step_decreases:
  assumes "feed_step e = (Ok True, e')"
  shows "(e', e) \<in> measure (\<lambda>e. length (buf e))"
proof -
  from assms obtain n where n: "frame_length (buf e) = Ok (Some n)" "\<not> length (buf e) < n"
    and t: "take_message (buf e) n e = (Ok True, e')"
    by (auto simp: feed_step_def peek_length_Ok elim!: bindA_OkE split: if_splits option.splits)
  with take_message_True [OF t] frame_length_ge [OF n(1)] show ?thesis by simp
qed

function feed_loop :: "(IderEngine, unit) action" where
  "feed_loop e = (case feed_step e of
      (Ok b, e') \<Rightarrow> if b then feed_loop e' else (Ok (), e')
    | (Raise x, e') \<Rightarrow> (Raise x, e'))"
  by pat_completeness auto
termination
  by (relation "measure (\<lambda>e. length (buf e))") (use feed_step_decreases in auto)

declare feed_loop.simps [simp del]

interpretation stream: action_loop feed_step feed_loop "measure (\<lambda>e. length (buf e))"
proof
  show "wf (measure (\<lambda>e. length (buf e)))" by simp
next
  fix s t assume "feed_step s = (Ok True, t)"
  then show "(t, s) \<in> measure (\<lambda>e. length (buf e))" by (rule feed_step_decreases)
next
  fix s show "feed_loop s = (case feed_step s of
      (Ok b, t) \<Rightarrow> if b then feed_loop t else (Ok (), t) | (Raise x, t) \<Rightarrow> (Raise x, t))"
    by (simp add: feed_loop.simps [of s])
qed

text \<open>\<^verbatim>\<open>feed\<close>.\<close>

definition feed :: "bytes \<Rightarrow> (IderEngine, unit) action" where
  "feed data = bindA (gets stopped) (\<lambda>st.
     if st then throw ProtocolError
     else thenA (modify (\<lambda>e. e\<lparr>bytes_from_amt := bytes_from_amt e + int (length data),
                              buf := buf e @ data\<rparr>))
            feed_loop)"

fun feed_chunks :: "bytes list \<Rightarrow> (IderEngine, unit) action" where
  "feed_chunks [] = ret ()"
| "feed_chunks (c # cs) = thenA (feed c) (feed_chunks cs)"

section \<open>Contracts of whole streams\<close>

text \<open>A handler contract that does not mention the input buffer extends to every stream.\<close>

locale stream_contract = engine_contract +
  assumes input: "R e (e\<lparr>buf := b\<rparr>)" "R e (e\<lparr>bytes_from_amt := k\<rparr>)" "R e (e\<lparr>in_seq := s\<rparr>)"
begin

lemma input_updates:
  "keeps R (modify (\<lambda>e. e\<lparr>in_seq := in_seq e + 1, buf := b\<rparr>))"
  "keeps R tear_down"
  "keeps R (modify (\<lambda>e. e\<lparr>bytes_from_amt := bytes_from_amt e + k, buf := buf e @ d\<rparr>))"
  unfolding tear_down_def
  by (auto simp: modify_iff intro: trans [OF input(3) input(1)] trans [OF fields(5) input(1)]
        trans [OF input(2) input(1)])

lemma take_message: "keeps R (take_message b n)"
  unfolding take_message_def by (intro keeps_intros input_updates dispatch)

lemma peek: "keeps R peek_length"
  unfolding peek_length_def
  by (intro keeps_intros input_updates)

lemma feed_step: "keeps R feed_step"
  unfolding feed_step_def by (intro keeps_intros peek take_message)

lemma feed: "keeps R (feed data)"
  unfolding feed_def
  by (intro keeps_intros input_updates stream.loop_keeps feed_step) (rule contract_axioms)

lemma feed_chunks: "keeps R (feed_chunks cs)"
  by (induction cs) (simp_all only: feed_chunks.simps, (intro keeps_intros feed | assumption)+)

end

interpretation outbound_stream: stream_contract outbound
  by unfold_locales (auto intro: outbound_same)

interpretation media_stream: stream_contract media_safe
  by unfold_locales (auto intro: media_safe_same)

section \<open>Independence of the chunking\<close>

text \<open>More input: bytes \<open>c\<close> appended to the buffer, \<open>k\<close> added to the counter.\<close>

definition extend :: "bytes \<Rightarrow> int \<Rightarrow> IderEngine \<Rightarrow> IderEngine" where
  "extend c k e = put_input (buf e @ c) (bytes_from_amt e + k) e"

lemma extend_fields [simp]:
  "buf (extend c k e) = buf e @ c" "stopped (extend c k e) = stopped e"
  "in_seq (extend c k e) = in_seq e"
  by (simp_all add: extend_def)

lemma extend_update:
  "(extend c k e)\<lparr>in_seq := s, buf := b @ c\<rparr> = extend c k (e\<lparr>in_seq := s, buf := b\<rparr>)"
  by (rule IderEngine.equality) (simp_all add: extend_def put_input_def)

lemma dispatch_extend:
  assumes "dispatch m e = (r, e')"
  shows "dispatch m (extend c k e) = (r, extend c k e')"
proof -
  have "untouched e e'" using assms by (rule buf_dispatch)
  moreover have "dispatch m (extend c k e) = apsnd (put_input (buf e @ c) (bytes_from_amt e + k)) (r, e')"
    unfolding extend_def using commutesD [OF ignores_dispatch] assms by metis
  ultimately show ?thesis by (simp add: extend_def untouched_def)
qed

lemma frame_length_append: "frame_length b = Ok (Some n) \<Longrightarrow> frame_length (b @ c) = Ok (Some n)"
  by (auto simp: frame_length_def idx_def nth_append split: if_splits option.splits)

lemma take_message_extend:
  assumes t: "take_message (buf e) n e = (Ok b, e')" and n: "8 \<le> n" "n \<le> length (buf e)"
  shows "take_message (buf e @ c) n (extend c k e) = (Ok b, extend c k e')"
proof -
  let ?e1 = "e\<lparr>in_seq := in_seq e + 1, buf := drop n (buf e)\<rparr>"
  from t n have s: "le_int (take 4 (drop 4 (buf e))) = uint (in_seq e)"
    by (auto simp: take_message_eq split: if_splits)
  obtain r e2 where d: "dispatch (take n (buf e)) ?e1 = (r, e2)"
    by (cases "dispatch (take n (buf e)) ?e1")
  with t n s have b: "r = Ok ()" "b = (\<not> stopped e2)" "e' = e2"
    by (auto simp: take_message_eq split: outcome.splits)
  from dispatch_extend [OF d, of c k] n s b show ?thesis
    by (simp add: take_message_eq extend_update)
qed

lemma feed_step_extend:
  assumes "feed_step e = (Ok b, e')"
  shows "(b \<or> stopped e' \<and> \<not> stopped e \<longrightarrow> feed_step (extend c k e) = (Ok b, extend c k e'))
    \<and> (\<not> b \<and> \<not> stopped e' \<longrightarrow> e' = e)"
proof (cases "\<exists>n. 8 \<le> length (buf e) \<and> frame_length (buf e) = Ok (Some n) \<and> n \<le> length (buf e)")
  case True
  then obtain n where n: "8 \<le> length (buf e)" "frame_length (buf e) = Ok (Some n)" "n \<le> length (buf e)"
    by blast
  have pk: "peek_length e = (Ok (Some n), e)" "peek_length (extend c k e) = (Ok (Some n), extend c k e)"
    using n(2) by (auto simp: peek_length_Ok intro: frame_length_append)
  from assms n pk have t: "take_message (buf e) n e = (Ok b, e')"
    by (simp add: feed_step_def bindA_eq_Ok(1) [where m = peek_length, OF pk(1)])
  have "feed_step (extend c k e) = (Ok b, extend c k e')"
    using n take_message_extend [OF t frame_length_ge [OF n(2)] n(3)]
    by (simp add: feed_step_def bindA_eq_Ok(1) [where m = peek_length, OF pk(2)])
  moreover have "\<not> b \<Longrightarrow> stopped e'"
    using t n(1) by (auto simp: take_message_eq split: if_splits prod.splits outcome.splits)
  ultimately show ?thesis by blast
next
  case False
  with assms have "\<not> b \<and> e' = e"
    by (auto simp: feed_step_def peek_length_Ok elim!: bindA_OkE split: if_splits option.splits)
  then show ?thesis by auto
qed

lemma feed_loop_extend:
  "feed_loop e = (Ok (), e') \<Longrightarrow> \<not> stopped e' \<Longrightarrow> feed_loop (extend c k e) = feed_loop (extend c k e')"
proof (induction e rule: stream.loop_induct)
  case (1 e)
  show ?case
  proof (cases e rule: stream.loop_cases)
    case (again t)
    with feed_step_extend [of e True t c k] have "feed_loop (extend c k e) = feed_loop (extend c k t)"
      by (simp add: stream.unfold [of "extend c k e"])
    with 1 again show ?thesis by simp
  next
    case (finished t)
    with 1 feed_step_extend [of e False t c k] show ?thesis by auto
  next
    case (raised x t)
    with 1 show ?thesis by simp
  qed
qed

lemma feed_extend: "\<not> stopped e \<Longrightarrow> feed d e = feed_loop (extend d (int (length d)) e)"
  by (simp add: feed_def extend_def put_input_def)

lemma extend_extend: "extend b j (extend a i e) = extend (a @ b) (i + j) e"
  by (simp add: extend_def put_input_def add.assoc)

lemma feed_append:
  assumes "feed a e = (Ok (), e1)" and "\<not> stopped e1"
  shows "feed (a @ b) e = feed b e1"
proof -
  have e: "\<not> stopped e" using assms(1) by (auto simp: feed_def)
  from assms(1) have "feed_loop (extend a (int (length a)) e) = (Ok (), e1)"
    by (simp add: feed_extend e)
  from feed_loop_extend [OF this assms(2)]
  have "feed_loop (extend b (int (length b)) (extend a (int (length a)) e)) =
      feed_loop (extend b (int (length b)) e1)" by simp
  then show ?thesis by (simp add: feed_extend e assms(2) extend_extend add.commute)
qed

lemma feed_chunks_concat:
  "feed_chunks (c # cs) e = (Ok (), e') \<Longrightarrow> \<not> stopped e' \<Longrightarrow> feed (concat (c # cs)) e = (Ok (), e')"
proof (induction cs arbitrary: c e)
  case Nil
  then show ?case by (auto elim!: thenA_OkE)
next
  case (Cons d ds)
  then obtain e1 where e1: "feed c e = (Ok (), e1)" and rest: "feed_chunks (d # ds) e1 = (Ok (), e')"
    by (auto elim: thenA_OkE)
  then have "\<not> stopped e1" by (auto simp: feed_def elim!: thenA_OkE)
  from feed_append [OF e1 this] Cons.IH [OF rest Cons.prems(2)] show ?case by simp
qed

section \<open>The message-level run\<close>

text \<open>
  What \<^verbatim>\<open>feed\<close> means: messages are counted and dispatched one after the other until the session
  stops.
\<close>

fun run_messages :: "bytes list \<Rightarrow> (IderEngine, unit) action" where
  "run_messages [] = ret ()"
| "run_messages (m # ms) =
     thenA (modify (\<lambda>e. e\<lparr>in_seq := in_seq e + 1\<rparr>))
       (thenA (dispatch m) (bindA (gets stopped) (\<lambda>st. if st then ret () else run_messages ms)))"

text \<open>Complete frames with consecutive sequence numbers from \<open>s\<close>.\<close>

fun well_framed :: "32 word \<Rightarrow> bytes list \<Rightarrow> bool" where
  "well_framed s [] = True"
| "well_framed s (m # ms) \<longleftrightarrow>
     frame_length m = Ok (Some (length m)) \<and> frame_seq m = uint s \<and> well_framed (s + 1) ms"

lemma feed_step_message:
  assumes "frame_length m = Ok (Some (length m))" "frame_seq m = uint (in_seq e)" "buf e = m @ rest"
  shows "feed_step e = (case dispatch m (e\<lparr>in_seq := in_seq e + 1, buf := rest\<rparr>) of
      (Ok _, e') \<Rightarrow> (Ok (\<not> stopped e'), e') | (Raise x, e') \<Rightarrow> (Raise x, e'))"
proof -
  have n: "8 \<le> length m" using assms(1) by (rule frame_length_ge)
  have pk: "peek_length e = (Ok (Some (length m)), e)"
    using assms by (auto simp: peek_length_Ok intro: frame_length_append)
  have seq: "le_int (take 4 (drop 4 (m @ rest))) = uint (in_seq e)"
    using n assms(2) by (simp add: frame_seq_def slice_def)
  show ?thesis
    using n assms(3) seq
    by (simp add: feed_step_def bindA_eq_Ok(1) [where m = peek_length, OF pk] take_message_eq)
qed

lemma feed_loop_messages:
  "well_framed (in_seq e) ms \<Longrightarrow> buf e = concat ms \<Longrightarrow>
   run_messages ms (e\<lparr>buf := []\<rparr>) = (Ok (), e') \<Longrightarrow> \<not> stopped e' \<Longrightarrow> feed_loop e = (Ok (), e')"
proof (induction ms arbitrary: e)
  case Nil
  from Nil.prems(2) have "e\<lparr>buf := []\<rparr> = e" by (intro IderEngine.equality) simp_all
  with Nil have "e' = e" "buf e = []" by simp_all
  then show ?case by (simp add: stream.unfold [of e] feed_step_def)
next
  case (Cons m ms)
  let ?e1 = "e\<lparr>in_seq := in_seq e + 1, buf := concat ms\<rparr>"
  have clear: "e\<lparr>buf := [], in_seq := in_seq e + 1\<rparr> = put_input [] (bytes_from_amt e) ?e1"
    by (rule IderEngine.equality) (simp_all add: put_input_def)
  obtain r e2 where d: "dispatch m ?e1 = (r, e2)" by (cases "dispatch m ?e1")
  have u: "untouched ?e1 e2" using d by (rule buf_dispatch)
  have d': "dispatch m (e\<lparr>buf := [], in_seq := in_seq e + 1\<rparr>) = (r, e2\<lparr>buf := []\<rparr>)"
    unfolding clear using commutesD [OF ignores_dispatch [of "[]" "bytes_from_amt e" m], of ?e1] d u
    by (simp add: put_input_def untouched_def)
  from Cons.prems(3) d' obtain "r = Ok ()" and
    k: "(if stopped e2 then ret () else run_messages ms) (e2\<lparr>buf := []\<rparr>) = (Ok (), e')"
    by (cases r) (simp_all add: thenA_def bindA_def)
  with Cons.prems(4) have ns: "\<not> stopped e2" by (cases "stopped e2") auto
  have "feed_step e = (Ok True, e2)"
    using feed_step_message [of m e "concat ms"] Cons.prems d \<open>r = Ok ()\<close> ns by simp
  moreover have "feed_loop e2 = (Ok (), e')"
    using Cons.IH [of e2] Cons.prems k ns u by (simp add: untouched_def)
  ultimately show ?case by (simp add: stream.unfold [of e])
qed

end
