(* ===== verification/Ider_Read.thy ===== *)
theory Ider_Read
  imports Ider_Feed
begin

text \<open>
  What a READ puts on the wire.  \<open>read_reply\<close> is the specification: the requested bytes in
  consecutive \<^verbatim>\<open>DATA_TO_HOST\<close> frames of at most the negotiated size, the last one marked
  completed; or, when the backing file has become too short, the bytes there are in frames none
  of which is marked completed, then a MEDIUM ERROR.  \<open>pump_loop_reply\<close> shows that the pump
  implements it.
\<close>

section \<open>Specification\<close>

fun data_frames :: "byte \<Rightarrow> bool \<Rightarrow> bool \<Rightarrow> 32 word \<Rightarrow> bytes list \<Rightarrow> bytes list" where
  "data_frames dv dma fin s [] = []"
| "data_frames dv dma fin s (d # ds) =
     (header CMD_DATA_TO_HOST s (fin \<and> ds = []) dma @ data_to_host_payload dv (fin \<and> ds = []) d dma)
       # data_frames dv dma fin (s + 1) ds"

definition medium_error_frame :: "byte \<Rightarrow> 32 word \<Rightarrow> bytes" where
  "medium_error_frame dv s =
     header CMD_COMMAND_END_RESPONSE s True False @ command_end_payload False 0x03 dv 0x11 0x00"

definition read_reply :: "byte \<Rightarrow> bool \<Rightarrow> nat \<Rightarrow> 32 word \<Rightarrow> bytes \<Rightarrow> int \<Rightarrow> bytes list" where
  "read_reply dv dma n s want len =
     (if int (length want) < len
      then data_frames dv dma False s (chunks n want) @
             [medium_error_frame dv (s + of_nat (length (chunks n want)))]
      else data_frames dv dma True s (chunks n want))"

definition requested :: "ReadRequest \<Rightarrow> IderEngine \<Rightarrow> bytes" where
  "requested st e = take (nat (remaining st))
     (drop (nat (rq_byte_offset st)) (content (images e (rq_image st))))"

lemma frame_data_of_data_frame [simp]:
  "frame_data (header c s co d @ data_to_host_payload dv co' x dma) = x"
  by (simp add: frame_data_def data_to_host_payload_def data_to_host_prefix_def
        data_to_host_suffix_def Let_def)

lemma concat_data_frames: "concat (map frame_data (data_frames dv dma fin s ds)) = concat ds"
  by (induction ds arbitrary: s) auto

lemma length_data_frames [simp]: "length (data_frames dv dma fin s ds) = length ds"
  by (induction ds arbitrary: s) auto

lemma data_frames_data: "map frame_data (data_frames dv dma fin s ds) = ds"
  by (induction ds arbitrary: s) auto

lemma data_frames_completed:
  "map frame_completed (data_frames dv dma fin s ds) =
     (if ds = [] then [] else replicate (length ds - 1) False @ [fin])"
  by (induction ds arbitrary: s)
     (auto simp: CMD_DATA_TO_HOST_def neq_Nil_conv word_less_nat_alt)

lemma data_frames_cmd: "f \<in> set (data_frames dv dma fin s ds) \<Longrightarrow> frame_cmd f = CMD_DATA_TO_HOST"
  by (induction ds arbitrary: s) auto

lemma data_frame_len:
  "frame_data_len (header c s co d @ data_to_host_payload dv co' x dma) = int (length x) mod 65536"
proof -
  have "slice (header c s co d @ data_to_host_payload dv co' x dma) 9 11
      = [len_lo (int (length x)), len_hi (int (length x))]"
    by (simp add: slice_def data_to_host_payload_def data_to_host_prefix_def Let_def header_def
          numeral_eq_Suc)
  then show ?thesis by (simp only: frame_data_len_def len_bytes_value)
qed

lemma data_frames_len:
  "f \<in> set (data_frames dv dma fin s ds) \<Longrightarrow>
     frame_data_len f = int (length (frame_data f)) mod 65536"
  by (induction ds arbitrary: s) (auto simp: data_frame_len)

section \<open>The pump implements it\<close>

text \<open>The engine after the transport took a frame.\<close>

definition sent :: "byte \<Rightarrow> bytes \<Rightarrow> bool \<Rightarrow> bool \<Rightarrow> IderEngine \<Rightarrow> IderEngine" where
  "sent c p co d e = e\<lparr>out_seq := out_seq e + 1, bytes_to_amt := bytes_to_amt e + int (8 + length p),
     wire := wire e @ [header c (out_seq e) co d @ p]\<rparr>"

lemma send_command_up: "link_up e \<Longrightarrow> send_command c p co d e = (Ok (), sent c p co d e)"
  by (simp add: send_command_def Let_def link_up_def sent_def)

lemma then_send_up: "link_up e \<Longrightarrow> thenA (send_command c p co d) k e = k (sent c p co d e)"
  using thenA_eq_Ok(1) [where m = "send_command c p co d", OF send_command_up] .

lemma sent_fields [simp]:
  "wire (sent c p co d e) = wire e @ [header c (out_seq e) co d @ p]"
  "out_seq (sent c p co d e) = out_seq e + 1" "images (sent c p co d e) = images e"
  "read_state (sent c p co d e) = read_state e" "read_queue (sent c p co d e) = read_queue e"
  "reset_pending (sent c p co d e) = reset_pending e" "send_bytes (sent c p co d e) = send_bytes e"
  "pending_write (sent c p co d e) = pending_write e" "session_info (sent c p co d e) = session_info e"
  "stopped (sent c p co d e) = stopped e" "devices (sent c p co d e) = devices e"
  by (simp_all add: sent_def)

lemma link_up_cong: "send_bytes e' = send_bytes e \<Longrightarrow> link_up e' = link_up e"
  by (simp add: link_up_def)

text \<open>One chunk, read from an open file at a valid offset.\<close>

definition chunk_size :: "int \<Rightarrow> ReadRequest \<Rightarrow> int" where
  "chunk_size n st = (if n \<noteq> 0 then min (remaining st) n else remaining st)"

lemma on_image_read:
  assumes "\<not> closed (images e r)" "0 \<le> off" "0 \<le> len"
  shows "on_image r (image_read off len) e =
    (Ok (take (nat len) (drop (nat off) (content (images e r)))),
     e\<lparr>images := (images e)(r := (images e r)\<lparr>bytes_read := bytes_read (images e r)
        + int (length (take (nat len) (drop (nat off) (content (images e r)))))\<rparr>)\<rparr>)"
  using assms by (simp add: on_image_def image_read_def file_read_def Let_def)

definition read_ready :: "int \<Rightarrow> ReadRequest \<Rightarrow> IderEngine \<Rightarrow> bool" where
  "read_ready n st e \<longleftrightarrow> 0 \<le> n \<and> read_state e = Some st \<and> read_queue e = [] \<and> \<not> reset_pending e
     \<and> link_up e \<and> \<not> closed (images e (rq_image st)) \<and> 0 \<le> rq_byte_offset st \<and> 0 < remaining st"

text \<open>What a run of the pump leaves alone.\<close>

definition same_media :: "IderEngine \<Rightarrow> IderEngine \<Rightarrow> bool" where
  "same_media e e' \<longleftrightarrow> (\<forall>r. content (images e' r) = content (images e r)
     \<and> closed (images e' r) = closed (images e r)) \<and> pending_write e' = pending_write e
     \<and> send_bytes e' = send_bytes e \<and> session_info e' = session_info e
     \<and> read_queue e' = read_queue e \<and> reset_pending e' = reset_pending e"

lemma same_media_trans: "same_media a b \<Longrightarrow> same_media b c \<Longrightarrow> same_media a c"
  by (simp add: same_media_def)

text \<open>The bytes one \<^verbatim>\<open>image.read\<close> of the pump returns, and the engine after it.\<close>

definition chunk :: "int \<Rightarrow> ReadRequest \<Rightarrow> IderEngine \<Rightarrow> bytes" where
  "chunk n st e = take (nat (chunk_size n st))
     (drop (nat (rq_byte_offset st)) (content (images e (rq_image st))))"

definition after_read :: "int \<Rightarrow> ReadRequest \<Rightarrow> IderEngine \<Rightarrow> IderEngine" where
  "after_read n st e = e\<lparr>images := (images e)(rq_image st := (images e (rq_image st))\<lparr>bytes_read :=
     bytes_read (images e (rq_image st)) + int (length (chunk n st e))\<rparr>)\<rparr>"

lemma after_read_fields [simp]:
  "wire (after_read n st e) = wire e" "out_seq (after_read n st e) = out_seq e"
  "read_queue (after_read n st e) = read_queue e" "reset_pending (after_read n st e) = reset_pending e"
  "send_bytes (after_read n st e) = send_bytes e" "pending_write (after_read n st e) = pending_write e"
  "session_info (after_read n st e) = session_info e"
  "content (images (after_read n st e) r) = content (images e r)"
  "closed (images (after_read n st e) r) = closed (images e r)"
  by (simp_all add: after_read_def)

lemma chunk_read:
  assumes "read_ready n st e"
  shows "on_image (rq_image st) (image_read (rq_byte_offset st)
      (if n \<noteq> 0 then min (remaining st) n else remaining st)) e = (Ok (chunk n st e), after_read n st e)"
proof -
  have "0 \<le> (if n \<noteq> 0 then min (remaining st) n else remaining st)"
    using assms by (auto simp: read_ready_def)
  with assms show ?thesis
    by (simp add: on_image_read read_ready_def chunk_def chunk_size_def after_read_def
          del: fun_upd_apply split del: if_split)
qed

lemma bind_chunk_read:
  assumes "read_ready n st e"
  shows "bindA (on_image (rq_image st) (image_read (rq_byte_offset st)
      (if n \<noteq> 0 then min (remaining st) n else remaining st))) k e = k (chunk n st e) (after_read n st e)"
  using bindA_eq_Ok(1) [where m = "on_image (rq_image st) (image_read (rq_byte_offset st)
      (if n \<noteq> 0 then min (remaining st) n else remaining st))", OF chunk_read [OF assms]] .

definition set_read :: "ReadRequest option \<Rightarrow> IderEngine \<Rightarrow> IderEngine" where
  "set_read rs e = e\<lparr>read_state := rs\<rparr>"

lemma set_read_fields [simp]:
  "wire (set_read rs e) = wire e" "out_seq (set_read rs e) = out_seq e"
  "read_queue (set_read rs e) = read_queue e" "reset_pending (set_read rs e) = reset_pending e"
  "send_bytes (set_read rs e) = send_bytes e" "pending_write (set_read rs e) = pending_write e"
  "session_info (set_read rs e) = session_info e"
  "images (set_read rs e) = images e" "read_state (set_read rs e) = rs"
  by (simp_all add: set_read_def)

lemma link_up_simps [simp]:
  "link_up (set_read rs e) = link_up e" "link_up (after_read n st e) = link_up e"
  "link_up (sent c p co d e) = link_up e"
  by (simp_all add: link_up_def)

lemma pump_chunk_empty:
  assumes "read_ready n st e" "chunk n st e = []"
  shows "pump_chunk n st e = (Ok (st\<lparr>remaining := 0\<rparr>),
    set_read (Some (st\<lparr>remaining := 0\<rparr>))
      (sent CMD_COMMAND_END_RESPONSE (command_end_payload False 0x03 (rq_device st) 0x11 0x00) True False
        (after_read n st e)))"
proof -
  have "link_up (after_read n st e)" using assms by (simp add: read_ready_def)
  then show ?thesis
    unfolding pump_chunk_def bind_chunk_read [OF assms(1)]
    by (simp add: assms(2) send_command_end_response_def then_send_up
          Let_def set_read_def)
qed

lemma pump_chunk_data:
  assumes "read_ready n st e" "chunk n st e \<noteq> []"
  shows "pump_chunk n st e = (let st' = advance_read st (chunk n st e); fin = (remaining st' \<le> 0)
    in (Ok st', sent CMD_DATA_TO_HOST (data_to_host_payload (rq_device st) fin (chunk n st e) (rq_dma st))
         fin (rq_dma st) (set_read (Some st') (after_read n st e))))"
proof -
  let ?st = "advance_read st (chunk n st e)"
  have up: "link_up (set_read (Some ?st) (after_read n st e))" using assms by (simp add: read_ready_def)
  show ?thesis
    unfolding pump_chunk_def bind_chunk_read [OF assms(1)]
    by (simp add: assms(2) send_data_to_host_def Let_def set_read_def [symmetric]
          then_send_up [OF up])
qed

text \<open>With nothing queued and no reset waiting, a finished request is torn down.\<close>

lemma pump_next_idle:
  "\<not> reset_pending e \<Longrightarrow> read_queue e = [] \<Longrightarrow> pump_next e = (Ok True, set_read None e)"
  by (simp add: pump_next_def set_read_def)

lemma pump_step_run:
  assumes "read_ready n st e" "pump_chunk n st e = (Ok st', e1)"
  shows "pump_step n e = (if remaining st' > 0 \<and> \<not> reset_pending e1 then (Ok True, e1) else pump_next e1)"
  using assms by (simp add: pump_step_def read_ready_def bindA_eq_Ok(1) [where m = "pump_chunk n st"])

text \<open>The three things one iteration can do.\<close>

lemma pump_step_empty:
  assumes "read_ready n st e" "chunk n st e = []"
  shows "\<exists>e'. pump_step n e = (Ok True, e') \<and> read_state e' = None
    \<and> wire e' = wire e @ [medium_error_frame (rq_device st) (out_seq e)] \<and> same_media e e'"
  using assms pump_step_run [OF assms(1) pump_chunk_empty [OF assms]]
  by (simp add: read_ready_def pump_next_idle medium_error_frame_def same_media_def)

lemma pump_step_last:
  assumes "read_ready n st e" "chunk n st e \<noteq> []" "int (length (chunk n st e)) = remaining st"
  shows "\<exists>e'. pump_step n e = (Ok True, e') \<and> read_state e' = None
    \<and> wire e' = wire e @ data_frames (rq_device st) (rq_dma st) True (out_seq e) [chunk n st e]
    \<and> same_media e e'"
  using assms pump_step_run [OF assms(1) pump_chunk_data [OF assms(1,2), unfolded Let_def]]
  by (simp add: read_ready_def pump_next_idle same_media_def advance_read_def)

lemma pump_step_more:
  assumes "read_ready n st e" "chunk n st e \<noteq> []" "int (length (chunk n st e)) < remaining st"
  shows "\<exists>e'. pump_step n e = (Ok True, e') \<and> read_ready n (advance_read st (chunk n st e)) e'
    \<and> wire e' = wire e @ data_frames (rq_device st) (rq_dma st) False (out_seq e) [chunk n st e]
    \<and> out_seq e' = out_seq e + 1 \<and> same_media e e'"
  using assms pump_step_run [OF assms(1) pump_chunk_data [OF assms(1,2), unfolded Let_def]]
  by (simp add: read_ready_def same_media_def advance_read_def)

text \<open>How the specification splits along a chunk.\<close>

lemma requested_split:
  assumes "read_ready n st e"
  shows "requested st e = chunk n st e @ requested (advance_read st (chunk n st e)) e"
proof -
  let ?d = "drop (nat (rq_byte_offset st)) (content (images e (rq_image st)))"
  let ?m = "nat (chunk_size n st)"
  have le: "?m \<le> nat (remaining st)" using assms by (auto simp: chunk_size_def read_ready_def)
  have len: "length (chunk n st e) = min ?m (length ?d)" by (simp add: chunk_def)
  have "requested (advance_read st (chunk n st e)) e
      = take (nat (remaining st) - length (chunk n st e)) (drop (length (chunk n st e)) ?d)"
    using assms
    by (simp add: requested_def advance_read_def read_ready_def nat_add_distrib nat_minus_as_int [symmetric]
          nat_diff_distrib' add.commute)
  moreover have "take (nat (remaining st)) ?d = take ?m ?d @ take (nat (remaining st) - ?m) (drop ?m ?d)"
    using le by (metis le_add_diff_inverse take_add)
  ultimately show ?thesis
    using le unfolding len by (cases "?m \<le> length ?d") (simp_all add: requested_def chunk_def)
qed

lemma data_frames_append:
  "bs \<noteq> [] \<Longrightarrow> data_frames dv dma fin s (a # bs) =
     data_frames dv dma False s [a] @ data_frames dv dma fin (s + 1) bs"
  by simp

lemma chunks_step:
  assumes "read_ready n st e" "chunk n st e \<noteq> []" "int (length (chunk n st e)) < remaining st"
  shows "chunks (nat n) (requested st e) =
    chunk n st e # chunks (nat n) (requested (advance_read st (chunk n st e)) e)"
proof -
  let ?d = "drop (nat (rq_byte_offset st)) (content (images e (rq_image st)))"
  define c where "c = chunk n st e"
  define rest where "rest = requested (advance_read st (chunk n st e)) e"
  have split: "requested st e = c @ rest"
    unfolding c_def rest_def by (rule requested_split [OF assms(1)])
  have c: "c = take (nat (chunk_size n st)) ?d" "c \<noteq> []" "int (length c) < remaining st"
    using assms(2,3) by (simp_all add: c_def chunk_def)
  have bound: "length (requested st e) \<le> length ?d" by (simp add: requested_def)
  have "chunks (nat n) (c @ rest) = c # chunks (nat n) rest"
  proof (cases "rest = []")
    case True
    have "nat n = 0 \<or> length c \<le> nat n"
      using assms(1) by (auto simp: c(1) chunk_size_def read_ready_def)
    with True c(2) show ?thesis by (simp add: chunks_single)
  next
    case False
    then have "length c < length ?d"
      using bound unfolding split by (cases rest) (simp_all del: length_drop)
    then have len: "length c = nat (chunk_size n st)" by (simp add: c(1))
    moreover have "chunk_size n st \<noteq> remaining st"
      using len c(3) assms(1) by (auto simp: read_ready_def)
    ultimately have "0 < n" "length c = nat n"
      using assms(1) by (auto simp: chunk_size_def read_ready_def min_def split: if_splits)
    with False show ?thesis by (simp add: chunks_more)
  qed
  then show ?thesis unfolding split unfolding c_def rest_def .
qed

lemma requested_same: "same_media e e' \<Longrightarrow> requested st e' = requested st e"
  by (simp add: requested_def same_media_def)

lemma pump_loop_idle: "read_state e = None \<Longrightarrow> pump_loop n e = (Ok (), e)"
  by (simp add: pump.unfold [of n e] pump_step_def)

lemma pump_loop_reply:
  "read_ready n st e \<Longrightarrow> \<exists>e'. pump_loop n e = (Ok (), e') \<and> read_state e' = None \<and> same_media e e'
     \<and> wire e' = wire e @
         read_reply (rq_device st) (rq_dma st) (nat n) (out_seq e) (requested st e) (remaining st)"
proof (induction "nat (remaining st)" arbitrary: st e rule: less_induct)
  case less
  note r = less.prems
  have le: "int (length (chunk n st e)) \<le> remaining st"
    using r by (auto simp: chunk_def chunk_size_def read_ready_def)
  consider (empty) "chunk n st e = []"
    | (last) "chunk n st e \<noteq> []" "int (length (chunk n st e)) = remaining st"
    | (more) "chunk n st e \<noteq> []" "int (length (chunk n st e)) < remaining st"
    using le by fastforce
  then show ?case
  proof cases
    case empty
    have "requested st e = []"
      using empty r by (auto simp: chunk_def requested_def chunk_size_def read_ready_def split: if_splits)
    then show ?thesis
      using pump_step_empty [OF r empty] r
      by (auto simp: pump.unfold [of n e] pump_loop_idle read_reply_def read_ready_def)
  next
    case last
    have "requested (advance_read st (chunk n st e)) e = []"
      using last by (simp add: requested_def advance_read_def)
    with requested_split [OF r] have eq: "requested st e = chunk n st e" by simp
    have "nat n = 0 \<or> length (chunk n st e) \<le> nat n"
      using r by (auto simp: chunk_def chunk_size_def read_ready_def)
    then show ?thesis
      using pump_step_last [OF r last] last
      by (auto simp: pump.unfold [of n e] pump_loop_idle read_reply_def eq chunks_single)
  next
    case more
    let ?st = "advance_read st (chunk n st e)"
    obtain e1 where e1: "pump_step n e = (Ok True, e1)" "read_ready n ?st e1"
      "wire e1 = wire e @ data_frames (rq_device st) (rq_dma st) False (out_seq e) [chunk n st e]"
      "out_seq e1 = out_seq e + 1" "same_media e e1"
      using pump_step_more [OF r more] by blast
    have dec: "nat (remaining ?st) < nat (remaining st)"
      using more by (simp add: advance_read_def)
    obtain e' where e': "pump_loop n e1 = (Ok (), e')" "read_state e' = None" "same_media e1 e'"
      "wire e' = wire e1 @ read_reply (rq_device ?st) (rq_dma ?st) (nat n) (out_seq e1)
         (requested ?st e1) (remaining ?st)"
      using less.hyps [OF dec e1(2)] by blast
    have flds: "rq_device ?st = rq_device st" "rq_dma ?st = rq_dma st"
      "remaining ?st = remaining st - int (length (chunk n st e))" by (simp_all add: advance_read_def)
    have len: "int (length (requested st e)) < remaining st \<longleftrightarrow>
        int (length (requested ?st e)) < remaining ?st"
      unfolding flds by (subst requested_split [OF r]) auto
    have ne: "\<not> int (length (requested ?st e)) < remaining ?st \<Longrightarrow> requested ?st e \<noteq> []"
      using more flds by auto
    have "data_frames (rq_device st) (rq_dma st) False (out_seq e) [chunk n st e] @
        read_reply (rq_device st) (rq_dma st) (nat n) (out_seq e + 1) (requested ?st e) (remaining ?st)
      = read_reply (rq_device st) (rq_dma st) (nat n) (out_seq e) (requested st e) (remaining st)"
      using ne by (auto simp: read_reply_def len chunks_step [OF r more] add.assoc)
    with e1 e' flds show ?thesis
      by (auto simp: pump.unfold [of n e] requested_same [OF e1(5)] intro: same_media_trans)
  qed
qed

end
