(* ===== verification/Ider_Write.thy ===== *)
theory Ider_Write
  imports Ider_Read
begin

text \<open>
  What a WRITE does.  The host's data arrives in any number of \<^verbatim>\<open>DATA_FROM_HOST\<close> messages;
  \<open>accept_all\<close> runs them one after the other.  \<open>accept_all_write_all\<close> shows that they are
  \<open>write_all\<close> on the backing image, so the contract \<open>block_store\<close> makes them one write of the
  concatenation, answered once, after the last byte.
\<close>

fun accept_all :: "bytes list \<Rightarrow> (IderEngine, unit) action" where
  "accept_all [] = ret ()"
| "accept_all (d # ds) = thenA (accept_data d) (accept_all ds)"

definition write_ok_frame :: "byte \<Rightarrow> 32 word \<Rightarrow> bytes" where
  "write_ok_frame dv s =
     header CMD_COMMAND_END_RESPONSE s True False @ command_end_payload False 0x00 dv 0x00 0x00"

definition refusal_frame :: "byte \<Rightarrow> 32 word \<Rightarrow> byte \<Rightarrow> bytes" where
  "refusal_frame dv s asc =
     header CMD_COMMAND_END_RESPONSE s True False @ command_end_payload False 0x05 dv asc 0x00"

lemma on_image_run: "m (images e r) = (x, i) \<Longrightarrow> on_image r m e = (x, e\<lparr>images := (images e)(r := i)\<rparr>)"
  by (simp add: on_image_def)

lemma then_on_image:
  "m (images e r) = (Ok (), i) \<Longrightarrow> thenA (on_image r m) k e = k (e\<lparr>images := (images e)(r := i)\<rparr>)"
  using thenA_eq_Ok(1) [where m = "on_image r m", OF on_image_run] .

text \<open>One message that fits what is still expected.\<close>

definition pw_offset :: "PendingWrite \<Rightarrow> int" where
  "pw_offset p = pw_byte_offset p + received p"

definition missing :: "PendingWrite \<Rightarrow> int" where
  "missing p = expected_length p - received p"

definition advance_write :: "PendingWrite \<Rightarrow> bytes \<Rightarrow> PendingWrite" where
  "advance_write p d = p\<lparr>received := received p + int (length d)\<rparr>"

lemma advance_write_simps [simp]:
  "pw_image (advance_write p d) = pw_image p" "pw_device (advance_write p d) = pw_device p"
  "pw_offset (advance_write p d) = pw_offset p + int (length d)"
  "missing (advance_write p d) = missing p - int (length d)"
  by (simp_all add: advance_write_def pw_offset_def missing_def)

lemma accept_part:
  assumes "pending_write e = Some p" "int (length d) < missing p"
    and "image_write (pw_offset p) d (images e (pw_image p)) = (Ok (), i)"
  shows "accept_data d e = (Ok (),
    e\<lparr>images := (images e)(pw_image p := i), pending_write := Some (advance_write p d)\<rparr>)"
  using assms
  by (simp add: accept_data_def pw_offset_def missing_def advance_write_def Let_def then_on_image)

lemma accept_last:
  assumes "pending_write e = Some p" "int (length d) = missing p" "link_up e"
    and "image_write (pw_offset p) d (images e (pw_image p)) = (Ok (), i)"
  shows "\<exists>e'. accept_data d e = (Ok (), e') \<and> images e' = (images e)(pw_image p := i)
    \<and> pending_write e' = None \<and> wire e' = wire e @ [write_ok_frame (pw_device p) (out_seq e)]"
proof -
  let ?e = "e\<lparr>images := (images e)(pw_image p := i), pending_write := None\<rparr>"
  have "link_up ?e" using assms(3) by (simp add: link_up_def)
  from send_command_up [OF this] show ?thesis
    using assms
    by (simp add: accept_data_def pw_offset_def missing_def Let_def then_on_image
          send_command_end_response_def write_ok_frame_def)
qed

lemma link_up_update: "link_up (e\<lparr>images := x, pending_write := y\<rparr>) = link_up e"
  by (simp add: link_up_def)

lemma accept_all_write_all:
  "pending_write e = Some p \<Longrightarrow> link_up e \<Longrightarrow> ds \<noteq> [] \<Longrightarrow> [] \<notin> set ds \<Longrightarrow>
   int (length (concat ds)) = missing p \<Longrightarrow>
   write_all image_write (pw_offset p) ds (images e (pw_image p)) = (Ok (), i) \<Longrightarrow>
   \<exists>e'. accept_all ds e = (Ok (), e') \<and> images e' = (images e)(pw_image p := i)
     \<and> pending_write e' = None \<and> wire e' = wire e @ [write_ok_frame (pw_device p) (out_seq e)]"
proof (induction ds arbitrary: e p)
  case Nil
  then show ?case by simp
next
  case (Cons d ds)
  from Cons.prems(6) obtain j where
    j: "image_write (pw_offset p) d (images e (pw_image p)) = (Ok (), j)"
    and rest: "write_all image_write (pw_offset p + int (length d)) ds j = (Ok (), i)"
    by (auto elim: thenA_OkE)
  show ?case
  proof (cases "ds = []")
    case True
    with Cons.prems j rest accept_last [of e p d j] show ?thesis
      by (auto simp: thenA_def bindA_def fun_upd_def)
  next
    case False
    then have "0 < length (concat ds)" using Cons.prems(4) by (cases ds) auto
    with Cons.prems(5) have lt: "int (length d) < missing p" by (simp del: concat_eq_Nil_conv length_greater_0_conv)
    let ?e = "e\<lparr>images := (images e)(pw_image p := j), pending_write := Some (advance_write p d)\<rparr>"
    have "\<exists>e'. accept_all ds ?e = (Ok (), e')
      \<and> images e' = (images ?e)(pw_image (advance_write p d) := i) \<and> pending_write e' = None
      \<and> wire e' = wire ?e @ [write_ok_frame (pw_device (advance_write p d)) (out_seq ?e)]"
      using Cons.prems False rest by (intro Cons.IH) (simp_all add: link_up_update)
    moreover have "accept_all (d # ds) e = accept_all ds ?e"
      by (simp add: thenA_eq_Ok(1) [where m = "accept_data d", OF accept_part [OF Cons.prems(1) lt j]])
    ultimately show ?thesis by auto
  qed
qed

text \<open>
  A WRITE that the engine accepts: the request sets up the pending write, then the data lands at
  the addressed byte offset.
\<close>

lemma write_request_accepted:
  assumes "link_up e" "writable (images e r)" "0 < len" "lba + len \<le> blocks (images e r)"
  shows "\<exists>e'. scsi_write_request DEVICE_FLOPPY (Some r) lba len e = (Ok (), e')
    \<and> pending_write e' = Some \<lparr>pw_device = DEVICE_FLOPPY, pw_image = r,
        pw_byte_offset = 512 * lba, expected_length = 512 * len, received = 0\<rparr>
    \<and> images e' = images e \<and> link_up e' \<and> out_seq e' = out_seq e + 1
    \<and> wire e' = wire e @ [header CMD_GET_DATA_FROM_HOST (out_seq e) False False @
        get_data_payload DEVICE_FLOPPY (512 * len)]"
proof -
  let ?e = "e\<lparr>pending_write := Some \<lparr>pw_device = DEVICE_FLOPPY, pw_image = r,
      pw_byte_offset = 512 * lba, expected_length = 512 * len, received = 0\<rparr>\<rparr>"
  have "push_bit 9 lba = 512 * lba" by (simp add: push_bit_eq_mult)
  moreover have up: "link_up ?e" using assms(1) by (simp add: link_up_def)
  moreover note send_command_up [OF up]
  ultimately show ?thesis
    using assms by (simp add: scsi_write_request_def send_get_data_from_host_def link_up_def)
qed

lemma write_then_content:
  assumes up: "link_up e" and img: "intact (images e r)" "writable (images e r)"
    and rng: "0 < len" "0 \<le> lba" "lba + len \<le> blocks (images e r)"
    and blk: "512 * blocks (images e r) \<le> image_size (images e r)"
    and ds: "ds \<noteq> []" "[] \<notin> set ds" "int (length (concat ds)) = 512 * len"
  shows "\<exists>e'. thenA (scsi_write_request DEVICE_FLOPPY (Some r) lba len) (accept_all ds) e = (Ok (), e')
    \<and> content (images e' r) = splice_at (nat (512 * lba)) (concat ds) (content (images e r))
    \<and> (\<forall>q. q \<noteq> r \<longrightarrow> images e' q = images e q) \<and> pending_write e' = None
    \<and> wire e' = wire e @
        [header CMD_GET_DATA_FROM_HOST (out_seq e) False False @ get_data_payload DEVICE_FLOPPY (512 * len),
         write_ok_frame DEVICE_FLOPPY (out_seq e + 1)]"
proof -
  let ?p = "\<lparr>pw_device = DEVICE_FLOPPY, pw_image = r, pw_byte_offset = 512 * lba,
    expected_length = 512 * len, received = 0\<rparr> :: PendingWrite"
  obtain e1 where e1: "scsi_write_request DEVICE_FLOPPY (Some r) lba len e = (Ok (), e1)"
    "pending_write e1 = Some ?p" "images e1 = images e" "link_up e1" "out_seq e1 = out_seq e + 1"
    "wire e1 = wire e @ [header CMD_GET_DATA_FROM_HOST (out_seq e) False False @
        get_data_payload DEVICE_FLOPPY (512 * len)]"
    using write_request_accepted [OF up img(2) rng(1,3)] by blast
  have "512 * lba + int (length (concat ds)) \<le> int (length (content (images e r)))"
    using img(1) rng blk ds(3) by (simp add: intact_def)
  then obtain i where i: "write_all image_write (512 * lba) ds (images e r) = (Ok (), i)"
    "content i = splice_at (nat (512 * lba)) (concat ds) (content (images e r))"
    using img.write_all_ok [of "images e r" "512 * lba" ds] img rng(2) by auto
  obtain e' where "accept_all ds e1 = (Ok (), e')" "images e' = (images e)(r := i)"
    "pending_write e' = None" "wire e' = wire e1 @ [write_ok_frame DEVICE_FLOPPY (out_seq e1)]"
    using accept_all_write_all [of e1 ?p ds i] e1 ds i(1) by (auto simp: pw_offset_def missing_def)
  with e1 i show ?thesis by (simp add: thenA_def bindA_def)
qed

text \<open>What is refused leaves every image as it is.\<close>

lemma accept_overrun:
  assumes "link_up e" "pending_write e = Some p" "missing p < int (length d)"
  shows "\<exists>e'. accept_data d e = (Ok (), e') \<and> images e' = images e \<and> pending_write e' = None
    \<and> wire e' = wire e @ [refusal_frame (pw_device p) (out_seq e) 0x21]"
proof -
  have up: "link_up (e\<lparr>pending_write := None\<rparr>)" using assms(1) by (simp add: link_up_def)
  from send_command_up [OF this] show ?thesis
    using assms by (simp add: accept_data_def missing_def send_command_end_response_def refusal_frame_def)
qed

lemma accept_unsolicited:
  assumes "link_up e" "pending_write e = None"
  shows "\<exists>e'. accept_data d e = (Ok (), e') \<and> images e' = images e \<and> pending_write e' = None
    \<and> wire e' = wire e @ [refusal_frame DEVICE_FLOPPY (out_seq e) 0x20]"
  using assms send_command_up [OF assms(1)]
  by (simp add: accept_data_def send_command_end_response_def refusal_frame_def)

end
