(* ===== verification/Ider_Answers.thy ===== *)
theory Ider_Answers
  imports Ider_Write
begin

text \<open>
  One answer per command.  \<open>idle\<close> is the state of the engine between messages; \<open>answers S m\<close> says
  that from an idle engine, when \<open>m\<close> returns, the engine is idle again and the frames it sent
  contain a number of completed frames that is in \<open>S\<close>.  One rule per construct lifts it from
  \<^verbatim>\<open>_send_command\<close> to the SCSI dispatcher and to \<open>dispatch\<close>.
\<close>

section \<open>Between messages\<close>

definition idle :: "IderEngine \<Rightarrow> bool" where
  "idle e \<longleftrightarrow> read_state e = None \<and> read_queue e = [] \<and> \<not> reset_pending e \<and> link_up e
     \<and> 0 \<le> readbfr (session_info e)"

text \<open>The bytes of \<open>len\<close> sectors from \<open>lba\<close>, as far as the backing file has them.\<close>

definition extent :: "MediaImage \<Rightarrow> int \<Rightarrow> int \<Rightarrow> bytes" where
  "extent i lba len = take (nat (push_bit (sector_shift i) len))
     (drop (nat (push_bit (sector_shift i) lba)) (content i))"

lemma push_bit_pos: "0 < (n :: int) \<Longrightarrow> 0 < push_bit k n"
  by (simp add: push_bit_eq_mult)

lemma scsi_read_reply:
  assumes "idle e" "\<not> closed (images e r)" "0 \<le> lba" "0 < len" "lba + len \<le> blocks (images e r)"
  shows "\<exists>e'. scsi_read dv (Some r) lba len dma e = (Ok (), e') \<and> read_state e' = None \<and> same_media e e'
    \<and> wire e' = wire e @ read_reply dv dma (nat (readbfr (session_info e))) (out_seq e)
        (extent (images e r) lba len) (push_bit (sector_shift (images e r)) len)"
proof -
  let ?st = "\<lparr>rq_device = dv, rq_image = r, rq_byte_offset = push_bit (sector_shift (images e r)) lba,
    remaining = push_bit (sector_shift (images e r)) len, rq_dma = dma\<rparr>"
  let ?e = "e\<lparr>read_state := Some ?st\<rparr>"
  have "read_ready (readbfr (session_info e)) ?st ?e"
    using assms by (simp add: read_ready_def idle_def link_up_def push_bit_pos push_bit_nonnegative_int_iff)
  from pump_loop_reply [OF this] show ?thesis
    using assms by (simp add: scsi_read_def idle_def Let_def pump_read_def requested_def extent_def same_media_def)
qed


section \<open>Counting completed frames\<close>

definition completed_count :: "bytes list \<Rightarrow> nat" where
  "completed_count fs = length (filter frame_completed fs)"

definition answers :: "nat set \<Rightarrow> (IderEngine, 'a) action \<Rightarrow> bool" where
  "answers S m \<longleftrightarrow> (\<forall>e x e'. idle e \<longrightarrow> m e = (Ok x, e') \<longrightarrow>
     idle e' \<and> (\<exists>fs. wire e' = wire e @ fs \<and> completed_count fs \<in> S))"

named_theorems answers_intros \<open>rules that count the completed frames of an action\<close>

lemma answersD:
  "answers S m \<Longrightarrow> idle e \<Longrightarrow> m e = (Ok x, e') \<Longrightarrow>
     idle e' \<and> (\<exists>fs. wire e' = wire e @ fs \<and> completed_count fs \<in> S)"
  by (auto simp: answers_def)

lemma answers_mono: "answers S m \<Longrightarrow> S \<subseteq> T \<Longrightarrow> answers T m"
  by (fastforce simp: answers_def)

lemma answers_throw [answers_intros]: "answers S (throw x)"
  by (simp add: answers_def)

lemma answers_ret: "0 \<in> S \<Longrightarrow> answers S (ret x)"
  by (auto simp: answers_def completed_count_def)

lemma answers_liftA [answers_intros]: "(\<And>x. answers S (k x)) \<Longrightarrow> answers S (bindA (liftA r) k)"
  by (cases r) (simp_all add: answers_throw)

lemma answers_gets [answers_intros]: "(\<And>x. answers S (k x)) \<Longrightarrow> answers S (bindA (gets g) k)"
  by (simp add: answers_def)

lemma answers_if [answers_intros]:
  "(b \<Longrightarrow> answers S m) \<Longrightarrow> (\<not> b \<Longrightarrow> answers S n) \<Longrightarrow> answers S (if b then m else n)"
  by simp

lemma answers_option [answers_intros]:
  "(x = None \<Longrightarrow> answers S m) \<Longrightarrow> (\<And>y. x = Some y \<Longrightarrow> answers S (k y)) \<Longrightarrow>
     answers S (case x of None \<Rightarrow> m | Some y \<Rightarrow> k y)"
  by (cases x) auto

text \<open>Steps that send nothing and keep the engine idle may come first.\<close>

definition quiet :: "(IderEngine, 'a) action \<Rightarrow> bool" where
  "quiet m \<longleftrightarrow> (\<forall>e x e'. idle e \<longrightarrow> m e = (Ok x, e') \<longrightarrow> idle e' \<and> wire e' = wire e)"

lemma quietD: "quiet m \<Longrightarrow> idle e \<Longrightarrow> m e = (Ok x, e') \<Longrightarrow> idle e' \<and> wire e' = wire e"
  unfolding quiet_def by blast

lemma answersI:
  "(\<And>e x e'. idle e \<Longrightarrow> m e = (Ok x, e') \<Longrightarrow>
     idle e' \<and> (\<exists>fs. wire e' = wire e @ fs \<and> completed_count fs \<in> S)) \<Longrightarrow> answers S m"
  unfolding answers_def by blast

lemma answers_quiet_bind:
  assumes "quiet m" "\<And>x. answers S (k x)"
  shows "answers S (bindA m k)"
proof (rule answersI)
  fix e y e' assume e: "idle e" "bindA m k e = (Ok y, e')"
  from e(2) obtain x e1 where e1: "m e = (Ok x, e1)" "k x e1 = (Ok y, e')" by (rule bindA_OkE)
  from quietD [OF assms(1) e(1) e1(1)] answersD [OF assms(2) _ e1(2)]
  show "idle e' \<and> (\<exists>fs. wire e' = wire e @ fs \<and> completed_count fs \<in> S)" by simp
qed

lemma answers_quiet_then: "quiet m \<Longrightarrow> answers S n \<Longrightarrow> answers S (thenA m n)"
  unfolding thenA_def by (rule answers_quiet_bind)

lemma answers_quiet:
  assumes "quiet m" "0 \<in> S"
  shows "answers S m"
proof (rule answersI)
  fix e x e' assume "idle e" "m e = (Ok x, e')"
  from quietD [OF assms(1) this] assms(2)
  show "idle e' \<and> (\<exists>fs. wire e' = wire e @ fs \<and> completed_count fs \<in> S)"
    by (intro conjI exI [of _ "[]"]) (simp_all add: completed_count_def)
qed

lemma quiet_on_image: "quiet (on_image r m)"
  by (auto simp: quiet_def idle_def link_up_def on_image_def split: prod.splits)

lemma quiet_updates:
  "quiet (modify (\<lambda>e. e\<lparr>pending_write := pw\<rparr>))" "quiet (modify (\<lambda>e. e\<lparr>stopped := True\<rparr>))"
  "quiet (modify (\<lambda>e. e\<lparr>enabled := b\<rparr>))" "quiet (modify (\<lambda>e. e\<lparr>feature_toggle_ok := ft\<rparr>))"
  "quiet (modify (\<lambda>e. e\<lparr>errors_seen := errors_seen e @ [n]\<rparr>))"
  "0 \<le> readbfr info \<Longrightarrow> quiet (modify (\<lambda>e. e\<lparr>session_info := info, session_open := True\<rparr>))"
  by (simp_all add: quiet_def idle_def link_up_def)

lemma answers_send:
  assumes "(if co \<and> c > 50 then 1 else 0) \<in> S"
  shows "answers S (send_command c p (co \<and> c > 50) d)"
proof -
  have "idle (sent c p (co \<and> c > 50) d e) \<and>
      (\<exists>fs. wire (sent c p (co \<and> c > 50) d e) = wire e @ fs \<and> completed_count fs \<in> S)" if "idle e" for e
  proof -
    have "frame_completed (header c (out_seq e) (co \<and> c > 50) d @ p) = (co \<and> c > 50)"
      by (cases "c > 50") (auto simp: frame_completed_def header_def header_attributes_def Let_def)
    with that assms show ?thesis by (auto simp: idle_def completed_count_def)
  qed
  then show ?thesis by (auto simp: answers_def send_command_up idle_def)
qed

lemma sends_completed [answers_intros]:
  "1 \<in> S \<Longrightarrow> answers S (send_command_end_response er s dv a q)"
  "1 \<in> S \<Longrightarrow> answers S (send_data_to_host dv True b dm)"
  using answers_send [of True CMD_COMMAND_END_RESPONSE S] answers_send [of True CMD_DATA_TO_HOST S]
  by (simp_all add: send_command_end_response_def send_data_to_host_def cmd_defs word_less_nat_alt)

lemma sends_other:
  "0 \<in> S \<Longrightarrow> answers S (send_command c p False d)"
  "0 \<in> S \<Longrightarrow> answers S (send_get_data_from_host dv n)"
  "0 \<in> S \<Longrightarrow> answers S (send_disable_enable_features t p)"
  using answers_send [of False _ S]
  by (simp_all add: send_get_data_from_host_def send_disable_enable_features_def)

section \<open>READ is answered once\<close>

lemma completed_count_append [simp]: "completed_count (xs @ ys) = completed_count xs + completed_count ys"
  by (simp add: completed_count_def)

lemma completed_count_map: "completed_count fs = length (filter id (map frame_completed fs))"
  by (simp add: completed_count_def filter_map comp_def)

lemma completed_data_frames:
  "completed_count (data_frames dv dma fin s ds) = (if fin \<and> ds \<noteq> [] then 1 else 0)"
  by (simp add: completed_count_map data_frames_completed)

lemma completed_medium_error: "completed_count [medium_error_frame dv s] = 1"
  by (simp add: completed_count_def medium_error_frame_def CMD_COMMAND_END_RESPONSE_def word_less_nat_alt)

lemma completed_read_reply: "0 < len \<Longrightarrow> completed_count (read_reply dv dma n s want len) = 1"
  by (auto simp: read_reply_def completed_data_frames completed_medium_error)

text \<open>A read on a closed handle or at a negative address raises.\<close>

lemma scsi_read_raises:
  assumes "idle e" "closed (images e r) \<or> lba < 0" "0 < len" "lba + len \<le> blocks (images e r)"
  shows "\<exists>x e'. scsi_read dv (Some r) lba len dma e = (Raise x, e')"
proof -
  let ?st = "\<lparr>rq_device = dv, rq_image = r, rq_byte_offset = push_bit (sector_shift (images e r)) lba,
    remaining = push_bit (sector_shift (images e r)) len, rq_dma = dma\<rparr>"
  let ?e = "e\<lparr>read_state := Some ?st\<rparr>"
  have neg: "lba < 0 \<Longrightarrow> push_bit (sector_shift (images e r)) lba < 0"
    by (simp add: push_bit_negative_int_iff)
  obtain x e1 where "on_image r (image_read (push_bit (sector_shift (images e r)) lba) n) ?e = (Raise x, e1)" for n
    using assms(2) neg by (cases "closed (images e r)") (auto simp: on_image_def image_read_def)
  then have "pump_step (readbfr (session_info e)) ?e = (Raise x, e1)"
    by (simp add: pump_step_def pump_chunk_def bindA_def gets_def)
  then show ?thesis
    using assms by (simp add: scsi_read_def idle_def Let_def pump_read_def pump.unfold [of _ ?e])
qed

lemma answers_read [answers_intros]:
  assumes "1 \<in> S"
  shows "answers S (scsi_read dv img lba len dma)"
proof (rule answersI)
  fix e x e' assume e: "idle e" "scsi_read dv img lba len dma e = (Ok x, e')"
  show "idle e' \<and> (\<exists>fs. wire e' = wire e @ fs \<and> completed_count fs \<in> S)"
  proof (cases "\<exists>r. img = Some r \<and> 0 < len \<and> lba + len \<le> blocks (images e r)")
    case False
    with e have "\<exists>er s a q. send_command_end_response er s dv a q e = (Ok x, e')"
      by (auto simp: scsi_read_def split: option.splits if_splits)
    with answersD [OF sends_completed(1) [OF assms] e(1)] show ?thesis by blast
  next
    case True
    then obtain r where r: "img = Some r" "0 < len" "lba + len \<le> blocks (images e r)" by blast
    have "\<not> (closed (images e r) \<or> lba < 0)"
      using scsi_read_raises [OF e(1) _ r(2,3), of dv dma] e(2) r(1) by auto
    then have "read_state e' = None" "same_media e e'" "\<exists>fs. wire e' = wire e @ fs \<and> completed_count fs = 1"
      using scsi_read_reply [OF e(1) _ _ r(2,3), of dv dma] e(2) r(1) completed_read_reply push_bit_pos [OF r(2)]
      by auto
    then show ?thesis using assms e(1) by (auto simp: idle_def link_up_def same_media_def)
  qed
qed

section \<open>The handlers\<close>

lemma answers_thenI: "quiet m \<Longrightarrow> answers S n \<Longrightarrow> answers S (thenA m n)"
  by (rule answers_quiet_then)

lemmas answers_steps = answers_thenI answers_read quiet_on_image quiet_updates

lemma answers_cdb [answers_intros]:
  "(\<And>x. answers S (k x)) \<Longrightarrow> answers S (bindA (cdb_at b n) k)"
  "(\<And>x y. answers S (h x y)) \<Longrightarrow> answers S (with_cdb6 b h)"
  "(\<And>x y. answers S (h x y)) \<Longrightarrow> answers S (with_cdb10 b h)"
  unfolding cdb_at_def with_cdb6_def with_cdb10_def by (intro answers_intros; assumption?)+

lemma answers_bind_if [answers_intros]:
  "answers S (bindA m k) \<Longrightarrow> answers S (bindA n k) \<Longrightarrow> answers S (bindA (if b then m else n) k)"
  by simp

lemma answers_bind_option [answers_intros]:
  "answers S (bindA m k) \<Longrightarrow> (\<And>y. answers S (bindA (h y) k)) \<Longrightarrow>
     answers S (bindA (case x of None \<Rightarrow> m | Some y \<Rightarrow> h y) k)"
  by (cases x) auto

lemma answers_bind_assoc:
  "answers S (bindA m (\<lambda>x. bindA (k x) l)) \<Longrightarrow> answers S (bindA (bindA m k) l)"
  by simp

lemma answers_bind_ret [answers_intros]: "answers S (k x) \<Longrightarrow> answers S (bindA (ret x) k)"
  by simp

lemma answers_pack_be2 [answers_intros]: "(\<And>x. answers S (k x)) \<Longrightarrow> answers S (bindA (pack_be2 a b) k)"
  unfolding pack_be2_def bindA_assoc by (intro answers_intros)

lemmas answers_parts = answers_intros answers_bind_assoc answers_steps

lemma answers_replies:
  assumes "1 \<in> S"
  shows "answers S (scsi_test_unit_ready dv img)" "answers S (scsi_mode_sense_6 dv img b dma)"
    "answers S (scsi_read_format_capacities dv img dma)" "answers S (scsi_read_capacity dv img fl dma)"
    "answers S (scsi_get_configuration dv b dma)" "answers S (scsi_get_event_status dv img b dma)"
    "answers S (scsi_mode_sense_10 dv img b dma)"
  unfolding scsi_test_unit_ready_def scsi_mode_sense_6_def scsi_read_format_capacities_def
    scsi_read_capacity_def scsi_get_configuration_def scsi_get_event_status_def
    scsi_mode_sense_10_def Let_def
  by (intro answers_parts assms)+

lemma answers_toc: "{0, 1} \<subseteq> S \<Longrightarrow> answers S (scsi_read_toc dv b dma)"
  unfolding scsi_read_toc_def Let_def by (intro answers_parts answers_ret) auto

lemma answers_write: "{0, 1} \<subseteq> S \<Longrightarrow> answers S (scsi_write_request dv img lba len)"
  unfolding scsi_write_request_def by (intro answers_parts sends_other) auto

lemma answers_handle_scsi:
  assumes "1 \<in> S" and "cdb = [] \<or> hd cdb \<notin> {0x0A, 0x2A, 0x2E, 0x43} \<or> 0 \<in> S"
  shows "answers S (handle_scsi dv cdb fr fl)"
proof (cases cdb)
  case Nil
  then show ?thesis
    by (simp add: handle_scsi_def cdb_at_def idx_def answers_gets answers_throw Let_def)
next
  case (Cons op rest)
  then have zero: "op \<in> {0x0A, 0x2A, 0x2E, 0x43} \<Longrightarrow> 0 \<in> S" using assms(2) by auto
  have at: "cdb_at cdb 0 = ret op" by (simp add: cdb_at_def Cons liftA_def ret_def)
  have w: "op = 0x0A \<or> op = 0x2A \<or> op = 0x2E \<Longrightarrow> answers S (scsi_write_request d i lba len)" for d i lba len
    using zero assms(1) by (intro answers_write) auto
  have t: "op = 0x43 \<Longrightarrow> answers S (scsi_read_toc d b dma)" for d b dma
    using zero assms(1) by (intro answers_toc) auto
  show ?thesis
    unfolding handle_scsi_def Let_def at bindA_ret
    by (intro answers_gets answers_if answers_option answers_cdb answers_replies answers_read
          sends_completed w t assms(1)) simp_all
qed

lemma answers_accept_data: "{0, 1} \<subseteq> S \<Longrightarrow> answers S (accept_data data)"
  unfolding accept_data_def Let_def
  by (intro answers_parts answers_quiet) auto

lemma answers_session:
  assumes "{0, 1} \<subseteq> S"
  shows "answers S send_feature_toggle" "answers S (on_status_data m)" "answers S (on_error_occurred m)"
    "answers S (on_open_session_reply m)"
proof -
  show tog: "answers S send_feature_toggle"
    unfolding send_feature_toggle_def using assms by (intro answers_parts sends_other) auto
  show "answers S (on_status_data m)" "answers S (on_error_occurred m)"
    unfolding on_status_data_def on_error_occurred_def using assms
    by (intro answers_parts tog answers_ret answers_quiet; auto)+
  show "answers S (on_open_session_reply m)"
  proof (cases "unpack_le 2 m 16")
    case (Ok r)
    then have "0 \<le> r" using le_int_bounds by (auto simp: unpack_le_def split: if_splits)
    then show ?thesis
      unfolding on_open_session_reply_def parse_open_session_reply_def bindA_assoc Ok bindA_liftA_Ok bindA_ret
      by (intro answers_parts tog) auto
  next
    case (Raise x)
    show ?thesis
      unfolding on_open_session_reply_def parse_open_session_reply_def bindA_assoc Raise bindA_liftA_Raise
      by (intro answers_parts) (simp_all add: answers_throw)
  qed
qed

lemma answers_reset:
  assumes "0 \<in> S"
  shows "answers S on_reset_occurred"
proof (rule answersI)
  fix e x e' assume e: "idle e" "on_reset_occurred e = (Ok x, e')"
  then have "send_command CMD_RESET_OCCURRED_RESPONSE [] False False e = (Ok x, e')"
    by (simp add: on_reset_occurred_def idle_def)
  then show "idle e' \<and> (\<exists>fs. wire e' = wire e @ fs \<and> completed_count fs \<in> S)"
    by (rule answersD [OF sends_other(1) [OF assms] e(1)])
qed

lemma answers_dispatch: "answers {0, 1} (dispatch m)"
  unfolding dispatch_def on_command_written_def on_data_from_host_def
  by (intro answers_liftA answers_if answers_session answers_reset answers_handle_scsi
        answers_accept_data answers_ret sends_other answers_quiet quiet_updates) auto

end
