(* ===== verification/Ider_Properties.thy ===== *)
theory Ider_Properties
  imports Ider_Answers
begin

text \<open>
  The properties of the IDE-R engine, with the concrete engine (\<open>demo\<close>: a four-sector writable
  floppy on a transport that accepts every frame) their witnesses run on.
\<close>

section \<open>A concrete engine\<close>

definition demo_fs :: "bytes \<Rightarrow> filesystem" where
  "demo_fs c = \<lparr>fs_is_symlink = (\<lambda>_. False), fs_resolve = Some, fs_content = (\<lambda>_. c),
     fs_can_open = (\<lambda>_ _. True)\<rparr>"

definition demo_image :: "byte \<Rightarrow> bool \<Rightarrow> nat \<Rightarrow> MediaImage" where
  "demo_image dv wr sectors = \<lparr>image_path = [''img''], device_code = dv,
     sector_shift = 9, image_size = int (512 * sectors), blocks = int sectors, writable = wr,
     bytes_read = 0, bytes_written = 0, media_change_reported = False,
     content = replicate (512 * sectors) 7, closed = False\<rparr>"

definition demo :: IderEngine where
  "demo = snd (attach_device 0 (new_engine (\<lambda>_ _. None) START_MODE_ON_REBOOT 30000 0 20000
     (\<lambda>_. demo_image DEVICE_FLOPPY True 4)))"

lemma demo_image_simps [simp]:
  "writable (demo_image dv wr n) = wr" "blocks (demo_image dv wr n) = int n"
  "image_size (demo_image dv wr n) = int (512 * n)" "sector_shift (demo_image dv wr n) = 9"
  "content (demo_image dv wr n) = replicate (512 * n) 7" "closed (demo_image dv wr n) = False"
  "intact (demo_image dv wr n)"
  by (simp_all add: demo_image_def intact_def)

lemma demo_simps [simp]:
  "images demo r = demo_image DEVICE_FLOPPY True 4" "link_up demo" "wire_ok demo"
  "in_seq demo = 0" "out_seq demo = 0" "wire demo = []" "buf demo = []" "\<not> stopped demo"
  "read_state demo = None" "read_queue demo = []" "\<not> reset_pending demo" "pending_write demo = None"
  "session_info demo = default_session_info" "bytes_from_amt demo = 0"
  by (simp_all add: demo_def attach_device_def new_engine_def link_up_def wire_ok_def)

section \<open>Inbound framing\<close>

definition ping :: "32 word \<Rightarrow> bytes" where
  "ping s = header CMD_KEEPALIVE_PING s False False"

lemma frame_length_ping: "frame_length (ping s @ c) = Ok (Some 8)"
  by (simp add: ping_def header_def frame_length_def idx_def FIXED_LENGTH_COMMANDS_def cmd_defs)

lemma dispatch_ping:
  "link_up e \<Longrightarrow> dispatch (ping s) e = (Ok (), sent CMD_KEEPALIVE_PONG [] False False e)"
  by (simp add: dispatch_def ping_def header_def cmd_defs send_command_up)

lemma feed_loop_short: "length (buf e) < 8 \<Longrightarrow> feed_loop e = (Ok (), e)"
  by (simp add: stream.unfold [of e] feed_step_def)

lemma feed_ping:
  assumes "link_up e" "\<not> stopped e" "buf e = []" "in_seq e = s"
  shows "\<exists>e'. feed (ping s) e = (Ok (), e') \<and> link_up e' \<and> \<not> stopped e' \<and> buf e' = [] \<and> in_seq e' = s + 1"
proof -
  let ?e = "e\<lparr>bytes_from_amt := bytes_from_amt e + int (length (ping s)), buf := ping s\<rparr>"
  have fl: "frame_length (ping s) = Ok (Some (length (ping s)))"
    using frame_length_ping [of s "[]"] by (simp add: ping_def)
  have fs: "frame_seq (ping s) = uint s"
    using frame_seq_header [of _ s _ _ "[]"] by (simp add: ping_def)
  let ?e1 = "?e\<lparr>in_seq := in_seq e + 1, buf := []\<rparr>"
  have up: "link_up ?e1" using assms(1) by (simp add: link_up_def)
  have "feed_step ?e = (Ok True, sent CMD_KEEPALIVE_PONG [] False False ?e1)"
    using feed_step_message [of "ping s" ?e "[]"] fl fs assms dispatch_ping [OF up] by simp
  moreover have "feed_loop (sent CMD_KEEPALIVE_PONG [] False False ?e1)
      = (Ok (), sent CMD_KEEPALIVE_PONG [] False False ?e1)"
    by (intro feed_loop_short) (simp add: sent_def)
  ultimately show ?thesis
    using assms up by (simp add: feed_def stream.unfold [of ?e]) (simp add: sent_def link_up_def)
qed

text \<open>
  C1: How TCP cuts the stream does not matter: if a session fed chunk by chunk is still running
  afterwards, feeding it all chunks as one buffer ends in exactly the same state, outbound
  frames, images and counters included.
\<close>

theorem feed_chunking:
  assumes "feed_chunks (c # cs) e = (Ok (), e')" and "\<not> stopped e'"
  shows "feed (concat (c # cs)) e = (Ok (), e')"
  using assms by (rule feed_chunks_concat)

theorem feed_chunking_witness:
  "\<exists>e'. feed_chunks [take 3 (ping 0), drop 3 (ping 0)] demo = (Ok (), e') \<and>
     feed (ping 0) demo = (Ok (), e')"
proof -
  obtain e' where e': "feed (ping 0) demo = (Ok (), e')" "\<not> stopped e'"
    using feed_ping [of demo 0] by auto
  let ?e1 = "demo\<lparr>bytes_from_amt := 3, buf := take 3 (ping 0)\<rparr>"
  have e1: "feed (take 3 (ping 0)) demo = (Ok (), ?e1)"
    by (simp add: feed_def ping_def header_def feed_loop_short)
  then have "feed (take 3 (ping 0) @ drop 3 (ping 0)) demo = feed (drop 3 (ping 0)) ?e1"
    by (rule feed_append) simp
  with e' have "feed (drop 3 (ping 0)) ?e1 = (Ok (), e')" by simp
  with e1 have c: "feed_chunks [take 3 (ping 0), drop 3 (ping 0)] demo = (Ok (), e')"
    by (simp add: thenA_def bindA_def)
  with feed_chunking [OF c e'(2)] show ?thesis by auto
qed



text \<open>
  A stream out of step ends the session: when the buffered bytes start with an unknown
  command, or with a complete message whose sequence number is not the expected one, \<^verbatim>\<open>feed\<close>
  raises a protocol error having dispatched nothing (no frame sent, no image touched), marks the
  session stopped and drops the buffer; every later call raises and changes nothing.
\<close>

lemma feed_out_of_step:
  fixes e data
  defines "b \<equiv> buf e @ data"
    and "e' \<equiv> e\<lparr>bytes_from_amt := bytes_from_amt e + int (length data), stopped := True, buf := []\<rparr>"
  assumes "\<not> stopped e" and "8 \<le> length b"
    and "frame_length b = Raise ProtocolError \<or>
         (\<exists>n \<le> length b. frame_length b = Ok (Some n) \<and> frame_seq b \<noteq> uint (in_seq e))"
  shows "feed data e = (Raise ProtocolError, e') \<and> feed later e' = (Raise ProtocolError, e')"
proof -
  let ?e = "e\<lparr>bytes_from_amt := bytes_from_amt e + int (length data), buf := b\<rparr>"
  have upd: "?e\<lparr>stopped := True, buf := []\<rparr> = e'"
    unfolding e'_def by (rule IderEngine.equality) simp_all
  have "feed_step ?e = (Raise ProtocolError, e')"
  proof (cases "frame_length b = Raise ProtocolError")
    case True
    then show ?thesis
      using assms(4) upd
      by (simp add: feed_step_def peek_length_def tear_down_def bindA_def thenA_def throw_def modify_def gets_def)
  next
    case False
    with assms(5) obtain n where n: "n \<le> length b" "frame_length b = Ok (Some n)"
      "frame_seq b \<noteq> uint (in_seq e)" by blast
    have pk: "peek_length ?e = (Ok (Some n), ?e)" using n(2) by (simp add: peek_length_Ok)
    have "le_int (take 4 (drop 4 b)) \<noteq> uint (in_seq e)"
      using n(3) by (simp add: frame_seq_def slice_def)
    then show ?thesis
      using assms(4) n upd
      by (simp add: feed_step_def bindA_eq_Ok(1) [where m = peek_length, OF pk] take_message_eq)
  qed
  then have "feed data e = (Raise ProtocolError, e')"
    using assms(3) by (simp add: feed_def b_def stream.unfold [of "e\<lparr>bytes_from_amt := _, buf := _\<rparr>"])
  then show ?thesis by (simp add: feed_def e'_def)
qed

section \<open>Outbound frames\<close>



section \<open>Media\<close>

text \<open>
  C4: No stream of messages, well-formed or not, changes the content of a read-only image or the
  size of any backing file, nor an image's identity, geometry or write permission.
\<close>

theorem media_untouched:
  fixes e cs
  defines "e' \<equiv> snd (feed_chunks cs e)"
  shows "(\<not> writable (images e r) \<longrightarrow> content (images e' r) = content (images e r))
    \<and> (intact (images e r) \<longrightarrow> intact (images e' r))
    \<and> image_path (images e' r) = image_path (images e r)
    \<and> image_size (images e' r) = image_size (images e r) \<and> blocks (images e' r) = blocks (images e r)
    \<and> writable (images e' r) = writable (images e r)"
  using media_stream.feed_chunks [of cs]
  by (auto simp: keeps_def media_safe_def image_step_def e'_def intact_def)

theorem media_untouched_witness:
  "intact (images (snd (feed_chunks [ping 0, ping 7] demo)) 0)"
  using media_untouched [where e = demo and r = 0 and cs = "[ping 0, ping 7]"] by simp

section \<open>READ\<close>

text \<open>
  C5: A READ of sectors the image has is answered with the sectors' bytes and nothing else:
  \<^verbatim>\<open>DATA_TO_HOST\<close> frames whose data concatenate to exactly the addressed bytes, each at most the
  negotiated read buffer, with the last and only the last marked completed; the image content is
  unchanged.
\<close>

theorem read_answers_extent:
  assumes "idle e" "intact (images e r)" "0 \<le> lba" "0 < len" "lba + len \<le> blocks (images e r)"
    and "push_bit (sector_shift (images e r)) (blocks (images e r)) \<le> image_size (images e r)"
  shows "\<exists>e' fs. scsi_read dv (Some r) lba len dma e = (Ok (), e') \<and> wire e' = wire e @ fs
    \<and> concat (map frame_data fs) = extent (images e r) lba len
    \<and> int (length (extent (images e r) lba len)) = push_bit (sector_shift (images e r)) len
    \<and> (\<forall>f \<in> set fs. frame_cmd f = CMD_DATA_TO_HOST
         \<and> (readbfr (session_info e) \<noteq> 0 \<longrightarrow> int (length (frame_data f)) \<le> readbfr (session_info e)))
    \<and> map frame_completed fs = replicate (length fs - 1) False @ [True]
    \<and> content (images e' r) = content (images e r)"
proof -
  let ?i = "images e r" and ?n = "nat (readbfr (session_info e))"
  let ?x = "extent ?i lba len"
  have k: "0 < (2 :: int) ^ sector_shift ?i" by simp
  have "push_bit (sector_shift ?i) lba + push_bit (sector_shift ?i) len
      \<le> push_bit (sector_shift ?i) (blocks ?i)"
    using assms(5) k by (simp add: push_bit_eq_mult distrib_right [symmetric])
  then have bound: "push_bit (sector_shift ?i) lba + push_bit (sector_shift ?i) len \<le> int (length (content ?i))"
    using assms(2,6) by (simp add: intact_def)
  have nn: "0 \<le> push_bit (sector_shift ?i) lba" "0 < push_bit (sector_shift ?i) len"
    using assms(3,4) by (simp_all add: push_bit_nonnegative_int_iff push_bit_pos)
  have len: "int (length ?x) = push_bit (sector_shift ?i) len"
    unfolding extent_def length_take length_drop using bound nn by linarith
  then have ne: "?x \<noteq> []" using nn by auto
  obtain e' where e': "scsi_read dv (Some r) lba len dma e = (Ok (), e')" "same_media e e'"
    "wire e' = wire e @ data_frames dv dma True (out_seq e) (chunks ?n ?x)"
    using scsi_read_reply [OF assms(1) _ assms(3-5), of dv dma] assms(2) len
    by (auto simp: intact_def read_reply_def)
  have bnd: "readbfr (session_info e) \<noteq> 0 \<longrightarrow> int (length (frame_data f)) \<le> readbfr (session_info e)"
    if "f \<in> set (data_frames dv dma True (out_seq e) (chunks ?n ?x))" for f
  proof -
    have "frame_data f \<in> set (map frame_data (data_frames dv dma True (out_seq e) (chunks ?n ?x)))"
      using that by simp
    then have "frame_data f \<in> set (chunks ?n ?x)" by (simp only: data_frames_data)
    with chunks_bound [of ?n] assms(1) show ?thesis by (fastforce simp: idle_def)
  qed
  show ?thesis
    using e' len ne bnd
    by (auto simp: concat_data_frames data_frames_cmd data_frames_completed same_media_def)
qed

theorem read_answers_extent_witness:
  "\<exists>e' fs. scsi_read DEVICE_FLOPPY (Some 0) 1 2 False demo = (Ok (), e') \<and> wire e' = fs
     \<and> concat (map frame_data fs) = extent (demo_image DEVICE_FLOPPY True 4) 1 2"
  using read_answers_extent [of demo 0 1 2 DEVICE_FLOPPY False]
  by (auto simp: idle_def push_bit_eq_mult default_session_info_def)

text \<open>
  A READ never completes with missing data: if the backing file has become too short for the
  addressed sectors, the bytes that are there go out in frames none of which is marked completed,
  and the transfer ends with one MEDIUM ERROR (sense 0x03, code 0x11) frame.
\<close>

lemma short_read_fails:
  assumes "idle e" "\<not> closed (images e r)" "0 \<le> lba" "0 < len" "lba + len \<le> blocks (images e r)"
    and "int (length (extent (images e r) lba len)) < push_bit (sector_shift (images e r)) len"
  shows "\<exists>e' fs s. scsi_read dv (Some r) lba len dma e = (Ok (), e')
    \<and> wire e' = wire e @ fs @ [medium_error_frame dv s]
    \<and> (\<forall>f \<in> set fs. frame_cmd f = CMD_DATA_TO_HOST \<and> \<not> frame_completed f)
    \<and> concat (map frame_data fs) = extent (images e r) lba len"
proof -
  let ?fs = "data_frames dv dma False (out_seq e) (chunks (nat (readbfr (session_info e)))
    (extent (images e r) lba len))"
  have "frame_completed f = False" if "f \<in> set ?fs" for f
  proof -
    from that have "frame_completed f \<in> set (map frame_completed ?fs)" by simp
    then show ?thesis by (simp only: data_frames_completed) (auto split: if_splits)
  qed
  with scsi_read_reply [OF assms(1-5), of dv dma] assms(6) show ?thesis
    by (force simp: read_reply_def concat_data_frames data_frames_cmd)
qed

definition truncated :: IderEngine where
  "truncated = demo\<lparr>images := (\<lambda>r. (images demo r)\<lparr>content := replicate 600 7\<rparr>)\<rparr>"

section \<open>WRITE\<close>

text \<open>
  C6: A WRITE lands exactly where it was addressed, however the host's data is cut into messages:
  the engine asks for the data once, the image content becomes the old one with the concatenated
  data spliced in at byte 512 * lba, no other image changes, and success is reported once, after
  the last message.
\<close>

theorem write_lands:
  assumes "link_up e" "intact (images e r)" "writable (images e r)"
    and "0 < len" "0 \<le> lba" "lba + len \<le> blocks (images e r)"
    and "512 * blocks (images e r) \<le> image_size (images e r)"
    and "ds \<noteq> []" "[] \<notin> set ds" "int (length (concat ds)) = 512 * len"
  shows "\<exists>e'. thenA (scsi_write_request DEVICE_FLOPPY (Some r) lba len) (accept_all ds) e = (Ok (), e')
    \<and> content (images e' r) = splice_at (nat (512 * lba)) (concat ds) (content (images e r))
    \<and> (\<forall>q. q \<noteq> r \<longrightarrow> images e' q = images e q) \<and> pending_write e' = None
    \<and> wire e' = wire e @
        [header CMD_GET_DATA_FROM_HOST (out_seq e) False False @ get_data_payload DEVICE_FLOPPY (512 * len),
         write_ok_frame DEVICE_FLOPPY (out_seq e + 1)]"
  using assms by (rule write_then_content)

theorem write_lands_witness:
  "\<exists>e'. thenA (scsi_write_request DEVICE_FLOPPY (Some 0) 2 1)
      (accept_all [replicate 500 1, replicate 12 2]) demo = (Ok (), e')
    \<and> content (images e' 0) = splice_at 1024 (replicate 500 1 @ replicate 12 2) (replicate 2048 7)"
  using write_lands [of demo 0 1 2 "[replicate 500 1, replicate 12 2]"] by auto

text \<open>
  C7: Data the host was not asked for is never written: a message longer than what the pending
  WRITE still expects, or one that arrives with no WRITE pending, leaves every image as it is,
  clears the pending write and is answered with one ILLEGAL REQUEST frame.
\<close>

theorem unexpected_data_refused:
  assumes "link_up e"
    and "case pending_write e of None \<Rightarrow> True | Some p \<Rightarrow> missing p < int (length data)"
  shows "\<exists>e' dv asc. accept_data data e = (Ok (), e') \<and> images e' = images e \<and> pending_write e' = None
    \<and> wire e' = wire e @ [refusal_frame dv (out_seq e) asc]"
  using assms accept_overrun [of e] accept_unsolicited [of e] by (fastforce split: option.splits)

theorem unexpected_data_refused_witness:
  "\<exists>e'. accept_data [1, 2, 3] demo = (Ok (), e') \<and> images e' = images demo"
  using unexpected_data_refused [of demo "[1, 2, 3]"] by auto

text \<open>
  C8: No WRITE reaches a read-only image or the optical drive: the request is answered with
  exactly one completed frame, no data is asked for, and neither the pending write nor any image
  changes.
\<close>

theorem write_protected:
  assumes "link_up e" and "dv \<noteq> DEVICE_FLOPPY \<or> img = None \<or> (\<exists>r. img = Some r \<and> \<not> writable (images e r))"
  shows "\<exists>e' p. scsi_write_request dv img lba len e = (Ok (), e') \<and> images e' = images e
    \<and> pending_write e' = pending_write e
    \<and> wire e' = wire e @ [header CMD_COMMAND_END_RESPONSE (out_seq e) True False @ p]"
  using assms
  by (auto simp: scsi_write_request_def send_command_end_response_def send_command_up split: option.splits)

theorem write_protected_witness:
  "\<exists>e' p. scsi_write_request DEVICE_CDROM (Some 0) 0 1 demo = (Ok (), e') \<and> images e' = images demo"
  using write_protected [of demo DEVICE_CDROM "Some 0" 0 1] by auto

section \<open>Opening an image\<close>

text \<open>
  C9: An image that opens is safe to serve: a floppy or a CD, the CD never writable, the path
  not a symbolic link and inside the allowed directory when one is given, the size a multiple of
  512, the block count the size over the sector size, and the open handle seeing exactly that
  many bytes.
\<close>

theorem open_image_safe:
  assumes "open_image fs path dev wr allowed = Ok i"
  shows "device_code i \<in> {DEVICE_FLOPPY, DEVICE_CDROM} \<and> (device_code i = DEVICE_CDROM \<longrightarrow> \<not> writable i)
    \<and> \<not> fs_is_symlink fs path \<and> fs_resolve fs path = Some (image_path i)
    \<and> (\<forall>d. allowed = Some d \<longrightarrow> (\<exists>a. fs_resolve fs d = Some a \<and> prefix a (image_path i)))
    \<and> image_size i mod 512 = 0 \<and> blocks i = image_size i div (if device_code i = DEVICE_CDROM then 2048 else 512)
    \<and> intact i"
proof -
  have valid: "\<not> fs_is_symlink fs path" "fs_resolve fs path = Some (image_path i)"
    "\<And>d. allowed = Some d \<Longrightarrow> \<exists>a. fs_resolve fs d = Some a \<and> (a = image_path i \<or> a \<in> set (parents (image_path i)))"
    using open_image_cases(9) [OF assms]
    by (auto simp: validate_path_def split: if_splits option.splits)
  have "prefix a p" if "a \<in> set (parents p)" for a p :: path
    using that by (auto simp: parents_def take_is_prefix)
  with valid(3) have "\<forall>d. allowed = Some d \<longrightarrow> (\<exists>a. fs_resolve fs d = Some a \<and> prefix a (image_path i))"
    by blast
  with valid open_image_cases [OF assms] show ?thesis
    by (auto simp: drop_bit_eq_div)
qed

theorem open_image_safe_witness:
  "\<exists>i. open_image (demo_fs (replicate 2048 7)) [''dir'', ''img''] (uint DEVICE_CDROM) False (Some [''dir'']) = Ok i
     \<and> \<not> writable i \<and> blocks i = 1 \<and> intact i"
proof -
  obtain i where i: "open_image (demo_fs (replicate 2048 7)) [''dir'', ''img''] (uint DEVICE_CDROM) False
      (Some [''dir'']) = Ok i"
    by (simp add: open_image_def validate_path_def demo_fs_def parents_def)
  then have "image_size i = 2048" "device_code i = DEVICE_CDROM"
    by (auto simp: open_image_def validate_path_def demo_fs_def parents_def Let_def)
  with open_image_safe [OF i] i show ?thesis by auto
qed

section \<open>The SCSI target\<close>

text \<open>
  C10: One answer per command: when the handler of a CDB returns, the frames it sent contain
  exactly one completed frame, except for WRITE (answered after the data has arrived) and READ
  TOC (left unanswered for unknown formats), which send at most one; and the engine is idle again,
  with no read in progress, queued or interrupted.
\<close>

theorem one_answer_per_command:
  assumes "idle e" and "handle_scsi dv (op # rest) fr fl e = (Ok x, e')"
  shows "idle e' \<and> (\<exists>fs. wire e' = wire e @ fs \<and> completed_count fs \<le> 1
    \<and> (op \<notin> {0x0A, 0x2A, 0x2E, 0x43} \<longrightarrow> completed_count fs = 1))"
proof (cases "op \<in> {0x0A, 0x2A, 0x2E, 0x43}")
  case True
  have "answers {0, 1} (handle_scsi dv (op # rest) fr fl)" by (rule answers_handle_scsi) auto
  from answersD [OF this assms] True show ?thesis by auto
next
  case False
  have "answers {1} (handle_scsi dv (op # rest) fr fl)" by (rule answers_handle_scsi) (use False in auto)
  from answersD [OF this assms] show ?thesis by auto
qed

lemma idle_demo [simp]: "idle demo"
  by (simp add: idle_def default_session_info_def)

theorem one_answer_per_command_witness:
  "\<exists>e' fs. handle_scsi DEVICE_FLOPPY [0x1B, 0, 0, 0, 0, 0] 0 0 demo = (Ok (), e') \<and> wire e' = fs
     \<and> completed_count fs = 1"
proof -
  have run: "handle_scsi DEVICE_FLOPPY [0x1B, 0, 0, 0, 0, 0] 0 0 demo =
      (Ok (), sent CMD_COMMAND_END_RESPONSE (command_end_payload True 0 DEVICE_FLOPPY 0 0) True False demo)"
    by (simp add: handle_scsi_def cdb_at_def idx_def send_command_end_response_def send_command_up)
  from one_answer_per_command [OF idle_demo run] run show ?thesis by auto
qed

text \<open>
  Between messages no read is ever in progress: dispatching any message from an idle engine
  leaves it idle when it returns, so RESET_OCCURRED is always answered at once and the queue of
  further reads is never used.
\<close>

lemma dispatch_stays_idle:
  assumes "idle e"
  shows "(dispatch m e = (Ok x, e') \<longrightarrow> idle e') \<and>
    on_reset_occurred e = (Ok (), sent CMD_RESET_OCCURRED_RESPONSE [] False False e)"
  using assms answersD [OF answers_dispatch assms, of m x e']
  by (simp add: on_reset_occurred_def idle_def send_command_up)

text \<open>
  A session opens only on terms the engine can serve: protocol 0 and read and write buffers
  of at most 8192 bytes.  Then the negotiated parameters are recorded and the devices are enabled
  with one frame; on any other reply the session is stopped, stays closed and nothing is sent.
\<close>

lemma session_opens_on_terms:
  assumes "link_up e" "parse_open_session_reply m e = (Ok info, e)" "0 \<le> start_mode e" "start_mode e < 2 ^ 32"
  shows "if proto info = 0 \<and> readbfr info \<le> 8192 \<and> writebfr info \<le> 8192
    then \<exists>e'. on_open_session_reply m e = (Ok (), e') \<and> session_open e' \<and> session_info e' = info
      \<and> wire e' = wire e @ [header CMD_DISABLE_ENABLE_FEATURES (out_seq e) False False @
          3 # le_bytes 4 (start_mode e)]
    else on_open_session_reply m e = (Raise ProtocolError, e\<lparr>stopped := True\<rparr>)"
proof -
  have up: "link_up (e\<lparr>session_info := info, session_open := True\<rparr>)"
    using assms(1) by (simp add: link_up_def)
  show ?thesis
    using assms(3,4)
    by (simp add: on_open_session_reply_def bindA_eq_Ok(1) [where m = "parse_open_session_reply m", OF assms(2)]
          MAX_READ_WRITE_BUFFER_def send_feature_toggle_def pack_le_def send_disable_enable_features_def
          send_command_up [OF up]) (simp add: sent_def)
qed

definition open_reply :: "byte \<Rightarrow> bytes" where
  "open_reply pr = header CMD_OPEN_SESSION_REPLY 0 False False @
     [1, 0, 2, 1, 0, 0, 0, 0, 0x00, 0x20, 0x00, 0x20, 0, pr, 0, 0, 0, 0x57, 0x01, 0, 0, 0]"

lemma and_not_bit7: "\<not> bit ((x :: byte) AND NOT WRITE_PROTECT_BIT) 7"
  and or_bit7: "bit ((x :: byte) OR WRITE_PROTECT_BIT) 7"
  by (simp_all add: WRITE_PROTECT_BIT_def bit_simps)

lemma select_long: "mode_sense_10_select dv n page = Some r \<Longrightarrow> 3 < length r"
  by (auto simp: mode_sense_10_select_def MS_LS120_DISK_PAGE_def MS_3F_LS120_def MS_FLOPPY_DISK_PAGE_def
        MS_3F_FLOPPY_def MS_CD_1A_def MS_CD_1D_def MS_CD_2A_def MS_3F_CD_def MS_FLOPPY_ERROR_RECOVERY_def
        MS_LS120_ERROR_RECOVERY_def MS_CD_ERROR_RECOVERY_def split: if_splits)

text \<open>
  MODE SENSE never lies about write protection: for every page the target serves, for either
  drive and any image size, the page can be patched, bit 7 of byte 3 says exactly whether the image
  is read-only, and all other bytes are those of the canned page.
\<close>

lemma mode_sense_write_protect:
  assumes "mode_sense_10_select dv n page = Some r"
  shows "\<exists>q. mode_sense_10_page r w = Ok q \<and> bit (q ! 3) 7 = (\<not> w) \<and> length q = length r
    \<and> (\<forall>k. k \<noteq> 3 \<longrightarrow> q ! k = r ! k)"
  using select_long [OF assms] and_not_bit7 or_bit7
  by (cases w) (simp_all add: mode_sense_10_page_def)

text \<open>
  READ CAPACITY reports the address of the last block, big-endian, exactly when the image has
  between 1 and 2^32 blocks.  For the images outside that range that still open (a CD image of
  512, 1024 or 1536 bytes has no whole block) it raises an unclassified \<^verbatim>\<open>struct.error\<close> out of the
  engine instead of answering.
\<close>

lemma read_capacity_range:
  assumes "link_up e" "image_size (images e r) \<noteq> 0"
  shows "if 1 \<le> blocks (images e r) \<and> blocks (images e r) \<le> 2 ^ 32
    then \<exists>e' f. scsi_read_capacity dv (Some r) fl dma e = (Ok (), e') \<and> wire e' = wire e @ [f]
      \<and> be_int (take 4 (frame_data f)) = blocks (images e r) - 1
    else scsi_read_capacity dv (Some r) fl dma e = (Raise (PyError StructError), e)"
proof (cases "1 \<le> blocks (images e r) \<and> blocks (images e r) \<le> 2 ^ 32")
  case True
  then have p: "pack_be 4 (blocks (images e r) - 1) = Ok (be_bytes 4 (blocks (images e r) - 1))"
    by (simp add: pack_be_def)
  have "be_int (be_bytes 4 (blocks (images e r) - 1)) = blocks (images e r) - 1"
    using True by (simp add: be_int_def be_bytes_def le_int_le_bytes)
  with True assms p show ?thesis
    by (simp add: scsi_read_capacity_def Let_def send_data_to_host_def send_command_up)
next
  case False
  then have "pack_be 4 (blocks (images e r) - 1) = Raise (PyError StructError)"
    by (auto simp: pack_be_def)
  with False assms show ?thesis by (auto simp: scsi_read_capacity_def Let_def)
qed

definition tiny_cd :: IderEngine where
  "tiny_cd = demo\<lparr>images := (\<lambda>_. demo_image DEVICE_CDROM False 1 \<lparr>sector_shift := 11, blocks := 0\<rparr>)\<rparr>"

lemma demo_tiny_cd:
  "scsi_read_capacity DEVICE_CDROM (Some 0) 0x10 False tiny_cd = (Raise (PyError StructError), tiny_cd)
   \<and> open_image (demo_fs (replicate 512 7)) [''img''] (uint DEVICE_CDROM) False None
       = Ok (demo_image DEVICE_CDROM False 1 \<lparr>sector_shift := 11, blocks := 0\<rparr>)"
proof -
  have "link_up tiny_cd" using demo_simps(2) by (simp add: tiny_cd_def link_up_def del: demo_simps(2))
  then have "scsi_read_capacity DEVICE_CDROM (Some 0) 0x10 False tiny_cd = (Raise (PyError StructError), tiny_cd)"
    using read_capacity_range [of tiny_cd 0 DEVICE_CDROM "0x10" False] by (simp add: tiny_cd_def)
  moreover have "open_image (demo_fs (replicate 512 7)) [''img''] (uint DEVICE_CDROM) False None
       = Ok (demo_image DEVICE_CDROM False 1 \<lparr>sector_shift := 11, blocks := 0\<rparr>)"
    by (simp add: open_image_def validate_path_def demo_fs_def demo_image_def drop_bit_eq_div)
  ultimately show ?thesis by simp
qed

text \<open>
  When the firmware negotiates no read buffer limit, a READ is answered in one frame however
  long it is, and the 16-bit length field of that frame holds the length modulo 65536: a transfer
  of 64 KiB announces 0 bytes.
\<close>

lemma unlimited_read_length_wraps:
  assumes "idle e" "intact (images e r)" "0 \<le> lba" "0 < len" "lba + len \<le> blocks (images e r)"
    and "readbfr (session_info e) = 0"
    and "int (length (extent (images e r) lba len)) = push_bit (sector_shift (images e r)) len"
  shows "\<exists>e' f. scsi_read dv (Some r) lba len dma e = (Ok (), e') \<and> wire e' = wire e @ [f]
    \<and> frame_data f = extent (images e r) lba len
    \<and> frame_data_len f = push_bit (sector_shift (images e r)) len mod 65536"
proof -
  have "extent (images e r) lba len \<noteq> []" using assms(7) push_bit_pos [OF assms(4)] by auto
  then show ?thesis
    using scsi_read_reply [OF assms(1) _ assms(3-5), of dv dma] assms(2,6,7)
    by (auto simp: read_reply_def chunks_single intact_def data_frame_len)
qed

definition big :: IderEngine where
  "big = demo\<lparr>images := (\<lambda>_. demo_image DEVICE_FLOPPY True 128)\<rparr>"

lemma demo_wraps:
  "\<exists>e' f. scsi_read DEVICE_FLOPPY (Some 0) 0 128 False big = (Ok (), e') \<and> wire e' = [f]
     \<and> length (frame_data f) = 65536 \<and> frame_data_len f = 0"
proof -
  have "idle big" using idle_demo by (simp add: idle_def big_def link_up_def del: demo_simps(2) idle_demo)
  then show ?thesis
    using unlimited_read_length_wraps [of big 0 0 128 DEVICE_FLOPPY False]
    by (auto simp: big_def push_bit_eq_mult default_session_info_def extent_def)
qed

end
