(* ===== verification/Py_Values.thy ===== *)
theory Py_Values
  imports Prelude "HOL-Library.AList"
begin

text \<open>
  Python values as the WS-Man layer sees them (\<^verbatim>\<open>None\<close>, bools, ints, strings, lists, dicts and
  endpoint references), the string methods the code uses, \<^verbatim>\<open>int(text, base)\<close>, and the coercions
  \<^verbatim>\<open>truthy\<close> and \<^verbatim>\<open>optional_*\<close> of \<^verbatim>\<open>plugins/module_utils/models.py\<close>.

  Text is a list of 8-bit characters, read as Latin-1.  A dict is an association list in insertion
  order: \<open>map_of\<close> looks up, \<open>AList.update\<close> assigns (in place, or at the end), \<open>AList.delete\<close> pops.
  The lemmas show that numbers survive printing and parsing.
\<close>

section \<open>Values\<close>

datatype val =
    VNone | VBool bool | VInt int | VStr string | VList "val list" | VDict "(string \<times> val) list"
  | VRef string "(string \<times> string) list"

type_synonym obj = "(string \<times> val) list"
type_synonym selectors = "(string \<times> string) list"

text \<open>\<^verbatim>\<open>instance.get(key)\<close>.\<close>

definition get_prop :: "obj \<Rightarrow> string \<Rightarrow> val" where
  "get_prop d k = (case map_of d k of None \<Rightarrow> VNone | Some v \<Rightarrow> v)"

section \<open>Text\<close>

definition code :: "char \<Rightarrow> nat" where
  "code c = of_char c"

definition is_space :: "char \<Rightarrow> bool" where
  "is_space c \<longleftrightarrow> c \<in> {CHR 0x09, CHR 0x0A, CHR 0x0B, CHR 0x0C, CHR 0x0D, CHR 0x1C, CHR 0x1D,
     CHR 0x1E, CHR 0x1F, CHR '' '', CHR 0x85, CHR 0xA0}"

lemma is_space_code: "is_space c \<Longrightarrow> code c \<in> {9, 10, 11, 12, 13, 28, 29, 30, 31, 32, 133, 160}"
  by (auto simp: is_space_def code_def)

definition strip :: "string \<Rightarrow> string" where
  "strip s = rev (dropWhile is_space (rev (dropWhile is_space s)))"

definition lower_char :: "char \<Rightarrow> char" where
  "lower_char c = (if 65 \<le> code c \<and> code c \<le> 90 \<or> 192 \<le> code c \<and> code c \<le> 222 \<and> code c \<noteq> 215
     then char_of (code c + 32) else c)"

definition lower :: "string \<Rightarrow> string" where
  "lower s = map lower_char s"

text \<open>\<^verbatim>\<open>text.replace(c, "")\<close> for a one-character needle.\<close>

definition remove_char :: "char \<Rightarrow> string \<Rightarrow> string" where
  "remove_char c s = filter (\<lambda>x. x \<noteq> c) s"

section \<open>Integers as text\<close>

definition digit_value :: "nat \<Rightarrow> char \<Rightarrow> nat option" where
  "digit_value base c =
     (let d = (if 48 \<le> code c \<and> code c \<le> 57 then code c - 48
               else if 97 \<le> code c \<and> code c \<le> 122 then code c - 87
               else if 65 \<le> code c \<and> code c \<le> 90 then code c - 55
               else base)
      in if d < base then Some d else None)"

text \<open>
  Digits with single underscores between them; \<open>us\<close> says that an underscore may not come next
  (at the start, or after another one).
\<close>

fun parse_digits :: "nat \<Rightarrow> string \<Rightarrow> int \<Rightarrow> bool \<Rightarrow> int option" where
  "parse_digits base [] acc us = (if us then None else Some acc)"
| "parse_digits base (c # cs) acc us =
     (if c = CHR ''_'' then (if us then None else parse_digits base cs acc True)
      else case digit_value base c of
          None \<Rightarrow> None
        | Some d \<Rightarrow> parse_digits base cs (acc * int base + int d) False)"

definition parse_magnitude :: "nat \<Rightarrow> string \<Rightarrow> int option" where
  "parse_magnitude base s =
     (if base = 16 \<and> lower (take 2 s) = ''0x''
      then (if drop 2 s = [] then None else parse_digits base (drop 2 s) 0 False)
      else parse_digits base s 0 True)"

text \<open>\<^verbatim>\<open>int(text, base)\<close>: \<open>None\<close> where Python raises \<^verbatim>\<open>ValueError\<close>.\<close>

definition py_int :: "nat \<Rightarrow> string \<Rightarrow> int option" where
  "py_int base text = (case strip text of
      [] \<Rightarrow> None
    | c # cs \<Rightarrow>
        if c = CHR ''-'' then map_option uminus (parse_magnitude base cs)
        else if c = CHR ''+'' then parse_magnitude base cs
        else parse_magnitude base (c # cs))"

text \<open>\<^verbatim>\<open>str(n)\<close>.\<close>

definition digit_char :: "nat \<Rightarrow> char" where
  "digit_char d = char_of (48 + d)"

function dec :: "int \<Rightarrow> string" where
  "dec n = (if n < 10 then [digit_char (nat n)] else dec (n div 10) @ [digit_char (nat (n mod 10))])"
  by pat_completeness auto
termination
  by (relation "measure nat") auto

declare dec.simps [simp del]

definition show_int :: "int \<Rightarrow> string" where
  "show_int n = (if n < 0 then CHR ''-'' # dec (- n) else dec n)"

lemma code_digit_char: "d < 10 \<Longrightarrow> code (digit_char d) = 48 + d"
  by (simp add: code_def digit_char_def of_char_of)

lemma digit_value_digit_char [simp]: "d < 10 \<Longrightarrow> digit_value 10 (digit_char d) = Some d"
  by (simp add: digit_value_def code_digit_char)

lemma digit_char_plain:
  assumes "d < 10"
  shows "digit_char d \<noteq> CHR ''_''" "digit_char d \<noteq> CHR ''-''" "digit_char d \<noteq> CHR ''+''"
    "\<not> is_space (digit_char d)"
proof -
  have "code (CHR ''_'') = 95" "code (CHR ''-'') = 45" "code (CHR ''+'') = 43"
    by (simp_all add: code_def)
  then show "digit_char d \<noteq> CHR ''_''" "digit_char d \<noteq> CHR ''-''" "digit_char d \<noteq> CHR ''+''"
    "\<not> is_space (digit_char d)"
    using code_digit_char [OF assms] assms by (auto dest: is_space_code)
qed

lemma parse_digits_append:
  "xs \<noteq> [] \<Longrightarrow> set xs \<subseteq> digit_char ` {..<10} \<Longrightarrow>
   parse_digits 10 (xs @ ys) acc us =
     parse_digits 10 ys (foldl (\<lambda>a c. a * 10 + int (the (digit_value 10 c))) acc xs) False"
proof (induction xs arbitrary: acc us)
  case Nil
  then show ?case by simp
next
  case (Cons x xs)
  then obtain d where d: "x = digit_char d" "d < 10" by auto
  with Cons show ?case
    by (cases "xs = []") (simp_all add: digit_char_plain)
qed

lemma dec_shape: "0 \<le> n \<Longrightarrow> dec n \<noteq> [] \<and> set (dec n) \<subseteq> digit_char ` {..<10} \<and>
  foldl (\<lambda>a c. a * 10 + int (the (digit_value 10 c))) 0 (dec n) = n"
proof (induction n rule: dec.induct)
  case (1 n)
  show ?case
  proof (cases "n < 10")
    case True
    with 1 have "nat n < 10" by simp
    with True 1 show ?thesis by (simp add: dec.simps)
  next
    case False
    with 1 have IH: "set (dec (n div 10)) \<subseteq> digit_char ` {..<10}"
      "foldl (\<lambda>a c. a * 10 + int (the (digit_value 10 c))) 0 (dec (n div 10)) = n div 10" by auto
    have eq: "dec n = dec (n div 10) @ [digit_char (nat (n mod 10))]" using False by (subst dec.simps) simp
    have "nat (n mod 10) < 10" by simp
    then show ?thesis using IH by (auto simp: eq)
  qed
qed

lemma strip_id: "s \<noteq> [] \<Longrightarrow> \<not> is_space (hd s) \<Longrightarrow> \<not> is_space (last s) \<Longrightarrow> strip s = s"
proof -
  assume s: "s \<noteq> []" "\<not> is_space (hd s)" "\<not> is_space (last s)"
  then have "dropWhile is_space s = s" by (cases s) auto
  moreover have "dropWhile is_space (rev s) = rev s"
    using s by (cases s rule: rev_cases) auto
  ultimately show "strip s = s" by (simp add: strip_def)
qed

lemma dec_ends:
  assumes "0 \<le> n"
  shows "\<not> is_space (hd (dec n))" "\<not> is_space (last (dec n))"
    "hd (dec n) \<noteq> CHR ''-''" "hd (dec n) \<noteq> CHR ''+''"
proof -
  have "hd (dec n) \<in> digit_char ` {..<10}" "last (dec n) \<in> digit_char ` {..<10}"
    using dec_shape [OF assms] by (auto intro: hd_in_set last_in_set)
  then show "\<not> is_space (hd (dec n))" "\<not> is_space (last (dec n))"
    "hd (dec n) \<noteq> CHR ''-''" "hd (dec n) \<noteq> CHR ''+''"
    by (auto dest: digit_char_plain digit_char_plain(2,3) [THEN not_sym] sym)
qed

lemma parse_dec: "0 \<le> n \<Longrightarrow> parse_magnitude 10 (dec n) = Some n"
  using parse_digits_append [of "dec n" "[]" 0 True] dec_shape [of n]
  by (simp add: parse_magnitude_def)

lemma strip_show_int [simp]: "strip (show_int n) = show_int n"
  using dec_shape [of n] dec_ends [of n] dec_shape [of "- n"] dec_ends [of "- n"]
  by (intro strip_id) (auto simp: show_int_def is_space_def)

text \<open>Numbers survive printing and parsing.\<close>

lemma py_int_show_int: "py_int 10 (show_int n) = Some n"
proof (cases "n < 0")
  case True
  then show ?thesis by (simp add: py_int_def parse_dec) (simp add: show_int_def parse_dec)
next
  case False
  then have eq: "show_int n = dec n" by (simp add: show_int_def)
  then have strip: "strip (dec n) = dec n" using strip_show_int [of n] by simp
  obtain c cs where c: "dec n = c # cs" using dec_shape [of n] False by (cases "dec n") auto
  have "c \<noteq> CHR ''-''" "c \<noteq> CHR ''+''" using dec_ends [of n] False c by auto
  moreover have "parse_magnitude 10 (c # cs) = Some n" using parse_dec [of n] False c by simp
  ultimately show ?thesis using strip by (simp add: py_int_def eq c)
qed

section \<open>Coercions\<close>

fun join :: "string \<Rightarrow> string list \<Rightarrow> string" where
  "join sep [] = []"
| "join sep [x] = x"
| "join sep (x # y # xs) = x @ sep @ join sep (y # xs)"

text \<open>\<^verbatim>\<open>repr\<close> of a string: the quote it picks and its escapes.\<close>

definition hex_char :: "nat \<Rightarrow> char" where
  "hex_char d = char_of (if d < 10 then 48 + d else 87 + d)"

text \<open>\<^verbatim>\<open>f"{b:02x}"\<close>, and \<^verbatim>\<open>bytes.hex()\<close>.\<close>

definition hex2 :: "byte \<Rightarrow> string" where
  "hex2 b = [hex_char (unat b div 16), hex_char (unat b mod 16)]"

definition hex :: "bytes \<Rightarrow> string" where
  "hex bs = concat (map hex2 bs)"

text \<open>ASCII text as bytes.\<close>

definition ascii :: "string \<Rightarrow> bytes" where
  "ascii s = map (\<lambda>c. word_of_int (int (code c))) s"

text \<open>Well-formed UTF-8, as \<^verbatim>\<open>bytes.decode("utf-8")\<close> accepts it.\<close>

definition trail :: "byte \<Rightarrow> bool" where
  "trail b \<longleftrightarrow> b AND 0xC0 = 0x80"

fun utf8_valid :: "bytes \<Rightarrow> bool" where
  "utf8_valid [] \<longleftrightarrow> True"
| "utf8_valid (a # bs) \<longleftrightarrow>
     (if a < 0x80 then utf8_valid bs
      else (case bs of
          [] \<Rightarrow> False
        | b # cs \<Rightarrow>
            if 0xC2 \<le> a \<and> a \<le> 0xDF then trail b \<and> utf8_valid cs
            else (case cs of
                [] \<Rightarrow> False
              | c # ds \<Rightarrow>
                  if 0xE0 \<le> a \<and> a \<le> 0xEF
                  then trail b \<and> trail c \<and> (a = 0xE0 \<longrightarrow> 0xA0 \<le> b) \<and> (a = 0xED \<longrightarrow> b \<le> 0x9F) \<and> utf8_valid ds
                  else (case ds of
                      [] \<Rightarrow> False
                    | d # es \<Rightarrow>
                        0xF0 \<le> a \<and> a \<le> 0xF4 \<and> trail b \<and> trail c \<and> trail d
                        \<and> (a = 0xF0 \<longrightarrow> 0x90 \<le> b) \<and> (a = 0xF4 \<longrightarrow> b \<le> 0x8F) \<and> utf8_valid es))))"

definition repr_char :: "char \<Rightarrow> char \<Rightarrow> string" where
  "repr_char q c =
     (if c = q \<or> c = CHR 0x5C then [CHR 0x5C, c]
      else if code c = 9 then [CHR 0x5C, CHR ''t'']
      else if code c = 10 then [CHR 0x5C, CHR ''n'']
      else if code c = 13 then [CHR 0x5C, CHR ''r'']
      else if code c < 32 \<or> 127 \<le> code c \<and> code c \<le> 160 \<or> code c = 173
      then [CHR 0x5C, CHR ''x'', hex_char (code c div 16), hex_char (code c mod 16)]
      else [c])"

definition repr_str :: "string \<Rightarrow> string" where
  "repr_str s =
     (let q = (if CHR 0x27 \<in> set s \<and> CHR 0x22 \<notin> set s then CHR 0x22 else CHR 0x27)
      in q # concat (map (repr_char q) s) @ [q])"

fun py_repr :: "val \<Rightarrow> string" where
  "py_repr VNone = ''None''"
| "py_repr (VBool b) = (if b then ''True'' else ''False'')"
| "py_repr (VInt n) = show_int n"
| "py_repr (VStr s) = repr_str s"
| "py_repr (VList xs) = ''['' @ join '', '' (map py_repr xs) @ '']''"
| "py_repr (VDict d) = ''{'' @ join '', '' (map (\<lambda>(k, v). repr_str k @ '': '' @ py_repr v) d) @ ''}''"
| "py_repr (VRef c sel) = ''EndpointReference(resource_class='' @ repr_str c @ '', selectors={'' @
     join '', '' (map (\<lambda>(k, v). repr_str k @ '': '' @ repr_str v) sel) @ ''})''"

text \<open>\<^verbatim>\<open>str(value)\<close>.\<close>

definition py_str :: "val \<Rightarrow> string" where
  "py_str v = (case v of VStr s \<Rightarrow> s | _ \<Rightarrow> py_repr v)"

definition truthy :: "val \<Rightarrow> bool" where
  "truthy v = (case v of
      VBool b \<Rightarrow> b
    | VNone \<Rightarrow> False
    | _ \<Rightarrow> lower (strip (py_str v)) \<in> {''true'', ''1'', ''yes''})"

definition optional_bool :: "val \<Rightarrow> bool option" where
  "optional_bool v = (case v of
      VNone \<Rightarrow> None
    | VStr s \<Rightarrow> if strip s = [] then None else Some (truthy v)
    | _ \<Rightarrow> Some (truthy v))"

definition optional_int :: "val \<Rightarrow> int option" where
  "optional_int v = (case v of
      VNone \<Rightarrow> None
    | VBool _ \<Rightarrow> None
    | _ \<Rightarrow> py_int 10 (strip (py_str v)))"

definition optional_str :: "val \<Rightarrow> string option" where
  "optional_str v = (case v of
      VNone \<Rightarrow> None
    | VDict _ \<Rightarrow> None
    | VList _ \<Rightarrow> None
    | _ \<Rightarrow> if strip (py_str v) = [] then None else Some (strip (py_str v)))"

text \<open>The narrower \<^verbatim>\<open>_truthy\<close> of \<^verbatim>\<open>boot.py\<close> and \<^verbatim>\<open>redirection_service.py\<close>: \<^verbatim>\<open>bool(value)\<close> otherwise.\<close>

definition flag_set :: "val \<Rightarrow> bool" where
  "flag_set v = (case v of
      VBool b \<Rightarrow> b
    | VStr s \<Rightarrow> lower (strip s) \<in> {''true'', ''1''}
    | VNone \<Rightarrow> False
    | VInt n \<Rightarrow> n \<noteq> 0
    | VList xs \<Rightarrow> xs \<noteq> []
    | VDict d \<Rightarrow> d \<noteq> []
    | VRef _ _ \<Rightarrow> True)"

lemma optional_int_VInt [simp]: "optional_int (VInt n) = Some n"
  by (simp add: optional_int_def py_str_def py_int_show_int)

end
