(* ===== verification/Models.thy ===== *)
theory Models
  imports Py_Values
begin

text \<open>
  The typed results of \<^verbatim>\<open>plugins/module_utils/models.py\<close>: the DMTF value tables, the power
  state, the MAC address and link policy of the Ethernet settings, the system and redirection
  states, and the operation receipt; with \<^verbatim>\<open>_canonical_uuid\<close> of \<^verbatim>\<open>client.py\<close> and
  \<^verbatim>\<open>AmtError.to_result\<close> of \<^verbatim>\<open>errors.py\<close>.  \<^verbatim>\<open>errors.redact\<close> is a parameter of the receipt,
  which \<open>receipt_document\<close> of theory \<open>Redaction_Properties\<close> supplies.
\<close>

section \<open>Value tables\<close>

definition POWER_STATE_TABLE :: "(int \<times> string) list" where
  "POWER_STATE_TABLE = [(2, ''on''), (3, ''sleep''), (4, ''sleep''), (5, ''on''), (6, ''off''),
     (7, ''hibernate''), (8, ''off''), (9, ''off''), (13, ''off'')]"

definition ENABLED_STATE_TABLE :: "(int \<times> string) list" where
  "ENABLED_STATE_TABLE = [(0, ''unknown''), (1, ''other''), (2, ''enabled''), (3, ''disabled''),
     (4, ''shutting_down''), (5, ''not_applicable''), (6, ''enabled_but_offline''), (7, ''in_test''),
     (8, ''deferred''), (9, ''quiesce''), (10, ''starting'')]"

definition OPERATIONAL_STATUS_TABLE :: "(int \<times> string) list" where
  "OPERATIONAL_STATUS_TABLE = [(0, ''unknown''), (1, ''other''), (2, ''ok''), (3, ''degraded''),
     (4, ''stressed''), (5, ''predictive_failure''), (6, ''error''), (7, ''non_recoverable_error''),
     (8, ''starting''), (9, ''stopping''), (10, ''stopped''), (11, ''in_service''), (12, ''no_contact''),
     (13, ''lost_communication''), (14, ''aborted''), (15, ''dormant''),
     (16, ''supporting_entity_in_error''), (17, ''completed''), (18, ''power_mode''), (19, ''relocating'')]"

definition LINK_POLICY_SX_VALUES :: "int list" where
  "LINK_POLICY_SX_VALUES = [14, 224]"

definition LINK_POLICY_TABLE :: "(int \<times> string) list" where
  "LINK_POLICY_TABLE = [(1, ''s0_ac''), (14, ''sx_ac''), (16, ''s0_dc''), (224, ''sx_dc'')]"

text \<open>\<^verbatim>\<open>_decode\<close>: an unrecognised value stays visible.\<close>

definition decode :: "(int \<times> string) list \<Rightarrow> int \<Rightarrow> string" where
  "decode table v = (case map_of table v of Some s \<Rightarrow> s | None \<Rightarrow> ''unknown('' @ show_int v @ '')'')"

section \<open>Power state\<close>

record PowerState =
  normalized :: string
  raw :: int

text \<open>\<^verbatim>\<open>int(value)\<close> on a parsed value: \<open>None\<close> for \<^verbatim>\<open>TypeError\<close> and \<^verbatim>\<open>ValueError\<close>.\<close>

definition int_of_val :: "val \<Rightarrow> int option" where
  "int_of_val v = (case v of
      VInt n \<Rightarrow> Some n
    | VStr s \<Rightarrow> py_int 10 s
    | VBool b \<Rightarrow> Some (if b then 1 else 0)
    | _ \<Rightarrow> None)"

definition from_cim_value :: "val \<Rightarrow> PowerState" where
  "from_cim_value v = (case int_of_val v of
      None \<Rightarrow> \<lparr>normalized = ''unknown'', raw = -1\<rparr>
    | Some r \<Rightarrow> \<lparr>normalized = (case map_of POWER_STATE_TABLE r of Some s \<Rightarrow> s | None \<Rightarrow> ''unknown''), raw = r\<rparr>)"

section \<open>MAC addresses\<close>

fun pairs :: "string \<Rightarrow> string list" where
  "pairs (a # b # s) = [a, b] # pairs s"
| "pairs _ = []"

definition compact_mac :: "string \<Rightarrow> string" where
  "compact_mac text = remove_char CHR ''.'' (remove_char CHR '':'' (remove_char CHR ''-'' text))"

definition normalize_mac :: "string \<Rightarrow> string" where
  "normalize_mac value =
     (let text = strip value; compact = compact_mac text
      in if length compact \<noteq> 12 then text
         else case py_int 16 compact of
             None \<Rightarrow> text
           | Some _ \<Rightarrow> join '':'' (pairs (lower compact)))"

section \<open>Link policy, Ethernet settings\<close>

definition as_list :: "val \<Rightarrow> val list" where
  "as_list v = (case v of VList xs \<Rightarrow> xs | _ \<Rightarrow> [v])"

definition candidate_policies :: "val \<Rightarrow> int list" where
  "candidate_policies c = (case c of
      VDict d \<Rightarrow> List.map_filter optional_int (as_list (get_prop d ''PolicyValue''))
    | _ \<Rightarrow> List.map_filter optional_int [c])"

definition link_policy_values :: "val \<Rightarrow> int list option" where
  "link_policy_values v = (case v of
      VNone \<Rightarrow> None
    | VStr s \<Rightarrow> if strip s = [] then Some [] else Some (concat (map candidate_policies (as_list v)))
    | _ \<Rightarrow> Some (concat (map candidate_policies (as_list v))))"

record EthernetSettings =
  mac_address :: "string option"
  mac_address_raw :: "string option"
  ip_address :: "string option"
  subnet_mask :: "string option"
  default_gateway :: "string option"
  primary_dns :: "string option"
  secondary_dns :: "string option"
  dhcp_enabled :: "bool option"
  link_is_up :: "bool option"
  ip_sync_enabled :: "bool option"
  link_policy :: "int list option"
  link_policy_names :: "string list option"
  wake_on_lan_capable :: "bool option"

definition ethernet_from_instance :: "obj \<Rightarrow> EthernetSettings" where
  "ethernet_from_instance i =
     (let raw_mac = optional_str (get_prop i ''MACAddress'');
          policies = link_policy_values (get_prop i ''LinkPolicy'')
      in \<lparr>mac_address = map_option normalize_mac raw_mac, mac_address_raw = raw_mac,
          ip_address = optional_str (get_prop i ''IPAddress''),
          subnet_mask = optional_str (get_prop i ''SubnetMask''),
          default_gateway = optional_str (get_prop i ''DefaultGateway''),
          primary_dns = optional_str (get_prop i ''PrimaryDNS''),
          secondary_dns = optional_str (get_prop i ''SecondaryDNS''),
          dhcp_enabled = optional_bool (get_prop i ''DHCPEnabled''),
          link_is_up = optional_bool (get_prop i ''LinkIsUp''),
          ip_sync_enabled = optional_bool (get_prop i ''IpSyncEnabled''),
          link_policy = policies,
          link_policy_names = map_option (map (decode LINK_POLICY_TABLE)) policies,
          wake_on_lan_capable = map_option (list_ex (\<lambda>v. v \<in> set LINK_POLICY_SX_VALUES)) policies\<rparr>)"

section \<open>System and redirection state\<close>

record SystemState =
  element_name :: "string option"
  enabled_state :: "int option"
  enabled_state_text :: "string option"
  requested_state :: "int option"
  operational_status :: "int list option"
  operational_status_text :: "string list option"

definition system_from_instance :: "obj \<Rightarrow> SystemState" where
  "system_from_instance i =
     (let es = optional_int (get_prop i ''EnabledState'');
          statuses = (case get_prop i ''OperationalStatus'' of
              VNone \<Rightarrow> None
            | v \<Rightarrow> Some (List.map_filter optional_int (as_list v)))
      in \<lparr>element_name = optional_str (get_prop i ''ElementName''),
          enabled_state = es,
          enabled_state_text = map_option (decode ENABLED_STATE_TABLE) es,
          requested_state = optional_int (get_prop i ''RequestedState''),
          operational_status = statuses,
          operational_status_text = map_option (map (decode OPERATIONAL_STATUS_TABLE)) statuses\<rparr>)"

record RedirectionState =
  redir_enabled_state :: int
  listener_enabled :: bool
  ider_enabled :: bool
  sol_enabled :: bool

definition from_enabled_state :: "val \<Rightarrow> bool \<Rightarrow> RedirectionState" where
  "from_enabled_state v listener =
     (let state = (case int_of_val v of Some n \<Rightarrow> n | None \<Rightarrow> -1)
      in \<lparr>redir_enabled_state = state, listener_enabled = listener,
          ider_enabled = (state \<in> {32769, 32771}), sol_enabled = (state \<in> {32770, 32771})\<rparr>)"

section \<open>Platform GUID\<close>

definition is_ascii_space :: "char \<Rightarrow> bool" where
  "is_ascii_space c \<longleftrightarrow> c \<in> {CHR 0x09, CHR 0x0A, CHR 0x0B, CHR 0x0C, CHR 0x0D, CHR '' ''}"

text \<open>\<^verbatim>\<open>bytes.fromhex\<close>: pairs of hex digits, white space between pairs allowed.\<close>

fun fromhex :: "string \<Rightarrow> (nat \<times> nat) list option" where
  "fromhex [] = Some []"
| "fromhex [a] = (if is_ascii_space a then Some [] else None)"
| "fromhex (a # b # s) =
     (if is_ascii_space a then fromhex (b # s)
      else case (digit_value 16 a, digit_value 16 b) of
          (Some x, Some y) \<Rightarrow> map_option ((#) (x, y)) (fromhex s)
        | _ \<Rightarrow> None)"

definition upper_char :: "char \<Rightarrow> char" where
  "upper_char c = (if 97 \<le> code c \<and> code c \<le> 122 then char_of (code c - 32) else c)"

text \<open>\<^verbatim>\<open>bytes.hex()\<close> followed by \<^verbatim>\<open>upper()\<close>.\<close>

definition hex_upper :: "(nat \<times> nat) list \<Rightarrow> string" where
  "hex_upper bs = concat (map (\<lambda>(x, y). [char_of (if x < 10 then 48 + x else 55 + x),
                                         char_of (if y < 10 then 48 + y else 55 + y)]) bs)"

definition canonical_uuid :: "string \<Rightarrow> string" where
  "canonical_uuid value =
     (let compact = remove_char CHR ''-'' value
      in if length compact \<noteq> 32 then value
         else case fromhex compact of
             None \<Rightarrow> value
           | Some r \<Rightarrow>
               if CHR ''-'' \<in> set value then map upper_char value
               else join ''-'' [hex_upper (rev (take 4 r)), hex_upper (rev (take 2 (drop 4 r))),
                      hex_upper (rev (take 2 (drop 6 r))), hex_upper (take 2 (drop 8 r)),
                      hex_upper (take 6 (drop 10 r))])"

section \<open>Receipts and error results\<close>

text \<open>\<^verbatim>\<open>_redact_strings\<close>, over \<^verbatim>\<open>errors.redact\<close> as a parameter.\<close>

fun redact_strings :: "(string \<Rightarrow> string) \<Rightarrow> val \<Rightarrow> val" where
  "redact_strings redact (VStr s) = VStr (redact s)"
| "redact_strings redact (VDict d) = VDict (map (\<lambda>(k, v). (k, redact_strings redact v)) d)"
| "redact_strings redact (VList xs) = VList (map (redact_strings redact) xs)"
| "redact_strings redact v = v"

record OperationReceipt =
  receipt_action :: string
  receipt_endpoint :: string
  receipt_changed :: bool
  receipt_previous :: val
  receipt_desired :: val
  receipt_observed :: val
  tls_peer_fingerprint :: val
  receipt_error_class :: val
  extra :: obj

text \<open>\<^verbatim>\<open>dict.update\<close>, key by key.\<close>

definition dict_update :: "obj \<Rightarrow> obj \<Rightarrow> obj" where
  "dict_update d new = foldl (\<lambda>acc (k, v). AList.update k v acc) d new"

definition receipt_to_dict :: "(string \<Rightarrow> string) \<Rightarrow> OperationReceipt \<Rightarrow> val" where
  "receipt_to_dict redact r = redact_strings redact (VDict (dict_update
     [(''schema'', VStr ''intel-amt-operation/v1''), (''action'', VStr (receipt_action r)),
      (''endpoint'', VStr (receipt_endpoint r)), (''changed'', VBool (receipt_changed r)),
      (''previous'', receipt_previous r), (''desired'', receipt_desired r),
      (''observed'', receipt_observed r), (''tls_peer_fingerprint'', tls_peer_fingerprint r),
      (''error_class'', receipt_error_class r)] (extra r)))"

definition class_name :: "error_class \<Rightarrow> string" where
  "class_name c = (case c of
      CONNECTION \<Rightarrow> ''connection'' | TLS_VALIDATION \<Rightarrow> ''tls_validation''
    | AUTHENTICATION \<Rightarrow> ''authentication'' | UNSUPPORTED_CAPABILITY \<Rightarrow> ''unsupported_capability''
    | INVALID_STATE \<Rightarrow> ''invalid_state'' | TIMEOUT \<Rightarrow> ''timeout'' | PROTOCOL \<Rightarrow> ''protocol''
    | REMOTE_OPERATION \<Rightarrow> ''remote_operation'' | IDENTITY_MISMATCH \<Rightarrow> ''identity_mismatch'')"

text \<open>
  \<^verbatim>\<open>AmtError.to_result\<close>: the keys follow the fields that are set.  The message, endpoint, operation
  and diagnostic are arguments, since a classified exception of the model does not carry them.
\<close>

definition to_result :: "string \<Rightarrow> string option \<Rightarrow> string option \<Rightarrow> string option \<Rightarrow> amt_error \<Rightarrow> obj" where
  "to_result msg ep op diag e =
     [(''msg'', VStr msg), (''error_class'', VStr (class_name (error_class e)))]
     @ (case ep of Some s \<Rightarrow> [(''endpoint'', VStr s)] | None \<Rightarrow> [])
     @ (case op of Some s \<Rightarrow> [(''operation'', VStr s)] | None \<Rightarrow> [])
     @ (case diag of Some s \<Rightarrow> if s \<noteq> [] then [(''diagnostic'', VStr s)] else [] | None \<Rightarrow> [])
     @ (case return_value e of Some n \<Rightarrow> [(''return_value'', VInt n)] | None \<Rightarrow> [])
     @ (if indeterminate e then [(''indeterminate'', VBool True)] else [])"

section \<open>Facts\<close>

lemma class_name_inject: "class_name c = class_name d \<longleftrightarrow> c = d"
  by (cases c; cases d) (simp_all add: class_name_def)

lemma decode_known: "map_of t v = Some s \<Longrightarrow> decode t v = s"
  by (simp add: decode_def)

end
