(* ===== verification/Wsman.thy ===== *)
theory Wsman
  imports Models
begin

text \<open>
  The WS-Man client (\<^verbatim>\<open>plugins/module_utils/wsman.py\<close>): SOAP envelopes, XML element to value,
  the request loop with its retry rule, response classification, and Get, Put, Enumerate/Pull and
  Invoke.

  An \<^verbatim>\<open>ElementTree\<close> element is a tree \<open>xml\<close>; its Clark-notation tag is kept split into namespace
  and local name.  What \<^verbatim>\<open>requests\<close> and the endpoint do with one POST is the parameter \<open>transport\<close>
  of the client state: it answers with an HTTP status and the parsed body, or with one of the
  exceptions the code distinguishes.  \<open>posted\<close> logs every POST
  with its result.  \<open>pull_fuel\<close> bounds the rounds of
  the Pull loop a run is followed for: the code has no bound of its own.
\<close>

section \<open>XML\<close>

datatype xml = Elem (ns: "string option") (local_name: string) (attrs: "(string \<times> string) list")
  (text_of: "string option") (children: "xml list")

text \<open>\<^verbatim>\<open>element.iter()\<close>: the element itself, then its descendants in document order.\<close>

fun iter :: "xml \<Rightarrow> xml list" where
  "iter (Elem n l a t cs) = Elem n l a t cs # concat (map iter cs)"

definition find_by_local_name :: "xml \<Rightarrow> string \<Rightarrow> xml option" where
  "find_by_local_name e name = find (\<lambda>c. local_name c = name) (iter e)"

text \<open>
  \<^verbatim>\<open>_element_to_value\<close>: a leaf is its stripped text; otherwise a dict, where a repeated child
  turns into a list.
\<close>

definition add_child :: "obj \<Rightarrow> string \<times> val \<Rightarrow> obj" where
  "add_child d kv = (case kv of (k, v) \<Rightarrow> (case map_of d k of
      None \<Rightarrow> d @ [(k, v)]
    | Some (VList xs) \<Rightarrow> AList.update k (VList (xs @ [v])) d
    | Some u \<Rightarrow> AList.update k (VList [u, v]) d))"

fun element_to_value :: "xml \<Rightarrow> val" where
  "element_to_value (Elem n l a t cs) =
     (if cs = [] then VStr (strip (case t of Some s \<Rightarrow> s | None \<Rightarrow> []))
      else VDict (foldl add_child [] (map (\<lambda>c. (local_name c, element_to_value c)) cs)))"

section \<open>Names\<close>

definition NS_SOAP :: string where "NS_SOAP = ''http://www.w3.org/2003/05/soap-envelope''"
definition NS_ADDRESSING :: string where
  "NS_ADDRESSING = ''http://schemas.xmlsoap.org/ws/2004/08/addressing''"
definition NS_WSMAN :: string where "NS_WSMAN = ''http://schemas.dmtf.org/wbem/wsman/1/wsman.xsd''"
definition NS_ENUMERATION :: string where
  "NS_ENUMERATION = ''http://schemas.xmlsoap.org/ws/2004/09/enumeration''"
definition ACTION_GET :: string where "ACTION_GET = ''http://schemas.xmlsoap.org/ws/2004/09/transfer/Get''"
definition ACTION_PUT :: string where "ACTION_PUT = ''http://schemas.xmlsoap.org/ws/2004/09/transfer/Put''"
definition ACTION_ENUMERATE :: string where
  "ACTION_ENUMERATE = ''http://schemas.xmlsoap.org/ws/2004/09/enumeration/Enumerate''"
definition ACTION_PULL :: string where
  "ACTION_PULL = ''http://schemas.xmlsoap.org/ws/2004/09/enumeration/Pull''"

definition RESOURCE_URI_BASE :: "(string \<times> string) list" where
  "RESOURCE_URI_BASE =
     [(''CIM'', ''http://schemas.dmtf.org/wbem/wscim/1/cim-schema/2/''),
      (''AMT'', ''http://intel.com/wbem/wscim/1/amt-schema/1/''),
      (''IPS'', ''http://intel.com/wbem/wscim/1/ips-schema/1/'')]"

text \<open>\<^verbatim>\<open>resource_uri\<close>: \<^verbatim>\<open>class_name.split("_", 1)[0]\<close> picks the base.\<close>

definition resource_uri :: "string \<Rightarrow> string outcome" where
  "resource_uri cls = (case map_of RESOURCE_URI_BASE (takeWhile (\<lambda>c. c \<noteq> CHR ''_'') cls) of
      None \<Rightarrow> Raise (PyError ValueError)
    | Some base \<Rightarrow> Ok (base @ cls))"

section \<open>Envelopes\<close>

abbreviation leaf :: "string \<Rightarrow> string \<Rightarrow> string \<Rightarrow> xml" where
  "leaf n l t \<equiv> Elem (Some n) l [] (Some t) []"

definition build_selector_set :: "selectors \<Rightarrow> xml" where
  "build_selector_set sel = Elem (Some NS_WSMAN) ''SelectorSet'' [] None
     (map (\<lambda>(k, v). Elem (Some NS_WSMAN) ''Selector'' [(''Name'', k)] (Some v) []) sel)"

text \<open>\<^verbatim>\<open>EndpointReference.build_elements\<close>.\<close>

definition build_elements :: "string \<Rightarrow> selectors \<Rightarrow> xml list outcome" where
  "build_elements cls sel = (case resource_uri cls of
      Raise x \<Rightarrow> Raise x
    | Ok uri \<Rightarrow> Ok [leaf NS_ADDRESSING ''Address'' NS_ADDRESSING,
        Elem (Some NS_ADDRESSING) ''ReferenceParameters'' [] None
          [leaf NS_WSMAN ''ResourceURI'' uri, build_selector_set sel]])"

record request =
  rq_action :: string
  rq_uri :: string
  rq_selectors :: selectors
  rq_body :: "xml option"

text \<open>\<^verbatim>\<open>build_envelope\<close>.\<close>

definition must_understand :: "string \<Rightarrow> string \<Rightarrow> string \<Rightarrow> xml" where
  "must_understand n l t = Elem (Some n) l [(''{'' @ NS_SOAP @ ''}mustUnderstand'', ''true'')] (Some t) []"

definition build_envelope :: "string \<Rightarrow> string \<Rightarrow> request \<Rightarrow> xml" where
  "build_envelope to message_id r = Elem (Some NS_SOAP) ''Envelope'' [] None
     [Elem (Some NS_SOAP) ''Header'' [] None
        ([must_understand NS_ADDRESSING ''Action'' (rq_action r),
          must_understand NS_ADDRESSING ''To'' to,
          must_understand NS_WSMAN ''ResourceURI'' (rq_uri r),
          must_understand NS_ADDRESSING ''MessageID'' message_id,
          Elem (Some NS_ADDRESSING) ''ReplyTo'' [] None
            [leaf NS_ADDRESSING ''Address'' (NS_ADDRESSING @ ''/role/anonymous'')],
          leaf NS_WSMAN ''OperationTimeout'' ''PT60S''] @
         (if rq_selectors r \<noteq> [] then [build_selector_set (rq_selectors r)] else [])),
      Elem (Some NS_SOAP) ''Body'' [] None (case rq_body r of None \<Rightarrow> [] | Some b \<Rightarrow> [b])]"

text \<open>\<^verbatim>\<open>_coerce_param_text\<close> and \<^verbatim>\<open>_append_params\<close>: a null parameter is left out.\<close>

definition coerce_param_text :: "val \<Rightarrow> string" where
  "coerce_param_text v = (case v of VBool b \<Rightarrow> if b then ''true'' else ''false'' | _ \<Rightarrow> py_str v)"

fun append_params :: "string \<Rightarrow> obj \<Rightarrow> xml list outcome" where
  "append_params uri [] = Ok []"
| "append_params uri ((name, v) # ps) =
     (let here = (case v of
          VRef cls sel \<Rightarrow> (case build_elements cls sel of
              Raise x \<Rightarrow> Raise x | Ok es \<Rightarrow> Ok [Elem (Some uri) name [] None es])
        | VNone \<Rightarrow> Ok []
        | _ \<Rightarrow> Ok [Elem (Some uri) name [] (Some (coerce_param_text v)) []])
      in case here of
          Raise x \<Rightarrow> Raise x
        | Ok es \<Rightarrow> (case append_params uri ps of Raise x \<Rightarrow> Raise x | Ok fs \<Rightarrow> Ok (es @ fs)))"

section \<open>The client\<close>

text \<open>
  How one \<^verbatim>\<open>session.post\<close> ends: an answer, one of the four exceptions of \<^verbatim>\<open>requests\<close> the code catches,
  or another one (a body cut short or badly encoded), which it does not.
\<close>

datatype http_result =
    Response int "xml option" "string option"
  | ReadTimeout | SSLError | ConnectTimeout | ConnectError | OtherFailure

record 'w client =
  url :: string
  max_retries :: nat
  transport :: "'w \<Rightarrow> string \<Rightarrow> xml \<Rightarrow> http_result \<times> 'w"
  world :: 'w
  posted :: "(request \<times> http_result) list"
  message_ids :: "nat \<Rightarrow> string"
  ids_used :: nat
  pull_fuel :: nat
  last_peer_certificate :: "string option"

text \<open>One \<^verbatim>\<open>session.post\<close>.\<close>

definition post :: "xml \<Rightarrow> request \<Rightarrow> ('w client, http_result) action" where
  "post env r = (\<lambda>c. case transport c (world c) (url c) env of
      (res, w) \<Rightarrow> (Ok res, c\<lparr>world := w, posted := posted c @ [(r, res)]\<rparr>))"

text \<open>\<^verbatim>\<open>_handle_response\<close>, with \<^verbatim>\<open>_raise_for_fault\<close>: evidence first, then each refusal in order.\<close>

definition find_body :: "xml \<Rightarrow> xml option" where
  "find_body root = find (\<lambda>c. ns c = Some NS_SOAP \<and> local_name c = ''Body'') (children root)"

definition handle_response :: "int \<Rightarrow> xml option \<Rightarrow> string option \<Rightarrow> ('w client, xml) action" where
  "handle_response status content evidence =
     thenA (modify (\<lambda>c. c\<lparr>last_peer_certificate := evidence\<rparr>))
       (if status = 401 then throw AuthenticationError
        else if 400 \<le> status \<and> status < 600 then throw ProtocolError
        else case content of
            None \<Rightarrow> throw ProtocolError
          | Some root \<Rightarrow>
              (if local_name root \<noteq> ''Envelope'' \<or> ns root \<noteq> Some NS_SOAP then throw ProtocolError
               else case find_body root of
                   None \<Rightarrow> throw ProtocolError
                 | Some body \<Rightarrow>
                     (if find_by_local_name body ''Fault'' \<noteq> None then throw ProtocolError
                      else ret body)))"

text \<open>
  The attempt loop of \<^verbatim>\<open>_execute\<close>; \<open>n\<close> attempts are left after this one.  A read timeout is
  indeterminate and final, a failure to connect may be tried again.
\<close>

primrec attempt :: "nat \<Rightarrow> xml \<Rightarrow> request \<Rightarrow> ('w client, xml) action" where
  "attempt 0 env r = bindA (post env r) (\<lambda>res. case res of
      ReadTimeout \<Rightarrow> throw (TimeoutError True)
    | SSLError \<Rightarrow> throw TlsValidationError
    | ConnectTimeout \<Rightarrow> throw (TimeoutError False)
    | ConnectError \<Rightarrow> throw ConnectionError
    | OtherFailure \<Rightarrow> throw (PyError RequestException)
    | Response st content ev \<Rightarrow> handle_response st content ev)"
| "attempt (Suc n) env r = bindA (post env r) (\<lambda>res. case res of
      ReadTimeout \<Rightarrow> throw (TimeoutError True)
    | SSLError \<Rightarrow> throw TlsValidationError
    | ConnectTimeout \<Rightarrow> attempt n env r
    | ConnectError \<Rightarrow> attempt n env r
    | OtherFailure \<Rightarrow> throw (PyError RequestException)
    | Response st content ev \<Rightarrow> handle_response st content ev)"

definition execute :: "request \<Rightarrow> bool \<Rightarrow> ('w client, xml) action" where
  "execute r retryable = bindA (gets id) (\<lambda>c.
     thenA (modify (\<lambda>c. c\<lparr>ids_used := ids_used c + 1\<rparr>))
       (attempt (if retryable then max_retries c else 0)
          (build_envelope (url c) (''uuid:'' @ message_ids c (ids_used c)) r) r))"

definition single_instance :: "xml \<Rightarrow> obj" where
  "single_instance body = (case children body of
      [] \<Rightarrow> []
    | e # _ \<Rightarrow> (case element_to_value e of VDict d \<Rightarrow> d | _ \<Rightarrow> []))"

definition extract_return_value :: "obj \<Rightarrow> int" where
  "extract_return_value output = (case int_of_val (get_prop output ''ReturnValue'') of
      Some n \<Rightarrow> n | None \<Rightarrow> 0)"

section \<open>Operations\<close>

definition wsman_get :: "string \<Rightarrow> selectors \<Rightarrow> ('w client, obj) action" where
  "wsman_get cls sel = bindA (liftA (resource_uri cls)) (\<lambda>uri.
     bindA (execute \<lparr>rq_action = ACTION_GET, rq_uri = uri, rq_selectors = sel, rq_body = None\<rparr> True) (\<lambda>body.
       ret (single_instance body)))"

text \<open>The requests Put and Invoke send.\<close>

definition put_request :: "string \<Rightarrow> obj \<Rightarrow> selectors \<Rightarrow> request outcome" where
  "put_request cls props sel = (case resource_uri cls of
      Raise x \<Rightarrow> Raise x
    | Ok uri \<Rightarrow> (case append_params uri props of
        Raise x \<Rightarrow> Raise x
      | Ok es \<Rightarrow> Ok \<lparr>rq_action = ACTION_PUT, rq_uri = uri, rq_selectors = sel,
                     rq_body = Some (Elem (Some uri) cls [] None es)\<rparr>))"

definition invoke_request :: "string \<Rightarrow> string \<Rightarrow> obj \<Rightarrow> selectors \<Rightarrow> request outcome" where
  "invoke_request cls meth params sel = (case resource_uri cls of
      Raise x \<Rightarrow> Raise x
    | Ok uri \<Rightarrow> (case append_params uri params of
        Raise x \<Rightarrow> Raise x
      | Ok es \<Rightarrow> Ok \<lparr>rq_action = uri @ ''/'' @ meth, rq_uri = uri, rq_selectors = sel,
                     rq_body = Some (Elem (Some uri) (meth @ ''_INPUT'') [] None es)\<rparr>))"

definition wsman_put :: "string \<Rightarrow> obj \<Rightarrow> selectors \<Rightarrow> ('w client, obj) action" where
  "wsman_put cls props sel = bindA (liftA (put_request cls props sel)) (\<lambda>r.
     bindA (execute r False) (\<lambda>body. ret (single_instance body)))"

definition wsman_invoke :: "string \<Rightarrow> string \<Rightarrow> obj \<Rightarrow> selectors \<Rightarrow> ('w client, obj \<times> int) action" where
  "wsman_invoke cls meth params sel = bindA (liftA (invoke_request cls meth params sel)) (\<lambda>r.
     bindA (execute r False) (\<lambda>body.
       let output = single_instance body; return_value = extract_return_value output
       in if return_value \<noteq> 0 then throw (RemoteOperationError return_value)
          else ret (output, return_value)))"

text \<open>
  \<^verbatim>\<open>enumerate\<close>.  One Pull answers the items of a round and the context of the next one; an absent
  or empty context ends the loop.
\<close>

definition pull_request :: "string \<Rightarrow> string \<Rightarrow> request" where
  "pull_request uri context = \<lparr>rq_action = ACTION_PULL, rq_uri = uri, rq_selectors = [],
     rq_body = Some (Elem (Some NS_ENUMERATION) ''Pull'' [] None
       [leaf NS_ENUMERATION ''EnumerationContext'' context,
        leaf NS_ENUMERATION ''MaxElements'' (show_int 64)])\<rparr>"

definition context_of :: "xml \<Rightarrow> string" where
  "context_of e = (case find_by_local_name e ''EnumerationContext'' of
      None \<Rightarrow> []
    | Some c \<Rightarrow> (case text_of c of None \<Rightarrow> [] | Some t \<Rightarrow> t))"

definition pulled_items :: "xml \<Rightarrow> val list" where
  "pulled_items e = (case find_by_local_name e ''Items'' of
      None \<Rightarrow> [] | Some items \<Rightarrow> map element_to_value (children items))"

definition next_context :: "xml \<Rightarrow> string" where
  "next_context e = (if find_by_local_name e ''EndOfSequence'' = None then context_of e else [])"

primrec pull_loop :: "nat \<Rightarrow> string \<Rightarrow> string \<Rightarrow> val list \<Rightarrow> ('w client, val list) action" where
  "pull_loop 0 uri context items = (if context = [] then ret items else throw OutOfFuel)"
| "pull_loop (Suc n) uri context items =
     (if context = [] then ret items
      else bindA (execute (pull_request uri context) True) (\<lambda>resp.
        pull_loop n uri (next_context resp) (items @ pulled_items resp)))"

definition wsman_enumerate :: "string \<Rightarrow> selectors \<Rightarrow> ('w client, val list) action" where
  "wsman_enumerate cls sel = bindA (liftA (resource_uri cls)) (\<lambda>uri.
     bindA (execute \<lparr>rq_action = ACTION_ENUMERATE, rq_uri = uri, rq_selectors = sel,
              rq_body = Some (Elem (Some NS_ENUMERATION) ''Enumerate'' [] None [])\<rparr> True) (\<lambda>body.
     bindA (gets pull_fuel) (\<lambda>n. pull_loop n uri (context_of body) [])))"

end
