(* ===== verification/Wsman_Contract.thy ===== *)
theory Wsman_Contract
  imports Wsman
begin

text \<open>
  What the components above the WS-Man client rely on.  They receive the client as an argument, so
  it is a record of operations \<open>wsman_api\<close>; the locale \<open>wsman_contract\<close> states the laws (reads post
  no mutation, Put and Invoke post exactly their one request) and is interpreted on the client of
  theory \<open>Wsman\<close>.  The first section shows what one call puts on the wire.
\<close>

section \<open>Exchanges of one call\<close>

definition retryable_failure :: "http_result \<Rightarrow> bool" where
  "retryable_failure res \<longleftrightarrow> res = ConnectTimeout \<or> res = ConnectError"

text \<open>
  A run of exchanges of one request: at most \<open>n + 1\<close>, every one but the last failed to connect.
\<close>

definition one_call :: "nat \<Rightarrow> request \<Rightarrow> (request \<times> http_result) list \<Rightarrow> bool" where
  "one_call n r ds \<longleftrightarrow> ds \<noteq> [] \<and> length ds \<le> n + 1 \<and> (\<forall>d \<in> set ds. fst d = r)
     \<and> (\<forall>d \<in> set (butlast ds). retryable_failure (snd d))"

lemma post_run:
  "post env r c = (Ok (fst (transport c (world c) (url c) env)),
     c\<lparr>world := snd (transport c (world c) (url c) env),
       posted := posted c @ [(r, fst (transport c (world c) (url c) env))]\<rparr>)"
  by (simp add: post_def split: prod.splits)

lemma handle_response_posted: "posted (snd (handle_response st content ev c)) = posted c"
  by (simp add: handle_response_def split: option.splits)

lemma attempt_posted:
  "\<exists>ds. posted (snd (attempt n env r c)) = posted c @ ds \<and> one_call n r ds
     \<and> (snd (last ds) = ReadTimeout \<longrightarrow> fst (attempt n env r c) = Raise (TimeoutError True))"
proof (induction n arbitrary: c)
  case 0
  let ?res = "fst (transport c (world c) (url c) env)"
  show ?case
    by (intro exI [of _ "[(r, ?res)]"])
       (simp add: bindA_eq_Ok(1) [where m = "post env r", OF post_run] one_call_def
          handle_response_posted split: http_result.splits)
next
  case (Suc n)
  let ?res = "fst (transport c (world c) (url c) env)"
  let ?c = "c\<lparr>world := snd (transport c (world c) (url c) env), posted := posted c @ [(r, ?res)]\<rparr>"
  note run = bindA_eq_Ok(1) [where m = "post env r", OF post_run]
  show ?case
  proof (cases "retryable_failure ?res")
    case True
    then have eq: "attempt (Suc n) env r c = attempt n env r ?c"
      by (auto simp: run retryable_failure_def)
    from Suc.IH [of ?c] obtain ds where ds: "posted (snd (attempt n env r ?c)) = posted ?c @ ds"
      "one_call n r ds" "snd (last ds) = ReadTimeout \<longrightarrow> fst (attempt n env r ?c) = Raise (TimeoutError True)"
      by blast
    then show ?thesis
      unfolding eq using True
      by (intro exI [of _ "(r, ?res) # ds"]) (auto simp: one_call_def)
  next
    case False
    then show ?thesis
      by (intro exI [of _ "[(r, ?res)]"])
         (simp add: run one_call_def retryable_failure_def handle_response_posted split: http_result.splits)
  qed
qed

lemma posted_ids: "posted (c\<lparr>ids_used := k\<rparr>) = posted c"
  by simp

lemma execute_posted:
  "\<exists>ds. posted (snd (execute r retryable c)) = posted c @ ds
     \<and> one_call (if retryable then max_retries c else 0) r ds
     \<and> (snd (last ds) = ReadTimeout \<longrightarrow> fst (execute r retryable c) = Raise (TimeoutError True))"
proof -
  have "execute r retryable c = attempt (if retryable then max_retries c else 0)
      (build_envelope (url c) (''uuid:'' @ message_ids c (ids_used c)) r) r (c\<lparr>ids_used := ids_used c + 1\<rparr>)"
    by (simp add: execute_def del: attempt.simps)
  with attempt_posted [of "if retryable then max_retries c else 0"
      "build_envelope (url c) (''uuid:'' @ message_ids c (ids_used c)) r" r "c\<lparr>ids_used := ids_used c + 1\<rparr>"]
  show ?thesis by (simp only: posted_ids)
qed

section \<open>Mutations\<close>

definition is_mutation :: "request \<Rightarrow> bool" where
  "is_mutation r \<longleftrightarrow> rq_action r \<notin> {ACTION_GET, ACTION_ENUMERATE, ACTION_PULL}"

definition mutations :: "'w client \<Rightarrow> request list" where
  "mutations c = filter is_mutation (map fst (posted c))"

lemma one_call_filter:
  "one_call n r ds \<Longrightarrow> filter is_mutation (map fst ds) = (if is_mutation r then map fst ds else [])"
  by (induction ds) (auto simp: one_call_def)

lemma execute_read: "\<not> is_mutation r \<Longrightarrow> posts mutations [] (execute r retryable)"
proof (rule postsI)
  fix c :: "'w client" and x t assume "\<not> is_mutation r" and run: "execute r retryable c = (x, t)"
  with execute_posted [of r retryable c] one_call_filter [of _ r]
  have "mutations t = mutations c" by (auto simp: mutations_def)
  then show "\<exists>ds. mutations t = mutations c @ ds \<and> prefix ds [] \<and> (\<forall>v. x = Ok v \<longrightarrow> ds = [])" by simp
qed

lemma one_call_once: "one_call 0 r ds \<Longrightarrow> map fst ds = [r]"
  by (cases ds) (auto simp: one_call_def)

lemma execute_once:
  assumes "is_mutation r"
  shows "posts mutations [r] (execute r False)"
proof (rule postsI)
  fix c :: "'w client" and x t assume run: "execute r False c = (x, t)"
  obtain ds where ds: "posted t = posted c @ ds" "one_call 0 r ds"
    using execute_posted [of r False c] run by auto
  have "mutations t = mutations c @ [r]"
    using one_call_filter [OF ds(2)] one_call_once [OF ds(2)] assms ds(1) by (simp add: mutations_def)
  then show "\<exists>ds. mutations t = mutations c @ ds \<and> prefix ds [r] \<and> (\<forall>v. x = Ok v \<longrightarrow> ds = [r])" by simp
qed

lemma posts_liftA_bind: "(\<And>x. posts log es (k x)) \<Longrightarrow> posts log es (bindA (liftA r) k)"
  by (intro posts_bind_silent posts_pure)

lemma get_silent: "posts mutations [] (wsman_get cls sel)"
  unfolding wsman_get_def
  by (intro posts_intros execute_read) (simp add: is_mutation_def)

lemma pull_silent: "posts mutations [] (pull_loop n uri ctx items)"
proof (induction n arbitrary: ctx items)
  case 0
  show ?case by (simp add: posts_pure)
next
  case (Suc n)
  have "\<not> is_mutation (pull_request uri ctx)" by (simp add: is_mutation_def pull_request_def)
  then show ?case unfolding pull_loop.simps by (intro posts_intros execute_read Suc)
qed

lemma enumerate_silent: "posts mutations [] (wsman_enumerate cls sel)"
  unfolding wsman_enumerate_def
  by (intro posts_intros pull_silent execute_read) (simp add: is_mutation_def)

lemma put_action: "put_request cls props sel = Ok r \<Longrightarrow> is_mutation r"
  by (auto simp: put_request_def is_mutation_def ACTION_PUT_def ACTION_GET_def ACTION_ENUMERATE_def
        ACTION_PULL_def split: outcome.splits)

text \<open>A method's action starts like its resource URI, which no read action does.\<close>

lemma invoke_action: "invoke_request cls meth params sel = Ok r \<Longrightarrow> is_mutation r"
  by (auto simp: invoke_request_def is_mutation_def resource_uri_def RESOURCE_URI_BASE_def
        ACTION_GET_def ACTION_ENUMERATE_def ACTION_PULL_def split: outcome.splits option.splits if_splits)

section \<open>The interface\<close>

record 's wsman_api =
  api_get :: "string \<Rightarrow> selectors \<Rightarrow> ('s, obj) action"
  api_put :: "string \<Rightarrow> obj \<Rightarrow> selectors \<Rightarrow> ('s, obj) action"
  api_enumerate :: "string \<Rightarrow> selectors \<Rightarrow> ('s, val list) action"
  api_invoke :: "string \<Rightarrow> string \<Rightarrow> obj \<Rightarrow> selectors \<Rightarrow> ('s, obj \<times> int) action"

definition the_client :: "'w client wsman_api" where
  "the_client = \<lparr>api_get = wsman_get, api_put = wsman_put, api_enumerate = wsman_enumerate,
     api_invoke = wsman_invoke\<rparr>"

definition sent_request :: "request outcome \<Rightarrow> request list" where
  "sent_request r = (case r of Ok x \<Rightarrow> [x] | Raise _ \<Rightarrow> [])"

locale wsman_contract =
  fixes api :: "'s wsman_api"
    and log :: "'s \<Rightarrow> request list"
  assumes get_reads: "posts log [] (api_get api cls sel)"
    and enumerate_reads: "posts log [] (api_enumerate api cls sel)"
    and put_posts: "posts log (sent_request (put_request cls props sel)) (api_put api cls props sel)"
    and invoke_posts: "posts log (sent_request (invoke_request cls meth params sel))
        (api_invoke api cls meth params sel)"
begin

lemmas silent = get_reads enumerate_reads

lemma put_then:
  "(\<And>x. posts log es (k x)) \<Longrightarrow>
     posts log (sent_request (put_request cls props sel) @ es) (bindA (api_put api cls props sel) k)"
  by (rule posts_bind [OF put_posts])

lemma invoke_then:
  "(\<And>x. posts log es (k x)) \<Longrightarrow>
     posts log (sent_request (invoke_request cls meth params sel) @ es)
       (bindA (api_invoke api cls meth params sel) k)"
  by (rule posts_bind [OF invoke_posts])

lemma invoke_last:
  "(\<And>x. posts log [] (k x)) \<Longrightarrow>
     posts log (sent_request (invoke_request cls meth params sel)) (bindA (api_invoke api cls meth params sel) k)"
  using invoke_then [of "[]" k] by simp

end

lemma put_once: "posts mutations (sent_request (put_request cls props sel)) (wsman_put cls props sel)"
proof (cases "put_request cls props sel")
  case (Ok r)
  have "posts mutations ([r] @ []) (bindA (execute r False) (\<lambda>body. ret (single_instance body)))"
    by (intro posts_bind posts_intros execute_once put_action [OF Ok])
  then show ?thesis by (simp add: wsman_put_def Ok sent_request_def)
next
  case (Raise x)
  then show ?thesis by (simp add: wsman_put_def sent_request_def posts_pure)
qed

lemma invoke_once:
  "posts mutations (sent_request (invoke_request cls meth params sel)) (wsman_invoke cls meth params sel)"
proof (cases "invoke_request cls meth params sel")
  case (Ok r)
  have "posts mutations ([r] @ []) (bindA (execute r False) (\<lambda>body.
      if extract_return_value (single_instance body) \<noteq> 0
      then throw (RemoteOperationError (extract_return_value (single_instance body)))
      else ret (single_instance body, extract_return_value (single_instance body))))"
    by (intro posts_bind posts_intros execute_once invoke_action [OF Ok])
  then show ?thesis by (simp add: wsman_invoke_def Ok sent_request_def Let_def)
next
  case (Raise x)
  then show ?thesis by (simp add: wsman_invoke_def sent_request_def posts_pure)
qed

interpretation ws: wsman_contract the_client mutations
  by unfold_locales
     (simp_all add: the_client_def get_silent enumerate_silent put_once invoke_once)

end
