(* ===== verification/Boot.thy ===== *)
theory Boot
  imports Wsman_Contract
begin

text \<open>
  One-time boot (\<^verbatim>\<open>plugins/module_utils/boot.py\<close> and the core of \<^verbatim>\<open>plugins/modules/amt_boot.py\<close>):
  the plan of a target, discovery, the Put body, and the five-step sequence.  The lemmas inside
  \<open>wsman_contract\<close> give the trace of mutations of a run for any client that keeps the laws.
\<close>

section \<open>Tables and plans\<close>

definition BOOT_CONFIG_INSTANCE_ID :: string where
  "BOOT_CONFIG_INSTANCE_ID = ''Intel(r) AMT: Boot Configuration 0''"

definition BOOT_TARGETS :: "string list" where
  "BOOT_TARGETS = [''pxe'', ''hdd'', ''cd'', ''bios'', ''ider_floppy'', ''ider_cdrom'']"

definition BOOT_SOURCE_INSTANCE_ID :: "(string \<times> string) list" where
  "BOOT_SOURCE_INSTANCE_ID = [(''pxe'', ''Intel(r) AMT: Force PXE Boot''),
     (''hdd'', ''Intel(r) AMT: Force Hard-drive Boot''), (''cd'', ''Intel(r) AMT: Force CD/DVD Boot'')]"

definition CAPABILITY_FIELD_BY_TARGET :: "(string \<times> string) list" where
  "CAPABILITY_FIELD_BY_TARGET = [(''pxe'', ''ForcePXEBoot''), (''hdd'', ''ForceHardDriveBoot''),
     (''cd'', ''ForceCDorDVDBoot''), (''bios'', ''BIOSSetup''), (''ider_floppy'', ''IDER''),
     (''ider_cdrom'', ''IDER'')]"

definition DELETE_BEFORE_PUT_FIELDS :: "string list" where
  "DELETE_BEFORE_PUT_FIELDS = [''WinREBootEnabled'', ''UEFILocalPBABootEnabled'', ''UEFIHTTPSBootEnabled'',
     ''SecureBootControlEnabled'', ''BootguardStatus'', ''OptionsCleared'', ''BIOSLastStatus'',
     ''UefiBootParametersArray'']"

definition ZERO_IF_PRESENT_FIELDS :: "string list" where
  "ZERO_IF_PRESENT_FIELDS = [''UefiBootNumberOfParams'']"

definition OPTIONAL_ERASE_FIELDS :: "string list" where
  "OPTIONAL_ERASE_FIELDS = [''SecureErase'', ''PlatformErase'']"

record BootPlan =
  target :: string
  boot_source_instance_id :: "string option"
  use_ider :: bool
  ider_boot_device :: int
  bios_setup :: bool

text \<open>\<^verbatim>\<open>BootPlan.__post_init__\<close>.\<close>

definition mk_boot_plan :: "BootPlan \<Rightarrow> BootPlan outcome" where
  "mk_boot_plan p = (if use_ider p \<and> boot_source_instance_id p \<noteq> None then Raise InvalidStateError else Ok p)"

definition TARGET_SPECS :: "(string \<times> BootPlan) list" where
  "TARGET_SPECS = map (\<lambda>(t, src, ider, dev, bios).
       (t, \<lparr>target = t, boot_source_instance_id = src, use_ider = ider, ider_boot_device = dev,
            bios_setup = bios\<rparr>))
     [(''pxe'', map_of BOOT_SOURCE_INSTANCE_ID ''pxe'', False, 0, False),
      (''hdd'', map_of BOOT_SOURCE_INSTANCE_ID ''hdd'', False, 0, False),
      (''cd'', map_of BOOT_SOURCE_INSTANCE_ID ''cd'', False, 0, False),
      (''bios'', None, False, 0, True),
      (''ider_floppy'', None, True, 0, False),
      (''ider_cdrom'', None, True, 1, False)]"

definition build_boot_plan :: "string \<Rightarrow> BootPlan outcome" where
  "build_boot_plan t = (case map_of TARGET_SPECS t of
      None \<Rightarrow> Raise (PyError ValueError) | Some p \<Rightarrow> mk_boot_plan p)"

section \<open>Discovery\<close>

text \<open>\<^verbatim>\<open>item.get(key)\<close>: an item that is not a dict has no \<^verbatim>\<open>get\<close>.\<close>

definition val_get :: "val \<Rightarrow> string \<Rightarrow> val outcome" where
  "val_get v k = (case v of VDict d \<Rightarrow> Ok (get_prop d k) | _ \<Rightarrow> Raise (PyError AttributeError))"

fun vals_get :: "val list \<Rightarrow> string \<Rightarrow> val list outcome" where
  "vals_get [] k = Ok []"
| "vals_get (v # vs) k = (case val_get v k of
      Raise x \<Rightarrow> Raise x
    | Ok a \<Rightarrow> (case vals_get vs k of Raise x \<Rightarrow> Raise x | Ok as \<Rightarrow> Ok (a # as)))"

definition discover_and_validate :: "'s wsman_api \<Rightarrow> string \<Rightarrow> ('s, unit) action" where
  "discover_and_validate client t =
     bindA (api_enumerate client ''AMT_BootCapabilities'' []) (\<lambda>instances.
       if length instances \<noteq> 1 then throw UnsupportedCapabilityError
       else case map_of CAPABILITY_FIELD_BY_TARGET t of
           None \<Rightarrow> throw (PyError KeyError)
         | Some field \<Rightarrow>
             bindA (liftA (val_get (hd instances) field)) (\<lambda>v.
               if \<not> flag_set v then throw UnsupportedCapabilityError
               else case map_of BOOT_SOURCE_INSTANCE_ID t of
                   None \<Rightarrow> ret ()
                 | Some expected \<Rightarrow>
                     bindA (api_enumerate client ''CIM_BootSourceSetting'' []) (\<lambda>sources.
                     bindA (liftA (vals_get sources ''InstanceID'')) (\<lambda>ids.
                       if length (filter (\<lambda>i. i = VStr expected) ids) \<noteq> 1
                       then throw UnsupportedCapabilityError else ret ()))))"

section \<open>The Put body\<close>

definition fixed_fields :: "BootPlan \<Rightarrow> obj" where
  "fixed_fields p = [(''ConfigurationDataReset'', VBool False), (''BIOSPause'', VBool False),
     (''EnforceSecureBoot'', VBool False), (''BIOSSetup'', VBool (bios_setup p)),
     (''BootMediaIndex'', VInt 0), (''FirmwareVerbosity'', VInt 0),
     (''ForcedProgressEvents'', VBool False), (''IDERBootDevice'', VInt (ider_boot_device p)),
     (''LockKeyboard'', VBool False), (''LockPowerButton'', VBool False),
     (''LockResetButton'', VBool False), (''LockSleepButton'', VBool False),
     (''ReflashBIOS'', VBool False), (''UseIDER'', VBool (use_ider p)),
     (''UseSOL'', VBool (use_ider p)), (''UseSafeMode'', VBool False),
     (''UserPasswordBypass'', VBool False)]"

definition assign_if_present :: "val \<Rightarrow> obj \<Rightarrow> string list \<Rightarrow> obj \<Rightarrow> obj" where
  "assign_if_present v present ks d =
     foldl (\<lambda>acc k. if map_of present k \<noteq> None then AList.update k v acc else acc) d ks"

definition build_put_properties :: "obj \<Rightarrow> BootPlan \<Rightarrow> obj" where
  "build_put_properties read_instance p =
     (let deleted = foldl (\<lambda>acc k. AList.delete k acc) read_instance DELETE_BEFORE_PUT_FIELDS;
          zeroed = assign_if_present (VInt 0) deleted ZERO_IF_PRESENT_FIELDS deleted;
          fixed = dict_update zeroed (fixed_fields p)
      in assign_if_present (VBool False) read_instance OPTIONAL_ERASE_FIELDS fixed)"

section \<open>The sequence\<close>

record BootArmResult =
  arm_plan :: BootPlan
  arm_previous :: obj
  arm_put_properties :: obj
  arm_observed :: obj
  boot_config_selector :: selectors
  boot_source_selector :: "selectors option"
  arm_mutated :: bool

definition source_param :: "BootPlan \<Rightarrow> val" where
  "source_param p = (case boot_source_instance_id p of
      None \<Rightarrow> VNone | Some i \<Rightarrow> VRef ''CIM_BootSourceSetting'' [(''InstanceID'', i)])"

definition config_selector :: selectors where
  "config_selector = [(''InstanceID'', BOOT_CONFIG_INSTANCE_ID)]"

text \<open>Steps 2 to 5 and the read back.\<close>

definition arm_steps :: "'s wsman_api \<Rightarrow> BootPlan \<Rightarrow> obj \<Rightarrow> ('s, BootArmResult) action" where
  "arm_steps client p previous =
     bindA (api_invoke client ''CIM_BootConfigSetting'' ''ChangeBootOrder''
              [(''Source'', VNone)] config_selector) (\<lambda>_.
     bindA (api_put client ''AMT_BootSettingData'' (build_put_properties previous p) []) (\<lambda>_.
     bindA (api_invoke client ''CIM_BootService'' ''SetBootConfigRole''
              [(''BootConfigSetting'', VRef ''CIM_BootConfigSetting'' config_selector), (''Role'', VInt 1)] []) (\<lambda>_.
     bindA (api_invoke client ''CIM_BootConfigSetting'' ''ChangeBootOrder''
              [(''Source'', source_param p)] config_selector) (\<lambda>_.
     bindA (api_get client ''AMT_BootSettingData'' []) (\<lambda>observed.
       ret \<lparr>arm_plan = p, arm_previous = previous, arm_put_properties = build_put_properties previous p,
            arm_observed = observed, boot_config_selector = config_selector,
            boot_source_selector = map_option (\<lambda>i. [(''InstanceID'', i)]) (boot_source_instance_id p),
            arm_mutated = True\<rparr>)))))"

definition arm_read :: "'s wsman_api \<Rightarrow> string \<Rightarrow> ('s, obj) action" where
  "arm_read client t = thenA (discover_and_validate client t) (api_get client ''AMT_BootSettingData'' [])"

definition arm_one_time_boot ::
  "'s wsman_api \<Rightarrow> string \<Rightarrow> string option \<Rightarrow> bool \<Rightarrow> ('s, BootArmResult) action" where
  "arm_one_time_boot client t action_token check_mode =
     (if action_token = None \<or> action_token = Some [] then throw InvalidStateError
      else bindA (liftA (build_boot_plan t)) (\<lambda>p.
        bindA (arm_read client t) (\<lambda>previous.
          if check_mode then
            ret \<lparr>arm_plan = p, arm_previous = previous, arm_put_properties = build_put_properties previous p,
                 arm_observed = previous, boot_config_selector = config_selector,
                 boot_source_selector = map_option (\<lambda>i. [(''InstanceID'', i)]) (boot_source_instance_id p),
                 arm_mutated = False\<rparr>
          else arm_steps client p previous)))"

text \<open>The body of \<^verbatim>\<open>amt_boot\<close>'s \<^verbatim>\<open>main\<close>: what it hands to \<^verbatim>\<open>exit_json\<close>.\<close>

record boot_result =
  br_changed :: bool
  br_device :: string
  br_config_selector :: selectors
  br_source_selector :: "selectors option"
  br_previous :: obj
  br_desired :: obj
  br_observed :: obj

definition amt_boot_main :: "'s wsman_api \<Rightarrow> string \<Rightarrow> string \<Rightarrow> bool \<Rightarrow> ('s, boot_result) action" where
  "amt_boot_main client device action_token check_mode =
     bindA (arm_one_time_boot client device (Some action_token) check_mode) (\<lambda>res.
       ret \<lparr>br_changed = True, br_device = target (arm_plan res), br_config_selector = boot_config_selector res,
            br_source_selector = boot_source_selector res, br_previous = arm_previous res,
            br_desired = arm_put_properties res, br_observed = arm_observed res\<rparr>)"

section \<open>Lemmas\<close>

text \<open>The requests of the four mutating steps, in the order of the protocol notes.\<close>

definition boot_sequence :: "BootPlan \<Rightarrow> obj \<Rightarrow> request list" where
  "boot_sequence p previous =
     sent_request (invoke_request ''CIM_BootConfigSetting'' ''ChangeBootOrder'' [(''Source'', VNone)] config_selector)
     @ sent_request (put_request ''AMT_BootSettingData'' (build_put_properties previous p) [])
     @ sent_request (invoke_request ''CIM_BootService'' ''SetBootConfigRole''
         [(''BootConfigSetting'', VRef ''CIM_BootConfigSetting'' config_selector), (''Role'', VInt 1)] [])
     @ sent_request (invoke_request ''CIM_BootConfigSetting'' ''ChangeBootOrder''
         [(''Source'', source_param p)] config_selector)"

context wsman_contract
begin

lemma discover_silent: "posts log [] (discover_and_validate api t)"
  unfolding discover_and_validate_def by (intro posts_intros silent)

lemma arm_read_silent: "posts log [] (arm_read api t)"
  unfolding arm_read_def by (intro posts_intros silent discover_silent)

lemma arm_steps_trace: "posts log (boot_sequence p previous) (arm_steps api p previous)"
  unfolding arm_steps_def boot_sequence_def
  by (intro invoke_then put_then invoke_last posts_intros silent)

lemma arm_trace:
  assumes "arm_one_time_boot api t tok False s = (r, s')"
  shows "\<exists>ds. log s' = log s @ ds \<and> (ds = [] \<and> (\<forall>res. r \<noteq> Ok res) \<or>
    (\<exists>p previous u. build_boot_plan t = Ok p \<and> tok \<noteq> None \<and> tok \<noteq> Some []
       \<and> arm_read api t s = (Ok previous, u) \<and> prefix ds (boot_sequence p previous)
       \<and> (\<forall>res. r = Ok res \<longrightarrow> arm_plan res = p \<and> arm_previous res = previous \<and> arm_mutated res
            \<and> ds = boot_sequence p previous)))"
proof (cases "\<exists>p. build_boot_plan t = Ok p \<and> tok \<noteq> None \<and> tok \<noteq> Some []")
  case False
  then have "(\<exists>x. r = Raise x) \<and> s' = s"
    using assms by (cases "build_boot_plan t") (auto simp: arm_one_time_boot_def split: if_splits)
  then show ?thesis by auto
next
  case True
  then obtain p where p: "build_boot_plan t = Ok p" "tok \<noteq> None" "tok \<noteq> Some []"
    and run: "bindA (arm_read api t) (arm_steps api p) s = (r, s')"
    using assms by (auto simp: arm_one_time_boot_def)
  obtain q u where q: "arm_read api t s = (q, u)" by (cases "arm_read api t s")
  with postsD [OF arm_read_silent q] have u: "log u = log s" by simp
  show ?thesis
  proof (cases q)
    case (Raise x)
    with run q u show ?thesis by (auto simp: bindA_def)
  next
    case (Ok previous)
    with run q have steps: "arm_steps api p previous u = (r, s')" by (simp add: bindA_def)
    have res: "r = Ok res \<Longrightarrow> arm_plan res = p \<and> arm_previous res = previous \<and> arm_mutated res" for res
      using steps by (auto simp: arm_steps_def elim!: bindA_OkE)
    obtain ds where "log s' = log s @ ds" "prefix ds (boot_sequence p previous)"
      "\<And>res. r = Ok res \<Longrightarrow> ds = boot_sequence p previous"
      using postsD [OF arm_steps_trace steps] u by auto
    with res p q Ok show ?thesis by blast
  qed
qed

lemma arm_check_mode_silent: "posts log [] (arm_one_time_boot api t tok True)"
  unfolding arm_one_time_boot_def by (intro posts_intros silent arm_read_silent) simp_all

end

text \<open>Every target builds a plan, and no plan names both redirection and a boot source.\<close>

lemma build_boot_plan_cases:
  "build_boot_plan t = Ok p \<Longrightarrow> map_of TARGET_SPECS t = Some p \<and> \<not> (use_ider p \<and> boot_source_instance_id p \<noteq> None)"
  by (auto simp: build_boot_plan_def mk_boot_plan_def split: option.splits if_splits)

text \<open>Lookups in the Put body.\<close>

lemma map_of_delete_all: "map_of (foldl (\<lambda>acc k. AList.delete k acc) d ks) k =
   (if k \<in> set ks then None else map_of d k)"
  by (induction ks arbitrary: d) (auto simp: AList.delete_conv')

lemma map_of_assign_if_present:
  "map_of (assign_if_present v present ks d) k =
     (if k \<in> set ks \<and> map_of present k \<noteq> None then Some v else map_of d k)"
  unfolding assign_if_present_def
  by (induction ks arbitrary: d) (auto simp: AList.update_conv')

lemma map_of_dict_update: "distinct (map fst new) \<Longrightarrow>
   map_of (dict_update d new) k = (case map_of new k of Some v \<Rightarrow> Some v | None \<Rightarrow> map_of d k)"
  unfolding dict_update_def
proof (induction new arbitrary: d)
  case Nil
  then show ?case by simp
next
  case (Cons kv new)
  obtain a b where kv: "kv = (a, b)" by (cases kv)
  with Cons have "map_of new a = None" by (simp add: map_of_eq_None_iff)
  with Cons kv show ?case by (auto simp: AList.update_conv' split: option.splits)
qed

lemma distinct_fixed_fields: "distinct (map fst (fixed_fields p))"
  by (simp add: fixed_fields_def)

end
