(* ===== verification/Wsman_Demo.thy ===== *)
theory Wsman_Demo
  imports Wsman_Contract
begin

text \<open>
  A concrete endpoint for the witnesses.  Its one reply serves every request: read as an instance
  it has the properties the components look at, as a method output it returns 0, as an Enumerate
  reply it opens a context and as a Pull reply it carries one item and ends the sequence.
\<close>

definition demo_properties :: "string \<Rightarrow> xml list" where
  "demo_properties pw = map (\<lambda>(k, v). Elem None k [] (Some v) [])
     [(''ForcePXEBoot'', ''true''), (''IDER'', ''true''), (''SOL'', ''true''),
      (''InstanceID'', ''Intel(r) AMT: Force PXE Boot''), (''PowerState'', pw),
      (''EnabledState'', ''32768''), (''SecureErase'', ''true''), (''BIOSLastStatus'', ''0''),
      (''ReturnValue'', ''0''), (''EnumerationContext'', ''1'')]"

definition demo_reply :: "string \<Rightarrow> xml" where
  "demo_reply pw = Elem (Some NS_SOAP) ''Envelope'' [] None [Elem (Some NS_SOAP) ''Body'' [] None
     [Elem None ''I'' [] None (demo_properties pw @
        [Elem None ''Items'' [] None [Elem None ''I'' [] None (demo_properties pw)],
         Elem None ''EndOfSequence'' [] None []])]]"

text \<open>The world counts the requests; the machine is on from the fourth one.\<close>

definition demo_transport :: "nat \<Rightarrow> string \<Rightarrow> xml \<Rightarrow> http_result \<times> nat" where
  "demo_transport n u env = (Response 200 (Some (demo_reply (if n < 3 then ''8'' else ''2''))) None, n + 1)"

definition demo_client :: "nat client" where
  "demo_client = \<lparr>url = ''http://amt:16992/wsman'', max_retries = 2, transport = demo_transport,
     world = 0, posted = [], message_ids = (\<lambda>_. ''m''), ids_used = 0, pull_fuel = 3,
     last_peer_certificate = None\<rparr>"

end
