(* ===== verification/Boot_Properties.thy ===== *)
theory Boot_Properties
  imports Boot Wsman_Demo
begin

text \<open>The properties of one-time boot, over the real client, with a concrete endpoint.\<close>

text \<open>
  C14: A one-time boot posts its mutations in the order of the protocol and each at most once.
  Whatever is raised on the way, what reached the wire is a prefix of: clear the boot order, Put the
  mutated settings, set the single-use role, set the boot order; nothing at all is posted before a
  plan was built, a token given, discovery passed and the settings were read; and when the function
  returns all four were posted, for the instance it read.
\<close>

theorem boot_five_steps:
  assumes "arm_one_time_boot the_client t tok False c = (r, c')"
  shows "\<exists>ds. mutations c' = mutations c @ ds \<and> (ds = [] \<and> (\<forall>res. r \<noteq> Ok res) \<or>
    (\<exists>p previous u. build_boot_plan t = Ok p \<and> tok \<noteq> None \<and> tok \<noteq> Some []
       \<and> arm_read the_client t c = (Ok previous, u) \<and> prefix ds (boot_sequence p previous)
       \<and> (\<forall>res. r = Ok res \<longrightarrow> arm_plan res = p \<and> arm_previous res = previous \<and> arm_mutated res
            \<and> ds = boot_sequence p previous)))"
  using assms by (rule ws.arm_trace)

lemma demo_boot: "case arm_one_time_boot the_client ''pxe'' (Some ''t'') False demo_client of
    (r, c) \<Rightarrow> (case r of Ok res \<Rightarrow> arm_mutated res | Raise _ \<Rightarrow> False) \<and> length (mutations c) = 4"
  by code_simp

theorem boot_five_steps_witness:
  "\<exists>res p previous. fst (arm_one_time_boot the_client ''pxe'' (Some ''t'') False demo_client) = Ok res
     \<and> mutations (snd (arm_one_time_boot the_client ''pxe'' (Some ''t'') False demo_client))
         = boot_sequence p previous \<and> length (boot_sequence p previous) = 4"
proof -
  obtain r c' where run: "arm_one_time_boot the_client ''pxe'' (Some ''t'') False demo_client = (r, c')"
    by (cases "arm_one_time_boot the_client ''pxe'' (Some ''t'') False demo_client")
  with demo_boot obtain res where ok: "r = Ok res" "length (mutations c') = 4" by (auto split: outcome.splits)
  have "mutations demo_client = []" by (simp add: mutations_def demo_client_def)
  with boot_five_steps [OF run] run ok show ?thesis by auto
qed

text \<open>
  C15: Check mode and a missing token mutate nothing: in check mode no Put and no Invoke is ever
  posted, and without a token (in either mode) the function refuses before any request at all.
\<close>

theorem boot_gates:
  "mutations (snd (arm_one_time_boot the_client t tok True c)) = mutations c
   \<and> (tok = None \<or> tok = Some [] \<longrightarrow> arm_one_time_boot the_client t tok mode c = (Raise InvalidStateError, c))"
proof -
  obtain r c' where run: "arm_one_time_boot the_client t tok True c = (r, c')"
    by (cases "arm_one_time_boot the_client t tok True c")
  from postsD [OF ws.arm_check_mode_silent run] run show ?thesis by (auto simp: arm_one_time_boot_def)
qed

theorem boot_gates_witness:
  "arm_one_time_boot the_client ''pxe'' None False demo_client = (Raise InvalidStateError, demo_client)"
  using boot_gates [of "''pxe''" None demo_client False] by simp

text \<open>
  Discovery fails closed.  It succeeds only when the firmware answered with exactly one
  capabilities instance, that instance sets the field the target needs, and, for a target with a
  boot source, exactly one source instance carries its identifier; an absent field counts as false.
\<close>

lemma discovery_fails_closed:
  assumes "discover_and_validate the_client t c = (Ok (), c')"
  shows "\<exists>caps field c1. wsman_enumerate ''AMT_BootCapabilities'' [] c = (Ok [VDict caps], c1)
    \<and> map_of CAPABILITY_FIELD_BY_TARGET t = Some field \<and> flag_set (get_prop caps field)
    \<and> (\<forall>src. map_of BOOT_SOURCE_INSTANCE_ID t = Some src \<longrightarrow>
         (\<exists>sources ids. wsman_enumerate ''CIM_BootSourceSetting'' [] c1 = (Ok sources, c')
            \<and> vals_get sources ''InstanceID'' = Ok ids \<and> length (filter (\<lambda>i. i = VStr src) ids) = 1))"
proof -
  from assms obtain instances c1 where e: "wsman_enumerate ''AMT_BootCapabilities'' [] c = (Ok instances, c1)"
    and k: "(if length instances \<noteq> 1 then throw UnsupportedCapabilityError
       else case map_of CAPABILITY_FIELD_BY_TARGET t of
           None \<Rightarrow> throw (PyError KeyError)
         | Some field \<Rightarrow> bindA (liftA (val_get (hd instances) field)) (\<lambda>v.
               if \<not> flag_set v then throw UnsupportedCapabilityError
               else case map_of BOOT_SOURCE_INSTANCE_ID t of
                   None \<Rightarrow> ret ()
                 | Some expected \<Rightarrow> bindA (wsman_enumerate ''CIM_BootSourceSetting'' []) (\<lambda>sources.
                     bindA (liftA (vals_get sources ''InstanceID'')) (\<lambda>ids.
                       if length (filter (\<lambda>i. i = VStr expected) ids) \<noteq> 1
                       then throw UnsupportedCapabilityError else ret ())))) c1 = (Ok (), c')"
    unfolding discover_and_validate_def the_client_def wsman_api.simps by (rule bindA_OkE)
  then obtain i where i: "instances = [i]" by (auto simp: length_Suc_conv split: if_splits)
  with k obtain field where f: "map_of CAPABILITY_FIELD_BY_TARGET t = Some field" by (auto split: option.splits)
  with k i obtain caps where caps: "i = VDict caps"
    by (auto simp: val_get_def split: val.splits elim!: bindA_OkE)
  with k i f e show ?thesis
    by (auto simp: val_get_def split: if_splits option.splits elim!: bindA_OkE)
qed

lemma demo_discovery: "case discover_and_validate the_client ''pxe'' demo_client of
    (r, c) \<Rightarrow> (case r of Ok _ \<Rightarrow> True | Raise _ \<Rightarrow> False)"
  by code_simp

text \<open>
  The Put body, key by key: the erase flags become false only where the firmware has them, the
  seventeen fixed fields take the plan's values (UseSOL equal to UseIDER), the deny-listed fields
  are gone, the parameter count is zeroed where present, and every other property is carried
  through unchanged.
\<close>

lemma put_body:
  "map_of (build_put_properties d p) k =
    (if k \<in> {''SecureErase'', ''PlatformErase''} \<and> map_of d k \<noteq> None then Some (VBool False)
     else case map_of (fixed_fields p) k of
         Some v \<Rightarrow> Some v
       | None \<Rightarrow> (if k \<in> set DELETE_BEFORE_PUT_FIELDS then None
                  else if k = ''UefiBootNumberOfParams'' \<and> map_of d k \<noteq> None then Some (VInt 0)
                  else map_of d k))
   \<and> map_of (build_put_properties d p) ''UseSOL'' = map_of (build_put_properties d p) ''UseIDER''"
proof -
  have zero: "''UefiBootNumberOfParams'' \<notin> set DELETE_BEFORE_PUT_FIELDS"
    by (simp add: DELETE_BEFORE_PUT_FIELDS_def)
  have key: "map_of (build_put_properties d p) k =
    (if k \<in> {''SecureErase'', ''PlatformErase''} \<and> map_of d k \<noteq> None then Some (VBool False)
     else case map_of (fixed_fields p) k of
         Some v \<Rightarrow> Some v
       | None \<Rightarrow> (if k \<in> set DELETE_BEFORE_PUT_FIELDS then None
                  else if k = ''UefiBootNumberOfParams'' \<and> map_of d k \<noteq> None then Some (VInt 0)
                  else map_of d k))" for k
    unfolding build_put_properties_def Let_def map_of_assign_if_present map_of_delete_all
      map_of_dict_update [OF distinct_fixed_fields] OPTIONAL_ERASE_FIELDS_def ZERO_IF_PRESENT_FIELDS_def
    using zero by (cases "map_of (fixed_fields p) k") (auto simp del: not_None_eq)
  have ider: "map_of (fixed_fields p) ''UseIDER'' = Some (VBool (use_ider p))"
    "map_of (fixed_fields p) ''UseSOL'' = Some (VBool (use_ider p))"
    by (simp_all add: fixed_fields_def)
  have "map_of (build_put_properties d p) ''UseSOL'' = map_of (build_put_properties d p) ''UseIDER''"
    unfolding key [of "''UseSOL''"] key [of "''UseIDER''"] ider by simp
  with key [of k] show ?thesis by (rule conjI)
qed

text \<open>
  Redirection and a native boot source exclude each other: every target the module offers
  builds a plan, and a plan that turns IDE-R on always sends the null source; any other target is
  refused.
\<close>

lemma boot_plans_exclusive:
  "(t \<in> set BOOT_TARGETS \<longrightarrow> (\<exists>p. build_boot_plan t = Ok p \<and> target p = t
      \<and> (use_ider p \<longrightarrow> source_param p = VNone) \<and> (use_ider p \<longleftrightarrow> t \<in> {''ider_floppy'', ''ider_cdrom''})))
   \<and> (t \<notin> set BOOT_TARGETS \<longrightarrow> build_boot_plan t = Raise (PyError ValueError))"
  by (auto simp: build_boot_plan_def mk_boot_plan_def TARGET_SPECS_def BOOT_TARGETS_def
        BOOT_SOURCE_INSTANCE_ID_def source_param_def)

end
