(* ===== verification/Redirection_Service.thy ===== *)
theory Redirection_Service
  imports Boot
begin

text \<open>
  \<^verbatim>\<open>plugins/module_utils/redirection_service.py\<close> and the decision part of
  \<^verbatim>\<open>plugins/modules/amt_redirection.py\<close>: the three signals (supported, enabled, reachable), the
  validation of a requested state, and the read-validate-change-reread sequence of the module.
  The TCP connect is a parameter: it answers with the exception it raises, if any.
\<close>

definition STATE_NAME_TO_ENABLED_STATE :: "(string \<times> int) list" where
  "STATE_NAME_TO_ENABLED_STATE = [(''disabled'', 32768), (''ider'', 32769), (''sol'', 32770), (''all'', 32771)]"

definition ENABLED_STATE_TO_STATE_NAME :: "(int \<times> string) list" where
  "ENABLED_STATE_TO_STATE_NAME = map (\<lambda>(k, v). (v, k)) STATE_NAME_TO_ENABLED_STATE"

definition DEFAULT_REDIRECTION_PORTS :: "int list" where
  "DEFAULT_REDIRECTION_PORTS = [16994, 16995]"

record RedirectionCapabilities =
  ider_supported :: bool
  sol_supported :: bool

record RedirectionStatus =
  capabilities :: RedirectionCapabilities
  state :: RedirectionState
  transport_reachable :: "(int \<times> bool) list"

definition get_capabilities :: "'s wsman_api \<Rightarrow> ('s, RedirectionCapabilities) action" where
  "get_capabilities client = bindA (api_enumerate client ''AMT_BootCapabilities'' []) (\<lambda>instances.
     if length instances \<noteq> 1 then throw UnsupportedCapabilityError
     else bindA (liftA (val_get (hd instances) ''IDER'')) (\<lambda>ider.
          bindA (liftA (val_get (hd instances) ''SOL'')) (\<lambda>sol.
            ret \<lparr>ider_supported = flag_set ider, sol_supported = flag_set sol\<rparr>)))"

text \<open>\<^verbatim>\<open>instance.get("EnabledState", -1)\<close>: the default is the int -1.\<close>

definition get_default :: "obj \<Rightarrow> string \<Rightarrow> val \<Rightarrow> val" where
  "get_default d k v = (case map_of d k of None \<Rightarrow> v | Some x \<Rightarrow> x)"

definition get_state :: "'s wsman_api \<Rightarrow> ('s, RedirectionState) action" where
  "get_state client = bindA (api_get client ''AMT_RedirectionService'' []) (\<lambda>i.
     ret (from_enabled_state (get_default i ''EnabledState'' (VInt (-1)))
            (flag_set (get_prop i ''ListenerEnabled''))))"

fun probe_transport_reachable ::
  "(string \<Rightarrow> int \<Rightarrow> exn option) \<Rightarrow> string \<Rightarrow> int list \<Rightarrow> (int \<times> bool) list \<Rightarrow> (int \<times> bool) list outcome" where
  "probe_transport_reachable connect host [] acc = Ok acc"
| "probe_transport_reachable connect host (p # ps) acc = (case connect host p of
      None \<Rightarrow> probe_transport_reachable connect host ps (AList.update p True acc)
    | Some x \<Rightarrow> if x = PyError OSError
                then probe_transport_reachable connect host ps (AList.update p False acc)
                else Raise x)"

definition get_status ::
  "'s wsman_api \<Rightarrow> (string \<Rightarrow> int \<Rightarrow> exn option) \<Rightarrow> string \<Rightarrow> ('s, RedirectionStatus) action" where
  "get_status client connect host = bindA (get_capabilities client) (\<lambda>caps.
     bindA (get_state client) (\<lambda>st.
     bindA (liftA (probe_transport_reachable connect host DEFAULT_REDIRECTION_PORTS [])) (\<lambda>reach.
       ret \<lparr>capabilities = caps, state = st, transport_reachable = reach\<rparr>)))"

definition validate_state_change :: "RedirectionCapabilities \<Rightarrow> string \<Rightarrow> unit outcome" where
  "validate_state_change caps state_name =
     (if map_of STATE_NAME_TO_ENABLED_STATE state_name = None then Raise (PyError ValueError)
      else if state_name \<in> {''ider'', ''all''} \<and> \<not> ider_supported caps then Raise UnsupportedCapabilityError
      else if state_name \<in> {''sol'', ''all''} \<and> \<not> sol_supported caps then Raise UnsupportedCapabilityError
      else Ok ())"

definition request_state_change :: "'s wsman_api \<Rightarrow> string \<Rightarrow> ('s, unit) action" where
  "request_state_change client state_name = (case map_of STATE_NAME_TO_ENABLED_STATE state_name of
      None \<Rightarrow> throw (PyError ValueError)
    | Some n \<Rightarrow> bindA (api_invoke client ''AMT_RedirectionService'' ''RequestStateChange''
                        [(''RequestedState'', VInt n)] []) (\<lambda>_. ret ()))"

text \<open>The body of \<^verbatim>\<open>main\<close>: whether it changed, the previous state name and the last status.\<close>

record redirection_result =
  rr_changed :: bool
  rr_previous :: "string option"
  rr_status :: RedirectionStatus

definition amt_redirection_main ::
  "'s wsman_api \<Rightarrow> (string \<Rightarrow> int \<Rightarrow> exn option) \<Rightarrow> string \<Rightarrow> string option \<Rightarrow> bool
     \<Rightarrow> ('s, redirection_result) action" where
  "amt_redirection_main client connect host desired check_mode =
     bindA (get_status client connect host) (\<lambda>status.
       let previous = map_of ENABLED_STATE_TO_STATE_NAME (redir_enabled_state (state status))
       in case desired of
           None \<Rightarrow> ret \<lparr>rr_changed = False, rr_previous = previous, rr_status = status\<rparr>
         | Some name \<Rightarrow>
             (if Some name = previous
              then ret \<lparr>rr_changed = False, rr_previous = previous, rr_status = status\<rparr>
              else bindA (liftA (validate_state_change (capabilities status) name)) (\<lambda>_.
                if check_mode then ret \<lparr>rr_changed = True, rr_previous = previous, rr_status = status\<rparr>
                else thenA (request_state_change client name)
                  (bindA (get_status client connect host) (\<lambda>status'.
                     ret \<lparr>rr_changed = True, rr_previous = previous, rr_status = status'\<rparr>)))))"

section \<open>Lemmas\<close>

definition state_change_request :: "string \<Rightarrow> request list" where
  "state_change_request name = (case map_of STATE_NAME_TO_ENABLED_STATE name of
      None \<Rightarrow> []
    | Some n \<Rightarrow> sent_request (invoke_request ''AMT_RedirectionService'' ''RequestStateChange''
                  [(''RequestedState'', VInt n)] []))"

context wsman_contract
begin

lemma status_silent: "posts log [] (get_status api connect host)"
  unfolding get_status_def get_capabilities_def get_state_def by (intro posts_intros silent)

lemma change_posts: "posts log (state_change_request name) (request_state_change api name)"
  unfolding request_state_change_def state_change_request_def
  by (cases "map_of STATE_NAME_TO_ENABLED_STATE name") (simp_all add: posts_pure invoke_last)

lemma change_then_status:
  "posts log (state_change_request name) (thenA (request_state_change api name)
     (bindA (get_status api connect host) (\<lambda>st. ret (f st))))"
  using posts_then [OF change_posts, of "[]"] posts_bind_silent [OF status_silent] posts_pure(1)
  by (metis append_Nil2)

text \<open>What a run of the module posts, and what it reports.\<close>

lemma main_trace:
  assumes "amt_redirection_main api connect host desired check_mode s = (r, s')"
  shows "(log s' = log s \<or> (\<exists>name status u. desired = Some name \<and> \<not> check_mode
      \<and> get_status api connect host s = (Ok status, u)
      \<and> validate_state_change (capabilities status) name = Ok ()
      \<and> map_of ENABLED_STATE_TO_STATE_NAME (redir_enabled_state (state status)) \<noteq> Some name
      \<and> log s' = log s @ state_change_request name))
    \<and> (\<forall>res. r = Ok res \<longrightarrow> rr_changed res = (desired \<noteq> None \<and> desired \<noteq> rr_previous res)
         \<and> log s' = log s @ (if rr_changed res \<and> \<not> check_mode then state_change_request (the desired) else []))"
proof -
  obtain q u where q: "get_status api connect host s = (q, u)" by (cases "get_status api connect host s")
  with postsD [OF status_silent q] have u: "log u = log s" by simp
  show ?thesis
  proof (cases q)
    case (Raise x)
    with assms q u show ?thesis by (auto simp: amt_redirection_main_def bindA_eq_Ok(2) [where m = "get_status api connect host"])
  next
    case (Ok status)
    let ?prev = "map_of ENABLED_STATE_TO_STATE_NAME (redir_enabled_state (state status))"
    note run = assms [unfolded amt_redirection_main_def
        bindA_eq_Ok(1) [where m = "get_status api connect host", OF q [unfolded Ok]] Let_def]
    show ?thesis
    proof (cases "\<exists>name. desired = Some name \<and> Some name \<noteq> ?prev
        \<and> validate_state_change (capabilities status) name = Ok () \<and> \<not> check_mode")
      case False
      with run u show ?thesis
        by (cases desired; cases "validate_state_change (capabilities status) (the desired)")
           (auto split: if_splits)
    next
      case True
      then obtain name where n: "desired = Some name" "Some name \<noteq> ?prev"
        "validate_state_change (capabilities status) name = Ok ()" "\<not> check_mode" by blast
      with run have tail: "thenA (request_state_change api name)
          (bindA (get_status api connect host) (\<lambda>st.
             ret \<lparr>rr_changed = True, rr_previous = ?prev, rr_status = st\<rparr>)) u = (r, s')" by simp
      have res: "\<forall>res. r = Ok res \<longrightarrow> rr_changed res \<and> rr_previous res = ?prev"
        using tail by (auto elim!: thenA_OkE bindA_OkE)
      obtain ds where ds: "log s' = log u @ ds" "prefix ds (state_change_request name)"
        "\<And>x. r = Ok x \<Longrightarrow> ds = state_change_request name"
        using postsD [OF change_then_status tail] by blast
      have "length (state_change_request name) \<le> 1"
        by (auto simp: state_change_request_def sent_request_def split: option.splits outcome.splits)
      with ds(2) have "ds = [] \<or> ds = state_change_request name"
        by (cases "state_change_request name") (auto simp: prefix_Cons)
      with ds n q Ok u res show ?thesis by auto
    qed
  qed
qed

end

end
