(* ===== verification/Power_Control.thy ===== *)
theory Power_Control
  imports Wsman_Contract
begin

text \<open>
  Power control: the power part of \<^verbatim>\<open>AmtClient\<close> (\<^verbatim>\<open>plugins/module_utils/client.py\<close>) and the
  decision part of \<^verbatim>\<open>plugins/modules/amt_power.py\<close>.  Sleeping between probes does not touch the
  state and is left out.
\<close>

datatype PowerAction = ON | OFF | CYCLE | RESET | REBOOT | SLEEP_LIGHT | SLEEP_DEEP | HIBERNATE

fun power_action_code :: "PowerAction \<Rightarrow> int" where
  "power_action_code ON = 2"
| "power_action_code SLEEP_LIGHT = 3"
| "power_action_code SLEEP_DEEP = 4"
| "power_action_code CYCLE = 5"
| "power_action_code HIBERNATE = 7"
| "power_action_code OFF = 8"
| "power_action_code RESET = 10"
| "power_action_code REBOOT = 10"

fun action_expected_state :: "PowerAction \<Rightarrow> string" where
  "action_expected_state ON = ''on''"
| "action_expected_state SLEEP_LIGHT = ''sleep''"
| "action_expected_state SLEEP_DEEP = ''sleep''"
| "action_expected_state CYCLE = ''on''"
| "action_expected_state HIBERNATE = ''hibernate''"
| "action_expected_state OFF = ''off''"
| "action_expected_state RESET = ''on''"
| "action_expected_state REBOOT = ''on''"

definition get_power_state :: "'s wsman_api \<Rightarrow> ('s, PowerState) action" where
  "get_power_state w = bindA (api_get w ''CIM_AssociatedPowerManagementService'' []) (\<lambda>i.
     ret (from_cim_value (case map_of i ''PowerState'' of None \<Rightarrow> VInt (-1) | Some v \<Rightarrow> v)))"

text \<open>One probe: a classified failure is only a missing observation.\<close>

definition probe :: "'s wsman_api \<Rightarrow> ('s, PowerState option) action" where
  "probe w = catchA (bindA (get_power_state w) (\<lambda>p. ret (Some p))) is_amt_error (\<lambda>_. ret None)"

primrec probe_loop ::
  "'s wsman_api \<Rightarrow> string \<Rightarrow> nat \<Rightarrow> PowerState option \<Rightarrow> PowerState list \<Rightarrow>
     ('s, PowerState option \<times> PowerState list) action" where
  "probe_loop w expected 0 observed probes = ret (observed, probes)"
| "probe_loop w expected (Suc n) observed probes = bindA (probe w) (\<lambda>x. case x of
      None \<Rightarrow> probe_loop w expected n observed probes
    | Some p \<Rightarrow> (if normalized p = expected then ret (Some p, probes @ [p])
                 else probe_loop w expected n (Some p) (probes @ [p])))"

record power_receipt =
  pr_changed :: bool
  pr_previous :: PowerState
  pr_desired :: "string option"
  pr_observed :: "PowerState option"
  pr_return_value :: "int option"
  pr_probes :: "PowerState list"

definition managed_element :: val where
  "managed_element = VRef ''CIM_ComputerSystem'' [(''Name'', ''ManagedSystem'')]"

definition power_params :: "PowerAction \<Rightarrow> obj" where
  "power_params a = [(''PowerState'', VInt (power_action_code a)), (''ManagedElement'', managed_element)]"

text \<open>\<^verbatim>\<open>request_power_state\<close>; \<open>poll_count\<close> is the client's attribute, negative counts as 0.\<close>

definition request_power_state :: "'s wsman_api \<Rightarrow> int \<Rightarrow> PowerAction \<Rightarrow> ('s, power_receipt) action" where
  "request_power_state w poll_count a =
     bindA (get_power_state w) (\<lambda>previous.
     bindA (api_invoke w ''CIM_PowerManagementService'' ''RequestPowerStateChange'' (power_params a) []) (\<lambda>out.
     bindA (probe_loop w (action_expected_state a) (nat poll_count) None []) (\<lambda>obs.
       ret \<lparr>pr_changed = True, pr_previous = previous, pr_desired = Some (action_expected_state a),
            pr_observed = fst obs, pr_return_value = Some (snd out), pr_probes = snd obs\<rparr>)))"

section \<open>The module\<close>

definition STATE_TO_ACTION :: "(string \<times> PowerAction) list" where
  "STATE_TO_ACTION = [(''on'', ON), (''off'', OFF), (''reboot'', REBOOT), (''reset'', RESET),
     (''cycle'', CYCLE), (''sleep-light'', SLEEP_LIGHT), (''sleep-deep'', SLEEP_DEEP), (''hibernate'', HIBERNATE)]"

definition CONVERGENT_STATES :: "string list" where
  "CONVERGENT_STATES = [''on'', ''off'', ''hibernate'']"

definition power_plan :: "string \<Rightarrow> string \<Rightarrow> (bool \<times> string option) outcome" where
  "power_plan st previous_normalized =
     (if st = ''query'' then Ok (False, None)
      else case map_of STATE_TO_ACTION st of
          None \<Rightarrow> Raise (PyError KeyError)
        | Some a \<Rightarrow>
            (let desired = action_expected_state a
             in if st \<in> set CONVERGENT_STATES then Ok (previous_normalized \<noteq> desired, Some desired)
                else Ok (True, Some desired)))"

definition amt_power_main :: "'s wsman_api \<Rightarrow> int \<Rightarrow> string \<Rightarrow> bool \<Rightarrow> ('s, power_receipt) action" where
  "amt_power_main w poll_count st check_mode =
     bindA (get_power_state w) (\<lambda>previous.
     bindA (liftA (power_plan st (normalized previous))) (\<lambda>pl.
       if \<not> fst pl \<or> check_mode then
         ret \<lparr>pr_changed = fst pl, pr_previous = previous, pr_desired = snd pl, pr_observed = None,
              pr_return_value = None, pr_probes = []\<rparr>
       else case map_of STATE_TO_ACTION st of
           None \<Rightarrow> throw (PyError KeyError)
         | Some a \<Rightarrow> request_power_state w poll_count a))"

section \<open>Lemmas\<close>

definition power_request :: "PowerAction \<Rightarrow> request list" where
  "power_request a =
     sent_request (invoke_request ''CIM_PowerManagementService'' ''RequestPowerStateChange'' (power_params a) [])"

text \<open>The shape of the probes, whatever they observe.\<close>

definition probes_ok :: "string \<Rightarrow> nat \<Rightarrow> PowerState option \<times> PowerState list \<Rightarrow> bool" where
  "probes_ok expected n obs \<longleftrightarrow> length (snd obs) \<le> n
     \<and> fst obs = (if snd obs = [] then None else Some (last (snd obs)))
     \<and> (\<forall>p \<in> set (butlast (snd obs)). normalized p \<noteq> expected)"

lemma probe_loop_ok:
  "probe_loop w expected n observed probes s = (Ok obs, s') \<Longrightarrow>
   observed = (if probes = [] then None else Some (last probes)) \<Longrightarrow>
   (\<forall>p \<in> set probes. normalized p \<noteq> expected) \<Longrightarrow>
   probes_ok expected (length probes + n) obs"
proof (induction n arbitrary: observed probes s)
  case 0
  then show ?case using in_set_butlastD by (fastforce simp: probes_ok_def)
next
  case (Suc n)
  from Suc.prems(1) obtain x t where "(case x of
      None \<Rightarrow> probe_loop w expected n observed probes
    | Some p \<Rightarrow> (if normalized p = expected then ret (Some p, probes @ [p])
                 else probe_loop w expected n (Some p) (probes @ [p]))) t = (Ok obs, s')"
    unfolding probe_loop.simps by (rule bindA_OkE)
  then consider (none) "probe_loop w expected n observed probes t = (Ok obs, s')"
    | (hit) p where "normalized p = expected" "obs = (Some p, probes @ [p])"
    | (miss) p where "normalized p \<noteq> expected" "probe_loop w expected n (Some p) (probes @ [p]) t = (Ok obs, s')"
    by (auto split: option.splits if_splits)
  then show ?case
  proof cases
    case none
    from Suc.IH [OF none Suc.prems(2,3)] show ?thesis by (auto simp: probes_ok_def)
  next
    case hit
    with Suc.prems(3) show ?thesis by (simp add: probes_ok_def)
  next
    case miss
    have "probes_ok expected (length (probes @ [p]) + n) obs"
      using miss Suc.prems(3) by (intro Suc.IH [OF miss(2)]) auto
    then show ?thesis by simp
  qed
qed

context wsman_contract
begin

lemma power_state_silent: "posts log [] (get_power_state api)"
  unfolding get_power_state_def by (intro posts_intros silent)

lemma probe_silent: "posts log [] (probe api)"
  unfolding probe_def by (intro posts_intros power_state_silent)

lemma probe_loop_silent: "posts log [] (probe_loop api expected n observed probes)"
proof (induction n arbitrary: observed probes)
  case 0
  show ?case unfolding probe_loop.simps by (rule posts_pure)
next
  case (Suc n)
  show ?case unfolding probe_loop.simps by (intro posts_intros probe_silent Suc)
qed

lemma power_trace: "posts log (power_request a) (request_power_state api k a)"
  unfolding request_power_state_def power_request_def
  by (rule posts_bind_silent [OF power_state_silent]) (intro invoke_last posts_intros probe_loop_silent)

text \<open>The module mutates only when the plan says so.\<close>

lemma power_main_trace:
  assumes "amt_power_main api k st check_mode s = (r, s')"
  shows "log s' = log s \<or> (\<exists>a previous u. map_of STATE_TO_ACTION st = Some a \<and> \<not> check_mode
      \<and> get_power_state api s = (Ok previous, u)
      \<and> power_plan st (normalized previous) = Ok (True, Some (action_expected_state a))
      \<and> log s' = log s @ power_request a)"
proof -
  obtain q u where q: "get_power_state api s = (q, u)" by (cases "get_power_state api s")
  with postsD [OF power_state_silent q] have u: "log u = log s" by simp
  show ?thesis
  proof (cases "\<exists>previous pl. q = Ok previous \<and> power_plan st (normalized previous) = Ok pl \<and> fst pl \<and> \<not> check_mode")
    case False
    with assms q u show ?thesis
      by (cases q; cases "power_plan st (normalized (case q of Ok p \<Rightarrow> p))")
         (auto simp: amt_power_main_def bindA_def split: if_splits)
  next
    case True
    then obtain previous pl where p: "q = Ok previous" "power_plan st (normalized previous) = Ok pl"
      "fst pl" "\<not> check_mode" by blast
    then obtain a where a: "map_of STATE_TO_ACTION st = Some a" "pl = (True, Some (action_expected_state a))"
      by (auto simp: power_plan_def Let_def split: if_splits option.splits)
    with assms q p have run: "request_power_state api k a u = (r, s')"
      by (simp add: amt_power_main_def bindA_eq_Ok(1) [where m = "get_power_state api", OF q [unfolded p(1)]])
    obtain ds where ds: "log s' = log u @ ds" "prefix ds (power_request a)"
      using postsD [OF power_trace run] by blast
    have "length (power_request a) \<le> 1" by (simp add: power_request_def sent_request_def split: outcome.split)
    with ds(2) have "ds = [] \<or> ds = power_request a"
      by (cases "power_request a") (auto simp: prefix_Cons)
    with ds p q a u show ?thesis by auto
  qed
qed

end

section \<open>Failures after the request was accepted\<close>

text \<open>
  Over the real client a Get of a known class returns or raises a classified error, as long as every
  failure of the transport is one of those the client classifies.  Then a probe always returns, and an
  accepted request always yields a receipt.
\<close>

definition classifiable :: "'w client \<Rightarrow> bool" where
  "classifiable c \<longleftrightarrow> (\<forall>w u env. fst (transport c w u env) \<noteq> OtherFailure)"

lemma is_amt_error_simps [simp]:
  "is_amt_error (amt_error_of c)" "is_amt_error (TimeoutError i)" "is_amt_error (RemoteOperationError v)"
  by (simp_all add: amt_error_of_def TimeoutError_def RemoteOperationError_def)

interpretation link: contract "\<lambda>c c' :: 'w client. transport c' = transport c"
  by unfold_locales simp_all

lemma transport_response [simp]: "transport (snd (handle_response st content ev c)) = transport c"
  by (simp add: handle_response_def split: option.splits)

lemma keeps_attempt: "keeps (\<lambda>c c'. transport c' = transport c) (attempt n env r)"
proof (induction n)
  case 0
  show ?case
    by (simp add: keeps_def bindA_eq_Ok(1) [where m = "post env r", OF post_run] split: http_result.split)
next
  case (Suc n)
  then show ?case
    by (simp add: keeps_def bindA_eq_Ok(1) [where m = "post env r", OF post_run] split: http_result.split)
qed

lemma keeps_execute: "keeps (\<lambda>c c'. transport c' = transport c) (execute r b)"
  unfolding execute_def by (intro keeps_intros keeps_attempt) (simp add: link.modify_iff)

lemma keeps_get: "keeps (\<lambda>c c'. transport c' = transport c) (wsman_get cls sel)"
  unfolding wsman_get_def by (intro keeps_intros keeps_execute)

lemma keeps_invoke: "keeps (\<lambda>c c'. transport c' = transport c) (wsman_invoke cls meth params sel)"
  unfolding wsman_invoke_def Let_def by (intro keeps_intros keeps_execute)

lemma keeps_power_state: "keeps (\<lambda>c c'. transport c' = transport c) (get_power_state the_client)"
  unfolding get_power_state_def the_client_def by (simp, intro keeps_intros keeps_get)

lemma keeps_probe: "keeps (\<lambda>c c'. transport c' = transport c) (probe the_client)"
  unfolding probe_def by (intro keeps_intros keeps_power_state)

lemma classifiable_kept:
  "keeps (\<lambda>c c'. transport c' = transport c) m \<Longrightarrow> m c = (r, c') \<Longrightarrow> classifiable c \<Longrightarrow> classifiable c'"
  using keepsD by (fastforce simp: classifiable_def)

lemma classified_handle_response: "fst (handle_response st content ev c) = Raise x \<Longrightarrow> is_amt_error x"
  by (auto simp: handle_response_def split: option.splits if_splits)

lemma classified_attempt: "fst (attempt n env r c) = Raise x \<Longrightarrow> classifiable c \<Longrightarrow> is_amt_error x"
proof (induction n arbitrary: c)
  case 0
  then show ?case
    by (auto dest: classified_handle_response
        simp: classifiable_def bindA_eq_Ok(1) [where m = "post env r", OF post_run] split: http_result.splits)
next
  case (Suc n)
  then show ?case
    by (auto dest: classified_handle_response
        simp: classifiable_def bindA_eq_Ok(1) [where m = "post env r", OF post_run] split: http_result.splits)
qed

lemma classified_execute: "fst (execute r b c) = Raise x \<Longrightarrow> classifiable c \<Longrightarrow> is_amt_error x"
  by (auto simp: execute_def classifiable_def dest: classified_attempt simp del: attempt.simps)

lemma resource_uri_power [simp]: "\<exists>uri. resource_uri ''CIM_AssociatedPowerManagementService'' = Ok uri"
  by (simp add: resource_uri_def RESOURCE_URI_BASE_def)

lemma probe_returns: "classifiable c \<Longrightarrow> \<exists>x. fst (probe the_client c) = Ok x"
proof -
  assume c: "classifiable c"
  obtain uri where uri: "resource_uri ''CIM_AssociatedPowerManagementService'' = Ok uri"
    using resource_uri_power by blast
  show ?thesis
    by (auto simp: probe_def get_power_state_def the_client_def wsman_get_def uri catchA_def bindA_def
          split: prod.splits outcome.splits dest: arg_cong [of _ _ fst, THEN classified_execute [OF trans c]])
qed

lemma probe_loop_returns:
  "classifiable c \<Longrightarrow> \<exists>obs. fst (probe_loop the_client expected n observed probes c) = Ok obs"
proof (induction n arbitrary: observed probes c)
  case 0
  then show ?case by simp
next
  case (Suc n)
  obtain x c1 where p: "probe the_client c = (Ok x, c1)"
    using probe_returns [OF Suc.prems] by (metis prod.collapse)
  from classifiable_kept [OF keeps_probe p Suc.prems] show ?case
    using Suc.IH by (simp add: bindA_eq_Ok(1) [where m = "probe the_client", OF p] split: option.split)
qed

end
