(* ===== verification/Control_Properties.thy ===== *)
theory Control_Properties
  imports Redirection_Service Power_Control Boot_Properties
begin

text \<open>The properties of the WS-Man client, of redirection control and of power control.\<close>

section \<open>The WS-Man client\<close>

text \<open>
  C22: One call, one request on the wire.  A call posts the same request between once and
  (for a read) one more than the retry limit times; a mutation exactly once; a request is posted
  again only after a failure to connect; and after a read timeout nothing more is posted and the
  call raises a timeout marked indeterminate.
\<close>

theorem request_exchanges:
  "\<exists>ds. posted (snd (execute r retryable c)) = posted c @ ds \<and> ds \<noteq> []
     \<and> length ds \<le> (if retryable then max_retries c else 0) + 1 \<and> (\<forall>d \<in> set ds. fst d = r)
     \<and> (\<forall>d \<in> set (butlast ds). snd d \<in> {ConnectTimeout, ConnectError})
     \<and> (snd (last ds) = ReadTimeout \<longrightarrow> fst (execute r retryable c) = Raise (TimeoutError True))"
proof -
  obtain ds where "posted (snd (execute r retryable c)) = posted c @ ds"
    "one_call (if retryable then max_retries c else 0) r ds"
    "snd (last ds) = ReadTimeout \<longrightarrow> fst (execute r retryable c) = Raise (TimeoutError True)"
    using execute_posted by blast
  then show ?thesis by (intro exI [of _ ds]) (auto simp: one_call_def retryable_failure_def)
qed

definition flaky :: "nat client" where
  "flaky = demo_client\<lparr>transport := (\<lambda>n u env. (if n = 0 then ConnectError else ReadTimeout, n + 1))\<rparr>"

theorem request_exchanges_witness:
  "\<exists>ds. posted (snd (execute \<lparr>rq_action = ACTION_GET, rq_uri = [], rq_selectors = [], rq_body = None\<rparr>
      True flaky)) = ds \<and> ds \<noteq> [] \<and> length ds \<le> 3"
  using request_exchanges [of "\<lparr>rq_action = ACTION_GET, rq_uri = [], rq_selectors = [], rq_body = None\<rparr>" True flaky]
  by (auto simp: flaky_def demo_client_def)

text \<open>
  An operation that mutates reaches the wire exactly as asked: Put and Invoke post the one
  request built from their arguments (or raise before sending when it cannot be built), reads post
  no mutation, and an Invoke returns only a zero return value.
\<close>

lemma operations_post:
  "posts mutations (sent_request (put_request cls props sel)) (wsman_put cls props sel)
   \<and> posts mutations (sent_request (invoke_request cls meth params sel)) (wsman_invoke cls meth params sel)
   \<and> posts mutations [] (wsman_get cls sel) \<and> posts mutations [] (wsman_enumerate cls sel)
   \<and> (\<forall>out rv c'. wsman_invoke cls meth params sel c = (Ok (out, rv), c') \<longrightarrow>
        rv = 0 \<and> extract_return_value out = 0)"
  using put_once invoke_once get_silent enumerate_silent
  by (auto simp: wsman_invoke_def Let_def elim!: bindA_OkE split: if_splits)

section \<open>Redirection control\<close>




text \<open>
  The validation is exact: a known state passes if and only if every capability it turns on is
  supported, and turning everything off needs none.
\<close>

lemma validation_exact:
  assumes "map_of STATE_NAME_TO_ENABLED_STATE name = Some n"
  shows "validate_state_change caps name =
    (if (bit n 0 \<longrightarrow> ider_supported caps) \<and> (bit n 1 \<longrightarrow> sol_supported caps)
     then Ok () else Raise UnsupportedCapabilityError)"
proof -
  have "name = ''disabled'' \<and> n = 32768 \<or> name = ''ider'' \<and> n = 32769 \<or> name = ''sol'' \<and> n = 32770
      \<or> name = ''all'' \<and> n = 32771"
    using assms by (auto simp: STATE_NAME_TO_ENABLED_STATE_def split: if_splits)
  then show ?thesis
    by (elim disjE conjE)
       (auto simp: validate_state_change_def STATE_NAME_TO_ENABLED_STATE_def bit_iff_odd)
qed

section \<open>Power control\<close>



text \<open>
  C25: Once the firmware has accepted a power request, the caller always gets a receipt: failing
  probes cannot turn it into an error, as long as the transport fails only in the four ways the client
  classifies.  The receipt reports a change, at most \<^verbatim>\<open>poll_count\<close> probes,
  the last probe as the observation, and probing stopped at the first probe in the expected state.
\<close>

theorem accepted_power_request_reported:
  assumes "get_power_state the_client c = (Ok previous, c1)"
    and "wsman_invoke ''CIM_PowerManagementService'' ''RequestPowerStateChange'' (power_params a) [] c1
      = (Ok (out, rv), c2)"
    and "classifiable c"
  shows "\<exists>rec c'. request_power_state the_client k a c = (Ok rec, c') \<and> pr_changed rec
    \<and> pr_previous rec = previous \<and> pr_return_value rec = Some 0
    \<and> probes_ok (action_expected_state a) (nat k) (pr_observed rec, pr_probes rec)"
proof -
  let ?probes = "probe_loop the_client (action_expected_state a) (nat k) None []"
  have c2: "classifiable c2"
    by (rule classifiable_kept [OF keeps_invoke assms(2) classifiable_kept [OF keeps_power_state assms(1,3)]])
  obtain obs c3 where obs: "?probes c2 = (Ok obs, c3)"
    using probe_loop_returns [of c2 "action_expected_state a" "nat k" None "[]"] c2 by (metis prod.collapse)
  have "probes_ok (action_expected_state a) (length ([] :: PowerState list) + nat k) obs"
    by (rule probe_loop_ok [OF obs]) simp_all
  moreover have "rv = 0" using assms(2) by (auto simp: wsman_invoke_def Let_def elim!: bindA_OkE split: if_splits)
  moreover have inv: "api_invoke the_client ''CIM_PowerManagementService'' ''RequestPowerStateChange''
      (power_params a) [] c1 = (Ok (out, rv), c2)"
    using assms(2) by (simp add: the_client_def)
  ultimately show ?thesis
    unfolding request_power_state_def
    by (simp add: bindA_eq_Ok(1) [where m = "get_power_state the_client", OF assms(1)]
          bindA_eq_Ok(1) [where m = "api_invoke the_client _ _ _ _", OF inv]
          bindA_eq_Ok(1) [where m = ?probes, OF obs])
qed

lemma demo_power:
  "case get_power_state the_client demo_client of (r, c1) \<Rightarrow> (case r of Raise _ \<Rightarrow> False | Ok _ \<Rightarrow>
     (case wsman_invoke ''CIM_PowerManagementService'' ''RequestPowerStateChange'' (power_params ON) [] c1 of
        (q, c2) \<Rightarrow> (case q of Raise _ \<Rightarrow> False | Ok _ \<Rightarrow> True)))"
  by code_simp

theorem accepted_power_request_reported_witness:
  "\<exists>rec c'. request_power_state the_client 5 ON demo_client = (Ok rec, c') \<and> pr_changed rec
     \<and> length (pr_probes rec) \<le> 5"
proof -
  obtain previous c1 out rv c2 where "get_power_state the_client demo_client = (Ok previous, c1)"
    "wsman_invoke ''CIM_PowerManagementService'' ''RequestPowerStateChange'' (power_params ON) [] c1
      = (Ok (out, rv), c2)"
    using demo_power by (auto split: prod.splits outcome.splits)
  moreover have "classifiable demo_client"
    by (simp add: classifiable_def demo_client_def demo_transport_def)
  ultimately show ?thesis using accepted_power_request_reported [where k = 5] unfolding probes_ok_def by fastforce
qed

end
