(* ===== verification/Message_Log.thy ===== *)
theory Message_Log
  imports Wsman_Contract
begin

text \<open>
  The AMT event log (\<^verbatim>\<open>plugins/module_utils/message_log.py\<close>, with the decision part of
  \<^verbatim>\<open>plugins/modules/amt_event_log.py\<close> and \<^verbatim>\<open>plugins/modules/amt_log_clear.py\<close>): decoding of the
  21-byte records, the GetRecords iteration, severity filter and the guarded clear.

  Base64 and the calendar are those of Python's \<^verbatim>\<open>base64.b64decode(..., validate=True)\<close> (whole
  groups of four, padding only in the last one) and \<^verbatim>\<open>datetime.fromtimestamp(..., utc)\<close>.  The
  iteration has no bound of its own when the firmware keeps sending empty batches, so it runs
  under a fuel.
\<close>

section \<open>Tables\<close>

definition EVENT_SEVERITY_TABLE :: "(int \<times> string) list" where
  "EVENT_SEVERITY_TABLE = [(0, ''unspecified''), (1, ''monitor''), (2, ''information''), (4, ''ok''),
     (8, ''non_critical''), (16, ''critical''), (32, ''non_recoverable'')]"

definition SYSTEM_ENTITY_TABLE :: "(int \<times> string) list" where
  "SYSTEM_ENTITY_TABLE = [(0, ''Unspecified''), (1, ''Other''), (2, ''Unknown''), (3, ''Processor''), (4, ''Disk''),
     (5, ''Peripheral''), (6, ''System management module''), (7, ''System board''),
     (8, ''Memory module''), (9, ''Processor module''), (10, ''Power supply''),
     (11, ''Add in card''), (12, ''Front panel board''), (13, ''Back panel board''),
     (14, ''Power system board''), (15, ''Drive backplane''),
     (16, ''System internal expansion board''), (17, ''Other system board''),
     (18, ''Processor board''), (19, ''Power unit''), (20, ''Power module''),
     (21, ''Power management board''), (22, ''Chassis back panel board''),
     (23, ''System chassis''), (24, ''Sub chassis''), (25, ''Other chassis board''),
     (26, ''Disk drive bay''), (27, ''Peripheral bay''), (28, ''Device bay''),
     (29, ''Fan cooling''), (30, ''Cooling unit''), (31, ''Cable interconnect''),
     (32, ''Memory device''), (33, ''System management software''), (34, ''BIOS''),
     (35, ''Intel(r) ME''), (36, ''System bus''), (37, ''Group''), (38, ''Intel(r) ME''),
     (39, ''External environment''), (40, ''Battery''), (41, ''Processing blade''),
     (42, ''Connectivity switch''), (43, ''Processor/memory module''), (44, ''I/O module''),
     (45, ''Processor I/O module''), (46, ''Management controller firmware''),
     (47, ''IPMI channel''), (48, ''PCI bus''), (49, ''PCI express bus''), (50, ''SCSI bus''),
     (51, ''SATA/SAS bus''), (52, ''Processor front side bus'')]"

definition SYSTEM_FIRMWARE_ERROR_TABLE :: "(int \<times> string) list" where
  "SYSTEM_FIRMWARE_ERROR_TABLE = [(0, ''Unspecified.''), (1, ''No system memory is physically installed in the system.''),
     (2, ''No usable system memory, all installed memory has experienced an unrecoverable failure.''),
     (3, ''Unrecoverable hard-disk/ATAPI/IDE device failure.''),
     (4, ''Unrecoverable system-board failure.''),
     (5, ''Unrecoverable diskette subsystem failure.''),
     (6, ''Unrecoverable hard-disk controller failure.''),
     (7, ''Unrecoverable PS/2 or USB keyboard failure.''),
     (8, ''Removable boot media not found.''), (9, ''Unrecoverable video controller failure.''),
     (10, ''No video device detected.''), (11, ''Firmware (BIOS) ROM corruption detected.''),
     (12, ''CPU voltage mismatch (processors that share same supply have mismatched voltage requirements)''),
     (13, ''CPU speed matching failure'')]"

definition SYSTEM_FIRMWARE_PROGRESS_TABLE :: "(int \<times> string) list" where
  "SYSTEM_FIRMWARE_PROGRESS_TABLE = [(0, ''Unspecified.''), (1, ''Memory initialization.''),
     (2, ''Starting hard-disk initialization and test''),
     (3, ''Secondary processor(s) initialization''), (4, ''User authentication''),
     (5, ''User-initiated system setup''), (6, ''USB resource configuration''),
     (7, ''PCI resource configuration''), (8, ''Option ROM initialization''),
     (9, ''Video initialization''), (10, ''Cache initialization''),
     (11, ''SM Bus initialization''), (12, ''Keyboard controller initialization''),
     (13, ''Embedded controller/management controller initialization''),
     (14, ''Docking station attachment''), (15, ''Enabling docking station''),
     (16, ''Docking station ejection''), (17, ''Disabling docking station''),
     (18, ''Calling operating system wake-up vector''),
     (19, ''Starting operating system boot process''),
     (20, ''Baseboard or motherboard initialization''), (21, ''reserved''),
     (22, ''Floppy initialization''), (23, ''Keyboard test''), (24, ''Pointing device test''),
     (25, ''Primary processor initialization'')]"

definition WATCHDOG_STATE_TABLE :: "(int \<times> string) list" where
  "WATCHDOG_STATE_TABLE = [(1, ''Not Started''), (2, ''Stopped''), (4, ''Running''), (8, ''Expired''),
     (16, ''Suspended'')]"

definition FIXED_SENSOR_DESCRIPTIONS :: "(int \<times> string) list" where
  "FIXED_SENSOR_DESCRIPTIONS = [(30, ''No bootable media''), (32, ''Operating system lockup or power interrupt''),
     (35, ''System boot failure''),
     (37, ''System firmware started (at least one CPU is properly executing).'')]"

definition MESSAGE_LOG_CLASS :: string where "MESSAGE_LOG_CLASS = ''AMT_MessageLog''"
definition RECORD_SIZE :: nat where "RECORD_SIZE = 21"
definition EVENT_DATA_SIZE :: nat where "EVENT_DATA_SIZE = 8"
definition MAX_READ_RECORDS :: int where "MAX_READ_RECORDS = 390"
definition DEFAULT_MAX_RECORDS :: int where "DEFAULT_MAX_RECORDS = 390"

definition SEVERITY_CHOICES :: "string list" where
  "SEVERITY_CHOICES = map snd (sort_key fst EVENT_SEVERITY_TABLE)"

section \<open>Descriptions\<close>

definition describe_firmware :: "int \<Rightarrow> bytes \<Rightarrow> string option" where
  "describe_firmware event_offset d =
     (if d ! 0 = 0xEB then Some ''Invalid Data''
      else if event_offset = 0 then map_of SYSTEM_FIRMWARE_ERROR_TABLE (uint (d ! 1))
      else if d ! 0 = 0xAA then None
      else map_of SYSTEM_FIRMWARE_PROGRESS_TABLE (uint (d ! 1)))"

definition describe_watchdog :: "bytes \<Rightarrow> string option" where
  "describe_watchdog d =
     (if d ! 0 \<noteq> 0xAA then None
      else Some (''Agent watchdog '' @ hex [d ! 4, d ! 3, d ! 2, d ! 1] @ ''-'' @ hex [d ! 6, d ! 5]
        @ ''-... changed to '' @ decode WATCHDOG_STATE_TABLE (uint (d ! 7))))"

definition describe_event :: "int \<Rightarrow> int \<Rightarrow> bytes \<Rightarrow> string option" where
  "describe_event sensor event_offset d =
     (if length d < EVENT_DATA_SIZE then None
      else if sensor = 6 then
        Some (''Authentication failed '' @ show_int (uint (d ! 1) + push_bit 8 (uint (d ! 2)))
          @ '' times. The system may be under attack.'')
      else if sensor = 15 then describe_firmware event_offset d
      else if sensor = 18 then describe_watchdog d
      else map_of FIXED_SENSOR_DESCRIPTIONS sensor)"

section \<open>Time stamps\<close>

definition leap :: "int \<Rightarrow> bool" where
  "leap y \<longleftrightarrow> y mod 4 = 0 \<and> (y mod 100 \<noteq> 0 \<or> y mod 400 = 0)"

definition year_length :: "int \<Rightarrow> int" where
  "year_length y = (if leap y then 366 else 365)"

definition month_lengths :: "int \<Rightarrow> int list" where
  "month_lengths y = [31, if leap y then 29 else 28, 31, 30, 31, 30, 31, 31, 30, 31, 30, 31]"

function year_and_day :: "int \<Rightarrow> int \<Rightarrow> int \<times> int" where
  "year_and_day y d = (if d < year_length y then (y, d) else year_and_day (y + 1) (d - year_length y))"
  by pat_completeness auto
termination
  by (relation "measure (\<lambda>(y, d). nat (d + 1))") (auto simp: year_length_def split: if_splits)

declare year_and_day.simps [simp del]

fun month_and_day :: "int list \<Rightarrow> int \<Rightarrow> int \<Rightarrow> int \<times> int" where
  "month_and_day [] m d = (m, d)"
| "month_and_day (l # ls) m d = (if d < l then (m, d) else month_and_day ls (m + 1) (d - l))"

text \<open>Zero-padded decimal of width \<open>n\<close>.\<close>

definition padded :: "nat \<Rightarrow> int \<Rightarrow> string" where
  "padded n v = replicate (n - length (show_int v)) CHR ''0'' @ show_int v"

definition format_timestamp :: "int \<Rightarrow> string option" where
  "format_timestamp ts =
     (if ts = 0 \<or> ts = 0xFFFFFFFF then None
      else (let (y, yd) = year_and_day 1970 (ts div 86400);
                (m, d) = month_and_day (month_lengths y) 1 yd;
                s = ts mod 86400
            in Some (padded 4 y @ ''-'' @ padded 2 m @ ''-'' @ padded 2 (d + 1) @ ''T''
                 @ padded 2 (s div 3600) @ '':'' @ padded 2 (s mod 3600 div 60) @ '':''
                 @ padded 2 (s mod 60) @ ''Z'')))"

section \<open>Base64\<close>

definition b64_value :: "char \<Rightarrow> nat option" where
  "b64_value c =
     (if 65 \<le> code c \<and> code c \<le> 90 then Some (code c - 65)
      else if 97 \<le> code c \<and> code c \<le> 122 then Some (code c - 71)
      else if 48 \<le> code c \<and> code c \<le> 57 then Some (code c + 4)
      else if c = CHR ''+'' then Some 62
      else if c = CHR ''/'' then Some 63
      else None)"

definition sextets :: "nat \<Rightarrow> nat \<Rightarrow> nat \<Rightarrow> nat \<Rightarrow> bytes" where
  "sextets a b c d = [of_nat (a * 4 + b div 16), of_nat (b mod 16 * 16 + c div 4), of_nat (c mod 4 * 64 + d)]"

fun b64decode :: "string \<Rightarrow> bytes option" where
  "b64decode [] = Some []"
| "b64decode (p # q # r # t # s) =
     (case (b64_value p, b64_value q) of
        (Some a, Some b) \<Rightarrow>
          (if s = [] \<and> r = CHR ''='' \<and> t = CHR ''='' then Some (take 1 (sextets a b 0 0))
           else case b64_value r of
               None \<Rightarrow> None
             | Some c \<Rightarrow>
                 (if s = [] \<and> t = CHR ''='' then Some (take 2 (sextets a b c 0))
                  else case b64_value t of
                      None \<Rightarrow> None
                    | Some d \<Rightarrow> map_option (\<lambda>xs. sextets a b c d @ xs) (b64decode s)))
      | _ \<Rightarrow> None)"
| "b64decode _ = None"

section \<open>Records\<close>

datatype decode_failure = NotBase64 | TooShort nat

record EventRecord =
  raw_base64 :: string
  raw_hex :: "string option"
  raw_length :: "nat option"
  decode_error :: "decode_failure option"
  timestamp :: "int option"
  timestamp_utc :: "string option"
  device_address :: "int option"
  event_sensor_type :: "int option"
  event_type :: "int option"
  event_offset :: "int option"
  event_source_type :: "int option"
  event_severity :: "int option"
  event_severity_text :: "string option"
  sensor_number :: "int option"
  entity :: "int option"
  entity_text :: "string option"
  entity_instance :: "int option"
  event_data :: "int list option"
  description :: "string option"

definition blank_record :: "string \<Rightarrow> EventRecord" where
  "blank_record encoded = \<lparr>raw_base64 = encoded, raw_hex = None, raw_length = None, decode_error = None,
     timestamp = None, timestamp_utc = None, device_address = None, event_sensor_type = None,
     event_type = None, event_offset = None, event_source_type = None, event_severity = None,
     event_severity_text = None, sensor_number = None, entity = None, entity_text = None,
     entity_instance = None, event_data = None, description = None\<rparr>"

definition decode_record :: "string \<Rightarrow> EventRecord" where
  "decode_record encoded = (case b64decode encoded of
      None \<Rightarrow> (blank_record encoded)\<lparr>decode_error := Some NotBase64\<rparr>
    | Some r \<Rightarrow>
        (if length r < RECORD_SIZE then
           (blank_record encoded)\<lparr>raw_hex := Some (hex r), raw_length := Some (length r),
             decode_error := Some (TooShort (length r))\<rparr>
         else
           (let ts = le_int (take 4 r); f = (\<lambda>i. uint (r ! i)); d = take EVENT_DATA_SIZE (drop 13 r)
            in \<lparr>raw_base64 = encoded, raw_hex = Some (hex r), raw_length = Some (length r),
                decode_error = None, timestamp = Some ts, timestamp_utc = format_timestamp ts,
                device_address = Some (f 4), event_sensor_type = Some (f 5), event_type = Some (f 6),
                event_offset = Some (f 7), event_source_type = Some (f 8), event_severity = Some (f 9),
                event_severity_text = Some (decode EVENT_SEVERITY_TABLE (f 9)),
                sensor_number = Some (f 10), entity = Some (f 11),
                entity_text = Some (decode SYSTEM_ENTITY_TABLE (f 11)), entity_instance = Some (f 12),
                event_data = Some (map uint d), description = describe_event (f 5) (f 7) d\<rparr>)))"

definition is_empty_record_slot :: "EventRecord \<Rightarrow> bool" where
  "is_empty_record_slot r \<longleftrightarrow> decode_error r = None \<and> raw_hex r = Some (hex (replicate RECORD_SIZE 0))"

definition filter_by_severity :: "EventRecord list \<Rightarrow> string list option \<Rightarrow> EventRecord list" where
  "filter_by_severity rs severities = (case severities of
      None \<Rightarrow> rs
    | Some wanted \<Rightarrow>
        if wanted = [] then rs
        else filter (\<lambda>r. case event_severity_text r of None \<Rightarrow> False | Some t \<Rightarrow> t \<in> set wanted) rs)"

section \<open>The log container\<close>

record MessageLogProperties =
  current_number_of_records :: "int option"
  max_number_of_records :: "int option"
  max_record_size :: "int option"
  log_element_name :: "string option"
  is_frozen :: "bool option"
  log_state :: "int option"
  overwrite_policy :: "int option"
  log_capabilities :: "int list"

definition properties_from_instance :: "obj \<Rightarrow> MessageLogProperties" where
  "properties_from_instance i =
     \<lparr>current_number_of_records = optional_int (get_prop i ''CurrentNumberOfRecords''),
      max_number_of_records = optional_int (get_prop i ''MaxNumberOfRecords''),
      max_record_size = optional_int (get_prop i ''MaxRecordSize''),
      log_element_name = optional_str (get_prop i ''ElementName''),
      is_frozen = (if get_prop i ''IsFrozen'' = VNone then None else Some (truthy (get_prop i ''IsFrozen''))),
      log_state = optional_int (get_prop i ''LogState''),
      overwrite_policy = optional_int (get_prop i ''OverwritePolicy''),
      log_capabilities = List.map_filter optional_int (as_list (get_prop i ''Capabilities''))\<rparr>"

text \<open>\<^verbatim>\<open>except (ProtocolError, UnsupportedCapabilityError)\<close>.\<close>

definition degradable :: "exn \<Rightarrow> bool" where
  "degradable x = has_class {PROTOCOL, UNSUPPORTED_CAPABILITY} x"

definition dicts :: "val list \<Rightarrow> obj list" where
  "dicts vs = List.map_filter (\<lambda>v. case v of VDict d \<Rightarrow> if d = [] then None else Some d | _ \<Rightarrow> None) vs"

definition get_log_properties :: "'s wsman_api \<Rightarrow> ('s, MessageLogProperties) action" where
  "get_log_properties w =
     bindA (catchA (api_get w MESSAGE_LOG_CLASS []) degradable (\<lambda>_. ret [])) (\<lambda>i.
     bindA (if i \<noteq> [] then ret (Some i)
            else bindA (catchA (api_enumerate w MESSAGE_LOG_CLASS []) degradable (\<lambda>_. ret [])) (\<lambda>vs.
              ret (case dicts vs of [] \<Rightarrow> None | d # _ \<Rightarrow> Some d))) (\<lambda>found. case found of
       None \<Rightarrow> throw UnsupportedCapabilityError
     | Some d \<Rightarrow> ret (properties_from_instance d)))"

section \<open>Reading the records\<close>

text \<open>\<^verbatim>\<open>err.return_value is not None and err.return_value in tolerated\<close>.\<close>

definition tolerated_value :: "int list \<Rightarrow> exn \<Rightarrow> int option" where
  "tolerated_value tolerated x = (case x of
      AmtError e \<Rightarrow> (case return_value e of
          Some n \<Rightarrow> if error_class e = REMOTE_OPERATION \<and> n \<in> set tolerated then Some n else None
        | None \<Rightarrow> None)
    | _ \<Rightarrow> None)"

definition invoke_tolerating :: "'s wsman_api \<Rightarrow> string \<Rightarrow> obj \<Rightarrow> int list \<Rightarrow> ('s, obj \<times> int) action" where
  "invoke_tolerating w meth params tolerated =
     catchA (api_invoke w MESSAGE_LOG_CLASS meth params []) (\<lambda>x. tolerated_value tolerated x \<noteq> None)
       (\<lambda>x. ret ([], the (tolerated_value tolerated x)))"

definition record_array :: "obj \<Rightarrow> string list" where
  "record_array output = (case get_prop output ''RecordArray'' of
      VNone \<Rightarrow> [] | v \<Rightarrow> List.map_filter optional_str (as_list v))"

definition position_to_first_record :: "'s wsman_api \<Rightarrow> ('s, int \<times> int) action" where
  "position_to_first_record w =
     bindA (invoke_tolerating w ''PositionToFirstRecord'' [] [1, 2]) (\<lambda>(output, rv).
       if rv = 1 then throw (AmtError \<lparr>error_class = UNSUPPORTED_CAPABILITY, indeterminate = False,
                                      return_value = Some 1\<rparr>)
       else ret (case optional_int (get_prop output ''IterationIdentifier'') of
                   Some n \<Rightarrow> if n \<ge> 1 then n else 1 | None \<Rightarrow> 1, rv))"

record read_state =
  rs_identifier :: int
  rs_records :: "EventRecord list"
  rs_consumed :: int
  rs_empty_slots :: nat
  rs_batches :: nat

datatype stop_reason = no_record_exists | no_more_records | max_records | no_record_exists_in_log
  | invalid_record_pointed | no_iteration_identifier | iteration_stalled

definition get_records_params :: "int \<Rightarrow> int \<Rightarrow> obj" where
  "get_records_params identifier n = [(''IterationIdentifier'', VInt identifier), (''MaxReadRecords'', VInt n)]"

text \<open>One round of the loop: the next state, and why the loop ends, if it does.\<close>

definition take_batch :: "int \<Rightarrow> obj \<Rightarrow> read_state \<Rightarrow> read_state" where
  "take_batch limit output st =
     (let remaining = limit - rs_consumed st;
          batch = take (nat remaining) (record_array output);
          decoded = map decode_record batch
      in st\<lparr>rs_consumed := rs_consumed st + int (length batch),
            rs_empty_slots := rs_empty_slots st + length (filter is_empty_record_slot decoded),
            rs_records := rs_records st @ filter (\<lambda>r. \<not> is_empty_record_slot r) decoded\<rparr>)"

text \<open>What one answer of GetRecords does.\<close>

definition after_answer :: "int \<Rightarrow> read_state \<Rightarrow> obj \<times> int \<Rightarrow> read_state \<times> stop_reason option" where
  "after_answer limit st res = (case res of (output, rv) \<Rightarrow>
     let st = st\<lparr>rs_batches := rs_batches st + 1\<rparr>
     in if rv = 3 then (st, Some no_record_exists_in_log)
        else if rv = 2 then (st, Some invalid_record_pointed)
        else
          (let st = take_batch limit output st
           in if truthy (get_prop output ''NoMoreRecords'') then (st, Some no_more_records)
              else case optional_int (get_prop output ''IterationIdentifier'') of
                  None \<Rightarrow> (st, Some no_iteration_identifier)
                | Some n \<Rightarrow>
                    if n = rs_identifier st then (st, Some iteration_stalled)
                    else (st\<lparr>rs_identifier := n\<rparr>, None)))"

definition request_size :: "int \<Rightarrow> int \<Rightarrow> read_state \<Rightarrow> int" where
  "request_size limit batch_size st = min (min batch_size (limit - rs_consumed st)) MAX_READ_RECORDS"

definition read_round ::
  "'s wsman_api \<Rightarrow> int \<Rightarrow> int \<Rightarrow> read_state \<Rightarrow> ('s, read_state \<times> stop_reason option) action" where
  "read_round w limit batch_size st =
     (if rs_consumed st \<ge> limit then ret (st, Some max_records)
      else
        bindA (invoke_tolerating w ''GetRecords''
                 (get_records_params (rs_identifier st) (request_size limit batch_size st)) [2, 3])
          (\<lambda>res. ret (after_answer limit st res)))"

primrec read_loop ::
  "'s wsman_api \<Rightarrow> int \<Rightarrow> int \<Rightarrow> nat \<Rightarrow> read_state \<Rightarrow> ('s, read_state \<times> stop_reason) action" where
  "read_loop w limit batch_size 0 st = throw OutOfFuel"
| "read_loop w limit batch_size (Suc n) st =
     bindA (read_round w limit batch_size st) (\<lambda>(st', stop). case stop of
         Some r \<Rightarrow> ret (st', r)
       | None \<Rightarrow> read_loop w limit batch_size n st')"

record MessageLogRead =
  mlr_properties :: MessageLogProperties
  mlr_records :: "EventRecord list"
  total_records :: "int option"
  truncated :: bool
  complete :: bool
  mlr_stop_reason :: stop_reason
  batches :: nat
  empty_slots :: nat

definition is_complete :: "stop_reason \<Rightarrow> bool" where
  "is_complete r \<longleftrightarrow> r \<in> {no_record_exists, no_more_records, no_record_exists_in_log}"

definition start_state :: "int \<Rightarrow> read_state" where
  "start_state identifier = \<lparr>rs_identifier = identifier, rs_records = [], rs_consumed = 0,
     rs_empty_slots = 0, rs_batches = 0\<rparr>"

definition read_records :: "nat \<Rightarrow> 's wsman_api \<Rightarrow> int \<Rightarrow> int \<Rightarrow> ('s, MessageLogRead) action" where
  "read_records fuel w limit batch_size =
     bindA (get_log_properties w) (\<lambda>props.
     bindA (position_to_first_record w) (\<lambda>(identifier, rv).
       if rv = 2 then
         ret \<lparr>mlr_properties = props, mlr_records = [], total_records = current_number_of_records props,
              truncated = False, complete = True, mlr_stop_reason = no_record_exists, batches = 0,
              empty_slots = 0\<rparr>
       else
         bindA (read_loop w limit batch_size fuel (start_state identifier)) (\<lambda>(st, r).
           ret \<lparr>mlr_properties = props, mlr_records = rs_records st,
                total_records = current_number_of_records props, truncated = (r = max_records),
                complete = is_complete r, mlr_stop_reason = r, batches = rs_batches st,
                empty_slots = rs_empty_slots st\<rparr>)))"

section \<open>The modules\<close>

text \<open>The accounting of \<^verbatim>\<open>amt_event_log.build_result\<close>.\<close>

record event_log_result =
  el_records :: "EventRecord list"
  el_records_read :: nat
  el_filtered_out :: nat

definition build_result :: "MessageLogRead \<Rightarrow> string list option \<Rightarrow> event_log_result" where
  "build_result rd severities =
     (let kept = filter_by_severity (mlr_records rd) severities
      in \<lparr>el_records = kept, el_records_read = length (mlr_records rd),
          el_filtered_out = length (mlr_records rd) - length kept\<rparr>)"

definition clear_log :: "'s wsman_api \<Rightarrow> ('s, int) action" where
  "clear_log w = bindA (api_invoke w MESSAGE_LOG_CLASS ''ClearLog'' [] []) (\<lambda>out. ret (snd out))"

definition clear_plan :: "int option \<Rightarrow> bool" where
  "clear_plan records_before = (case records_before of None \<Rightarrow> True | Some n \<Rightarrow> n > 0)"

record log_clear_result =
  lc_changed :: bool
  lc_records_before :: "int option"
  lc_records_after :: "int option"
  lc_cleared :: bool
  lc_return_value :: "int option"
  lc_properties :: MessageLogProperties

definition amt_log_clear_main :: "'s wsman_api \<Rightarrow> bool \<Rightarrow> bool \<Rightarrow> ('s, log_clear_result) action" where
  "amt_log_clear_main w confirm check_mode =
     (if \<not> confirm then throw InvalidStateError
      else bindA (get_log_properties w) (\<lambda>props.
        let before = current_number_of_records props; should_clear = clear_plan before
        in if should_clear \<and> \<not> check_mode then
             bindA (clear_log w) (\<lambda>rv. bindA (get_log_properties w) (\<lambda>after.
               ret \<lparr>lc_changed = should_clear, lc_records_before = before,
                    lc_records_after = current_number_of_records after, lc_cleared = True,
                    lc_return_value = Some rv, lc_properties = props\<rparr>))
           else ret \<lparr>lc_changed = should_clear, lc_records_before = before, lc_records_after = None,
                     lc_cleared = False, lc_return_value = None, lc_properties = props\<rparr>))"

end
