(* ===== verification/Log_Records.thy ===== *)
theory Log_Records
  imports Message_Log
begin

text \<open>
  Facts about one event-log record: the base64 decoder inverts an encoder written from RFC 4648,
  hexadecimal text determines the bytes, and the calendar of the time stamps counts days right.
\<close>

section \<open>Base64\<close>

definition b64_char :: "nat \<Rightarrow> char" where
  "b64_char n = (if n < 26 then char_of (n + 65) else if n < 52 then char_of (n + 71)
     else if n < 62 then char_of (n - 4) else if n = 62 then CHR ''+'' else CHR ''/'')"

fun b64encode :: "bytes \<Rightarrow> string" where
  "b64encode [] = []"
| "b64encode [a] = [b64_char (unat a div 4), b64_char (unat a mod 4 * 16), CHR ''='', CHR ''='']"
| "b64encode [a, b] = [b64_char (unat a div 4), b64_char (unat a mod 4 * 16 + unat b div 16),
     b64_char (unat b mod 16 * 4), CHR ''='']"
| "b64encode (a # b # c # bs) = [b64_char (unat a div 4), b64_char (unat a mod 4 * 16 + unat b div 16),
     b64_char (unat b mod 16 * 4 + unat c div 64), b64_char (unat c mod 64)] @ b64encode bs"

lemma code_char_of: "n < 256 \<Longrightarrow> code (char_of n) = n"
  by (simp add: code_def)

lemma code_literals: "code (CHR ''+'') = 43" "code (CHR ''/'') = 47" "code (CHR ''='') = 61"
  by (simp_all add: code_def)

lemma b64_value_char [simp]: "n < 64 \<Longrightarrow> b64_value (b64_char n) = Some n"
  by (auto simp: b64_value_def b64_char_def code_char_of code_literals)

lemma b64_char_pad [simp]: "n < 64 \<Longrightarrow> b64_char n \<noteq> CHR ''=''"
proof
  assume "n < 64" "b64_char n = CHR ''=''"
  with b64_value_char [of n] show False by (simp add: b64_value_def code_literals)
qed

lemma byte_bounds: "unat (b :: byte) < 256" "unat (b :: byte) div 4 < 64" "unat (b :: byte) div 16 < 16"
  "unat (b :: byte) div 64 < 4"
proof -
  have "unat b < 2 ^ LENGTH(8)" by (rule unsigned_less)
  then have "unat b < 256" by simp
  then show "unat b < 256" "unat b div 4 < 64" "unat b div 16 < 16" "unat b div 64 < 4" by auto
qed

lemma sextet_bounds [simp]:
  "unat (a :: byte) div 4 < 64" "unat a mod 4 * 16 < 64" "unat a mod 4 * 16 + unat (b :: byte) div 16 < 64"
  "unat b mod 16 * 4 < 64" "unat b mod 16 * 4 + unat (c :: byte) div 64 < 64" "unat c mod 64 < 64"
proof -
  have *: "x < 4 \<Longrightarrow> y < 16 \<Longrightarrow> x * 16 + y < 64" "x < 16 \<Longrightarrow> y < 4 \<Longrightarrow> x * 4 + y < 64"
    "x < 4 \<Longrightarrow> x * 16 < 64" "x < 16 \<Longrightarrow> x * 4 < 64" for x y :: nat by simp_all
  show "unat a div 4 < 64" "unat a mod 4 * 16 < 64" "unat a mod 4 * 16 + unat (b :: byte) div 16 < 64"
    "unat b mod 16 * 4 < 64" "unat b mod 16 * 4 + unat (c :: byte) div 64 < 64" "unat c mod 64 < 64"
    by (rule * byte_bounds mod_less_divisor zero_less_numeral)+
qed

lemma sextets_inverse:
  fixes a b c :: byte
  shows "sextets (unat a div 4) (unat a mod 4 * 16 + unat b div 16) (unat b mod 16 * 4 + unat c div 64)
    (unat c mod 64) = [a, b, c]"
proof -
  have "unat a div 4 * 4 + (unat a mod 4 * 16 + unat b div 16) div 16 = unat a"
    using byte_bounds [of b] by simp
  moreover have "(unat a mod 4 * 16 + unat b div 16) mod 16 * 16 + (unat b mod 16 * 4 + unat c div 64) div 4 = unat b"
    using byte_bounds [of b] byte_bounds [of c] by simp
  moreover have "(unat b mod 16 * 4 + unat c div 64) mod 4 * 64 + unat c mod 64 = unat c"
    using byte_bounds [of c] by simp
  ultimately show ?thesis by (simp add: sextets_def del: of_nat_add of_nat_mult)
qed

lemma b64_roundtrip: "b64decode (b64encode bs) = Some bs"
proof (induction bs rule: b64encode.induct)
  case 1
  then show ?case by simp
next
  case (2 a)
  then show ?case using sextets_inverse [of a 0 0] by simp
next
  case (3 a b)
  then show ?case using sextets_inverse [of a b 0] by simp
next
  case (4 a b c bs)
  then show ?case using sextets_inverse [of a b c] by simp
qed

section \<open>Hexadecimal\<close>

lemma hex_char_inject: "m < 16 \<Longrightarrow> n < 16 \<Longrightarrow> hex_char m = hex_char n \<longleftrightarrow> m = n"
proof
  assume m: "m < 16" and n: "n < 16" and eq: "hex_char m = hex_char n"
  then have "code (hex_char m) = code (hex_char n)" by simp
  with m n show "m = n" by (simp add: hex_char_def code_def split: if_splits)
qed simp

lemma hex2_inject: "hex2 a = hex2 b \<longleftrightarrow> a = b"
proof
  assume "hex2 a = hex2 b"
  moreover have "unat a div 16 < 16" "unat b div 16 < 16" by (rule byte_bounds)+
  ultimately have "unat a div 16 = unat b div 16" "unat a mod 16 = unat b mod 16"
    by (simp_all add: hex2_def hex_char_inject)
  then have "unat a = unat b" by (metis mult_div_mod_eq)
  then show "a = b" by (simp only: word_unat_eq_iff)
qed simp

lemma length_hex [simp]: "length (hex bs) = 2 * length bs"
  by (induction bs) (auto simp: hex_def hex2_def)

lemma hex_Cons: "hex (b # bs) = hex2 b @ hex bs"
  by (simp add: hex_def)

lemma hex_inject: "hex as = hex bs \<longleftrightarrow> as = bs"
proof
  assume eq: "hex as = hex bs"
  then have "2 * length as = 2 * length bs" by (metis length_hex)
  then have "length as = length bs" by simp
  then show "as = bs" using eq
    by (induction as bs rule: list_induct2) (auto simp: hex_Cons hex2_inject [symmetric] hex2_def)
qed simp

section \<open>The calendar\<close>

text \<open>Days of the years from 1970 to \<open>y\<close>, and days of the months before the \<open>m\<close>-th.\<close>

definition days_of_years :: "int \<Rightarrow> int" where
  "days_of_years y = (\<Sum>k \<in> {1970..<y}. year_length k)"

lemma days_of_years_Suc: "1970 \<le> y \<Longrightarrow> days_of_years (y + 1) = days_of_years y + year_length y"
proof -
  assume "1970 \<le> y"
  then have "{1970..<y + 1} = insert y {1970..<y}" by auto
  then show ?thesis by (simp add: days_of_years_def)
qed

lemma year_and_day_ok:
  assumes "0 \<le> d" "1970 \<le> y" "year_and_day y d = (y', d')"
  shows "y \<le> y' \<and> 0 \<le> d' \<and> d' < year_length y' \<and> days_of_years y' + d' = days_of_years y + d"
  using assms
proof (induction y d arbitrary: y' d' rule: year_and_day.induct)
  case (1 y d)
  show ?case
  proof (cases "d < year_length y")
    case True
    with 1 show ?thesis by (auto simp: year_and_day.simps [of y d])
  next
    case False
    have "days_of_years (y + 1) = days_of_years y + year_length y"
      by (rule days_of_years_Suc [OF 1(3)])
    with False 1 show ?thesis by (auto simp: year_and_day.simps [of y d])
  qed
qed

lemma month_and_day_ok:
  assumes "0 \<le> d" "d < sum_list ls" "month_and_day ls m d = (m', d')"
  shows "\<exists>k < length ls. m' = m + int k \<and> 0 \<le> d' \<and> d' < ls ! k \<and> sum_list (take k ls) + d' = d"
  using assms
proof (induction ls arbitrary: m d)
  case Nil
  then show ?case by simp
next
  case (Cons l ls)
  show ?case
  proof (cases "d < l")
    case True
    with Cons.prems show ?thesis by (intro exI [of _ 0]) simp
  next
    case False
    with Cons.prems Cons.IH [of "d - l" "m + 1"] obtain k where
      "k < length ls" "m' = m + 1 + int k" "0 \<le> d'" "d' < ls ! k" "sum_list (take k ls) + d' = d - l" by auto
    then show ?thesis by (intro exI [of _ "Suc k"]) simp
  qed
qed

lemma month_lengths_sum: "sum_list (month_lengths y) = year_length y"
  by (simp add: month_lengths_def year_length_def)

end
