(* ===== verification/Log_Reading.thy ===== *)
theory Log_Reading
  imports Log_Records
begin

text \<open>
  Facts about the GetRecords iteration: the answers a run used and what became of them, how many
  rounds it takes, and what it puts on the wire.  They are stated for any WS-Man client; the last
  section works under its contract.
\<close>

section \<open>The answers of a run\<close>

definition next_identifier :: "obj \<Rightarrow> int \<Rightarrow> int" where
  "next_identifier ans i =
     (case optional_int (get_prop ans ''IterationIdentifier'') of Some k \<Rightarrow> k | None \<Rightarrow> i)"

text \<open>
  \<open>answered w i s outs\<close>: from state \<open>s\<close>, GetRecords calls that succeed one after the other give
  \<open>outs\<close>, the first asked at identifier \<open>i\<close> and each later one where the answer before it said.
\<close>

inductive answered :: "'s wsman_api \<Rightarrow> int \<Rightarrow> 's \<Rightarrow> obj list \<Rightarrow> bool" for w where
  none: "answered w i s []"
| more: "invoke_tolerating w ''GetRecords'' (get_records_params i n) [2, 3] s = (Ok (ans, rv), t) \<Longrightarrow>
    rv \<noteq> 2 \<Longrightarrow> rv \<noteq> 3 \<Longrightarrow> n \<le> MAX_READ_RECORDS \<Longrightarrow> answered w (next_identifier ans i) t outs \<Longrightarrow>
    answered w i s (ans # outs)"

text \<open>Why a run over these answers may stop; \<open>i\<close> is the identifier the last one was asked at.\<close>

definition says_done :: "obj \<Rightarrow> bool" where
  "says_done ans = truthy (get_prop ans ''NoMoreRecords'')"

fun stops_for :: "stop_reason \<Rightarrow> int \<Rightarrow> obj list \<Rightarrow> bool" where
  "stops_for r i [] \<longleftrightarrow> r \<in> {max_records, no_record_exists_in_log, invalid_record_pointed}"
| "stops_for r i [ans] \<longleftrightarrow>
     (if says_done ans then r = no_more_records
      else case optional_int (get_prop ans ''IterationIdentifier'') of
          None \<Rightarrow> r = no_iteration_identifier
        | Some k \<Rightarrow> if k = i then r = iteration_stalled
                   else r \<in> {max_records, no_record_exists_in_log, invalid_record_pointed})"
| "stops_for r i (ans # p # outs) \<longleftrightarrow> \<not> says_done ans
     \<and> optional_int (get_prop ans ''IterationIdentifier'') = Some (next_identifier ans i)
     \<and> next_identifier ans i \<noteq> i \<and> stops_for r (next_identifier ans i) (p # outs)"

definition items_of :: "obj list \<Rightarrow> string list" where
  "items_of outs = concat (map record_array outs)"

lemma items_of_simps [simp]:
  "items_of [] = []" "items_of (ans # outs) = record_array ans @ items_of outs"
  by (simp_all add: items_of_def)

text \<open>What taking the items \<open>xs\<close> does to the state of a read.\<close>

definition absorbed :: "int \<Rightarrow> string list \<Rightarrow> read_state \<Rightarrow> read_state \<Rightarrow> bool" where
  "absorbed limit xs st st' \<longleftrightarrow>
     (let taken = map decode_record (take (nat (limit - rs_consumed st)) xs)
      in rs_consumed st' = rs_consumed st + int (length taken)
         \<and> rs_records st' = rs_records st @ filter (\<lambda>r. \<not> is_empty_record_slot r) taken
         \<and> rs_empty_slots st' = rs_empty_slots st + length (filter is_empty_record_slot taken))"

lemma absorbed_Nil [simp]: "absorbed limit [] st st"
  by (simp add: absorbed_def)

lemma absorbed_batch: "absorbed limit (record_array ans) st (take_batch limit ans st)"
  by (simp add: absorbed_def take_batch_def Let_def)

lemma absorbed_append:
  assumes "absorbed limit xs st st1" "absorbed limit ys st1 st2"
  shows "absorbed limit (xs @ ys) st st2"
proof -
  have "nat (limit - rs_consumed st1) = nat (limit - rs_consumed st) - length xs"
    using assms(1) by (auto simp: absorbed_def Let_def min_def)
  with assms show ?thesis by (simp add: absorbed_def Let_def)
qed

text \<open>One round: it asks nothing more, or one successful answer is absorbed, or one is not.\<close>

lemma read_round_cases:
  assumes "read_round w limit bsz st s = (Ok (st', stop), t)"
  obtains (full) "limit \<le> rs_consumed st" "st' = st" "stop = Some max_records" "t = s"
  | (last) r where "st' = st\<lparr>rs_batches := rs_batches st + 1\<rparr>" "stop = Some r"
      "r \<in> {no_record_exists_in_log, invalid_record_pointed}" "rs_consumed st < limit"
  | (batch) n ans rv where "rs_consumed st < limit" "n \<le> MAX_READ_RECORDS" "rv \<noteq> 2" "rv \<noteq> 3"
      "invoke_tolerating w ''GetRecords'' (get_records_params (rs_identifier st) n) [2, 3] s = (Ok (ans, rv), t)"
      "absorbed limit (record_array ans) st st'" "rs_batches st' = rs_batches st + 1"
      "case stop of Some r \<Rightarrow> stops_for r (rs_identifier st) [ans] \<and>
          r \<in> {no_more_records, no_iteration_identifier, iteration_stalled}
        | None \<Rightarrow> \<not> says_done ans \<and> optional_int (get_prop ans ''IterationIdentifier'') = Some (rs_identifier st')
            \<and> rs_identifier st' \<noteq> rs_identifier st"
proof (cases "limit \<le> rs_consumed st")
  case True
  then have "st' = st" "stop = Some max_records" "t = s"
    using assms by (simp_all add: read_round_def)
  with True show thesis by (intro full)
next
  case False
  let ?n = "request_size limit bsz st" and ?st = "st\<lparr>rs_batches := rs_batches st + 1\<rparr>"
  obtain q u where q: "invoke_tolerating w ''GetRecords'' (get_records_params (rs_identifier st) ?n) [2, 3] s = (q, u)"
    by fastforce
  with assms False obtain ans rv where
    inv: "invoke_tolerating w ''GetRecords'' (get_records_params (rs_identifier st) ?n) [2, 3] s = (Ok (ans, rv), t)"
    and run: "(st', stop) = after_answer limit st (ans, rv)"
    by (cases q) (auto simp: read_round_def bindA_def)
  have n: "?n \<le> MAX_READ_RECORDS" by (simp add: request_size_def)
  show thesis
  proof (cases "rv = 2 \<or> rv = 3")
    case True
    with run have "st' = ?st" "stop = Some (if rv = 3 then no_record_exists_in_log else invalid_record_pointed)"
      by (auto simp: after_answer_def Let_def split: if_splits)
    with False show thesis by (intro last [of "if rv = 3 then _ else _"]) auto
  next
    case rv: False
    let ?b = "take_batch limit ans ?st"
    have b: "absorbed limit (record_array ans) st ?b" "rs_batches ?b = rs_batches st + 1"
      "rs_identifier ?b = rs_identifier st"
      using absorbed_batch [of limit ans ?st] by (simp_all add: absorbed_def take_batch_def Let_def)
    have upd: "absorbed limit (record_array ans) st (?b\<lparr>rs_identifier := k\<rparr>)" for k
      using b(1) by (simp add: absorbed_def)
    show thesis
    proof (rule batch [of ?n rv ans])
      show "absorbed limit (record_array ans) st st'" "rs_batches st' = rs_batches st + 1"
        using run rv b upd by (auto simp: after_answer_def Let_def split: if_splits option.splits)
      show "case stop of Some r \<Rightarrow> stops_for r (rs_identifier st) [ans] \<and>
          r \<in> {no_more_records, no_iteration_identifier, iteration_stalled}
        | None \<Rightarrow> \<not> says_done ans \<and> optional_int (get_prop ans ''IterationIdentifier'') = Some (rs_identifier st')
            \<and> rs_identifier st' \<noteq> rs_identifier st"
        using run rv b by (auto simp: after_answer_def Let_def says_done_def split: if_splits option.splits)
    qed (use False rv inv n in auto)
  qed
qed

section \<open>A whole run\<close>

lemma stops_for_more:
  assumes "\<not> says_done ans" "optional_int (get_prop ans ''IterationIdentifier'') = Some k" "k \<noteq> i"
    "stops_for r k outs"
  shows "stops_for r i (ans # outs)"
  using assms by (cases outs) (auto simp: next_identifier_def)

lemma read_loop_run:
  assumes "read_loop w limit bsz fuel st s = (Ok (st', r), t)"
  shows "\<exists>outs. answered w (rs_identifier st) s outs \<and> stops_for r (rs_identifier st) outs
    \<and> absorbed limit (items_of outs) st st'
    \<and> rs_batches st' = rs_batches st + length outs
        + (if r \<in> {no_record_exists_in_log, invalid_record_pointed} then 1 else 0)
    \<and> (r = max_records \<longrightarrow> limit \<le> rs_consumed st')"
  using assms
proof (induction fuel arbitrary: st s)
  case 0
  then show ?case by simp
next
  case (Suc fuel)
  from Suc.prems obtain st1 stop s1 where
    round: "read_round w limit bsz st s = (Ok (st1, stop), s1)"
    and rest: "(case stop of Some r \<Rightarrow> ret (st1, r) | None \<Rightarrow> read_loop w limit bsz fuel st1) s1 = (Ok (st', r), t)"
    by (auto elim!: bindA_OkE)
  from round show ?case
  proof (cases rule: read_round_cases)
    case full
    with rest show ?thesis by (intro exI [of _ "[]"]) (auto intro: answered.none)
  next
    case (last r')
    with rest have "st' = st\<lparr>rs_batches := rs_batches st + 1\<rparr>" "r = r'" by auto
    with last show ?thesis
      by (intro exI [of _ "[]"]) (auto intro: answered.none simp: absorbed_def)
  next
    case (batch n ans rv)
    show ?thesis
    proof (cases stop)
      case (Some r')
      with rest have eq: "st' = st1" "r = r'" by auto
      with batch Some show ?thesis
        by (intro exI [of _ "[ans]"]) (auto intro: answered.intros simp del: stops_for.simps)
    next
      case None
      with batch have step: "\<not> says_done ans" "rs_identifier st1 \<noteq> rs_identifier st"
        "optional_int (get_prop ans ''IterationIdentifier'') = Some (rs_identifier st1)" by simp_all
      then have next_id: "next_identifier ans (rs_identifier st) = rs_identifier st1"
        by (simp add: next_identifier_def)
      from None rest Suc.IH [of st1 s1] obtain outs where outs:
        "answered w (rs_identifier st1) s1 outs" "stops_for r (rs_identifier st1) outs"
        "absorbed limit (items_of outs) st1 st'"
        "rs_batches st' = rs_batches st1 + length outs
          + (if r \<in> {no_record_exists_in_log, invalid_record_pointed} then 1 else 0)"
        "r = max_records \<longrightarrow> limit \<le> rs_consumed st'" by auto
      have "answered w (rs_identifier st) s (ans # outs)"
        using batch outs(1) by (intro answered.more) (simp_all add: next_id)
      moreover have "stops_for r (rs_identifier st) (ans # outs)"
        by (rule stops_for_more [OF step(1,3,2) outs(2)])
      moreover have "absorbed limit (items_of (ans # outs)) st st'"
        unfolding items_of_simps by (rule absorbed_append [OF batch(6) outs(3)])
      ultimately show ?thesis using batch(7) outs(4,5) by (intro exI [of _ "ans # outs"]) auto
    qed
  qed
qed

section \<open>How many rounds\<close>

text \<open>An invocation that fails does so with an error of the client, never for want of fuel.\<close>

lemma catchA_Ok: "m s = (Ok x, t) \<Longrightarrow> catchA m p h s = (Ok x, t)"
  by (simp add: catchA_def)

lemma invoke_tolerating_fails:
  assumes "fst (api_invoke w MESSAGE_LOG_CLASS meth params [] s) \<noteq> Raise OutOfFuel"
  shows "fst (invoke_tolerating w meth params vs s) \<noteq> Raise OutOfFuel"
  using assms by (auto simp: invoke_tolerating_def catchA_def split: prod.splits outcome.splits)

lemma invoke_tolerating_Ok:
  assumes "invoke_tolerating w meth params vs s = (Ok (ans, rv), t)" "rv \<notin> set vs"
  shows "api_invoke w MESSAGE_LOG_CLASS meth params [] s = (Ok (ans, rv), t)"
  using assms
  by (auto simp: invoke_tolerating_def catchA_def tolerated_value_def
      split: prod.splits outcome.splits if_splits exn.splits option.splits)

lemma invoke_tolerating_state:
  "snd (invoke_tolerating w meth params vs s) = snd (api_invoke w MESSAGE_LOG_CLASS meth params [] s)"
  by (simp add: invoke_tolerating_def catchA_def split: prod.splits outcome.splits)

lemma read_round_fails:
  assumes "fst (api_invoke w MESSAGE_LOG_CLASS ''GetRecords''
      (get_records_params (rs_identifier st) (request_size limit bsz st)) [] s) \<noteq> Raise OutOfFuel"
  shows "fst (read_round w limit bsz st s) \<noteq> Raise OutOfFuel"
  using invoke_tolerating_fails [OF assms, of "[2, 3]"]
  by (auto simp: read_round_def bindA_def split: prod.splits outcome.splits)

lemma read_round_state:
  "snd (read_round w limit bsz st s) = (if limit \<le> rs_consumed st then s
     else snd (api_invoke w MESSAGE_LOG_CLASS ''GetRecords''
       (get_records_params (rs_identifier st) (request_size limit bsz st)) [] s))"
  by (simp add: read_round_def bindA_def invoke_tolerating_state [symmetric, where vs = "[2, 3]"]
      split: prod.splits outcome.splits)

lemma read_loop_ends:
  assumes kept: "\<And>i n s. P s \<Longrightarrow> P (snd (api_invoke w MESSAGE_LOG_CLASS ''GetRecords'' (get_records_params i n) [] s))"
    and fails: "\<And>i n s. P s \<Longrightarrow>
      fst (api_invoke w MESSAGE_LOG_CLASS ''GetRecords'' (get_records_params i n) [] s) \<noteq> Raise OutOfFuel"
    and delivers: "\<And>i n s ans rv. P s \<Longrightarrow>
      fst (api_invoke w MESSAGE_LOG_CLASS ''GetRecords'' (get_records_params i n) [] s) = Ok (ans, rv) \<Longrightarrow>
      record_array ans \<noteq> []"
  shows "P s \<Longrightarrow> nat (limit - rs_consumed st) < fuel \<Longrightarrow>
    fst (read_loop w limit bsz fuel st s) \<noteq> Raise OutOfFuel"
proof (induction fuel arbitrary: st s)
  case 0
  then show ?case by simp
next
  case (Suc fuel)
  obtain q s1 where round: "read_round w limit bsz st s = (q, s1)" by fastforce
  show ?case
  proof (cases q)
    case (Raise x)
    with round read_round_fails [OF fails [OF Suc.prems(1)], where st = st and limit = limit and bsz = bsz] show ?thesis
      by (simp add: bindA_def)
  next
    case (Ok p)
    obtain st1 stop where p: "p = (st1, stop)" by fastforce
    show ?thesis
    proof (cases stop)
      case (Some r)
      with round Ok p show ?thesis by (simp add: bindA_def)
    next
      case None
      from round Ok p have run: "read_round w limit bsz st s = (Ok (st1, stop), s1)" by simp
      have P1: "P s1" using read_round_state [of w limit bsz st s] round kept [OF Suc.prems(1)] Suc.prems(1)
        by (simp split: if_splits)
      from run None have "nat (limit - rs_consumed st1) < nat (limit - rs_consumed st)"
      proof (cases rule: read_round_cases)
        case (batch n ans rv)
        then have "record_array ans \<noteq> []"
          using delivers [OF Suc.prems(1), of "rs_identifier st" n ans rv] invoke_tolerating_Ok [OF batch(5)] by simp
        with batch(1,6) show ?thesis by (auto simp: absorbed_def Let_def neq_Nil_conv take_Cons split: nat.splits)
      qed simp_all
      with Suc.prems Suc.IH [OF P1, of st1] have "fst (read_loop w limit bsz fuel st1 s1) \<noteq> Raise OutOfFuel"
        by simp
      with round Ok p None show ?thesis by (simp add: bindA_def)
    qed
  qed
qed

text \<open>Answers without records whose identifier keeps changing are asked for again for ever.\<close>

lemma read_loop_endless:
  assumes kept: "\<And>i n s. P s \<Longrightarrow> P (snd (api_invoke w MESSAGE_LOG_CLASS ''GetRecords'' (get_records_params i n) [] s))"
    and idles: "\<And>i n s. P s \<Longrightarrow> \<exists>ans k.
      fst (api_invoke w MESSAGE_LOG_CLASS ''GetRecords'' (get_records_params i n) [] s) = Ok (ans, 0)
      \<and> record_array ans = [] \<and> \<not> says_done ans
      \<and> optional_int (get_prop ans ''IterationIdentifier'') = Some k \<and> k \<noteq> i"
  shows "P s \<Longrightarrow> rs_consumed st < limit \<Longrightarrow> fst (read_loop w limit bsz fuel st s) = Raise OutOfFuel"
proof (induction fuel arbitrary: st s)
  case 0
  then show ?case by simp
next
  case (Suc fuel)
  let ?n = "request_size limit bsz st"
  let ?m = "api_invoke w MESSAGE_LOG_CLASS ''GetRecords'' (get_records_params (rs_identifier st) ?n) []"
  obtain ans k where a: "fst (?m s) = Ok (ans, 0)" "record_array ans = []" "\<not> says_done ans"
    "optional_int (get_prop ans ''IterationIdentifier'') = Some k" "k \<noteq> rs_identifier st"
    using idles [OF Suc.prems(1)] by blast
  then have m: "?m s = (Ok (ans, 0), snd (?m s))" by (metis prod.collapse)
  then have "invoke_tolerating w ''GetRecords'' (get_records_params (rs_identifier st) ?n) [2, 3] s
      = (Ok (ans, 0), snd (?m s))"
    unfolding invoke_tolerating_def by (rule catchA_Ok)
  moreover obtain st1 where "after_answer limit st (ans, 0) = (st1, None)" "rs_consumed st1 = rs_consumed st"
    using a by (auto simp: after_answer_def Let_def take_batch_def says_done_def)
  ultimately have "read_round w limit bsz st s = (Ok (st1, None), snd (?m s))" "rs_consumed st1 < limit"
    using Suc.prems(2) by (simp_all add: read_round_def bindA_def)
  with Suc.IH [OF kept [OF Suc.prems(1)], of st1] show ?case by (simp add: bindA_def)
qed

section \<open>On the wire\<close>

text \<open>\<open>appends log P s t\<close>: between \<open>s\<close> and \<open>t\<close> only events satisfying \<open>P\<close> are added to the log.\<close>

definition appends :: "('s \<Rightarrow> 'e list) \<Rightarrow> ('e \<Rightarrow> bool) \<Rightarrow> 's \<Rightarrow> 's \<Rightarrow> bool" where
  "appends log P s t \<longleftrightarrow> (\<exists>ds. log t = log s @ ds \<and> (\<forall>d \<in> set ds. P d))"

interpretation appends: contract "appends log P" for log P
  by unfold_locales (fastforce simp: appends_def)+

lemma posts_appends:
  assumes "posts log es m" "\<forall>e \<in> set es. P e"
  shows "keeps (appends log P) m"
proof (rule keepsI)
  fix s r t assume "m s = (r, t)"
  from postsD [OF assms(1) this] assms(2) show "appends log P s t"
    by (auto simp: appends_def dest: set_mono_prefix)
qed

text \<open>The two methods a read calls.\<close>

definition reading_request :: "request \<Rightarrow> bool" where
  "reading_request r \<longleftrightarrow> invoke_request MESSAGE_LOG_CLASS ''PositionToFirstRecord'' [] [] = Ok r
     \<or> (\<exists>i n. invoke_request MESSAGE_LOG_CLASS ''GetRecords'' (get_records_params i n) [] = Ok r)"

lemma sent_reading:
  "\<forall>e \<in> set (sent_request (invoke_request MESSAGE_LOG_CLASS ''PositionToFirstRecord'' [] [])). reading_request e"
  "\<forall>e \<in> set (sent_request (invoke_request MESSAGE_LOG_CLASS ''GetRecords'' (get_records_params i n) [])). reading_request e"
  by (auto simp: sent_request_def reading_request_def split: outcome.splits)

context wsman_contract
begin

lemma properties_silent: "posts log [] (get_log_properties api)"
  unfolding get_log_properties_def by (intro posts_intros silent)

lemma properties_keeps: "keeps (appends log P) (get_log_properties api)"
  by (rule posts_appends [OF properties_silent]) simp

lemma position_keeps: "keeps (appends log reading_request) (position_to_first_record api)"
  unfolding position_to_first_record_def invoke_tolerating_def case_prod_beta
  by (intro keeps_intros appends.bind appends.catch appends.pure posts_appends [OF invoke_posts] sent_reading)

lemma round_keeps: "keeps (appends log reading_request) (read_round api limit bsz st)"
  unfolding read_round_def invoke_tolerating_def
  by (intro keeps_intros appends.bind appends.catch appends.pure posts_appends [OF invoke_posts] sent_reading)

lemma read_loop_keeps: "keeps (appends log reading_request) (read_loop api limit bsz fuel st)"
proof (induction fuel arbitrary: st)
  case 0
  show ?case unfolding read_loop.simps by (rule appends.pure)
next
  case (Suc fuel)
  then show ?case
    unfolding read_loop.simps case_prod_beta
    by (intro keeps_intros appends.bind appends.pure round_keeps)
qed

lemma read_records_keeps: "keeps (appends log reading_request) (read_records fuel api limit bsz)"
  unfolding read_records_def case_prod_beta
  by (intro keeps_intros appends.bind appends.pure properties_keeps position_keeps read_loop_keeps)

text \<open>The guarded clear.\<close>

lemma clear_trace:
  "posts log (sent_request (invoke_request MESSAGE_LOG_CLASS ''ClearLog'' [] [])) (clear_log api)"
  unfolding clear_log_def by (intro invoke_last posts_intros)

lemma clear_main_trace:
  assumes "amt_log_clear_main api confirm check_mode s = (r, s')"
  shows "log s' = log s \<or> (confirm \<and> \<not> check_mode
      \<and> (\<exists>props u. get_log_properties api s = (Ok props, u) \<and> current_number_of_records props \<noteq> Some 0)
      \<and> log s' = log s @ sent_request (invoke_request MESSAGE_LOG_CLASS ''ClearLog'' [] []))"
proof (cases confirm)
  case False
  with assms show ?thesis by (auto simp: amt_log_clear_main_def)
next
  case True
  obtain q u where q: "get_log_properties api s = (q, u)" by (cases "get_log_properties api s")
  with postsD [OF properties_silent q] have u: "log u = log s" by simp
  show ?thesis
  proof (cases "\<exists>props. q = Ok props \<and> clear_plan (current_number_of_records props) \<and> \<not> check_mode")
    case False
    with assms q u True show ?thesis
      by (cases q) (auto simp: amt_log_clear_main_def bindA_def Let_def split: if_splits)
  next
    case plan: True
    then obtain props where p: "q = Ok props" "clear_plan (current_number_of_records props)" "\<not> check_mode"
      by blast
    let ?m = "bindA (clear_log api) (\<lambda>rv. bindA (get_log_properties api) (\<lambda>props'.
        ret \<lparr>lc_changed = clear_plan (current_number_of_records props),
             lc_records_before = current_number_of_records props,
             lc_records_after = current_number_of_records props', lc_cleared = True, lc_return_value = Some rv, lc_properties = props\<rparr>))"
    have run: "?m u = (r, s')"
      using assms q p True by (simp add: amt_log_clear_main_def bindA_eq_Ok(1) [where m = "get_log_properties api", OF q [unfolded p(1)]])
    have "posts log (sent_request (invoke_request MESSAGE_LOG_CLASS ''ClearLog'' [] []) @ []) ?m"
      by (intro posts_bind [OF clear_trace] posts_intros properties_silent)
    from postsD [OF this run] obtain ds where ds: "log s' = log u @ ds"
      "prefix ds (sent_request (invoke_request MESSAGE_LOG_CLASS ''ClearLog'' [] []))" by auto
    then have "ds = [] \<or> ds = sent_request (invoke_request MESSAGE_LOG_CLASS ''ClearLog'' [] [])"
      by (cases "invoke_request MESSAGE_LOG_CLASS ''ClearLog'' [] []") (auto simp: sent_request_def prefix_Cons)
    moreover have "current_number_of_records props \<noteq> Some 0" using p(2) by (auto simp: clear_plan_def)
    ultimately show ?thesis using ds(1) p q u True by auto
  qed
qed

lemma clear_main_result:
  assumes "amt_log_clear_main api confirm check_mode s = (Ok res, s')"
  shows "lc_changed res = clear_plan (lc_records_before res) \<and> lc_cleared res = (lc_changed res \<and> \<not> check_mode)
    \<and> log s' = log s
      @ (if lc_cleared res then sent_request (invoke_request MESSAGE_LOG_CLASS ''ClearLog'' [] []) else [])"
proof -
  from assms obtain props u where p: "get_log_properties api s = (Ok props, u)" "confirm"
    by (auto simp: amt_log_clear_main_def elim!: bindA_OkE split: if_splits)
  with postsD [OF properties_silent p(1)] have u: "log u = log s" by simp
  show ?thesis
  proof (cases "clear_plan (current_number_of_records props) \<and> \<not> check_mode")
    case False
    with assms p u show ?thesis
      by (auto simp: amt_log_clear_main_def Let_def bindA_eq_Ok(1) [where m = "get_log_properties api", OF p(1)])
  next
    case True
    with assms p obtain rv v props' where "clear_log api u = (Ok rv, v)" "get_log_properties api v = (Ok props', s')"
      and res: "lc_changed res" "lc_cleared res" "lc_records_before res = current_number_of_records props"
      by (auto simp: amt_log_clear_main_def Let_def bindA_eq_Ok(1) [where m = "get_log_properties api", OF p(1)]
          elim!: bindA_OkE)
    with postsD [OF clear_trace] postsD [OF properties_silent] u True show ?thesis by fastforce
  qed
qed

end

end
