(* ===== verification/Message_Log_Properties.thy ===== *)
theory Message_Log_Properties
  imports Log_Reading Wsman_Demo
begin

text \<open>The properties of the event log: its records, the read and the clear.\<close>

section \<open>Records\<close>

lemma record_parts:
  assumes "length f = 9" "length d = 8"
  shows "take 4 (le_bytes 4 ts @ f @ d @ tail) = le_bytes 4 ts"
    "drop 13 (le_bytes 4 ts @ f @ d @ tail) = d @ tail"
    "i < 9 \<Longrightarrow> (le_bytes 4 ts @ f @ d @ tail) ! (4 + i) = f ! i"
  using assms by (simp_all add: nth_append)

text \<open>
  C32: A record decodes to what the firmware packed.  The base64 text of a little-endian time stamp,
  nine field bytes and eight data bytes (and whatever follows) decodes without an error to exactly
  that time stamp, those fields in their order, and those data bytes, with all the bytes kept in
  hexadecimal.
\<close>

theorem record_roundtrip:
  assumes "length f = 9" "length d = 8" "0 \<le> ts" "ts < 2 ^ 32"
    and "r = decode_record (b64encode (le_bytes 4 ts @ f @ d @ tail))"
  shows "decode_error r = None \<and> timestamp r = Some ts
    \<and> [device_address r, event_sensor_type r, event_type r, event_offset r, event_source_type r,
       event_severity r, sensor_number r, entity r, entity_instance r] = map (\<lambda>b. Some (uint b)) f
    \<and> event_data r = Some (map uint d)
    \<and> description r = describe_event (uint (f ! 1)) (uint (f ! 3)) d
    \<and> raw_hex r = Some (hex (le_bytes 4 ts @ f @ d @ tail)) \<and> raw_length r = Some (21 + length tail)"
proof -
  note parts = record_parts [OF assms(1,2), where ts = ts and tail = tail]
  note nths = parts(3) [where i = 0] parts(3) [where i = 1] parts(3) [where i = 2] parts(3) [where i = 3] parts(3) [where i = 4]
    parts(3) [where i = 5] parts(3) [where i = 6] parts(3) [where i = 7] parts(3) [where i = 8]
  from assms(1) obtain a b c e g h i j k where f: "f = [a, b, c, e, g, h, i, j, k]"
    by (auto simp: numeral_eq_Suc length_Suc_conv)
  have "le_int (le_bytes 4 ts) = ts" using assms(3,4) by (simp add: le_int_le_bytes)
  with parts nths assms(1,2) show ?thesis
    unfolding assms(5) decode_record_def b64_roundtrip
    by (simp add: RECORD_SIZE_def EVENT_DATA_SIZE_def Let_def f del: le_bytes.simps)
qed

theorem record_roundtrip_witness:
  "timestamp (decode_record (b64encode (le_bytes 4 1704511587 @ replicate 9 7 @ replicate 8 0))) = Some 1704511587"
  using record_roundtrip [of "replicate 9 7" "replicate 8 0" 1704511587 _ "[]"] by simp

text \<open>
  Nothing is lost and nothing is made up.  The text received is always kept; a record that is
  not base64 or too short is marked and none of its fields has a value; and a record is dropped as
  an empty slot exactly when it is 21 zero bytes.
\<close>

lemma record_never_invented:
  "raw_base64 (decode_record t) = t
   \<and> (decode_error (decode_record t) = None \<longleftrightarrow> (\<exists>bs. b64decode t = Some bs \<and> 21 \<le> length bs))
   \<and> (decode_error (decode_record t) \<noteq> None \<longrightarrow>
        (decode_record t)\<lparr>raw_hex := None, raw_length := None, decode_error := None\<rparr> = blank_record t)
   \<and> (is_empty_record_slot (decode_record t) \<longleftrightarrow> b64decode t = Some (replicate 21 0))"
  by (cases "b64decode t")
     (auto simp: decode_record_def blank_record_def RECORD_SIZE_def Let_def is_empty_record_slot_def hex_inject)

lemma seconds_split: "x = x div 3600 * 3600 + x mod 3600 div 60 * 60 + x mod (60 :: int)"
proof -
  have "x mod 60 = x mod 3600 mod 60" by (simp add: mod_mod_cancel)
  then show ?thesis using div_mult_mod_eq [of x 3600] div_mult_mod_eq [of "x mod 3600" 60] by linarith
qed

text \<open>
  The calendar is right.  A time stamp that is not one of the two sentinels is written as a
  valid year, month, day and time of day whose seconds since 1970 are the time stamp.
\<close>

lemma timestamp_civil:
  assumes "0 < ts" "ts < 2 ^ 32 - 1"
  shows "\<exists>y m d h mi s. format_timestamp ts = Some (padded 4 y @ ''-'' @ padded 2 (int m) @ ''-'' @ padded 2 d
        @ ''T'' @ padded 2 h @ '':'' @ padded 2 mi @ '':'' @ padded 2 s @ ''Z'')
    \<and> 1970 \<le> y \<and> 1 \<le> m \<and> m \<le> 12 \<and> 1 \<le> d \<and> d \<le> month_lengths y ! (m - 1)
    \<and> 0 \<le> h \<and> h < 24 \<and> 0 \<le> mi \<and> mi < 60 \<and> 0 \<le> s \<and> s < 60
    \<and> ts = (days_of_years y + sum_list (take (m - 1) (month_lengths y)) + (d - 1)) * 86400 + h * 3600 + mi * 60 + s"
proof -
  obtain y yd where y: "year_and_day 1970 (ts div 86400) = (y, yd)" by fastforce
  from year_and_day_ok [OF _ _ y] assms(1) have yy: "1970 \<le> y" "0 \<le> yd" "yd < year_length y"
    "days_of_years y + yd = ts div 86400" by (simp_all add: days_of_years_def)
  obtain m d where m: "month_and_day (month_lengths y) 1 yd = (m, d)" by fastforce
  from month_and_day_ok [OF yy(2) _ m] yy(3) obtain k where k: "k < length (month_lengths y)" "m = 1 + int k"
    "0 \<le> d" "d < month_lengths y ! k" "sum_list (take k (month_lengths y)) + d = yd"
    by (auto simp: month_lengths_sum)
  define x h mi s where "x = ts mod 86400" and "h = x div 3600" and "mi = x mod 3600 div 60" and "s = x mod 60"
  have x: "0 \<le> x" "x < 86400" "ts = (ts div 86400) * 86400 + x" by (simp_all add: x_def)
  have days: "days_of_years y + sum_list (take k (month_lengths y)) + d = ts div 86400"
    using yy(4) k(5) by linarith
  have "ts = (days_of_years y + sum_list (take k (month_lengths y)) + d) * 86400 + h * 3600 + mi * 60 + s"
    using x(3) seconds_split [of x] unfolding days h_def mi_def s_def by linarith
  moreover have "0 \<le> h" "h < 24" "0 \<le> mi" "mi < 60" "0 \<le> s" "s < 60"
    using x(1,2) by (simp_all add: h_def mi_def s_def)
  moreover have "length (month_lengths y) = 12" by (simp add: month_lengths_def)
  moreover have "format_timestamp ts = Some (padded 4 y @ ''-'' @ padded 2 (int (Suc k)) @ ''-'' @ padded 2 (d + 1)
      @ ''T'' @ padded 2 h @ '':'' @ padded 2 mi @ '':'' @ padded 2 s @ ''Z'')"
    using assms y m k(2) by (simp add: format_timestamp_def Let_def h_def mi_def s_def x_def)
  ultimately show ?thesis
    using yy(1) k
    by (intro exI [of _ y] exI [of _ "Suc k"] exI [of _ "d + 1"] exI [of _ h] exI [of _ mi] exI [of _ s] conjI)
       (assumption | simp)+
qed

section \<open>Reading\<close>






text \<open>
  C34: The loop ends when every answer delivers.  If each successful GetRecords, in whatever states
  the client goes through, brings at least one array element, a read of \<^verbatim>\<open>max_records\<close> needs at most
  one round per record and one more.
\<close>

theorem reading_ends:
  assumes "P s"
    and "\<And>i n u. P u \<Longrightarrow> P (snd (api_invoke w MESSAGE_LOG_CLASS ''GetRecords'' (get_records_params i n) [] u))"
    and "\<And>i n u. P u \<Longrightarrow>
      fst (api_invoke w MESSAGE_LOG_CLASS ''GetRecords'' (get_records_params i n) [] u) \<noteq> Raise OutOfFuel"
    and "\<And>i n u ans rv. P u \<Longrightarrow>
      fst (api_invoke w MESSAGE_LOG_CLASS ''GetRecords'' (get_records_params i n) [] u) = Ok (ans, rv) \<Longrightarrow>
      record_array ans \<noteq> []"
  shows "fst (read_loop w limit bsz (nat limit + 1) (start_state i) s) \<noteq> Raise OutOfFuel"
  by (rule read_loop_ends [where P = P, OF assms(2,3,4,1)]) (simp_all add: start_state_def)

text \<open>A firmware whose \<open>k\<close>-th answer gives what \<open>f k\<close> says.\<close>

definition scripted :: "(nat \<Rightarrow> obj) \<Rightarrow> nat wsman_api" where
  "scripted f = \<lparr>api_get = (\<lambda>cls sel k. (Ok [(''ElementName'', VStr ''log'')], k)),
     api_put = (\<lambda>cls props sel k. (Ok [], k)), api_enumerate = (\<lambda>cls sel k. (Ok [], k)),
     api_invoke = (\<lambda>cls meth params sel k. (Ok (f k, 0), k + 1))\<rparr>"

definition one_by_one :: "nat \<Rightarrow> obj" where
  "one_by_one k = [(''RecordArray'', VStr ''AAAA''), (''IterationIdentifier'', VInt (int k + 2))]"

lemma strip_AAAA: "strip ''AAAA'' = ''AAAA''"
  by code_simp

theorem reading_ends_witness:
  "fst (read_loop (scripted one_by_one) 390 390 (nat 390 + 1) (start_state 1) 0) \<noteq> Raise OutOfFuel"
  by (rule reading_ends [where P = "\<lambda>_. True"])
     (auto simp: scripted_def one_by_one_def record_array_def get_prop_def as_list_def optional_str_def
        py_str_def List.map_filter_def strip_AAAA)

text \<open>
  Nothing else ends it.  Answers without an element that keep naming a new identifier are
  asked for again without end, whatever the budget: no number of rounds is enough.
\<close>

lemma reading_can_spin:
  assumes "P s" "0 < limit"
    and "\<And>i n u. P u \<Longrightarrow> P (snd (api_invoke w MESSAGE_LOG_CLASS ''GetRecords'' (get_records_params i n) [] u))"
    and "\<And>i n u. P u \<Longrightarrow> \<exists>ans k.
      fst (api_invoke w MESSAGE_LOG_CLASS ''GetRecords'' (get_records_params i n) [] u) = Ok (ans, 0)
      \<and> record_array ans = [] \<and> \<not> says_done ans
      \<and> optional_int (get_prop ans ''IterationIdentifier'') = Some k \<and> k \<noteq> i"
  shows "fst (read_loop w limit bsz rounds (start_state i) s) = Raise OutOfFuel"
  by (rule read_loop_endless [where P = P, OF assms(3,4,1)]) (simp_all add: start_state_def assms(2))

text \<open>The next identifier is one more than the one asked for.\<close>

definition restless :: "unit wsman_api" where
  "restless = \<lparr>api_get = (\<lambda>cls sel. ret [(''ElementName'', VStr ''log'')]), api_put = (\<lambda>cls props sel. ret []),
     api_enumerate = (\<lambda>cls sel. ret []),
     api_invoke = (\<lambda>cls meth params sel. ret ([(''IterationIdentifier'',
       VInt (case get_prop params ''IterationIdentifier'' of VInt i \<Rightarrow> i + 1 | _ \<Rightarrow> 0))], 0))\<rparr>"

lemma demo_spins: "fst (read_loop restless 390 390 1000 (start_state 1) ()) = Raise OutOfFuel"
proof (rule reading_can_spin [where P = "\<lambda>_. True"])
  fix i n u
  show "\<exists>ans k. fst (api_invoke restless MESSAGE_LOG_CLASS ''GetRecords'' (get_records_params i n) [] u) = Ok (ans, 0)
      \<and> record_array ans = [] \<and> \<not> says_done ans
      \<and> optional_int (get_prop ans ''IterationIdentifier'') = Some k \<and> k \<noteq> i"
    by (simp add: restless_def record_array_def get_prop_def get_records_params_def says_done_def
        optional_int_VInt truthy_def)
qed simp_all

lemma invoke_request_action:
  "invoke_request cls meth params sel = Ok r \<Longrightarrow> \<exists>uri. resource_uri cls = Ok uri \<and> rq_action r = uri @ ''/'' @ meth"
  by (auto simp: invoke_request_def split: outcome.splits)

text \<open>
  Reading never changes the log.  Whatever happens during a read, the only requests it posts
  beside plain reads are PositionToFirstRecord and GetRecords, so never ClearLog.
\<close>

lemma reading_only_reads:
  "\<exists>ds. mutations (snd (read_records fuel the_client limit bsz c)) = mutations c @ ds
     \<and> (\<forall>r \<in> set ds. reading_request r \<and> invoke_request MESSAGE_LOG_CLASS ''ClearLog'' [] [] \<noteq> Ok r)"
proof -
  have "appends mutations reading_request c (snd (read_records fuel the_client limit bsz c))"
    using ws.read_records_keeps by (auto simp: keeps_def)
  moreover have "invoke_request MESSAGE_LOG_CLASS ''ClearLog'' [] [] \<noteq> Ok r" if "reading_request r" for r
    using that by (auto simp: reading_request_def dest!: invoke_request_action)
  ultimately show ?thesis by (auto simp: appends_def)
qed

section \<open>Clearing\<close>




end
