(* ===== verification/Redirection.thy ===== *)
theory Redirection
  imports Py_Values
begin

text \<open>
  The redirection session handshake (\<^verbatim>\<open>plugins/module_utils/redirection.py\<close>): connect, certificate pin,
  session start and digest authentication, up to the byte pipe handed to a protocol engine.

  The operating system's sockets, the TLS library and the hash functions are the record \<open>net\<close> of
  functions over a world \<open>'w\<close>; nothing is assumed of them.  Text is kept as its UTF-8 bytes, the form
  in which the code hashes it and puts it on the wire.  Every \<^verbatim>\<open>sendall\<close> and \<^verbatim>\<open>recv\<close> is recorded as
  an event of the session.
\<close>

section \<open>Constants and the network\<close>

definition REDIRECTION_PORT_PLAIN :: int where "REDIRECTION_PORT_PLAIN = 16994"
definition REDIRECTION_PORT_TLS :: int where "REDIRECTION_PORT_TLS = 16995"
definition AUTH_URI :: bytes where "AUTH_URI = ascii ''/RedirectionService''"
definition REQUIRED_AUTH_TYPE :: byte where "REQUIRED_AUTH_TYPE = 4"
definition INSECURE_AUTH_TYPES :: "byte list" where "INSECURE_AUTH_TYPES = [1, 3]"
definition START_SESSION_IDER :: bytes where "START_SESSION_IDER = [0x10, 0x00, 0x00, 0x00] @ ascii ''IDER''"
definition START_SESSION_SOL :: bytes where "START_SESSION_SOL = [0x10, 0x00, 0x00, 0x00] @ ascii ''SOL ''"
definition START_SESSION_KVM :: bytes where "START_SESSION_KVM = [0x10, 0x01, 0x00, 0x00] @ ascii ''KVMR''"
definition AUTH_TYPE_QUERY :: bytes where "AUTH_TYPE_QUERY = 0x13 # replicate 8 0x00"
definition SNC :: bytes where "SNC = ascii ''00000002''"

datatype connect_result = Connected | ConnectTimedOut | ConnectFailed
datatype wrap_result = Wrapped | SslFailed | WrapFailed
datatype recv_result = Chunk bytes | RecvTimedOut | RecvFailed
datatype send_result = AllSent | SendTimedOut | SendFailed
datatype peer_certificate = NoCertificateApi | PeerCertificate "bytes option"

text \<open>\<open>net_wrap\<close> takes whether chain and host name are to be verified.\<close>

record 'w net =
  net_connect :: "string \<Rightarrow> int \<Rightarrow> 'w \<Rightarrow> connect_result \<times> 'w"
  net_wrap :: "bool \<Rightarrow> string \<Rightarrow> 'w \<Rightarrow> wrap_result \<times> 'w"
  net_recv :: "'w \<Rightarrow> recv_result \<times> 'w"
  net_sendall :: "bytes \<Rightarrow> 'w \<Rightarrow> send_result \<times> 'w"
  net_peer_certificate :: "'w \<Rightarrow> peer_certificate"
  net_close :: "'w \<Rightarrow> 'w"
  net_token_hex :: "'w \<Rightarrow> bytes \<times> 'w"
  net_md5_hex :: "bytes \<Rightarrow> bytes"
  net_sha256_hex :: "bytes \<Rightarrow> string"

datatype net_event = Sent bytes send_result | Received bytes

record 'w session =
  se_host :: string
  se_username :: bytes
  se_password :: bytes
  se_use_tls :: bool
  se_pin :: "string option"
  se_port :: int
  se_start_frame :: bytes
  se_connected :: bool
  se_buf :: bytes
  se_net :: "'w net"
  se_world :: 'w
  se_events :: "net_event list"

text \<open>\<^verbatim>\<open>__init__\<close>; the pin arrives normalised by \<open>normalize_pin\<close> (lower case, no colons).\<close>

definition normalize_pin :: "string option \<Rightarrow> string option" where
  "normalize_pin pin = (case pin of
      None \<Rightarrow> None
    | Some s \<Rightarrow> if s = [] then None else Some (remove_char CHR '':'' (lower s)))"

definition new_session ::
  "string \<Rightarrow> bytes \<Rightarrow> bytes \<Rightarrow> bool \<Rightarrow> string option \<Rightarrow> int option \<Rightarrow> bytes \<Rightarrow> 'w net \<Rightarrow> 'w \<Rightarrow> 'w session" where
  "new_session host username password use_tls pin port start_frame n w =
     \<lparr>se_host = host, se_username = username, se_password = password, se_use_tls = use_tls,
      se_pin = normalize_pin pin,
      se_port = (case port of Some p \<Rightarrow> p
        | None \<Rightarrow> if use_tls then REDIRECTION_PORT_TLS else REDIRECTION_PORT_PLAIN),
      se_start_frame = start_frame, se_connected = False, se_buf = [], se_net = n, se_world = w,
      se_events = []\<rparr>"

text \<open>\<^verbatim>\<open>self._tls_pin_sha256\<close> taken as a condition: present and not empty.\<close>

definition pin_set :: "'w session \<Rightarrow> bool" where
  "pin_set s \<longleftrightarrow> se_pin s \<noteq> None \<and> se_pin s \<noteq> Some []"

section \<open>Socket plumbing\<close>

text \<open>
  \<^verbatim>\<open>_default_socket_factory\<close>: only \<^verbatim>\<open>ssl.SSLError\<close> of the handshake is classified (and the raw socket
  closed); any other \<^verbatim>\<open>OSError\<close> of \<^verbatim>\<open>wrap_socket\<close> escapes.
\<close>

definition default_socket_factory :: "('w session, unit) action" where
  "default_socket_factory s =
     (case net_connect (se_net s) (se_host s) (se_port s) (se_world s) of (c, w) \<Rightarrow>
        let s = s\<lparr>se_world := w\<rparr>
        in case c of
           ConnectTimedOut \<Rightarrow> (Raise (TimeoutError False), s)
         | ConnectFailed \<Rightarrow> (Raise ConnectionError, s)
         | Connected \<Rightarrow>
             if \<not> se_use_tls s then (Ok (), s)
             else (case net_wrap (se_net s) (\<not> pin_set s) (se_host s) w of (r, w) \<Rightarrow>
               let s = s\<lparr>se_world := w\<rparr>
               in case r of
                  Wrapped \<Rightarrow> (Ok (), s)
                | SslFailed \<Rightarrow> (Raise TlsValidationError, s\<lparr>se_world := net_close (se_net s) w\<rparr>)
                | WrapFailed \<Rightarrow> (Raise (PyError OSError), s)))"

definition require_connected :: "('w session, unit) action" where
  "require_connected = bindA (gets se_connected) (\<lambda>b. if b then ret () else throw ConnectionError)"

definition verify_tls_pin :: "('w session, unit) action" where
  "verify_tls_pin = thenA require_connected (\<lambda>s.
     case net_peer_certificate (se_net s) (se_world s) of
       NoCertificateApi \<Rightarrow> (Raise TlsValidationError, s)
     | PeerCertificate der \<Rightarrow>
         if der = None \<or> der = Some [] then (Raise TlsValidationError, s)
         else if Some (net_sha256_hex (se_net s) (the der)) \<noteq> se_pin s then (Raise TlsValidationError, s)
         else (Ok (), s))"

definition send_bytes :: "bytes \<Rightarrow> ('w session, unit) action" where
  "send_bytes data = thenA require_connected (\<lambda>s.
     case net_sendall (se_net s) data (se_world s) of (r, w) \<Rightarrow>
       (case r of
          AllSent \<Rightarrow> Ok ()
        | SendTimedOut \<Rightarrow> Raise (TimeoutError True)
        | SendFailed \<Rightarrow> Raise ConnectionError,
        s\<lparr>se_world := w, se_events := se_events s @ [Sent data r]\<rparr>))"

text \<open>One \<^verbatim>\<open>recv\<close> of \<^verbatim>\<open>_fill\<close>; an empty chunk is the end of the stream.\<close>

definition receive_chunk :: "('w session, bytes) action" where
  "receive_chunk s = (case net_recv (se_net s) (se_world s) of (r, w) \<Rightarrow>
     let s = s\<lparr>se_world := w\<rparr>
     in case r of
        RecvTimedOut \<Rightarrow> (Raise (TimeoutError False), s)
      | RecvFailed \<Rightarrow> (Raise ConnectionError, s)
      | Chunk c \<Rightarrow> if c = [] then (Raise ConnectionError, s)
                  else (Ok c, s\<lparr>se_events := se_events s @ [Received c]\<rparr>))"

definition fill_step :: "nat \<Rightarrow> ('w session, bool) action" where
  "fill_step n = bindA (gets se_buf) (\<lambda>b.
     if n \<le> length b then ret False
     else bindA receive_chunk (\<lambda>c. bindA (modify (\<lambda>s. s\<lparr>se_buf := se_buf s @ c\<rparr>)) (\<lambda>_. ret True)))"

lemma receive_chunk_Ok:
  "receive_chunk s = (Ok c, t) \<Longrightarrow> c \<noteq> [] \<and> se_buf t = se_buf s"
  by (auto simp: receive_chunk_def Let_def split: prod.splits recv_result.splits if_splits)

lemma fill_step_decreases:
  "fill_step n s = (Ok True, t) \<Longrightarrow> (t, s) \<in> measure (\<lambda>s. n - length (se_buf s))"
  by (auto simp: fill_step_def elim!: bindA_OkE split: if_splits dest!: receive_chunk_Ok simp: neq_Nil_conv)

function fill_loop :: "nat \<Rightarrow> ('w session, unit) action" where
  "fill_loop n s = (case fill_step n s of
      (Ok b, t) \<Rightarrow> if b then fill_loop n t else (Ok (), t)
    | (Raise x, t) \<Rightarrow> (Raise x, t))"
  by pat_completeness auto
termination
  by (relation "measure (\<lambda>(n, s). n - length (se_buf s))") (use fill_step_decreases [OF sym] in auto)

declare fill_loop.simps [simp del]

interpretation filling: action_loop "fill_step n" "fill_loop n" "measure (\<lambda>s. n - length (se_buf s))" for n
proof
  show "wf (measure (\<lambda>s. n - length (se_buf s)))" by simp
next
  fix s t assume "fill_step n s = (Ok True, t)"
  then show "(t, s) \<in> measure (\<lambda>s. n - length (se_buf s))" by (rule fill_step_decreases)
next
  fix s show "fill_loop n s = (case fill_step n s of
      (Ok b, t) \<Rightarrow> if b then fill_loop n t else (Ok (), t) | (Raise x, t) \<Rightarrow> (Raise x, t))"
    by (simp add: fill_loop.simps [of n s])
qed

text \<open>\<^verbatim>\<open>_fill\<close>.\<close>

definition fill :: "nat \<Rightarrow> ('w session, unit) action" where
  "fill n = thenA require_connected (fill_loop n)"

text \<open>\<^verbatim>\<open>del self._buf[:n]\<close>, giving the bytes removed.\<close>

definition take_buf :: "nat \<Rightarrow> ('w session, bytes) action" where
  "take_buf n s = (Ok (take n (se_buf s)), s\<lparr>se_buf := drop n (se_buf s)\<rparr>)"

section \<open>Session start\<close>

definition read_start_session_reply :: "('w session, unit) action" where
  "read_start_session_reply = thenA (fill 13) (bindA (gets se_buf) (\<lambda>b.
     if b ! 0 \<noteq> 0x11 then throw ProtocolError
     else if b ! 1 \<noteq> 0 then throw ProtocolError
     else thenA (fill (13 + unat (b ! 12)))
       (bindA (take_buf (13 + unat (b ! 12))) (\<lambda>_. ret ()))))"

section \<open>Authentication\<close>

text \<open>The status, the authentication type and the data of the reply.\<close>

definition read_auth_reply :: "('w session, byte \<times> byte \<times> bytes) action" where
  "read_auth_reply = thenA (fill 9) (bindA (gets se_buf) (\<lambda>b.
     if b ! 0 \<noteq> 0x14 then throw ProtocolError
     else (let total = 9 + nat (le_int (take 4 (drop 5 b)))
           in thenA (fill total) (bindA (take_buf total) (\<lambda>f. ret (f ! 1, f ! 4, drop 9 f))))))"

definition length_prefixed :: "bytes \<Rightarrow> bytes outcome" where
  "length_prefixed v = (if length v > 0xFF then Raise ProtocolError else Ok (of_nat (length v) # v))"

text \<open>Length-prefixed fields one after the other.\<close>

fun prefixed_fields :: "bytes list \<Rightarrow> bytes outcome" where
  "prefixed_fields [] = Ok []"
| "prefixed_fields (v # vs) = (case length_prefixed v of
      Raise x \<Rightarrow> Raise x
    | Ok b \<Rightarrow> (case prefixed_fields vs of Raise x \<Rightarrow> Raise x | Ok bs \<Rightarrow> Ok (b @ bs)))"

definition auth_frame :: "nat \<Rightarrow> bytes \<Rightarrow> bytes outcome" where
  "auth_frame n payload = (case pack_le 4 (int n) of
      Raise x \<Rightarrow> Raise x
    | Ok l \<Rightarrow> Ok ([0x13, 0x00, 0x00, 0x00, 0x04] @ l @ payload))"

definition digest_type_query :: "bytes \<Rightarrow> bytes outcome" where
  "digest_type_query user = (case length_prefixed user of
      Raise x \<Rightarrow> Raise x
    | Ok u \<Rightarrow> (case length_prefixed AUTH_URI of
        Raise x \<Rightarrow> Raise x
      | Ok uri \<Rightarrow> auth_frame (length user + length AUTH_URI + 8)
          (u @ [0x00, 0x00] @ uri @ [0x00, 0x00, 0x00, 0x00])))"

definition read_field :: "bytes \<Rightarrow> nat \<Rightarrow> (bytes \<times> nat) outcome" where
  "read_field auth_data pos = (case idx auth_data pos of
      Raise x \<Rightarrow> Raise x
    | Ok n \<Rightarrow> (let v = slice auth_data (pos + 1) (pos + 1 + unat n)
              in if utf8_valid v then Ok (v, pos + 1 + unat n) else Raise (PyError UnicodeDecodeError)))"

definition parse_challenge :: "bytes \<Rightarrow> (bytes \<times> bytes \<times> bytes) outcome" where
  "parse_challenge auth_data = (case read_field auth_data 0 of
      Raise x \<Rightarrow> Raise x
    | Ok (realm, i) \<Rightarrow> (case read_field auth_data i of
        Raise x \<Rightarrow> Raise x
      | Ok (nonce, j) \<Rightarrow> (case read_field auth_data j of
          Raise x \<Rightarrow> Raise x
        | Ok (qop, _) \<Rightarrow> Ok (realm, nonce, qop))))"

text \<open>The RFC 2617 digest; \<open>h\<close> is the hexadecimal MD5.\<close>

definition colons :: "bytes list \<Rightarrow> bytes" where
  "colons = (\<lambda>parts. case parts of [] \<Rightarrow> [] | p # ps \<Rightarrow> p @ concat (map (\<lambda>q. 0x3A # q) ps))"

definition digest_value :: "(bytes \<Rightarrow> bytes) \<Rightarrow> bytes \<Rightarrow> bytes \<Rightarrow> bytes \<Rightarrow> bytes \<Rightarrow> bytes \<Rightarrow> bytes" where
  "digest_value h ha1 nonce qop cnonce uri =
     h (colons [ha1, nonce, SNC, cnonce, qop, h (colons [ascii ''POST'', uri])])"

definition ha1_of :: "(bytes \<Rightarrow> bytes) \<Rightarrow> bytes \<Rightarrow> bytes \<Rightarrow> bytes \<Rightarrow> bytes" where
  "ha1_of h user realm password = h (colons [user, realm, password])"

definition digest_fields :: "(bytes \<Rightarrow> bytes) \<Rightarrow> bytes \<Rightarrow> bytes \<Rightarrow> bytes \<Rightarrow> bytes \<Rightarrow> bytes \<Rightarrow> bytes \<Rightarrow> bytes list" where
  "digest_fields h user password realm nonce qop cnonce =
     [user, realm, nonce, AUTH_URI, cnonce, SNC,
      digest_value h (ha1_of h user realm password) nonce qop cnonce AUTH_URI, qop]"

definition digest_response :: "bytes \<Rightarrow> bytes \<Rightarrow> bytes \<Rightarrow> ('w session, bytes) action" where
  "digest_response realm nonce qop s = (case net_token_hex (se_net s) (se_world s) of (cnonce, w) \<Rightarrow>
     let fields = digest_fields (net_md5_hex (se_net s)) (se_username s) (se_password s) realm nonce qop cnonce
     in (case prefixed_fields fields of
           Raise x \<Rightarrow> Raise x
         | Ok payload \<Rightarrow> auth_frame (sum_list (map length (take 7 fields)) + 7 + (length qop + 1)) payload,
         s\<lparr>se_world := w\<rparr>))"

definition auth_query_round :: "byte \<times> byte \<times> bytes \<Rightarrow> ('w session, byte \<times> byte \<times> bytes) action" where
  "auth_query_round reply = (case reply of (status, auth_type, auth_data) \<Rightarrow>
     if auth_type = 0 then
       (if REQUIRED_AUTH_TYPE \<notin> set auth_data then throw AuthenticationError
        else bindA (gets se_username) (\<lambda>user. bindA (liftA (digest_type_query user)) (\<lambda>q.
          thenA (send_bytes q) read_auth_reply)))
     else ret reply)"

definition auth_digest_round :: "byte \<times> byte \<times> bytes \<Rightarrow> ('w session, byte \<times> byte \<times> bytes) action" where
  "auth_digest_round reply = (case reply of (status, auth_type, auth_data) \<Rightarrow>
     if status = 1 \<and> auth_type = REQUIRED_AUTH_TYPE then
       bindA (liftA (parse_challenge auth_data)) (\<lambda>(realm, nonce, qop).
       bindA (digest_response realm nonce qop) (\<lambda>f.
         thenA (send_bytes f) read_auth_reply))
     else ret reply)"

definition authenticate :: "('w session, unit) action" where
  "authenticate = thenA (send_bytes AUTH_TYPE_QUERY) (bindA read_auth_reply (\<lambda>first.
     bindA (auth_query_round first) (\<lambda>offer.
       if fst (snd offer) \<in> set INSECURE_AUTH_TYPES then throw AuthenticationError
       else bindA (auth_digest_round offer) (\<lambda>final.
         if fst final \<noteq> 0 then throw AuthenticationError else ret ()))))"

section \<open>Life cycle\<close>

definition connect :: "('w session, bytes) action" where
  "connect = thenA default_socket_factory (thenA (modify (\<lambda>s. s\<lparr>se_connected := True\<rparr>))
     (thenA (bindA (gets (\<lambda>s. se_use_tls s \<and> pin_set s)) (\<lambda>b. if b then verify_tls_pin else ret ()))
     (thenA (bindA (gets se_start_frame) send_bytes)
     (thenA read_start_session_reply
     (thenA authenticate
       (bindA (gets se_buf) (\<lambda>leftover.
          thenA (modify (\<lambda>s. s\<lparr>se_buf := []\<rparr>)) (ret leftover))))))))"

definition close_session :: "('w session, unit) action" where
  "close_session = modify (\<lambda>s. if se_connected s
     then s\<lparr>se_world := net_close (se_net s) (se_world s), se_connected := False\<rparr> else s)"

text \<open>\<^verbatim>\<open>recv\<close> of the connected pipe: what the socket gives, unclassified.\<close>

definition session_recv :: "('w session, bytes) action" where
  "session_recv = thenA require_connected (\<lambda>s.
     case net_recv (se_net s) (se_world s) of (r, w) \<Rightarrow>
       (case r of
          Chunk c \<Rightarrow> (Ok c, s\<lparr>se_world := w, se_events := se_events s @ [Received c]\<rparr>)
        | RecvTimedOut \<Rightarrow> (Raise (PyError SocketTimeout), s\<lparr>se_world := w\<rparr>)
        | RecvFailed \<Rightarrow> (Raise (PyError OSError), s\<lparr>se_world := w\<rparr>)))"

definition peer_certificate_sha256 :: "'w session \<Rightarrow> string option" where
  "peer_certificate_sha256 s =
     (if \<not> se_connected s then None
      else case net_peer_certificate (se_net s) (se_world s) of
          PeerCertificate (Some der) \<Rightarrow> if der = [] then None else Some (net_sha256_hex (se_net s) der)
        | _ \<Rightarrow> None)"

end
