(* ===== verification/Redirection_Handshake.thy ===== *)
theory Redirection_Handshake
  imports Redirection
begin

text \<open>
  Facts about the handshake: what each operation adds to the events of the session and takes from
  the stream of received bytes, and that the password is used in one hash only.
\<close>

section \<open>Traffic\<close>

definition received :: "'w session \<Rightarrow> bytes" where
  "received s = concat (map (\<lambda>e. case e of Received c \<Rightarrow> c | Sent _ _ \<Rightarrow> []) (se_events s))"

definition sent_frames :: "'w session \<Rightarrow> bytes list" where
  "sent_frames s = List.map_filter (\<lambda>e. case e of Sent d AllSent \<Rightarrow> Some d | _ \<Rightarrow> None) (se_events s)"

lemma traffic_update [simp]:
  "received (s\<lparr>se_world := w\<rparr>) = received s" "received (s\<lparr>se_buf := b\<rparr>) = received s"
  "received (s\<lparr>se_connected := k\<rparr>) = received s"
  "sent_frames (s\<lparr>se_world := w\<rparr>) = sent_frames s" "sent_frames (s\<lparr>se_buf := b\<rparr>) = sent_frames s"
  "sent_frames (s\<lparr>se_connected := k\<rparr>) = sent_frames s"
  by (simp_all add: received_def sent_frames_def)

text \<open>What a handshake never changes.\<close>

definition same_config :: "'w session \<Rightarrow> 'w session \<Rightarrow> bool" where
  "same_config s t \<longleftrightarrow> se_host t = se_host s \<and> se_username t = se_username s \<and> se_password t = se_password s
     \<and> se_use_tls t = se_use_tls s \<and> se_pin t = se_pin s \<and> se_port t = se_port s
     \<and> se_start_frame t = se_start_frame s \<and> se_net t = se_net s"

lemma same_config_refl [simp]: "same_config s s"
  by (simp add: same_config_def)

lemma same_config_trans [trans]: "same_config s t \<Longrightarrow> same_config t u \<Longrightarrow> same_config s u"
  by (simp add: same_config_def)

text \<open>
  \<open>reads f s t\<close>: between \<open>s\<close> and \<open>t\<close> nothing was sent, some bytes arrived, and \<open>f\<close> was taken off the
  front of the buffer.
\<close>

definition reads :: "bytes \<Rightarrow> 'w session \<Rightarrow> 'w session \<Rightarrow> bool" where
  "reads f s t \<longleftrightarrow> same_config s t \<and> sent_frames t = sent_frames s
     \<and> (\<exists>g. se_buf s @ g = f @ se_buf t \<and> received t = received s @ g)"

lemma reads_trans: "reads f s t \<Longrightarrow> reads g t u \<Longrightarrow> reads (f @ g) s u"
  by (auto simp: reads_def intro: same_config_trans) (metis append.assoc)

lemma reads_refl [simp]: "reads [] s s"
  by (simp add: reads_def)

definition sends :: "bytes list \<Rightarrow> 'w session \<Rightarrow> 'w session \<Rightarrow> bool" where
  "sends ds s t \<longleftrightarrow> same_config s t \<and> sent_frames t = sent_frames s @ ds \<and> se_buf t = se_buf s
     \<and> received t = received s"

section \<open>Single operations\<close>

lemma require_connected_Ok [simp]: "require_connected s = (Ok (), t) \<longleftrightarrow> se_connected s \<and> t = s"
  by (auto simp: require_connected_def)

lemma send_bytes_Ok: "send_bytes d s = (Ok (), t) \<Longrightarrow> sends [d] s t"
  by (auto simp: send_bytes_def sends_def same_config_def received_def sent_frames_def List.map_filter_def
      elim!: thenA_OkE split: prod.splits send_result.splits)

lemma fill_step_reads: "fill_step n s = (Ok b, t) \<Longrightarrow> reads [] s t"
  by (auto simp: fill_step_def receive_chunk_def reads_def same_config_def Let_def received_def sent_frames_def
      List.map_filter_def elim!: bindA_OkE split: if_splits prod.splits recv_result.splits)

lemma fill_Ok:
  assumes "fill n s = (Ok (), t)"
  shows "reads [] s t" and "n \<le> length (se_buf t)"
proof -
  from assms have run: "fill_loop n s = (Ok (), t)"
    by (auto simp: fill_def elim!: thenA_OkE)
  have "reads [] s u \<Longrightarrow> fill_step n u = (Ok b, v) \<Longrightarrow> reads [] s v" for u b v
    using reads_trans [of "[]" s u "[]" v] fill_step_reads by fastforce
  from filling.loop_invariant [where I = "reads [] s", OF this reads_refl run] show "reads [] s t" .
  have "n \<le> length (se_buf v)" if "fill_loop n u = (Ok (), v)" for u v
    using that
  proof (induction u rule: filling.loop_induct [of n])
    case (1 u)
    show ?case
    proof (cases u rule: filling.loop_cases [of n])
      case (finished w)
      with 1 show ?thesis by (auto simp: fill_step_def elim!: bindA_OkE split: if_splits)
    qed (use 1 in auto)
  qed
  from this [OF run] show "n \<le> length (se_buf t)" .
qed

lemma take_buf_reads: "n \<le> length (se_buf s) \<Longrightarrow> take_buf n s = (Ok f, t) \<Longrightarrow> reads f s t \<and> length f = n"
  by (auto simp: take_buf_def reads_def same_config_def)

text \<open>Filling up to a frame and taking it off, when the frame's first bytes are already there.\<close>

lemma fill_take:
  assumes "fill n s = (Ok (), u)" "take_buf n u = (Ok f, t)"
  shows "reads f s t \<and> length f = n \<and> take (length (se_buf s)) f = take n (se_buf s)"
proof -
  note fill = fill_Ok [OF assms(1)]
  from take_buf_reads [OF fill(2) assms(2)] have f: "reads f u t" "length f = n" by blast+
  from fill(1) obtain g where "se_buf u = se_buf s @ g" by (auto simp: reads_def eq_commute)
  moreover have "f = take n (se_buf u)" using assms(2) by (simp add: take_buf_def)
  ultimately have "take (length (se_buf s)) f = take n (take (length (se_buf s)) (se_buf s @ g))"
    by (simp only: take_take min.commute)
  with reads_trans [OF fill(1) f(1)] f(2) show ?thesis by simp
qed

section \<open>Frames\<close>

definition start_reply :: "bytes \<Rightarrow> bool" where
  "start_reply f \<longleftrightarrow> 13 \<le> length f \<and> f ! 0 = 0x11 \<and> f ! 1 = 0 \<and> length f = 13 + unat (f ! 12)"

definition auth_reply :: "bytes \<Rightarrow> bool" where
  "auth_reply f \<longleftrightarrow> 9 \<le> length f \<and> f ! 0 = 0x14 \<and> length f = 9 + nat (le_int (take 4 (drop 5 f)))"

abbreviation auth_status :: "bytes \<Rightarrow> byte" where "auth_status f \<equiv> f ! 1"
abbreviation auth_kind :: "bytes \<Rightarrow> byte" where "auth_kind f \<equiv> f ! 4"
abbreviation auth_data_of :: "bytes \<Rightarrow> bytes" where "auth_data_of f \<equiv> drop 9 f"

lemma prefix_nth:
  assumes "take (length b) f = take n b" "length f = n" "i < length b" "i < n"
  shows "f ! i = b ! i"
  using assms by (metis nth_take)

lemma prefix_slice:
  assumes "take (length b) f = take n b" "length f = n" "i + k \<le> length b" "i + k \<le> n"
  shows "take k (drop i f) = take k (drop i b)"
proof (rule nth_equalityI)
  show "length (take k (drop i f)) = length (take k (drop i b))" using assms by simp
next
  fix j assume "j < length (take k (drop i f))"
  with assms prefix_nth [OF assms(1,2), of "i + j"] show "take k (drop i f) ! j = take k (drop i b) ! j" by simp
qed

lemma read_start_Ok:
  assumes "read_start_session_reply s = (Ok (), t)"
  shows "\<exists>f. start_reply f \<and> reads f s t"
proof -
  from assms obtain u v f where fill: "fill 13 s = (Ok (), u)"
    and b: "se_buf u ! 0 = 0x11" "se_buf u ! 1 = 0"
    and rest: "fill (13 + unat (se_buf u ! 12)) u = (Ok (), v)" "take_buf (13 + unat (se_buf u ! 12)) v = (Ok f, t)"
    by (auto simp: read_start_session_reply_def elim!: thenA_OkE bindA_OkE split: if_splits)
  note u = fill_Ok [OF fill]
  from fill_take [OF rest] have f: "reads f u t" "length f = 13 + unat (se_buf u ! 12)"
    "take (length (se_buf u)) f = take (13 + unat (se_buf u ! 12)) (se_buf u)" by blast+
  have "f ! i = se_buf u ! i" if "i < 13" for i
    using prefix_nth [OF f(3,2), of i] u(2) that by simp
  with f(2) b have "start_reply f" by (simp add: start_reply_def)
  with reads_trans [OF u(1) f(1)] show ?thesis by auto
qed

lemma read_auth_Ok:
  assumes "read_auth_reply s = (Ok (st, ty, data), t)"
  shows "\<exists>f. auth_reply f \<and> reads f s t \<and> auth_status f = st \<and> auth_kind f = ty \<and> auth_data_of f = data"
proof -
  from assms obtain u v f where fill: "fill 9 s = (Ok (), u)"
    and b: "se_buf u ! 0 = 0x14"
    and rest: "fill (9 + nat (le_int (take 4 (drop 5 (se_buf u))))) u = (Ok (), v)"
      "take_buf (9 + nat (le_int (take 4 (drop 5 (se_buf u))))) v = (Ok f, t)"
    and out: "st = f ! 1" "ty = f ! 4" "data = drop 9 f"
    by (auto simp: read_auth_reply_def Let_def elim!: thenA_OkE bindA_OkE split: if_splits)
  note u = fill_Ok [OF fill]
  let ?n = "9 + nat (le_int (take 4 (drop 5 (se_buf u))))"
  from fill_take [OF rest] have f: "reads f u t" "length f = ?n" "take (length (se_buf u)) f = take ?n (se_buf u)"
    by blast+
  have "f ! 0 = se_buf u ! 0" "take 4 (drop 5 f) = take 4 (drop 5 (se_buf u))"
    using prefix_nth [OF f(3,2), of 0] prefix_slice [OF f(3,2), of 5 4] u(2)
    by (cases "se_buf u"; simp)+
  with f(2) b have "auth_reply f" by (simp add: auth_reply_def)
  with reads_trans [OF u(1) f(1)] out show ?thesis by auto
qed

section \<open>The dialogue\<close>

definition digest_frame_of :: "'w session \<Rightarrow> bytes \<Rightarrow> bytes \<Rightarrow> bool" where
  "digest_frame_of s challenge d \<longleftrightarrow> (\<exists>realm nonce qop cnonce payload n.
     parse_challenge challenge = Ok (realm, nonce, qop)
     \<and> prefixed_fields (digest_fields (net_md5_hex (se_net s)) (se_username s) (se_password s)
          realm nonce qop cnonce) = Ok payload
     \<and> auth_frame n payload = Ok d)"

text \<open>
  \<open>query_round s first qs rs\<close>: frames sent and received because the first reply listed the
  supported types; \<open>digest_round\<close>: those of the challenge and its answer.
\<close>

definition query_round :: "'w session \<Rightarrow> bytes \<Rightarrow> bytes list \<Rightarrow> bytes list \<Rightarrow> bool" where
  "query_round s first qs rs \<longleftrightarrow>
     (if auth_kind first = 0
      then REQUIRED_AUTH_TYPE \<in> set (auth_data_of first)
        \<and> (\<exists>q f. digest_type_query (se_username s) = Ok q \<and> qs = [q] \<and> rs = [f] \<and> auth_reply f)
      else qs = [] \<and> rs = [])"

definition digest_round :: "'w session \<Rightarrow> bytes \<Rightarrow> bytes list \<Rightarrow> bytes list \<Rightarrow> bool" where
  "digest_round s offer ds rs \<longleftrightarrow>
     (if auth_status offer = 1 \<and> auth_kind offer = REQUIRED_AUTH_TYPE
      then \<exists>d f. digest_frame_of s (auth_data_of offer) d \<and> ds = [d] \<and> rs = [f] \<and> auth_reply f
      else ds = [] \<and> rs = [])"

text \<open>\<open>exchange ds f s t\<close>: the frames \<open>ds\<close> were sent and the bytes \<open>f\<close> taken off the stream.\<close>

definition exchange :: "bytes list \<Rightarrow> bytes \<Rightarrow> 'w session \<Rightarrow> 'w session \<Rightarrow> bool" where
  "exchange ds f s t \<longleftrightarrow> same_config s t \<and> sent_frames t = sent_frames s @ ds
     \<and> (\<exists>g. se_buf s @ g = f @ se_buf t \<and> received t = received s @ g)"

lemma exchange_refl [simp]: "exchange [] [] s s"
  by (simp add: exchange_def)

lemma exchange_trans: "exchange ds f s t \<Longrightarrow> exchange es g t u \<Longrightarrow> exchange (ds @ es) (f @ g) s u"
  by (auto simp: exchange_def intro: same_config_trans) (metis append.assoc)

lemma reads_exchange: "reads f s t \<Longrightarrow> exchange [] f s t"
  by (simp add: reads_def exchange_def)

lemma sends_exchange: "sends ds s t \<Longrightarrow> exchange ds [] s t"
  by (simp add: sends_def exchange_def)

lemma send_then_reply:
  assumes "send_bytes d s = (Ok (), u)" "read_auth_reply u = (Ok r, t)"
  shows "\<exists>f. auth_reply f \<and> exchange [d] f s t \<and> r = (auth_status f, auth_kind f, auth_data_of f)"
proof -
  obtain st ty data where r: "r = (st, ty, data)" by (cases r) auto
  from read_auth_Ok [OF assms(2) [unfolded r]] obtain f where
    "auth_reply f" "reads f u t" "auth_status f = st" "auth_kind f = ty" "auth_data_of f = data" by blast
  with exchange_trans [OF sends_exchange [OF send_bytes_Ok [OF assms(1)]] reads_exchange] r show ?thesis
    by fastforce
qed

lemma query_round_Ok:
  assumes "auth_query_round (auth_status first, auth_kind first, auth_data_of first) s = (Ok r, t)"
  shows "\<exists>qs rs. query_round s first qs rs \<and> exchange qs (concat rs) s t
    \<and> r = (let f = last (first # rs) in (auth_status f, auth_kind f, auth_data_of f))"
proof (cases "auth_kind first = 0")
  case False
  with assms show ?thesis
    by (intro exI [of _ "[]"]) (auto simp: auth_query_round_def query_round_def)
next
  case True
  with assms obtain q u where q: "REQUIRED_AUTH_TYPE \<in> set (auth_data_of first)"
    "digest_type_query (se_username s) = Ok q" "send_bytes q s = (Ok (), u)" "read_auth_reply u = (Ok r, t)"
    by (cases "digest_type_query (se_username s)")
       (auto simp: auth_query_round_def elim!: thenA_OkE split: if_splits)
  from send_then_reply [OF q(3,4)] obtain f where "auth_reply f" "exchange [q] f s t"
    "r = (auth_status f, auth_kind f, auth_data_of f)" by blast
  with True q show ?thesis
    by (intro exI [of _ "[q]"] exI [of _ "[f]"]) (simp add: query_round_def)
qed

lemma digest_response_Ok:
  assumes "digest_response realm nonce qop s = (Ok d, u)" "parse_challenge c = Ok (realm, nonce, qop)"
  shows "digest_frame_of s c d \<and> exchange [] [] s u"
  using assms
  by (auto simp: digest_response_def digest_frame_of_def Let_def exchange_def same_config_def
      split: prod.splits outcome.splits)

lemma digest_round_Ok:
  assumes "auth_digest_round (auth_status offer, auth_kind offer, auth_data_of offer) s = (Ok r, t)"
  shows "\<exists>ds rs. digest_round s offer ds rs \<and> exchange ds (concat rs) s t
    \<and> r = (let f = last (offer # rs) in (auth_status f, auth_kind f, auth_data_of f))"
proof (cases "auth_status offer = 1 \<and> auth_kind offer = REQUIRED_AUTH_TYPE")
  case False
  with assms show ?thesis
    by (intro exI [of _ "[]"]) (auto simp: auth_digest_round_def digest_round_def)
next
  case True
  with assms obtain realm nonce qop d u v where p: "parse_challenge (auth_data_of offer) = Ok (realm, nonce, qop)"
    "digest_response realm nonce qop s = (Ok d, u)" "send_bytes d u = (Ok (), v)" "read_auth_reply v = (Ok r, t)"
    by (cases "parse_challenge (auth_data_of offer)")
       (auto simp: auth_digest_round_def elim!: thenA_OkE bindA_OkE split: if_splits)
  from digest_response_Ok [OF p(2,1)] have d: "digest_frame_of s (auth_data_of offer) d" "exchange [] [] s u"
    by blast+
  from send_then_reply [OF p(3,4)] obtain f where f: "auth_reply f" "exchange [d] f u t"
    "r = (auth_status f, auth_kind f, auth_data_of f)" by blast
  from exchange_trans [OF d(2) f(2)] have "exchange [d] f s t" by simp
  with True d(1) f show ?thesis
    by (intro exI [of _ "[d]"] exI [of _ "[f]"]) (simp add: digest_round_def)
qed

lemma rounds_config:
  "same_config s t \<Longrightarrow> query_round t = query_round s" "same_config s t \<Longrightarrow> digest_round t = digest_round s"
proof -
  assume "same_config s t"
  then have c: "se_username t = se_username s" "se_password t = se_password s" "se_net t = se_net s"
    by (simp_all add: same_config_def)
  show "query_round t = query_round s" "digest_round t = digest_round s"
    by (intro ext, simp only: query_round_def digest_round_def digest_frame_of_def c)+
qed

lemma exchange_config: "exchange ds f s t \<Longrightarrow> same_config s t"
  by (simp add: exchange_def)

lemma authenticate_Ok:
  assumes "authenticate s = (Ok (), t)"
  shows "\<exists>first qs qrs ds drs. auth_reply first \<and> query_round s first qs qrs
    \<and> auth_kind (last (first # qrs)) \<notin> set INSECURE_AUTH_TYPES
    \<and> digest_round s (last (first # qrs)) ds drs
    \<and> auth_status (last (first # qrs @ drs)) = 0
    \<and> exchange (AUTH_TYPE_QUERY # qs @ ds) (first @ concat qrs @ concat drs) s t"
proof -
  from assms obtain u v w r1 r2 r3 where
    run: "send_bytes AUTH_TYPE_QUERY s = (Ok (), u)" "read_auth_reply u = (Ok r1, v)"
      "auth_query_round r1 v = (Ok r2, w)" "auth_digest_round r2 w = (Ok r3, t)"
    and checks: "fst (snd r2) \<notin> set INSECURE_AUTH_TYPES" "fst r3 = 0"
    by (auto simp: authenticate_def elim!: thenA_OkE bindA_OkE split: if_splits)
  from send_then_reply [OF run(1,2)] obtain first where
    a: "auth_reply first" "exchange [AUTH_TYPE_QUERY] first s v"
      "r1 = (auth_status first, auth_kind first, auth_data_of first)" by blast
  from query_round_Ok [OF run(3) [unfolded a(3)]] obtain qs qrs where
    q: "query_round v first qs qrs" "exchange qs (concat qrs) v w"
      "r2 = (let f = last (first # qrs) in (auth_status f, auth_kind f, auth_data_of f))" by blast
  from digest_round_Ok [OF run(4) [unfolded q(3) Let_def]] obtain ds drs where
    d: "digest_round w (last (first # qrs)) ds drs" "exchange ds (concat drs) w t"
      "r3 = (let f = last (last (first # qrs) # drs) in (auth_status f, auth_kind f, auth_data_of f))" by blast
  have sw: "exchange ([AUTH_TYPE_QUERY] @ qs) (first @ concat qrs) s w" by (rule exchange_trans [OF a(2) q(2)])
  have "exchange (([AUTH_TYPE_QUERY] @ qs) @ ds) ((first @ concat qrs) @ concat drs) s t"
    by (rule exchange_trans [OF sw d(2)])
  moreover have "query_round s first qs qrs" "digest_round s (last (first # qrs)) ds drs"
    using q(1) d(1) rounds_config(1) [OF exchange_config [OF a(2)]] rounds_config(2) [OF exchange_config [OF sw]]
    by simp_all
  moreover have "last (first # qrs @ drs) = last (last (first # qrs) # drs)" by (cases drs) auto
  ultimately show ?thesis using a(1) checks q(3) d(3)
    by (intro exI [of _ first] exI [of _ qs] exI [of _ qrs] exI [of _ ds] exI [of _ drs]) (simp add: Let_def)
qed

section \<open>The connection stays up\<close>

definition stays_connected :: "'w session \<Rightarrow> 'w session \<Rightarrow> bool" where
  "stays_connected s t \<longleftrightarrow> se_connected t = se_connected s"

interpretation connected: contract stays_connected
  by unfold_locales (auto simp: stays_connected_def)

lemma stays_connected_require [keeps_intros]: "keeps stays_connected require_connected"
  unfolding require_connected_def by (intro keeps_intros connected.bind connected.pure)

lemma stays_connected_send [keeps_intros]: "keeps stays_connected (send_bytes d)"
  unfolding send_bytes_def
  by (intro connected.thenn stays_connected_require)
     (auto simp: keeps_def stays_connected_def split: prod.splits)

lemma stays_connected_step: "keeps stays_connected (fill_step n)"
  unfolding fill_step_def
  by (intro keeps_intros connected.bind connected.pure)
     (auto simp: keeps_def stays_connected_def receive_chunk_def Let_def
       split: prod.splits recv_result.splits if_splits)

lemma stays_connected_fill [keeps_intros]: "keeps stays_connected (fill n)"
  unfolding fill_def
  by (intro connected.thenn stays_connected_require filling.loop_keeps connected.contract_axioms stays_connected_step)

lemma stays_connected_take [keeps_intros]: "keeps stays_connected (take_buf n)"
  by (simp add: keeps_def take_buf_def stays_connected_def)

lemma stays_connected_start: "keeps stays_connected read_start_session_reply"
  unfolding read_start_session_reply_def
  by (intro keeps_intros connected.bind connected.thenn connected.pure)

lemma stays_connected_auth_reply [keeps_intros]: "keeps stays_connected read_auth_reply"
  unfolding read_auth_reply_def Let_def
  by (intro keeps_intros connected.bind connected.thenn connected.pure)

lemma stays_connected_digest [keeps_intros]: "keeps stays_connected (digest_response a b c)"
  by (simp add: keeps_def digest_response_def stays_connected_def Let_def split: prod.splits)

lemma stays_connected_authenticate: "keeps stays_connected authenticate"
  unfolding authenticate_def auth_query_round_def auth_digest_round_def case_prod_beta
  by (intro keeps_intros connected.bind connected.thenn connected.pure)

section \<open>Where the password goes\<close>

text \<open>
  Replacing the password by one that hashes alike with every realm: no operation notices.
\<close>

definition swap_password :: "bytes \<Rightarrow> 'w session \<Rightarrow> 'w session" where
  "swap_password p s =
     (if \<forall>realm. ha1_of (net_md5_hex (se_net s)) (se_username s) realm p
        = ha1_of (net_md5_hex (se_net s)) (se_username s) realm (se_password s)
      then s\<lparr>se_password := p\<rparr> else s)"

lemma swap_password_fields [simp]:
  "se_host (swap_password p s) = se_host s" "se_username (swap_password p s) = se_username s"
  "se_use_tls (swap_password p s) = se_use_tls s" "se_pin (swap_password p s) = se_pin s"
  "se_port (swap_password p s) = se_port s" "se_start_frame (swap_password p s) = se_start_frame s"
  "se_connected (swap_password p s) = se_connected s" "se_buf (swap_password p s) = se_buf s"
  "se_net (swap_password p s) = se_net s" "se_world (swap_password p s) = se_world s"
  "se_events (swap_password p s) = se_events s" "pin_set (swap_password p s) = pin_set s"
  by (simp_all add: swap_password_def pin_set_def)

lemma swap_password_updates [simp]:
  "(swap_password p s)\<lparr>se_world := w\<rparr> = swap_password p (s\<lparr>se_world := w\<rparr>)"
  "(swap_password p s)\<lparr>se_buf := b\<rparr> = swap_password p (s\<lparr>se_buf := b\<rparr>)"
  "(swap_password p s)\<lparr>se_events := es\<rparr> = swap_password p (s\<lparr>se_events := es\<rparr>)"
  "(swap_password p s)\<lparr>se_connected := k\<rparr> = swap_password p (s\<lparr>se_connected := k\<rparr>)"
  by (simp_all add: swap_password_def)

lemma swap_password_ha1 [simp]:
  "ha1_of (net_md5_hex (se_net s)) (se_username s) realm (se_password (swap_password p s))
   = ha1_of (net_md5_hex (se_net s)) (se_username s) realm (se_password s)"
  by (simp add: swap_password_def)

lemma commutes_require [commutes_intros]: "commutes (swap_password p) require_connected"
  by (simp add: commutes_def require_connected_def)

lemma commutes_send [commutes_intros]: "commutes (swap_password p) (send_bytes d)"
  unfolding send_bytes_def
  by (intro commutes_intros) (auto simp: commutes_def split: prod.splits)

lemma commutes_factory [commutes_intros]: "commutes (swap_password p) default_socket_factory"
  by (auto simp: commutes_def default_socket_factory_def Let_def
      split: prod.splits connect_result.splits wrap_result.splits)

lemma commutes_pin [commutes_intros]: "commutes (swap_password p) verify_tls_pin"
  unfolding verify_tls_pin_def
  by (intro commutes_intros) (auto simp: commutes_def split: peer_certificate.splits)

lemma commutes_receive [commutes_intros]: "commutes (swap_password p) receive_chunk"
  by (auto simp: commutes_def receive_chunk_def Let_def split: prod.splits recv_result.splits)

lemma commutes_fill_step: "commutes (swap_password p) (fill_step n)"
  unfolding fill_step_def
  by (intro commutes_intros commutes_gets commutes_modify) simp_all

lemma commutes_fill [commutes_intros]: "commutes (swap_password p) (fill n)"
  unfolding fill_def by (intro commutes_intros filling.loop_commutes commutes_fill_step)

lemma commutes_take [commutes_intros]: "commutes (swap_password p) (take_buf n)"
  by (simp add: commutes_def take_buf_def)

lemma commutes_start [commutes_intros]: "commutes (swap_password p) read_start_session_reply"
  unfolding read_start_session_reply_def by (intro commutes_intros commutes_gets) simp_all

lemma commutes_auth_reply [commutes_intros]: "commutes (swap_password p) read_auth_reply"
  unfolding read_auth_reply_def Let_def by (intro commutes_intros commutes_gets) simp_all

lemma commutes_digest [commutes_intros]: "commutes (swap_password p) (digest_response realm nonce qop)"
  by (simp add: commutes_def digest_response_def digest_fields_def Let_def split: prod.splits outcome.splits)

lemma commutes_authenticate [commutes_intros]: "commutes (swap_password p) authenticate"
  unfolding authenticate_def auth_query_round_def auth_digest_round_def case_prod_beta
  by (intro commutes_intros commutes_gets) simp_all

lemma commutes_connect: "commutes (swap_password p) connect"
  unfolding connect_def
  by (intro commutes_intros commutes_gets commutes_modify) simp_all

section \<open>Prefixed fields\<close>

text \<open>A reader of \<open>n\<close> length-prefixed fields, as a peer would parse them.\<close>

fun split_fields :: "nat \<Rightarrow> bytes \<Rightarrow> (bytes list \<times> bytes) option" where
  "split_fields 0 bs = Some ([], bs)"
| "split_fields (Suc n) [] = None"
| "split_fields (Suc n) (l # bs) =
     (if length bs < unat l then None
      else map_option (\<lambda>(vs, r). (take (unat l) bs # vs, r)) (split_fields n (drop (unat l) bs)))"

lemma unat_length_byte: "n \<le> 255 \<Longrightarrow> unat (of_nat n :: byte) = n"
  by (simp add: unat_of_nat)

lemma split_prefixed_fields:
  "prefixed_fields vs = Ok bs \<Longrightarrow> split_fields (length vs) (bs @ r) = Some (vs, r)
     \<and> length bs = sum_list (map length vs) + length vs"
proof (induction vs arbitrary: bs)
  case Nil
  then show ?case by simp
next
  case (Cons v vs)
  then show ?case
    by (auto simp: length_prefixed_def unat_length_byte split: outcome.splits if_splits)
qed

lemma read_field_prefixed:
  assumes "length v \<le> 255" "utf8_valid v" "pos = length front"
  shows "read_field (front @ of_nat (length v) # v @ rest) pos = Ok (v, pos + 1 + length v)"
  using assms by (simp add: read_field_def idx_def unat_length_byte slice_def)

end
