(* ===== verification/Redirection_Properties.thy ===== *)
theory Redirection_Properties
  imports Redirection_Handshake
begin

text \<open>The properties of the redirection handshake.\<close>

section \<open>An endpoint for the witnesses\<close>

text \<open>The world is the list of chunks still to arrive; everything sent is accepted.\<close>

definition scripted_net :: "bytes list net" where
  "scripted_net = \<lparr>net_connect = (\<lambda>h p w. (Connected, w)), net_wrap = (\<lambda>v h w. (Wrapped, w)),
     net_recv = (\<lambda>w. case w of [] \<Rightarrow> (Chunk [], []) | c # cs \<Rightarrow> (Chunk c, cs)),
     net_sendall = (\<lambda>d w. (AllSent, w)), net_peer_certificate = (\<lambda>w. PeerCertificate (Some [1])),
     net_close = (\<lambda>w. w), net_token_hex = (\<lambda>w. (replicate 32 0x30, w)),
     net_md5_hex = (\<lambda>b. take 3 b), net_sha256_hex = (\<lambda>b. ''ab'')\<rparr>"

definition start_ok :: bytes where
  "start_ok = [0x11, 0, 0, 0, 0, 0, 0, 0, 0, 0, 0, 0, 1, 0xFF]"

definition offers_digest :: bytes where
  "offers_digest = [0x14, 0, 0, 0, 0, 1, 0, 0, 0, 4]"

definition challenges :: bytes where
  "challenges = [0x14, 1, 0, 0, 4, 6, 0, 0, 0, 1, 0x72, 1, 0x6E, 1, 0x71]"

definition accepts :: bytes where
  "accepts = [0x14, 0, 0, 0, 4, 0, 0, 0, 0]"

definition demo_session :: "bytes list session" where
  "demo_session = new_session ''amt'' (ascii ''u'') (ascii ''pw'') True (Some ''A:B'') None START_SESSION_IDER
     scripted_net [take 5 start_ok, drop 5 start_ok @ offers_digest @ challenges, accepts @ [7, 8]]"

lemma demo_connects: "case connect demo_session of (r, t) \<Rightarrow> r = Ok [7, 8]"
  by code_simp

section \<open>The pin\<close>

lemma factory_events: "default_socket_factory s = (r, u) \<Longrightarrow> se_events u = se_events s \<and> same_config s u \<and> se_buf u = se_buf s"
  by (auto simp: default_socket_factory_def Let_def same_config_def
      split: prod.splits connect_result.splits wrap_result.splits if_splits)



section \<open>The dialogue\<close>

text \<open>
  C27: A session is connected only through the whole dialogue, and no byte of the stream is lost.
  When connecting returns, the frames sent are the start frame, the type query, the digest type
  query if the firmware listed its types (and then type 4 was among them) and the answer to a
  type-4 challenge if one came; the types 1 and 3 were never what the firmware settled on; the last
  reply has status 0; and everything received is the complete replies followed by the bytes handed
  to the protocol engine.
\<close>

theorem connect_dialogue:
  assumes "connect s = (Ok leftover, t)" "se_buf s = []"
  shows "\<exists>start first qs qrs ds drs. start_reply start \<and> auth_reply first
    \<and> query_round s first qs qrs
    \<and> auth_kind (last (first # qrs)) \<notin> set INSECURE_AUTH_TYPES
    \<and> digest_round s (last (first # qrs)) ds drs
    \<and> auth_status (last (first # qrs @ drs)) = 0
    \<and> sent_frames t = sent_frames s @ se_start_frame s # AUTH_TYPE_QUERY # qs @ ds
    \<and> received t = received s @ start @ first @ concat qrs @ concat drs @ leftover
    \<and> se_buf t = [] \<and> se_connected t"
proof -
  from assms(1) obtain u v w x where
    f: "default_socket_factory s = (Ok (), u)"
    and v: "(if se_use_tls u \<and> pin_set (u\<lparr>se_connected := True\<rparr>) then verify_tls_pin else ret ())
      (u\<lparr>se_connected := True\<rparr>) = (Ok (), v)"
    and w: "send_bytes (se_start_frame v) v = (Ok (), w)"
    and x: "read_start_session_reply w = (Ok (), x)"
    and y: "\<exists>y. authenticate x = (Ok (), y) \<and> leftover = se_buf y \<and> t = y\<lparr>se_buf := []\<rparr>"
    by (auto simp: connect_def elim!: thenA_OkE bindA_OkE)
  have v_eq: "v = u\<lparr>se_connected := True\<rparr>"
    using v by (auto simp: verify_tls_pin_def elim!: thenA_OkE split: if_splits peer_certificate.splits)
  have su: "same_config s v" "sent_frames v = sent_frames s" "received v = received s" "se_buf v = []"
    using factory_events [OF f] assms(2) by (simp_all add: v_eq same_config_def sent_frames_def received_def)
  from read_start_Ok [OF x] obtain start where start: "start_reply start" "reads start w x" by blast
  from y obtain y where y: "authenticate x = (Ok (), y)" "leftover = se_buf y" "t = y\<lparr>se_buf := []\<rparr>" by blast
  from authenticate_Ok [OF y(1)] obtain first qs qrs ds drs where a: "auth_reply first"
    "query_round x first qs qrs" "auth_kind (last (first # qrs)) \<notin> set INSECURE_AUTH_TYPES"
    "digest_round x (last (first # qrs)) ds drs" "auth_status (last (first # qrs @ drs)) = 0"
    "exchange (AUTH_TYPE_QUERY # qs @ ds) (first @ concat qrs @ concat drs) x y" by blast
  have vx: "exchange ([se_start_frame v] @ []) ([] @ start) v x"
    by (rule exchange_trans [OF sends_exchange [OF send_bytes_Ok [OF w]] reads_exchange [OF start(2)]])
  from exchange_trans [OF vx a(6)] su(4) obtain g where g: "g = start @ first @ concat qrs @ concat drs @ se_buf y"
    "received y = received v @ g" "sent_frames y = sent_frames v @ se_start_frame v # AUTH_TYPE_QUERY # qs @ ds"
    by (auto simp: exchange_def)
  have sx: "same_config s x" using su(1) exchange_config [OF vx] by (rule same_config_trans)
  have "se_connected y"
    using keepsD [OF stays_connected_authenticate y(1)] keepsD [OF stays_connected_start x]
      keepsD [OF stays_connected_send w] by (simp add: v_eq stays_connected_def)
  moreover have "se_start_frame v = se_start_frame s" using su(1) by (simp add: same_config_def)
  ultimately show ?thesis using start(1) a(1-5) g su(2,3) y(2,3) rounds_config [OF sx]
    by (intro exI [of _ start] exI [of _ first] exI [of _ qs] exI [of _ qrs] exI [of _ ds] exI [of _ drs]) simp
qed

theorem connect_dialogue_witness:
  "\<exists>t start replies. connect demo_session = (Ok [7, 8], t) \<and> received t = start @ replies @ [7, 8] \<and> start_reply start
     \<and> se_connected t"
proof -
  from demo_connects obtain t where run: "connect demo_session = (Ok [7, 8], t)" by (auto split: prod.splits)
  have "se_buf demo_session = []" "received demo_session = []"
    by (simp_all add: demo_session_def new_session_def received_def)
  with connect_dialogue [OF run] run show ?thesis by force
qed

section \<open>The password\<close>

text \<open>
  C28: The password leaves only inside the first hash of the digest.  Two passwords that give the
  same hash of user, realm and password for every realm cannot be told apart by anything the
  session sends, by the outcome or by the state left behind.
\<close>

theorem password_only_hashed:
  assumes "\<And>realm. ha1_of (net_md5_hex (se_net s)) (se_username s) realm p
    = ha1_of (net_md5_hex (se_net s)) (se_username s) realm (se_password s)"
  shows "fst (connect (s\<lparr>se_password := p\<rparr>)) = fst (connect s)
    \<and> se_events (snd (connect (s\<lparr>se_password := p\<rparr>))) = se_events (snd (connect s))
    \<and> se_world (snd (connect (s\<lparr>se_password := p\<rparr>))) = se_world (snd (connect s))"
proof -
  have "s\<lparr>se_password := p\<rparr> = swap_password p s" using assms by (simp add: swap_password_def)
  then show ?thesis using commutesD [OF commutes_connect, of p s] by simp
qed

theorem password_only_hashed_witness:
  "se_events (snd (connect (demo_session\<lparr>se_password := ascii ''secret''\<rparr>))) = se_events (snd (connect demo_session))"
proof -
  have "ha1_of (net_md5_hex (se_net demo_session)) (se_username demo_session) realm (ascii ''secret'')
    = ha1_of (net_md5_hex (se_net demo_session)) (se_username demo_session) realm (se_password demo_session)" for realm
    by (cases realm; cases "tl realm")
       (auto simp: ha1_of_def colons_def demo_session_def new_session_def scripted_net_def ascii_def)
  from password_only_hashed [OF this] show ?thesis by simp
qed

section \<open>Frames\<close>

text \<open>
  The digest frame says what it carries.  Its declared length is the length of its payload, and
  a peer reading length-prefixed fields gets back, with nothing left over, the user, the realm, the
  nonce, the URI, the client nonce, the sequence literal, the RFC 2617 digest and the qop; and a
  challenge whose fields are written that way is parsed to its fields.
\<close>

lemma digest_frame_fields:
  assumes "length realm \<le> 255" "length nonce \<le> 255" "length qop \<le> 255"
    and "utf8_valid realm" "utf8_valid nonce" "utf8_valid qop"
    and "challenge = of_nat (length realm) # realm @ of_nat (length nonce) # nonce @ of_nat (length qop) # qop @ junk"
    and "digest_response realm nonce qop s = (Ok d, t)"
  shows "parse_challenge challenge = Ok (realm, nonce, qop)
    \<and> take 5 d = [0x13, 0, 0, 0, 4] \<and> le_int (take 4 (drop 5 d)) = int (length (drop 9 d))
    \<and> (\<exists>cnonce. split_fields 8 (drop 9 d) = Some ([se_username s, realm, nonce, AUTH_URI, cnonce, SNC,
          digest_value (net_md5_hex (se_net s)) (ha1_of (net_md5_hex (se_net s)) (se_username s) realm (se_password s))
            nonce qop cnonce AUTH_URI, qop], []))"
proof -
  note r = read_field_prefixed [where front = "[]" and v = realm and pos = 0
      and rest = "of_nat (length nonce) # nonce @ of_nat (length qop) # qop @ junk"]
    read_field_prefixed [where front = "of_nat (length realm) # realm" and v = nonce and pos = "1 + length realm"
      and rest = "of_nat (length qop) # qop @ junk"]
    read_field_prefixed [where front = "of_nat (length realm) # realm @ of_nat (length nonce) # nonce" and v = qop
      and pos = "2 + length realm + length nonce" and rest = junk]
  have "parse_challenge challenge = Ok (realm, nonce, qop)"
    using r assms(1-6) by (simp add: parse_challenge_def assms(7))
  moreover obtain cnonce payload where
    p: "prefixed_fields (digest_fields (net_md5_hex (se_net s)) (se_username s) (se_password s) realm nonce qop cnonce)
      = Ok payload"
    and d: "auth_frame (sum_list (map length (take 7 (digest_fields (net_md5_hex (se_net s)) (se_username s)
      (se_password s) realm nonce qop cnonce))) + 7 + (length qop + 1)) payload = Ok d"
    using assms(8) by (auto simp: digest_response_def Let_def split: prod.splits outcome.splits)
  note sp = split_prefixed_fields [OF p, of "[]"]
  have n: "sum_list (map length (take 7 (digest_fields (net_md5_hex (se_net s)) (se_username s)
      (se_password s) realm nonce qop cnonce))) + 7 + (length qop + 1) = length payload"
    using sp by (simp add: digest_fields_def)
  from d obtain l where l: "pack_le 4 (int (length payload)) = Ok l" "d = [0x13, 0, 0, 0, 4] @ l @ payload"
    unfolding n by (auto simp: auth_frame_def split: outcome.splits)
  then have "length l = 4" "le_int l = int (length payload)"
    by (auto simp: pack_le_def le_int_le_bytes split: if_splits)
  moreover have "length (digest_fields (net_md5_hex (se_net s)) (se_username s) (se_password s) realm nonce qop
      cnonce) = 8" by (simp add: digest_fields_def)
  with sp have "split_fields 8 payload = Some (digest_fields (net_md5_hex (se_net s)) (se_username s)
      (se_password s) realm nonce qop cnonce, [])" by (simp only: append_Nil2 simp_thms)
  ultimately show ?thesis
    using l(2) by (intro conjI exI [of _ cnonce]) (simp_all add: digest_fields_def del: split_fields.simps)
qed

lemma demo_response:
  "case digest_response [0x72] [0x6E] [0x71] demo_session of (r, t) \<Rightarrow> (case r of Ok d \<Rightarrow> True | Raise _ \<Rightarrow> False)"
  by code_simp

end
