(* ===== verification/Tls.thy ===== *)
theory Tls
  imports Py_Values
begin

text \<open>
  The TLS trust policy of the management plane (\<^verbatim>\<open>plugins/module_utils/tls.py\<close>) and the way
  \<^verbatim>\<open>WsmanClient.from_connection_options\<close> applies it: fingerprint normalisation, the plaintext gate, the
  trust modes, and the small DER reader behind the certificate evidence.  Text read out of a
  certificate is kept as its UTF-8 bytes.
\<close>

section \<open>Fingerprints\<close>

definition DEFAULT_TLS_PORT :: int where "DEFAULT_TLS_PORT = 16993"
definition DEFAULT_PLAINTEXT_PORT :: int where "DEFAULT_PLAINTEXT_PORT = 16992"
definition FINGERPRINT_HEX_LENGTH :: nat where "FINGERPRINT_HEX_LENGTH = 64"

definition is_lower_hex :: "char \<Rightarrow> bool" where
  "is_lower_hex c \<longleftrightarrow> 48 \<le> code c \<and> code c \<le> 57 \<or> 97 \<le> code c \<and> code c \<le> 102"

text \<open>\<^verbatim>\<open>re.match("^[0-9a-f]+$", s)\<close>: the dollar also matches before one final newline.\<close>

definition hex_re_matches :: "string \<Rightarrow> bool" where
  "hex_re_matches s =
     (let body = (if s \<noteq> [] \<and> code (last s) = 10 then butlast s else s)
      in body \<noteq> [] \<and> list_all is_lower_hex body)"

definition SHA256_PREFIX :: string where "SHA256_PREFIX = ''sha256:''"

definition strip_prefix :: "string \<Rightarrow> string" where
  "strip_prefix s = (if take 7 s = SHA256_PREFIX then drop 7 s else s)"

definition normalize_fingerprint :: "string \<Rightarrow> string outcome" where
  "normalize_fingerprint raw =
     (if strip raw = [] then Raise TlsValidationError
      else (let candidate = remove_char CHR '' '' (remove_char CHR '':'' (strip_prefix (lower (strip raw))))
            in if length candidate \<noteq> FINGERPRINT_HEX_LENGTH \<or> \<not> hex_re_matches candidate
               then Raise TlsValidationError else Ok candidate))"

section \<open>Policy\<close>

definition resolve_port :: "int option \<Rightarrow> bool \<Rightarrow> int" where
  "resolve_port p use_tls = (case p of
      Some n \<Rightarrow> n
    | None \<Rightarrow> if use_tls then DEFAULT_TLS_PORT else DEFAULT_PLAINTEXT_PORT)"

definition enforce_transport_policy :: "bool \<Rightarrow> bool \<Rightarrow> unit outcome" where
  "enforce_transport_policy use_tls allow_insecure_transport =
     (if use_tls \<or> allow_insecure_transport then Ok () else Raise TlsValidationError)"

record TlsTrustPolicy =
  validate_certs :: bool
  ca_path :: "string option"
  fingerprint :: "string option"

text \<open>An optional string taken as a condition.\<close>

definition given :: "string option \<Rightarrow> bool" where
  "given v \<longleftrightarrow> v \<noteq> None \<and> v \<noteq> Some []"

definition create_policy :: "bool \<Rightarrow> string option \<Rightarrow> string option \<Rightarrow> TlsTrustPolicy outcome" where
  "create_policy validate ca tls_fingerprint =
     (if given ca \<and> given tls_fingerprint then Raise TlsValidationError
      else if given tls_fingerprint then
        (case normalize_fingerprint (the tls_fingerprint) of
           Raise x \<Rightarrow> Raise x
         | Ok f \<Rightarrow> Ok \<lparr>validate_certs = validate, ca_path = ca, fingerprint = Some f\<rparr>)
      else Ok \<lparr>validate_certs = validate, ca_path = ca, fingerprint = None\<rparr>)"

definition pinned :: "TlsTrustPolicy \<Rightarrow> bool" where
  "pinned p \<longleftrightarrow> fingerprint p \<noteq> None"

datatype verify = VerifyOff | VerifySystem | VerifyBundle string

definition requests_verify :: "TlsTrustPolicy \<Rightarrow> verify" where
  "requests_verify p =
     (if pinned p then VerifyOff
      else if \<not> validate_certs p then VerifyOff
      else if given (ca_path p) then VerifyBundle (the (ca_path p))
      else VerifySystem)"

text \<open>The adapter asserts the fingerprint during the handshake, with chain checks off, or is plain.\<close>

datatype adapter = PlainAdapter | PinningAdapter string

definition build_adapter :: "TlsTrustPolicy \<Rightarrow> adapter" where
  "build_adapter p = (case fingerprint p of Some f \<Rightarrow> PinningAdapter f | None \<Rightarrow> PlainAdapter)"

text \<open>
  What \<^verbatim>\<open>WsmanClient.__init__\<close> makes of the options: where it connects and how it trusts the peer
  (\<open>None\<close>: no TLS adapter is mounted).
\<close>

record client_setup =
  cs_endpoint :: string
  cs_url :: string
  cs_max_retries :: nat
  cs_trust :: "(adapter \<times> verify) option"

definition wsman_init :: "string \<Rightarrow> int \<Rightarrow> bool \<Rightarrow> bool \<Rightarrow> TlsTrustPolicy \<Rightarrow> int \<Rightarrow> client_setup outcome" where
  "wsman_init host p use_tls allow_insecure_transport policy retries =
     (case enforce_transport_policy use_tls allow_insecure_transport of
        Raise x \<Rightarrow> Raise x
      | Ok _ \<Rightarrow> Ok
        \<lparr>cs_endpoint = host @ '':'' @ show_int p,
         cs_url = (if use_tls then ''https'' else ''http'') @ ''://'' @ host @ '':'' @ show_int p @ ''/wsman'',
         cs_max_retries = nat retries,
         cs_trust = (if use_tls then Some (build_adapter policy, requests_verify policy) else None)\<rparr>)"

definition from_connection_options ::
  "string \<Rightarrow> int option \<Rightarrow> bool \<Rightarrow> bool \<Rightarrow> bool \<Rightarrow> string option \<Rightarrow> string option \<Rightarrow> int \<Rightarrow> client_setup outcome" where
  "from_connection_options host p use_tls allow_insecure_transport validate ca tls_fingerprint retries =
     (case create_policy validate ca tls_fingerprint of
        Raise x \<Rightarrow> Raise x
      | Ok policy \<Rightarrow> wsman_init host (resolve_port p use_tls) use_tls allow_insecure_transport policy retries)"

section \<open>DER\<close>

text \<open>\<^verbatim>\<open>_der_read_tlv\<close>: tag, value and the offset after it; slices are cut at the end of the data.\<close>

definition der_read_tlv :: "bytes \<Rightarrow> nat \<Rightarrow> (byte \<times> bytes \<times> nat) outcome" where
  "der_read_tlv d offset = (case idx d offset of
      Raise x \<Rightarrow> Raise x
    | Ok tag \<Rightarrow> (case idx d (offset + 1) of
        Raise x \<Rightarrow> Raise x
      | Ok lb \<Rightarrow>
          (let n = (if lb AND 0x80 \<noteq> 0 then unat (lb AND 0x7F) else 0);
               len = (if lb AND 0x80 \<noteq> 0 then nat (be_int (slice d (offset + 2) (offset + 2 + n))) else unat lb);
               start = offset + 2 + n
           in Ok (tag, slice d start (start + len), start + len))))"

lemma der_read_tlv_progress: "der_read_tlv d offset = Ok (tag, v, next) \<Longrightarrow> offset + 2 \<le> next"
  by (auto simp: der_read_tlv_def Let_def split: outcome.splits)

function der_children_from :: "bytes \<Rightarrow> nat \<Rightarrow> (byte \<times> bytes) list outcome" where
  "der_children_from d offset =
     (if length d \<le> offset then Ok []
      else case der_read_tlv d offset of
          Raise x \<Rightarrow> Raise x
        | Ok (tag, v, next) \<Rightarrow> (case der_children_from d next of
            Raise x \<Rightarrow> Raise x
          | Ok cs \<Rightarrow> Ok ((tag, v) # cs)))"
  by pat_completeness auto
termination
  by (relation "measure (\<lambda>(d, offset). length d - offset)")
     (auto dest!: der_read_tlv_progress)

declare der_children_from.simps [simp del]

definition der_iter_children :: "bytes \<Rightarrow> (byte \<times> bytes) list outcome" where
  "der_iter_children content = der_children_from content 0"

text \<open>\<^verbatim>\<open>_der_decode_string\<close>: UTF-8, or each byte as a Latin-1 character, written in UTF-8.\<close>

definition latin1_to_utf8 :: "byte \<Rightarrow> bytes" where
  "latin1_to_utf8 b = (if b < 0x80 then [b] else [0xC0 OR drop_bit 6 b, 0x80 OR (b AND 0x3F)])"

definition der_decode_string :: "bytes \<Rightarrow> bytes" where
  "der_decode_string v = (if utf8_valid v then v else concat (map latin1_to_utf8 v))"

text \<open>\<^verbatim>\<open>f"{v:0nd}"\<close>.\<close>

definition zero_padded :: "nat \<Rightarrow> int \<Rightarrow> string" where
  "zero_padded n v =
     (if v < 0 then CHR ''-'' # replicate (n - 1 - length (show_int (- v))) CHR ''0'' @ show_int (- v)
      else replicate (n - length (show_int v)) CHR ''0'' @ show_int v)"

definition ascii_text :: "bytes \<Rightarrow> string option" where
  "ascii_text v = (if list_all (\<lambda>b. b < 0x80) v then Some (map (\<lambda>b. char_of (unat b)) v) else None)"

text \<open>\<^verbatim>\<open>int(rest[i:i+2]) for i in (0, 2, 4, 6, 8)\<close>.\<close>

definition five_fields :: "string \<Rightarrow> int list option" where
  "five_fields rest = (let fs = map (\<lambda>i. py_int 10 (take 2 (drop i rest))) [0, 2, 4, 6, 8]
     in if None \<in> set fs then None else Some (map the fs))"

definition der_decode_time :: "byte \<Rightarrow> bytes \<Rightarrow> string option" where
  "der_decode_time tag v = (case ascii_text v of
      None \<Rightarrow> None
    | Some t \<Rightarrow>
        (let year = (if tag = 0x17
               then map_option (\<lambda>y. if y < 50 then y + 2000 else y + 1900) (py_int 10 (take 2 t))
               else py_int 10 (take 4 t));
             rest = drop (if tag = 0x17 then 2 else 4) t
         in case (year, five_fields rest) of
             (Some y, Some [mo, d, h, mi, s]) \<Rightarrow>
               Some (zero_padded 4 y @ ''-'' @ zero_padded 2 mo @ ''-'' @ zero_padded 2 d @ ''T''
                 @ zero_padded 2 h @ '':'' @ zero_padded 2 mi @ '':'' @ zero_padded 2 s @ ''Z'')
           | _ \<Rightarrow> None))"

definition RDN_OID_SHORT_NAMES :: "(string \<times> string) list" where
  "RDN_OID_SHORT_NAMES = [(''550403'', ''CN''), (''550406'', ''C''), (''550407'', ''L''), (''550408'', ''ST''),
     (''55040a'', ''O''), (''55040b'', ''OU'')]"

definition oid_name :: "bytes \<Rightarrow> string" where
  "oid_name oid = (case map_of RDN_OID_SHORT_NAMES (hex oid) of Some n \<Rightarrow> n | None \<Rightarrow> ''OID.'' @ hex oid)"

fun joined :: "bytes list \<Rightarrow> bytes" where
  "joined [] = []"
| "joined [x] = x"
| "joined (x # y # xs) = x @ ascii '','' @ joined (y # xs)"

text \<open>One attribute: nothing when its sequence has not two children.\<close>

definition name_attribute :: "bytes \<Rightarrow> bytes list outcome" where
  "name_attribute atv = (case der_iter_children atv of
      Raise x \<Rightarrow> Raise x
    | Ok [(_, oid), (_, v)] \<Rightarrow> Ok [ascii (oid_name oid) @ ascii ''='' @ der_decode_string v]
    | Ok _ \<Rightarrow> Ok [])"

fun collect :: "('a \<Rightarrow> 'b list outcome) \<Rightarrow> 'a list \<Rightarrow> 'b list outcome" where
  "collect f [] = Ok []"
| "collect f (x # xs) = (case f x of
      Raise e \<Rightarrow> Raise e
    | Ok ys \<Rightarrow> (case collect f xs of Raise e \<Rightarrow> Raise e | Ok zs \<Rightarrow> Ok (ys @ zs)))"

definition rdn_attributes :: "bytes \<Rightarrow> bytes list outcome" where
  "rdn_attributes rdn = (case der_iter_children rdn of
      Raise x \<Rightarrow> Raise x
    | Ok atvs \<Rightarrow> collect (\<lambda>a. name_attribute (snd a)) atvs)"

definition parse_name :: "bytes \<Rightarrow> bytes outcome" where
  "parse_name content = (case der_iter_children content of
      Raise x \<Rightarrow> Raise x
    | Ok rdns \<Rightarrow> (case collect (\<lambda>r. rdn_attributes (snd r)) rdns of
        Raise x \<Rightarrow> Raise x
      | Ok parts \<Rightarrow> Ok (joined parts)))"

definition nth_child :: "(byte \<times> bytes) list \<Rightarrow> nat \<Rightarrow> (byte \<times> bytes) outcome" where
  "nth_child cs i = (if i < length cs then Ok (cs ! i) else Raise (PyError IndexError))"

definition or_none :: "bytes \<Rightarrow> bytes option" where
  "or_none b = (if b = [] then None else Some b)"

text \<open>
  \<^verbatim>\<open>_parse_der_certificate\<close>: subject, issuer, notAfter; \<open>try_parse\<close> is the body of its \<^verbatim>\<open>try\<close>, whose
  \<^verbatim>\<open>IndexError\<close> and \<^verbatim>\<open>ValueError\<close> become \<open>None\<close>.
\<close>

type_synonym evidence_fields = "bytes option \<times> bytes option \<times> string option"

definition try_parse :: "bytes \<Rightarrow> evidence_fields option outcome" where
  "try_parse der = (case der_read_tlv der 0 of Raise x \<Rightarrow> Raise x | Ok (_, cert, _) \<Rightarrow>
     (case der_read_tlv cert 0 of Raise x \<Rightarrow> Raise x | Ok (_, tbs, _) \<Rightarrow>
     (case der_iter_children tbs of Raise x \<Rightarrow> Raise x | Ok tbs_fields \<Rightarrow>
     (case nth_child tbs_fields 0 of Raise x \<Rightarrow> Raise x | Ok (first_tag, _) \<Rightarrow>
       (let i = (if first_tag = 0xA0 then 3 else 2)
        in case nth_child tbs_fields i of Raise x \<Rightarrow> Raise x | Ok (issuer_tag, issuer) \<Rightarrow>
          (case nth_child tbs_fields (i + 1) of Raise x \<Rightarrow> Raise x | Ok (_, validity) \<Rightarrow>
          (case nth_child tbs_fields (i + 2) of Raise x \<Rightarrow> Raise x | Ok (subject_tag, subject) \<Rightarrow>
            if issuer_tag \<noteq> 0x30 \<or> subject_tag \<noteq> 0x30 then Ok None
            else (case parse_name issuer of Raise x \<Rightarrow> Raise x | Ok issuer_text \<Rightarrow>
              (case parse_name subject of Raise x \<Rightarrow> Raise x | Ok subject_text \<Rightarrow>
              (case der_iter_children validity of Raise x \<Rightarrow> Raise x | Ok vs \<Rightarrow>
              (case nth_child vs 1 of Raise x \<Rightarrow> Raise x | Ok (t, v) \<Rightarrow>
                Ok (Some (or_none subject_text, or_none issuer_text, der_decode_time t v)))))))))))))"

definition parse_der_certificate :: "bytes \<Rightarrow> evidence_fields option" where
  "parse_der_certificate der = (case try_parse der of Ok r \<Rightarrow> r | Raise _ \<Rightarrow> None)"

text \<open>\<^verbatim>\<open>getpeercert()\<close>'s parsed form: sequences of (attribute name, value) pairs.\<close>

definition RDN_SHORT_NAMES :: "(bytes \<times> bytes) list" where
  "RDN_SHORT_NAMES = map (\<lambda>(k, v). (ascii k, ascii v))
     [(''commonName'', ''CN''), (''organizationName'', ''O''), (''organizationalUnitName'', ''OU''),
      (''countryName'', ''C''), (''stateOrProvinceName'', ''ST''), (''localityName'', ''L'')]"

definition format_rdn_sequence :: "(bytes \<times> bytes) list list \<Rightarrow> bytes option" where
  "format_rdn_sequence rdns =
     (if rdns = [] then None
      else Some (joined (map (\<lambda>(k, v). (case map_of RDN_SHORT_NAMES k of Some n \<Rightarrow> n | None \<Rightarrow> k) @ ascii ''='' @ v)
        (concat rdns))))"

record PeerCertificateEvidence =
  sha256_fingerprint :: string
  ev_subject :: "bytes option"
  ev_issuer :: "bytes option"
  ev_not_after :: "string option"

record validated_certificate =
  vc_subject :: "(bytes \<times> bytes) list list"
  vc_issuer :: "(bytes \<times> bytes) list list"
  vc_not_after :: "string option"

text \<open>
  The evidence of a connection: its DER certificate, if one can be read, and the parsed form, if the
  TLS library validated it.
\<close>

definition peer_certificate_evidence ::
  "(bytes \<Rightarrow> string) \<Rightarrow> bytes option \<Rightarrow> validated_certificate option \<Rightarrow> PeerCertificateEvidence option" where
  "peer_certificate_evidence sha256_hex der validated = (case der of
      None \<Rightarrow> None
    | Some d \<Rightarrow>
        if d = [] then None
        else (case validated of
            Some v \<Rightarrow> Some \<lparr>sha256_fingerprint = sha256_hex d, ev_subject = format_rdn_sequence (vc_subject v),
              ev_issuer = format_rdn_sequence (vc_issuer v), ev_not_after = vc_not_after v\<rparr>
          | None \<Rightarrow> (case parse_der_certificate d of
              Some (s, i, n) \<Rightarrow> Some \<lparr>sha256_fingerprint = sha256_hex d, ev_subject = s, ev_issuer = i, ev_not_after = n\<rparr>
            | None \<Rightarrow> Some \<lparr>sha256_fingerprint = sha256_hex d, ev_subject = None, ev_issuer = None, ev_not_after = None\<rparr>)))"

end
