(* ===== verification/Tls_Properties.thy ===== *)
theory Tls_Properties
  imports Tls
begin

text \<open>The properties of the TLS trust policy and of the DER reader.\<close>

section \<open>Fingerprints\<close>

lemma hex_not_special:
  "is_lower_hex c \<Longrightarrow> \<not> is_space c \<and> c \<noteq> CHR '':'' \<and> c \<noteq> CHR '' '' \<and> lower_char c = c \<and> code c \<noteq> 10 \<and> c \<noteq> CHR ''s''"
  by (auto simp: is_lower_hex_def is_space_def code_def lower_char_def)

lemma dropWhile_all_append: "list_all P xs \<Longrightarrow> dropWhile P (xs @ ys) = dropWhile P ys"
  by (induction xs) auto

lemma strip_between:
  assumes "list_all is_space w1" "list_all is_space w2" "x \<noteq> []" "\<not> is_space (hd x)" "\<not> is_space (last x)"
  shows "strip (w1 @ x @ w2) = x"
proof -
  have x: "dropWhile is_space (x @ w2) = x @ w2" using assms(3,4) by (cases x) simp_all
  have r: "dropWhile is_space (rev x) = rev x"
    using assms(3,5) by (cases x rule: rev_cases) simp_all
  have "list_all is_space (rev w2)" using assms(2) by simp
  then have w: "dropWhile is_space (rev w2 @ rev x) = rev x" by (simp only: dropWhile_all_append r)
  show ?thesis unfolding strip_def dropWhile_all_append [OF assms(1)] x rev_append w by simp
qed

lemma hex_re_hex: "list_all is_lower_hex f \<Longrightarrow> f \<noteq> [] \<Longrightarrow> hex_re_matches f"
  using hex_not_special [of "last f"] by (auto simp: hex_re_matches_def Let_def list_all_iff)

lemma remove_both: "remove_char a (remove_char b s) = filter (\<lambda>c. c \<noteq> a \<and> c \<noteq> b) s"
  by (simp add: remove_char_def conj_commute)

text \<open>A digest written with colons or spaces between, in either case, is not mistaken for the prefix.\<close>

lemma strip_prefix_body:
  assumes "list_all is_lower_hex (filter (\<lambda>c. c \<noteq> CHR '' '' \<and> c \<noteq> CHR '':'') body)"
  shows "strip_prefix body = body"
proof -
  have "take 7 body \<noteq> SHA256_PREFIX"
  proof
    assume "take 7 body = SHA256_PREFIX"
    then have "CHR ''s'' \<in> set (take 7 body)" by (simp add: SHA256_PREFIX_def)
    then have "CHR ''s'' \<in> set body" by (rule in_set_takeD)
    with assms hex_not_special show False by (auto simp: list_all_iff)
  qed
  then show ?thesis by (simp add: strip_prefix_def)
qed

text \<open>
  Every way of writing a SHA-256 digest gives the same pin.  The 64 hexadecimal digits in either
  case, with colons or spaces anywhere between, with or without the prefix and with white space
  around, normalise to the bare lower-case digits; and whatever is accepted has 64 characters, all
  lower-case hexadecimal but possibly a final newline.
\<close>

lemma fingerprint_normalised:
  assumes "list_all is_lower_hex h" "length h = 64"
    and "filter (\<lambda>c. c \<noteq> CHR '' '' \<and> c \<noteq> CHR '':'') (lower body) = h"
    and "pre \<in> {[], ''sha256:'', ''SHA256:''}"
    and "\<not> is_space (hd (pre @ body))" "\<not> is_space (last body)"
    and "list_all is_space w1" "list_all is_space w2"
  shows "normalize_fingerprint (w1 @ (pre @ body) @ w2) = Ok h
    \<and> (\<forall>raw f. normalize_fingerprint raw = Ok f \<longrightarrow> length f = 64
        \<and> (list_all is_lower_hex f \<or> (code (last f) = 10 \<and> list_all is_lower_hex (butlast f))))"
proof (intro conjI allI impI)
  have body: "body \<noteq> []" using assms(2,3) by (auto simp: lower_def)
  then have "strip (w1 @ (pre @ body) @ w2) = pre @ body"
    using assms(5-8) by (intro strip_between) auto
  moreover have "strip_prefix (lower (pre @ body)) = lower body"
  proof (cases "pre = []")
    case True
    with assms(1,3) show ?thesis by (simp add: strip_prefix_body)
  next
    case False
    have "lower ''sha256:'' = SHA256_PREFIX" "lower ''SHA256:'' = SHA256_PREFIX" by code_simp+
    with False assms(4) have "lower pre = SHA256_PREFIX" by auto
    moreover have "length SHA256_PREFIX = 7" by (simp add: SHA256_PREFIX_def)
    ultimately show ?thesis by (simp add: strip_prefix_def lower_def)
  qed
  ultimately show "normalize_fingerprint (w1 @ (pre @ body) @ w2) = Ok h"
    using assms(2,3) body hex_re_hex [OF assms(1)]
    by (cases "h = []") (simp_all add: normalize_fingerprint_def remove_both FINGERPRINT_HEX_LENGTH_def Let_def)
next
  fix raw f assume "normalize_fingerprint raw = Ok f"
  then have "length f = 64" "hex_re_matches f"
    by (auto simp: normalize_fingerprint_def FINGERPRINT_HEX_LENGTH_def Let_def split: if_splits)
  then show "length f = 64" "list_all is_lower_hex f \<or> (code (last f) = 10 \<and> list_all is_lower_hex (butlast f))"
    by (auto simp: hex_re_matches_def Let_def split: if_splits)
qed

section \<open>Trust\<close>

text \<open>
  C29: What the client connects with.  Two trust modes at once are refused; without TLS a client is
  built only when plaintext was explicitly allowed; the port given always wins; and with TLS the
  certificate check is off only if certificates are not to be validated or a pin replaces it, in
  which case the adapter asserts exactly the normalised pin.
\<close>

theorem connection_trust:
  "case from_connection_options host p use_tls allow validate ca fp retries of
     Raise x \<Rightarrow> x = TlsValidationError
       \<and> ((given ca \<and> given fp) \<or> (\<not> use_tls \<and> \<not> allow) \<or> (given fp \<and> normalize_fingerprint (the fp) = Raise x))
   | Ok c \<Rightarrow> (use_tls \<or> allow) \<and> \<not> (given ca \<and> given fp)
       \<and> cs_endpoint c = host @ '':'' @ show_int (case p of Some n \<Rightarrow> n | None \<Rightarrow> if use_tls then 16993 else 16992)
       \<and> cs_url c = (if use_tls then ''https'' else ''http'') @ ''://'' @ cs_endpoint c @ ''/wsman''
       \<and> (cs_trust c = None \<longleftrightarrow> \<not> use_tls)
       \<and> (use_tls \<longrightarrow> cs_trust c = Some
           (if given fp then (case normalize_fingerprint (the fp) of Ok f \<Rightarrow> (PinningAdapter f, VerifyOff))
            else (PlainAdapter, if \<not> validate then VerifyOff else if given ca then VerifyBundle (the ca) else VerifySystem)))"
  by (auto simp: from_connection_options_def create_policy_def wsman_init_def enforce_transport_policy_def
      resolve_port_def build_adapter_def requests_verify_def pinned_def DEFAULT_TLS_PORT_def
      DEFAULT_PLAINTEXT_PORT_def normalize_fingerprint_def Let_def split: outcome.splits option.splits if_splits)

theorem connection_trust_witness:
  "\<exists>c. from_connection_options ''amt'' None True False True None None 2 = Ok c \<and> cs_trust c = Some (PlainAdapter, VerifySystem)"
  using connection_trust [where host = "''amt''" and p = None and use_tls = True and allow = False and validate = True
    and ca = None and fp = None and retries = 2] by (auto simp: given_def split: outcome.splits)

section \<open>DER\<close>

text \<open>
  \<open>der_encodes tv bs\<close>: \<open>bs\<close> is tag, length and value, in the short form or in the long form with any
  number of length bytes that is enough.
\<close>

definition der_encodes :: "byte \<times> bytes \<Rightarrow> bytes \<Rightarrow> bool" where
  "der_encodes tv bs \<longleftrightarrow> (case tv of (tag, v) \<Rightarrow>
     (length v < 128 \<and> bs = tag # of_nat (length v) # v)
     \<or> (\<exists>k. 1 \<le> k \<and> k < 128 \<and> length v < 256 ^ k
          \<and> bs = tag # (0x80 OR of_nat k) # be_bytes k (int (length v)) @ v))"

lemma small_byte:
  fixes w :: byte
  assumes "w < 128"
  shows "w AND 0x80 = 0" "w AND 0x7F = w" "(0x80 OR w) AND 0x7F = w" "(0x80 OR w) AND 0x80 = 0x80"
proof -
  have "uint w < 128" using assms by (simp add: word_less_def)
  then have t: "take_bit 7 w = w"
    by (simp only: word_uint_eq_iff unsigned_take_bit_eq) (simp add: take_bit_int_eq_self)
  have m: "w AND 0x7F = take_bit 7 w" by (simp add: take_bit_eq_mask mask_eq_exp_minus_1)
  show w7: "w AND 0x7F = w" using m t by simp
  have "w AND 0x80 = (w AND 0x7F) AND 0x80" by (simp only: w7)
  also have "\<dots> = w AND (0x7F AND 0x80)" by (simp only: and.assoc)
  finally show "w AND 0x80 = 0" by simp
  show "(0x80 OR w) AND 0x7F = w" using w7 by (simp add: bit.conj_disj_distrib2)
  have "(0x80 OR w) AND 0x80 = 0x80 OR (w AND 0x80)" by (simp add: bit.conj_disj_distrib2)
  with \<open>w AND 0x80 = 0\<close> show "(0x80 OR w) AND 0x80 = 0x80" by simp
qed

lemma of_nat_small_byte: "n < 128 \<Longrightarrow> (of_nat n :: byte) < 128 \<and> unat (of_nat n :: byte) = n"
  by (simp add: word_less_nat_alt unat_of_nat)

lemma der_read_encoded:
  assumes "der_encodes (tag, v) bs"
  shows "der_read_tlv (front @ bs @ rest) (length front) = Ok (tag, v, length (front @ bs))"
proof -
  from assms consider (short) "length v < 128" "bs = tag # of_nat (length v) # v"
    | (long) k where "1 \<le> k" "k < 128" "length v < 256 ^ k"
        "bs = tag # (0x80 OR of_nat k) # be_bytes k (int (length v)) @ v"
    by (auto simp: der_encodes_def)
  then show ?thesis
  proof cases
    case short
    with of_nat_small_byte [of "length v"] small_byte [of "of_nat (length v)"] show ?thesis
      by (simp add: der_read_tlv_def idx_def nth_append slice_def)
  next
    case long
    have "int (length v) < 256 ^ k" using long(3) by (metis of_nat_less_iff of_nat_numeral of_nat_power)
    then have "be_int (be_bytes k (int (length v))) = int (length v)"
      by (simp add: be_int_def be_bytes_def le_int_le_bytes)
    with long of_nat_small_byte [of k] small_byte [of "of_nat k"] show ?thesis
      by (simp add: der_read_tlv_def idx_def nth_append slice_def)
  qed
qed

lemma der_children_encoded:
  "list_all2 der_encodes tvs bss \<Longrightarrow> der_children_from (front @ concat bss) (length front) = Ok tvs"
proof (induction tvs bss arbitrary: front rule: list_all2_induct)
  case Nil
  then show ?case by (simp add: der_children_from.simps)
next
  case (Cons tv tvs bs bss)
  obtain tag v where tv: "tv = (tag, v)" by fastforce
  have "bs \<noteq> []" using Cons(1) by (auto simp: der_encodes_def tv)
  moreover note der_read_encoded [OF Cons(1) [unfolded tv], of front "concat bss"]
  moreover note Cons(3) [of "front @ bs"]
  ultimately show ?case by (simp add: der_children_from.simps [of _ "length front"] tv)
qed

text \<open>
  The DER reader inverts the encoding: the children of any sequence of tag-length-value
  encodings, short or long form, are exactly the tags and values encoded, whatever the length form.
\<close>

lemma der_children_roundtrip:
  assumes "list_all2 der_encodes tvs bss"
  shows "der_iter_children (concat bss) = Ok tvs"
  using der_children_encoded [OF assms, of "[]"] by (simp add: der_iter_children_def)

end
