(* ===== verification/Hardware.thy ===== *)
theory Hardware
  imports Models "HOL-Library.List_Lexorder" "HOL-Library.Char_ord"
begin

text \<open>
  The hardware inventory (\<^verbatim>\<open>plugins/module_utils/hardware.py\<close>): the \<^verbatim>\<open>gather_subset\<close> vocabulary and its
  resolution, the shape census of an instance, the DMTF value tables and the typed records of the
  six inventory classes, and the outcome of each class's read.
\<close>

section \<open>Subsets\<close>

definition SUBSET_CONFIG :: string where "SUBSET_CONFIG = ''config''"
definition SUBSET_SYSTEM :: string where "SUBSET_SYSTEM = ''system''"
definition SUBSET_PROCESSOR :: string where "SUBSET_PROCESSOR = ''processor''"
definition SUBSET_MEMORY :: string where "SUBSET_MEMORY = ''memory''"
definition SUBSET_STORAGE :: string where "SUBSET_STORAGE = ''storage''"
definition SUBSET_HARDWARE :: string where "SUBSET_HARDWARE = ''hardware''"

lemmas subset_names = SUBSET_CONFIG_def SUBSET_SYSTEM_def SUBSET_PROCESSOR_def SUBSET_MEMORY_def
  SUBSET_STORAGE_def SUBSET_HARDWARE_def

definition VALID_SUBSETS :: "string set" where
  "VALID_SUBSETS = {SUBSET_CONFIG, SUBSET_SYSTEM, SUBSET_PROCESSOR, SUBSET_MEMORY, SUBSET_STORAGE}"

definition MINIMAL_SUBSET :: "string set" where "MINIMAL_SUBSET = {SUBSET_CONFIG}"

definition SUBSET_ALIASES :: "(string \<times> string set) list" where
  "SUBSET_ALIASES = [(SUBSET_HARDWARE, {SUBSET_SYSTEM, SUBSET_PROCESSOR, SUBSET_MEMORY, SUBSET_STORAGE})]"

definition FACT_GROUPS_BY_SUBSET :: "(string \<times> string list) list" where
  "FACT_GROUPS_BY_SUBSET = [(SUBSET_SYSTEM, [''chassis'', ''baseboard'']),
     (SUBSET_PROCESSOR, [''processors'', ''chips'']), (SUBSET_MEMORY, [''memory'']),
     (SUBSET_STORAGE, [''storage''])]"

definition FACT_GROUP_BY_CLASS :: "(string \<times> string) list" where
  "FACT_GROUP_BY_CLASS = [(''CIM_Chassis'', ''chassis''), (''CIM_Card'', ''baseboard''),
     (''CIM_Processor'', ''processors''), (''CIM_Chip'', ''chips''), (''CIM_PhysicalMemory'', ''memory''),
     (''CIM_MediaAccessDevice'', ''storage'')]"

definition ROUND_TRIPS_BY_SUBSET :: "(string \<times> int) list" where
  "ROUND_TRIPS_BY_SUBSET = [(SUBSET_CONFIG, 10), (SUBSET_SYSTEM, 2), (SUBSET_PROCESSOR, 4),
     (SUBSET_MEMORY, 2), (SUBSET_STORAGE, 2)]"

definition expand_subset :: "string \<Rightarrow> string set" where
  "expand_subset name = (case map_of SUBSET_ALIASES name of Some ss \<Rightarrow> ss | None \<Rightarrow> {name})"

text \<open>One entry of the list: what it adds, and what it excludes.\<close>

definition subset_entry :: "string \<Rightarrow> string set \<times> string set" where
  "subset_entry entry =
     (let name = strip entry
      in if name = ''all'' then (VALID_SUBSETS, {})
         else if name = ''min'' then (MINIMAL_SUBSET, {})
         else if take 1 name = ''!'' then
           (let negated = drop 1 name
            in if negated = ''all'' then ({}, VALID_SUBSETS - MINIMAL_SUBSET)
               else if negated = ''min'' then ({}, MINIMAL_SUBSET)
               else ({}, expand_subset negated \<inter> VALID_SUBSETS))
         else (expand_subset name \<inter> VALID_SUBSETS, {}))"

definition resolve_gather_subset :: "string list \<Rightarrow> string set" where
  "resolve_gather_subset entries =
     (let (additional, excluded) =
          foldl (\<lambda>(a, x) entry. case subset_entry entry of (a', x') \<Rightarrow> (a \<union> a', x \<union> x')) ({}, {}) entries;
          additional = (if additional = {} then VALID_SUBSETS else additional)
      in (additional - (excluded - MINIMAL_SUBSET)) \<union> MINIMAL_SUBSET)"

definition groups_of_subset :: "string \<Rightarrow> string set" where
  "groups_of_subset s = (case map_of FACT_GROUPS_BY_SUBSET s of Some gs \<Rightarrow> set gs | None \<Rightarrow> {})"

definition requested_fact_groups :: "string set \<Rightarrow> string set" where
  "requested_fact_groups subsets = \<Union> (groups_of_subset ` subsets)"

definition round_trips :: "string \<Rightarrow> int" where
  "round_trips s = (case map_of ROUND_TRIPS_BY_SUBSET s of Some n \<Rightarrow> n | None \<Rightarrow> 0)"

definition round_trip_estimate :: "string set \<Rightarrow> int" where
  "round_trip_estimate subsets = sum round_trips subsets"

section \<open>Shape census\<close>

datatype shape = SHAPE_ABSENT | SHAPE_EMPTY | SHAPE_TEXT | SHAPE_NESTED | SHAPE_REPEATED

text \<open>\<^verbatim>\<open>re.match("^[A-Za-z][A-Za-z0-9_]{0,63}$", name)\<close>; the dollar also matches before one final newline.\<close>

definition is_letter :: "char \<Rightarrow> bool" where
  "is_letter c \<longleftrightarrow> 65 \<le> code c \<and> code c \<le> 90 \<or> 97 \<le> code c \<and> code c \<le> 122"

definition is_name_char :: "char \<Rightarrow> bool" where
  "is_name_char c \<longleftrightarrow> is_letter c \<or> 48 \<le> code c \<and> code c \<le> 57 \<or> c = CHR ''_''"

definition cim_property_name :: "string \<Rightarrow> bool" where
  "cim_property_name s =
     (let body = (if s \<noteq> [] \<and> code (last s) = 10 then butlast s else s)
      in (case body of [] \<Rightarrow> False | c # cs \<Rightarrow> is_letter c \<and> list_all is_name_char cs \<and> length cs \<le> 63))"

definition READ_PROPERTIES_BY_CLASS :: "(string \<times> string list) list" where
  "READ_PROPERTIES_BY_CLASS =
     [(''CIM_Chassis'', [''SerialNumber'', ''Model'', ''Manufacturer'', ''Version'', ''Tag'', ''ElementName'',
         ''ChassisPackageType'', ''PackageType'', ''OperationalStatus'']),
      (''CIM_Card'', [''SerialNumber'', ''Model'', ''Manufacturer'', ''Version'', ''Tag'', ''ElementName'',
         ''CanBeFRUed'', ''PackageType'', ''OperationalStatus''])]"

definition shape_of :: "val \<Rightarrow> shape" where
  "shape_of v = (case v of
      VDict _ \<Rightarrow> SHAPE_NESTED
    | VList _ \<Rightarrow> SHAPE_REPEATED
    | _ \<Rightarrow> if strip (py_str v) = [] then SHAPE_EMPTY else SHAPE_TEXT)"

definition census_names :: "string \<Rightarrow> obj \<Rightarrow> string set" where
  "census_names cls i =
     set (case map_of READ_PROPERTIES_BY_CLASS cls of Some ps \<Rightarrow> ps | None \<Rightarrow> []) \<union> set (map fst i)"

definition property_shapes :: "string \<Rightarrow> obj \<Rightarrow> (string \<times> shape) list \<times> nat" where
  "property_shapes cls i =
     (let names = census_names cls i; kept = Set.filter cim_property_name names
      in (map (\<lambda>n. (n, case map_of i n of Some v \<Rightarrow> shape_of v | None \<Rightarrow> SHAPE_ABSENT))
            (sorted_list_of_set kept),
          card names - card kept))"

section \<open>Value tables\<close>

definition CHASSIS_PACKAGE_TYPE_TABLE :: "(int \<times> string) list" where
  "CHASSIS_PACKAGE_TYPE_TABLE = [(0, ''unknown''), (1, ''other''), (2, ''smbios_reserved1''), (3, ''desktop''),
     (4, ''low_profile_desktop''), (5, ''pizza_box''), (6, ''mini_tower''), (7, ''tower''),
     (8, ''portable''), (9, ''laptop''), (10, ''notebook''), (11, ''handheld''),
     (12, ''docking_station''), (13, ''all_in_one''), (14, ''sub_notebook''),
     (15, ''space_saving''), (16, ''lunch_box''), (17, ''main_system_chassis''),
     (18, ''expansion_chassis''), (19, ''sub_chassis''), (20, ''bus_expansion_chassis''),
     (21, ''peripheral_chassis''), (22, ''storage_chassis''), (23, ''smbios_reserved2''),
     (24, ''sealed_case_pc''), (25, ''smbios_reserved3''), (26, ''compact_pci''),
     (27, ''advanced_tca''), (28, ''blade_enclosure''), (29, ''smbios_reserved4''),
     (30, ''tablet''), (31, ''convertible''), (32, ''detachable''), (33, ''io_t_gateway''),
     (34, ''embedded_pc''), (35, ''mini_pc''), (36, ''stick_pc'')]"

definition PACKAGE_TYPE_TABLE :: "(int \<times> string) list" where
  "PACKAGE_TYPE_TABLE = [(0, ''unknown''), (1, ''other''), (2, ''rack''), (3, ''chassis_frame''),
     (4, ''cross_connect_backplane''), (5, ''container_frame_slot''), (6, ''power_supply''),
     (7, ''fan''), (8, ''sensor''), (9, ''module_card''), (10, ''port_connector''),
     (11, ''battery''), (12, ''processor''), (13, ''memory''), (14, ''power_source_generator''),
     (15, ''storage_media_package''), (16, ''blade''), (17, ''blade_expansion'')]"

definition MEMORY_TYPE_TABLE :: "(int \<times> string) list" where
  "MEMORY_TYPE_TABLE = [(0, ''unknown''), (1, ''other''), (2, ''dram''), (3, ''synchronous_dram''),
     (4, ''cache_dram''), (5, ''edo''), (6, ''edram''), (7, ''vram''), (8, ''sram''),
     (9, ''ram''), (10, ''rom''), (11, ''flash''), (12, ''eeprom''), (13, ''feprom''),
     (14, ''eprom''), (15, ''cdram''), (16, ''3_dram''), (17, ''sdram''), (18, ''sgram''),
     (19, ''rdram''), (20, ''ddr''), (21, ''ddr2''), (22, ''bram''), (23, ''fbdimm''),
     (24, ''ddr3''), (25, ''fbd2''), (26, ''ddr4''), (27, ''lpddr''), (28, ''lpddr2''),
     (29, ''lpddr3''), (30, ''lpddr4''), (31, ''logical_non_volatile_device''), (32, ''hbm''),
     (33, ''hbm2''), (34, ''ddr5''), (35, ''lpddr5''), (36, ''hbm3'')]"

definition MEDIA_CAPABILITIES_TABLE :: "(int \<times> string) list" where
  "MEDIA_CAPABILITIES_TABLE = [(0, ''unknown''), (1, ''other''), (2, ''sequential_access''), (3, ''random_access''),
     (4, ''supports_writing''), (5, ''encryption''), (6, ''compression''),
     (7, ''supports_removable_media''), (8, ''manual_cleaning''), (9, ''automatic_cleaning''),
     (10, ''smart_notification''), (11, ''supports_dual_sided_media''),
     (12, ''pre_dismount_eject_not_required'')]"

definition MEDIA_SECURITY_TABLE :: "(int \<times> string) list" where
  "MEDIA_SECURITY_TABLE = [(1, ''other''), (2, ''unknown''), (3, ''none''), (4, ''read_only''), (5, ''locked_out''),
     (6, ''boot_bypass''), (7, ''boot_bypass_and_read_only'')]"

definition MEDIA_ENABLED_DEFAULT_TABLE :: "(int \<times> string) list" where
  "MEDIA_ENABLED_DEFAULT_TABLE = [(2, ''enabled''), (3, ''disabled''), (5, ''not_applicable''), (6, ''enabled_but_offline''),
     (7, ''no_default''), (9, ''quiesce'')]"

definition CPU_STATUS_TABLE :: "(int \<times> string) list" where
  "CPU_STATUS_TABLE = [(0, ''unknown''), (1, ''cpu_enabled''), (2, ''cpu_disabled_by_user''),
     (3, ''cpu_disabled_by_bios''), (4, ''cpu_is_idle''), (5, ''other'')]"

definition HEALTH_STATE_TABLE :: "(int \<times> string) list" where
  "HEALTH_STATE_TABLE = [(0, ''unknown''), (5, ''ok''), (10, ''degraded_warning''), (15, ''minor_failure''),
     (20, ''major_failure''), (25, ''critical_failure''), (30, ''non_recoverable_error'')]"

definition UPGRADE_METHOD_TABLE :: "(int \<times> string) list" where
  "UPGRADE_METHOD_TABLE = [(0, ''other''), (1, ''unknown''), (2, ''daughter_board''), (3, ''zif_socket''),
     (4, ''replacement_piggy_back''), (5, ''none''), (6, ''lif_socket''), (7, ''slot1''),
     (8, ''slot2''), (9, ''370_pin_socket''), (10, ''slot_a''), (11, ''slot_m''),
     (12, ''socket423''), (13, ''socket_a_socket462''), (14, ''socket478''), (15, ''socket754''),
     (16, ''socket940''), (17, ''socket939''), (18, ''socketm_pga604''), (19, ''socket_lga771''),
     (20, ''socket_lga775''), (21, ''socket_s1''), (22, ''socket_am2''), (23, ''socket_f1207''),
     (24, ''socket_lga1366''), (25, ''socket_g34''), (26, ''socket_am3''), (27, ''socket_c32''),
     (28, ''socket_lga1156''), (29, ''socket_lga1567''), (30, ''socket_pga988_a''),
     (31, ''socket_bga1288''), (32, ''r_pga988_b''), (33, ''bga1023''), (34, ''bga1224''),
     (35, ''lga1155''), (36, ''lga1356''), (37, ''lga2011''), (38, ''socket_fs1''),
     (39, ''socket_fs2''), (40, ''socket_fm1''), (41, ''socket_fm2''), (42, ''socket_lga20113''),
     (43, ''socket_lga13563''), (44, ''socket_lga1150''), (45, ''socket_bga1168''),
     (46, ''socket_bga1234''), (47, ''socket_bga1364''), (48, ''socket_am4''),
     (49, ''socket_lga1151''), (50, ''socket_bga1356''), (51, ''socket_bga1440''),
     (52, ''socket_bga1515''), (53, ''socket_lga36471''), (54, ''socket_sp3''),
     (55, ''socket_sp3r2''), (56, ''socket_lga2066''), (57, ''socket_bga1392''),
     (58, ''socket_bga1510''), (59, ''socket_bga1528''), (60, ''socket_lga4189''),
     (61, ''socket_lga1200''), (62, ''socket_lga4677''), (63, ''socket_lga1700''),
     (64, ''socket_bga1744''), (65, ''socket_bga1781''), (66, ''socket_bga1211''),
     (67, ''socket_bga2422''), (68, ''socket_lga5773''), (69, ''socket_bga5773''),
     (70, ''socket_am5''), (71, ''socket_sp5''), (72, ''socket_sp6''), (73, ''socket_bga883''),
     (74, ''socket_bga1190''), (75, ''socket_bga4129''), (76, ''socket_lga4710''),
     (77, ''socket_lga7529''), (78, ''socket_bga1964''), (79, ''socket_bga1792''),
     (80, ''socket_bga2049''), (81, ''socket_bga2551''), (82, ''socket_lga1851''),
     (83, ''socket_bga2114''), (84, ''socket_bga2833'')]"

section \<open>Parsing helpers\<close>

definition int_list :: "val \<Rightarrow> int list option" where
  "int_list v = (case v of
      VNone \<Rightarrow> None
    | VStr s \<Rightarrow> if strip s = [] then Some [] else Some (List.map_filter optional_int [v])
    | _ \<Rightarrow> Some (List.map_filter optional_int (as_list v)))"

definition decode_list :: "(int \<times> string) list \<Rightarrow> int list option \<Rightarrow> string list option" where
  "decode_list table vs = map_option (map (decode table)) vs"

definition operational_status_of :: "obj \<Rightarrow> int list option \<times> string list option" where
  "operational_status_of i =
     (let statuses = int_list (get_prop i ''OperationalStatus'')
      in (statuses, decode_list OPERATIONAL_STATUS_TABLE statuses))"

text \<open>Values of \<^verbatim>\<open>dataclasses.asdict\<close>.\<close>

definition opt_val :: "('a \<Rightarrow> val) \<Rightarrow> 'a option \<Rightarrow> val" where
  "opt_val f x = (case x of None \<Rightarrow> VNone | Some y \<Rightarrow> f y)"

definition int_vals :: "int list \<Rightarrow> val" where "int_vals ns = VList (map VInt ns)"
definition str_vals :: "string list \<Rightarrow> val" where "str_vals ss = VList (map VStr ss)"

section \<open>Records of the inventory classes\<close>

record ChassisInfo =
  chassis_serial_number :: "string option"
  chassis_model :: "string option"
  chassis_manufacturer :: "string option"
  chassis_version :: "string option"
  chassis_tag :: "string option"
  chassis_element_name :: "string option"
  chassis_chassis_package_type :: "int option"
  chassis_chassis_package_type_text :: "string option"
  chassis_package_type :: "int option"
  chassis_package_type_text :: "string option"
  chassis_operational_status :: "int list option"
  chassis_operational_status_text :: "string list option"

definition chassis_from_instance :: "obj \<Rightarrow> ChassisInfo" where
  "chassis_from_instance i =
     \<lparr>chassis_serial_number = optional_str (get_prop i ''SerialNumber''),
      chassis_model = optional_str (get_prop i ''Model''),
      chassis_manufacturer = optional_str (get_prop i ''Manufacturer''),
      chassis_version = optional_str (get_prop i ''Version''),
      chassis_tag = optional_str (get_prop i ''Tag''),
      chassis_element_name = optional_str (get_prop i ''ElementName''),
      chassis_chassis_package_type = optional_int (get_prop i ''ChassisPackageType''),
      chassis_chassis_package_type_text = map_option (decode CHASSIS_PACKAGE_TYPE_TABLE) (optional_int (get_prop i ''ChassisPackageType'')),
      chassis_package_type = optional_int (get_prop i ''PackageType''),
      chassis_package_type_text = map_option (decode PACKAGE_TYPE_TABLE) (optional_int (get_prop i ''PackageType'')),
      chassis_operational_status = fst (operational_status_of i),
      chassis_operational_status_text = snd (operational_status_of i)\<rparr>"

definition chassis_asdict :: "ChassisInfo \<Rightarrow> val" where
  "chassis_asdict r = VDict
     [(''serial_number'', opt_val VStr (chassis_serial_number r)),
      (''model'', opt_val VStr (chassis_model r)),
      (''manufacturer'', opt_val VStr (chassis_manufacturer r)),
      (''version'', opt_val VStr (chassis_version r)),
      (''tag'', opt_val VStr (chassis_tag r)),
      (''element_name'', opt_val VStr (chassis_element_name r)),
      (''chassis_package_type'', opt_val VInt (chassis_chassis_package_type r)),
      (''chassis_package_type_text'', opt_val VStr (chassis_chassis_package_type_text r)),
      (''package_type'', opt_val VInt (chassis_package_type r)),
      (''package_type_text'', opt_val VStr (chassis_package_type_text r)),
      (''operational_status'', opt_val int_vals (chassis_operational_status r)),
      (''operational_status_text'', opt_val str_vals (chassis_operational_status_text r))]"

record BaseboardInfo =
  board_serial_number :: "string option"
  board_model :: "string option"
  board_manufacturer :: "string option"
  board_version :: "string option"
  board_tag :: "string option"
  board_element_name :: "string option"
  board_can_be_frued :: "bool option"
  board_package_type :: "int option"
  board_package_type_text :: "string option"
  board_operational_status :: "int list option"
  board_operational_status_text :: "string list option"

definition baseboard_from_instance :: "obj \<Rightarrow> BaseboardInfo" where
  "baseboard_from_instance i =
     \<lparr>board_serial_number = optional_str (get_prop i ''SerialNumber''),
      board_model = optional_str (get_prop i ''Model''),
      board_manufacturer = optional_str (get_prop i ''Manufacturer''),
      board_version = optional_str (get_prop i ''Version''),
      board_tag = optional_str (get_prop i ''Tag''),
      board_element_name = optional_str (get_prop i ''ElementName''),
      board_can_be_frued = optional_bool (get_prop i ''CanBeFRUed''),
      board_package_type = optional_int (get_prop i ''PackageType''),
      board_package_type_text = map_option (decode PACKAGE_TYPE_TABLE) (optional_int (get_prop i ''PackageType'')),
      board_operational_status = fst (operational_status_of i),
      board_operational_status_text = snd (operational_status_of i)\<rparr>"

definition board_asdict :: "BaseboardInfo \<Rightarrow> val" where
  "board_asdict r = VDict
     [(''serial_number'', opt_val VStr (board_serial_number r)),
      (''model'', opt_val VStr (board_model r)),
      (''manufacturer'', opt_val VStr (board_manufacturer r)),
      (''version'', opt_val VStr (board_version r)),
      (''tag'', opt_val VStr (board_tag r)),
      (''element_name'', opt_val VStr (board_element_name r)),
      (''can_be_frued'', opt_val VBool (board_can_be_frued r)),
      (''package_type'', opt_val VInt (board_package_type r)),
      (''package_type_text'', opt_val VStr (board_package_type_text r)),
      (''operational_status'', opt_val int_vals (board_operational_status r)),
      (''operational_status_text'', opt_val str_vals (board_operational_status_text r))]"

record ProcessorInfo =
  cpu_device_id :: "string option"
  cpu_element_name :: "string option"
  cpu_role :: "string option"
  cpu_family :: "int option"
  cpu_other_family_description :: "string option"
  cpu_max_clock_speed_mhz :: "int option"
  cpu_current_clock_speed_mhz :: "int option"
  cpu_external_bus_clock_speed_mhz :: "int option"
  cpu_stepping :: "string option"
  cpu_cpu_status :: "int option"
  cpu_cpu_status_text :: "string option"
  cpu_upgrade_method :: "int option"
  cpu_upgrade_method_text :: "string option"
  cpu_health_state :: "int option"
  cpu_health_state_text :: "string option"
  cpu_enabled_state :: "int option"
  cpu_enabled_state_text :: "string option"
  cpu_requested_state :: "int option"
  cpu_operational_status :: "int list option"
  cpu_operational_status_text :: "string list option"

definition processor_from_instance :: "obj \<Rightarrow> ProcessorInfo" where
  "processor_from_instance i =
     \<lparr>cpu_device_id = optional_str (get_prop i ''DeviceID''),
      cpu_element_name = optional_str (get_prop i ''ElementName''),
      cpu_role = optional_str (get_prop i ''Role''),
      cpu_family = optional_int (get_prop i ''Family''),
      cpu_other_family_description = optional_str (get_prop i ''OtherFamilyDescription''),
      cpu_max_clock_speed_mhz = optional_int (get_prop i ''MaxClockSpeed''),
      cpu_current_clock_speed_mhz = optional_int (get_prop i ''CurrentClockSpeed''),
      cpu_external_bus_clock_speed_mhz = optional_int (get_prop i ''ExternalBusClockSpeed''),
      cpu_stepping = optional_str (get_prop i ''Stepping''),
      cpu_cpu_status = optional_int (get_prop i ''CPUStatus''),
      cpu_cpu_status_text = map_option (decode CPU_STATUS_TABLE) (optional_int (get_prop i ''CPUStatus'')),
      cpu_upgrade_method = optional_int (get_prop i ''UpgradeMethod''),
      cpu_upgrade_method_text = map_option (decode UPGRADE_METHOD_TABLE) (optional_int (get_prop i ''UpgradeMethod'')),
      cpu_health_state = optional_int (get_prop i ''HealthState''),
      cpu_health_state_text = map_option (decode HEALTH_STATE_TABLE) (optional_int (get_prop i ''HealthState'')),
      cpu_enabled_state = optional_int (get_prop i ''EnabledState''),
      cpu_enabled_state_text = map_option (decode ENABLED_STATE_TABLE) (optional_int (get_prop i ''EnabledState'')),
      cpu_requested_state = optional_int (get_prop i ''RequestedState''),
      cpu_operational_status = fst (operational_status_of i),
      cpu_operational_status_text = snd (operational_status_of i)\<rparr>"

definition cpu_asdict :: "ProcessorInfo \<Rightarrow> val" where
  "cpu_asdict r = VDict
     [(''device_id'', opt_val VStr (cpu_device_id r)),
      (''element_name'', opt_val VStr (cpu_element_name r)),
      (''role'', opt_val VStr (cpu_role r)),
      (''family'', opt_val VInt (cpu_family r)),
      (''other_family_description'', opt_val VStr (cpu_other_family_description r)),
      (''max_clock_speed_mhz'', opt_val VInt (cpu_max_clock_speed_mhz r)),
      (''current_clock_speed_mhz'', opt_val VInt (cpu_current_clock_speed_mhz r)),
      (''external_bus_clock_speed_mhz'', opt_val VInt (cpu_external_bus_clock_speed_mhz r)),
      (''stepping'', opt_val VStr (cpu_stepping r)),
      (''cpu_status'', opt_val VInt (cpu_cpu_status r)),
      (''cpu_status_text'', opt_val VStr (cpu_cpu_status_text r)),
      (''upgrade_method'', opt_val VInt (cpu_upgrade_method r)),
      (''upgrade_method_text'', opt_val VStr (cpu_upgrade_method_text r)),
      (''health_state'', opt_val VInt (cpu_health_state r)),
      (''health_state_text'', opt_val VStr (cpu_health_state_text r)),
      (''enabled_state'', opt_val VInt (cpu_enabled_state r)),
      (''enabled_state_text'', opt_val VStr (cpu_enabled_state_text r)),
      (''requested_state'', opt_val VInt (cpu_requested_state r)),
      (''operational_status'', opt_val int_vals (cpu_operational_status r)),
      (''operational_status_text'', opt_val str_vals (cpu_operational_status_text r))]"

record ChipInfo =
  chip_version :: "string option"
  chip_tag :: "string option"
  chip_element_name :: "string option"
  chip_manufacturer :: "string option"
  chip_can_be_frued :: "bool option"
  chip_operational_status :: "int list option"
  chip_operational_status_text :: "string list option"

definition chip_from_instance :: "obj \<Rightarrow> ChipInfo" where
  "chip_from_instance i =
     \<lparr>chip_version = optional_str (get_prop i ''Version''),
      chip_tag = optional_str (get_prop i ''Tag''),
      chip_element_name = optional_str (get_prop i ''ElementName''),
      chip_manufacturer = optional_str (get_prop i ''Manufacturer''),
      chip_can_be_frued = optional_bool (get_prop i ''CanBeFRUed''),
      chip_operational_status = fst (operational_status_of i),
      chip_operational_status_text = snd (operational_status_of i)\<rparr>"

definition chip_asdict :: "ChipInfo \<Rightarrow> val" where
  "chip_asdict r = VDict
     [(''version'', opt_val VStr (chip_version r)),
      (''tag'', opt_val VStr (chip_tag r)),
      (''element_name'', opt_val VStr (chip_element_name r)),
      (''manufacturer'', opt_val VStr (chip_manufacturer r)),
      (''can_be_frued'', opt_val VBool (chip_can_be_frued r)),
      (''operational_status'', opt_val int_vals (chip_operational_status r)),
      (''operational_status_text'', opt_val str_vals (chip_operational_status_text r))]"

record MemoryInfo =
  dimm_bank_label :: "string option"
  dimm_capacity_bytes :: "int option"
  dimm_memory_type :: "int option"
  dimm_memory_type_text :: "string option"
  dimm_form_factor :: "int option"
  dimm_speed_ns :: "int option"
  dimm_max_memory_speed_mhz :: "int option"
  dimm_configured_clock_speed_mhz :: "int option"
  dimm_is_speed_in_mhz :: "bool option"
  dimm_manufacturer :: "string option"
  dimm_part_number :: "string option"
  dimm_serial_number :: "string option"
  dimm_tag :: "string option"
  dimm_element_name :: "string option"
  dimm_operational_status :: "int list option"
  dimm_operational_status_text :: "string list option"

definition memory_from_instance :: "obj \<Rightarrow> MemoryInfo" where
  "memory_from_instance i =
     \<lparr>dimm_bank_label = optional_str (get_prop i ''BankLabel''),
      dimm_capacity_bytes = optional_int (get_prop i ''Capacity''),
      dimm_memory_type = optional_int (get_prop i ''MemoryType''),
      dimm_memory_type_text = map_option (decode MEMORY_TYPE_TABLE) (optional_int (get_prop i ''MemoryType'')),
      dimm_form_factor = optional_int (get_prop i ''FormFactor''),
      dimm_speed_ns = optional_int (get_prop i ''Speed''),
      dimm_max_memory_speed_mhz = optional_int (get_prop i ''MaxMemorySpeed''),
      dimm_configured_clock_speed_mhz = optional_int (get_prop i ''ConfiguredMemoryClockSpeed''),
      dimm_is_speed_in_mhz = optional_bool (get_prop i ''IsSpeedInMhz''),
      dimm_manufacturer = optional_str (get_prop i ''Manufacturer''),
      dimm_part_number = optional_str (get_prop i ''PartNumber''),
      dimm_serial_number = optional_str (get_prop i ''SerialNumber''),
      dimm_tag = optional_str (get_prop i ''Tag''),
      dimm_element_name = optional_str (get_prop i ''ElementName''),
      dimm_operational_status = fst (operational_status_of i),
      dimm_operational_status_text = snd (operational_status_of i)\<rparr>"

definition dimm_asdict :: "MemoryInfo \<Rightarrow> val" where
  "dimm_asdict r = VDict
     [(''bank_label'', opt_val VStr (dimm_bank_label r)),
      (''capacity_bytes'', opt_val VInt (dimm_capacity_bytes r)),
      (''memory_type'', opt_val VInt (dimm_memory_type r)),
      (''memory_type_text'', opt_val VStr (dimm_memory_type_text r)),
      (''form_factor'', opt_val VInt (dimm_form_factor r)),
      (''speed_ns'', opt_val VInt (dimm_speed_ns r)),
      (''max_memory_speed_mhz'', opt_val VInt (dimm_max_memory_speed_mhz r)),
      (''configured_clock_speed_mhz'', opt_val VInt (dimm_configured_clock_speed_mhz r)),
      (''is_speed_in_mhz'', opt_val VBool (dimm_is_speed_in_mhz r)),
      (''manufacturer'', opt_val VStr (dimm_manufacturer r)),
      (''part_number'', opt_val VStr (dimm_part_number r)),
      (''serial_number'', opt_val VStr (dimm_serial_number r)),
      (''tag'', opt_val VStr (dimm_tag r)),
      (''element_name'', opt_val VStr (dimm_element_name r)),
      (''operational_status'', opt_val int_vals (dimm_operational_status r)),
      (''operational_status_text'', opt_val str_vals (dimm_operational_status_text r))]"

record StorageInfo =
  disk_device_id :: "string option"
  disk_element_name :: "string option"
  disk_max_media_size_kb :: "int option"
  disk_capabilities :: "int list option"
  disk_capabilities_text :: "string list option"
  disk_security :: "int option"
  disk_security_text :: "string option"
  disk_enabled_state :: "int option"
  disk_enabled_state_text :: "string option"
  disk_enabled_default :: "int option"
  disk_enabled_default_text :: "string option"
  disk_requested_state :: "int option"
  disk_operational_status :: "int list option"
  disk_operational_status_text :: "string list option"

definition storage_from_instance :: "obj \<Rightarrow> StorageInfo" where
  "storage_from_instance i =
     \<lparr>disk_device_id = optional_str (get_prop i ''DeviceID''),
      disk_element_name = optional_str (get_prop i ''ElementName''),
      disk_max_media_size_kb = optional_int (get_prop i ''MaxMediaSize''),
      disk_capabilities = int_list (get_prop i ''Capabilities''),
      disk_capabilities_text = decode_list MEDIA_CAPABILITIES_TABLE (int_list (get_prop i ''Capabilities'')),
      disk_security = optional_int (get_prop i ''Security''),
      disk_security_text = map_option (decode MEDIA_SECURITY_TABLE) (optional_int (get_prop i ''Security'')),
      disk_enabled_state = optional_int (get_prop i ''EnabledState''),
      disk_enabled_state_text = map_option (decode ENABLED_STATE_TABLE) (optional_int (get_prop i ''EnabledState'')),
      disk_enabled_default = optional_int (get_prop i ''EnabledDefault''),
      disk_enabled_default_text = map_option (decode MEDIA_ENABLED_DEFAULT_TABLE) (optional_int (get_prop i ''EnabledDefault'')),
      disk_requested_state = optional_int (get_prop i ''RequestedState''),
      disk_operational_status = fst (operational_status_of i),
      disk_operational_status_text = snd (operational_status_of i)\<rparr>"

definition disk_asdict :: "StorageInfo \<Rightarrow> val" where
  "disk_asdict r = VDict
     [(''device_id'', opt_val VStr (disk_device_id r)),
      (''element_name'', opt_val VStr (disk_element_name r)),
      (''max_media_size_kb'', opt_val VInt (disk_max_media_size_kb r)),
      (''capabilities'', opt_val int_vals (disk_capabilities r)),
      (''capabilities_text'', opt_val str_vals (disk_capabilities_text r)),
      (''security'', opt_val VInt (disk_security r)),
      (''security_text'', opt_val VStr (disk_security_text r)),
      (''enabled_state'', opt_val VInt (disk_enabled_state r)),
      (''enabled_state_text'', opt_val VStr (disk_enabled_state_text r)),
      (''enabled_default'', opt_val VInt (disk_enabled_default r)),
      (''enabled_default_text'', opt_val VStr (disk_enabled_default_text r)),
      (''requested_state'', opt_val VInt (disk_requested_state r)),
      (''operational_status'', opt_val int_vals (disk_operational_status r)),
      (''operational_status_text'', opt_val str_vals (disk_operational_status_text r))]"

section \<open>Read outcomes and fact groups\<close>

datatype read_outcome = READ_OUTCOME_READ | READ_OUTCOME_EMPTY | READ_OUTCOME_ABSENT

record ClassRead =
  cr_fact_group :: string
  cr_outcome :: read_outcome
  cr_verb :: string
  cr_instances :: "nat option"
  cr_error_class :: "error_class option"
  cr_property_shapes :: "(string \<times> shape) list option"
  cr_property_names_dropped :: nat

text \<open>In the order of the classes, only those that were read.\<close>

definition render_class_reads :: "(string \<times> ClassRead) list \<Rightarrow> (string \<times> ClassRead) list" where
  "render_class_reads reads =
     List.map_filter (\<lambda>(cls, _). map_option (\<lambda>r. (cls, r)) (map_of reads cls)) FACT_GROUP_BY_CLASS"

record HardwareFacts =
  hf_chassis :: "ChassisInfo option"
  hf_baseboard :: "BaseboardInfo option"
  hf_processors :: "ProcessorInfo list option"
  hf_chips :: "ChipInfo list option"
  hf_memory :: "MemoryInfo list option"
  hf_storage :: "StorageInfo list option"
  hf_requested :: "string set"
  hf_reads :: "(string \<times> ClassRead) list"

definition hardware_groups :: "HardwareFacts \<Rightarrow> (string \<times> val) list" where
  "hardware_groups f =
     [(''chassis'', opt_val chassis_asdict (hf_chassis f)),
      (''baseboard'', opt_val board_asdict (hf_baseboard f)),
      (''processors'', opt_val (\<lambda>xs. VList (map cpu_asdict xs)) (hf_processors f)),
      (''chips'', opt_val (\<lambda>xs. VList (map chip_asdict xs)) (hf_chips f)),
      (''memory'', opt_val (\<lambda>xs. VList (map dimm_asdict xs)) (hf_memory f)),
      (''storage'', opt_val (\<lambda>xs. VList (map disk_asdict xs)) (hf_storage f))]"

text \<open>\<^verbatim>\<open>to_dict\<close>: an absent key means the group was not asked for.\<close>

definition hardware_to_dict :: "HardwareFacts \<Rightarrow> obj" where
  "hardware_to_dict f = filter (\<lambda>(name, _). name \<in> hf_requested f) (hardware_groups f)"

end
