(* ===== verification/Facts.thy ===== *)
theory Facts
  imports Hardware Wsman_Contract
begin

text \<open>
  Fact gathering: the read operations of \<^verbatim>\<open>AmtClient\<close> (\<^verbatim>\<open>plugins/module_utils/client.py\<close>) over any WS-Man
  client, and \<^verbatim>\<open>plugins/modules/amt_info.py\<close>.  Every class is read on its own and tolerated when the
  endpoint does not have it; a failure of the transport is not.
\<close>

section \<open>Tolerant reads\<close>

text \<open>\<^verbatim>\<open>except (ProtocolError, UnsupportedCapabilityError)\<close>, and \<^verbatim>\<open>err.error_class\<close>.\<close>

definition class_absent :: "exn \<Rightarrow> bool" where
  "class_absent x = has_class {PROTOCOL, UNSUPPORTED_CAPABILITY} x"

definition class_of_error :: "exn \<Rightarrow> error_class" where
  "class_of_error x = (case x of AmtError e \<Rightarrow> error_class e | _ \<Rightarrow> PROTOCOL)"

definition get_with_error_class :: "'s wsman_api \<Rightarrow> string \<Rightarrow> selectors \<Rightarrow> ('s, obj option \<times> error_class option) action" where
  "get_with_error_class w cls sel =
     catchA (bindA (api_get w cls sel) (\<lambda>i. ret (Some i, None))) class_absent
       (\<lambda>x. ret (None, Some (class_of_error x)))"

definition enumerate_with_error_class :: "'s wsman_api \<Rightarrow> string \<Rightarrow> ('s, val list option \<times> error_class option) action" where
  "enumerate_with_error_class w cls =
     catchA (bindA (api_enumerate w cls []) (\<lambda>vs. ret (Some vs, None))) class_absent
       (\<lambda>x. ret (None, Some (class_of_error x)))"

definition get_optional :: "'s wsman_api \<Rightarrow> string \<Rightarrow> selectors \<Rightarrow> ('s, obj option) action" where
  "get_optional w cls sel = catchA (bindA (api_get w cls sel) (\<lambda>i. ret (Some i))) class_absent (\<lambda>_. ret None)"

text \<open>\<^verbatim>\<open>(x or {})\<close>, and the dictionaries among the items of an enumeration.\<close>

definition or_empty :: "obj option \<Rightarrow> obj" where
  "or_empty x = (case x of None \<Rightarrow> [] | Some d \<Rightarrow> d)"

definition dict_items :: "val list option \<Rightarrow> obj list" where
  "dict_items vs = List.map_filter (\<lambda>v. case v of VDict d \<Rightarrow> Some d | _ \<Rightarrow> None) (case vs of None \<Rightarrow> [] | Some xs \<Rightarrow> xs)"

section \<open>Single facts\<close>

definition MANAGED_SYSTEM_SELECTOR :: selectors where "MANAGED_SYSTEM_SELECTOR = [(''Name'', ''ManagedSystem'')]"

definition ETHERNET_PORT_0_SELECTOR :: selectors where
  "ETHERNET_PORT_0_SELECTOR = [(''InstanceID'', ''Intel(r) AMT Ethernet Port Settings 0'')]"

definition get_ethernet_settings :: "'s wsman_api \<Rightarrow> ('s, EthernetSettings option) action" where
  "get_ethernet_settings w = bindA (get_optional w ''AMT_EthernetPortSettings'' ETHERNET_PORT_0_SELECTOR) (\<lambda>i.
     ret (if or_empty i = [] then None else Some (ethernet_from_instance (or_empty i))))"

definition get_system_state :: "'s wsman_api \<Rightarrow> ('s, SystemState option) action" where
  "get_system_state w = bindA (get_optional w ''CIM_ComputerSystem'' MANAGED_SYSTEM_SELECTOR) (\<lambda>i.
     ret (if or_empty i = [] then None else Some (system_from_instance (or_empty i))))"

definition first_some :: "('a \<Rightarrow> 'b option) \<Rightarrow> 'a list \<Rightarrow> 'b option" where
  "first_some f xs = (case List.map_filter f xs of [] \<Rightarrow> None | y # _ \<Rightarrow> Some y)"

definition get_bios_version :: "'s wsman_api \<Rightarrow> ('s, string option) action" where
  "get_bios_version w = bindA (get_optional w ''CIM_BIOSElement'' []) (\<lambda>i.
     case optional_str (get_prop (or_empty i) ''Version'') of
       Some v \<Rightarrow> ret (Some v)
     | None \<Rightarrow> bindA (enumerate_with_error_class w ''CIM_BIOSElement'') (\<lambda>(vs, _).
         ret (first_some (\<lambda>d. optional_str (get_prop d ''Version'')) (dict_items vs))))"

text \<open>The first item whose \<^verbatim>\<open>InstanceID\<close> is exactly \<^verbatim>\<open>AMT\<close> decides.\<close>

definition amt_identity :: "obj \<Rightarrow> bool" where
  "amt_identity d \<longleftrightarrow>
     strip (py_str (case map_of d ''InstanceID'' of None \<Rightarrow> VStr [] | Some v \<Rightarrow> v)) = ''AMT''"

definition get_amt_version :: "'s wsman_api \<Rightarrow> ('s, string option) action" where
  "get_amt_version w = bindA (enumerate_with_error_class w ''CIM_SoftwareIdentity'') (\<lambda>(vs, _).
     ret (case filter amt_identity (dict_items vs) of
         [] \<Rightarrow> None
       | d # _ \<Rightarrow> if get_prop d ''VersionString'' = VNone then None else Some (py_str (get_prop d ''VersionString''))))"

definition get_system_uuid :: "'s wsman_api \<Rightarrow> ('s, string option) action" where
  "get_system_uuid w = bindA (get_optional w ''CIM_ComputerSystemPackage'' []) (\<lambda>i.
     let v = get_prop (or_empty i) ''PlatformGUID'' in
     ret (if v = VNone then None
          else if strip (py_str v) = [] then None
          else Some (canonical_uuid (strip (py_str v)))))"

section \<open>Inventory\<close>

definition fact_group_of :: "string \<Rightarrow> string" where
  "fact_group_of cls = (case map_of FACT_GROUP_BY_CLASS cls of Some g \<Rightarrow> g | None \<Rightarrow> [])"

definition single_read :: "string \<Rightarrow> string \<Rightarrow> nat \<Rightarrow> obj \<Rightarrow> ClassRead" where
  "single_read cls verb n i = \<lparr>cr_fact_group = fact_group_of cls, cr_outcome = READ_OUTCOME_READ, cr_verb = verb,
     cr_instances = Some n, cr_error_class = None, cr_property_shapes = Some (fst (property_shapes cls i)),
     cr_property_names_dropped = snd (property_shapes cls i)\<rparr>"

definition plain_read :: "string \<Rightarrow> read_outcome \<Rightarrow> nat option \<Rightarrow> error_class option \<Rightarrow> ClassRead" where
  "plain_read cls outcome n err = \<lparr>cr_fact_group = fact_group_of cls, cr_outcome = outcome, cr_verb = ''Enumerate'',
     cr_instances = n, cr_error_class = err, cr_property_shapes = None, cr_property_names_dropped = 0\<rparr>"

definition read_single :: "'s wsman_api \<Rightarrow> string \<Rightarrow> ('s, obj option \<times> ClassRead) action" where
  "read_single w cls = bindA (get_with_error_class w cls []) (\<lambda>(i, _).
     if or_empty i \<noteq> [] then ret (i, single_read cls ''Get'' 1 (or_empty i))
     else bindA (enumerate_with_error_class w cls) (\<lambda>(vs, err).
       case err of
         Some e \<Rightarrow> ret (None, plain_read cls READ_OUTCOME_ABSENT None (Some e))
       | None \<Rightarrow> (case filter (\<lambda>d. d \<noteq> []) (dict_items vs) of
             [] \<Rightarrow> ret (None, plain_read cls READ_OUTCOME_EMPTY (Some 0) None)
           | d # ds \<Rightarrow> ret (Some d, single_read cls ''Enumerate'' (length (d # ds)) d))))"

definition read_many :: "(obj \<Rightarrow> 'a) \<Rightarrow> 's wsman_api \<Rightarrow> string \<Rightarrow> ('s, 'a list option \<times> ClassRead) action" where
  "read_many factory w cls = bindA (enumerate_with_error_class w cls) (\<lambda>(vs, err).
     case err of
       Some e \<Rightarrow> ret (None, plain_read cls READ_OUTCOME_ABSENT None (Some e))
     | None \<Rightarrow> (let records = map factory (dict_items vs)
               in ret (Some records, plain_read cls
                    (if records \<noteq> [] then READ_OUTCOME_READ else READ_OUTCOME_EMPTY) (Some (length records)) None)))"

text \<open>One subset's reads, done only when it was asked for.\<close>

definition when_asked :: "bool \<Rightarrow> ('s, 'a option \<times> ClassRead) action \<Rightarrow> string \<Rightarrow> ('s, 'a option \<times> (string \<times> ClassRead) list) action" where
  "when_asked b m cls = (if b then bindA m (\<lambda>(x, r). ret (x, [(cls, r)])) else ret (None, []))"

definition get_hardware_facts :: "'s wsman_api \<Rightarrow> string set \<Rightarrow> ('s, HardwareFacts option) action" where
  "get_hardware_facts w subsets =
     (let groups = requested_fact_groups subsets; system = SUBSET_SYSTEM \<in> subsets;
          cpu = SUBSET_PROCESSOR \<in> subsets
      in if groups = {} then ret None
         else bindA (when_asked system (read_single w ''CIM_Chassis'') ''CIM_Chassis'') (\<lambda>(chassis, r1).
           bindA (when_asked system (read_single w ''CIM_Card'') ''CIM_Card'') (\<lambda>(card, r2).
           bindA (when_asked cpu (read_many processor_from_instance w ''CIM_Processor'') ''CIM_Processor'') (\<lambda>(cpus, r3).
           bindA (when_asked cpu (read_many chip_from_instance w ''CIM_Chip'') ''CIM_Chip'') (\<lambda>(chips, r4).
           bindA (when_asked (SUBSET_MEMORY \<in> subsets) (read_many memory_from_instance w ''CIM_PhysicalMemory'')
               ''CIM_PhysicalMemory'') (\<lambda>(dimms, r5).
           bindA (when_asked (SUBSET_STORAGE \<in> subsets) (read_many storage_from_instance w ''CIM_MediaAccessDevice'')
               ''CIM_MediaAccessDevice'') (\<lambda>(disks, r6).
             ret (Some \<lparr>hf_chassis = map_option chassis_from_instance chassis,
               hf_baseboard = map_option baseboard_from_instance card, hf_processors = cpus, hf_chips = chips,
               hf_memory = dimms, hf_storage = disks, hf_requested = groups,
               hf_reads = r1 @ r2 @ r3 @ r4 @ r5 @ r6\<rparr>))))))))"

section \<open>All facts\<close>

record AmtCapabilities =
  cap_power :: bool
  cap_boot_once_pxe :: bool
  cap_sol :: bool
  cap_storage_redirection :: bool

record AmtFacts =
  fact_version :: "string option"
  fact_uuid :: "string option"
  fact_control_mode :: val
  fact_provisioning_state :: val
  fact_power_state :: "PowerState option"
  fact_reported_hostname :: val
  fact_capabilities :: AmtCapabilities
  fact_redirection :: "RedirectionState option"
  fact_reported_domain_name :: "string option"
  fact_idle_wake_timeout :: "int option"
  fact_ping_response_enabled :: "bool option"
  fact_rmcp_ping_response_enabled :: "bool option"
  fact_network_interface_enabled :: "bool option"
  fact_ddns_update_enabled :: "bool option"
  fact_network :: "EthernetSettings option"
  fact_system_state :: "SystemState option"
  fact_bios_version :: "string option"
  fact_hardware :: "HardwareFacts option"

definition power_state_fact :: "obj option \<Rightarrow> PowerState option" where
  "power_state_fact assoc =
     (if get_prop (or_empty assoc) ''PowerState'' = VNone then None
      else Some (from_cim_value (get_prop (or_empty assoc) ''PowerState'')))"

definition capability_flags :: "PowerState option \<Rightarrow> obj option \<Rightarrow> AmtCapabilities" where
  "capability_flags p caps =
     \<lparr>cap_power = (p \<noteq> None), cap_boot_once_pxe = truthy (get_prop (or_empty caps) ''ForcePXEBoot''),
      cap_sol = truthy (get_prop (or_empty caps) ''SOL''),
      cap_storage_redirection = truthy (get_prop (or_empty caps) ''IDER'')\<rparr>"

definition redirection_fact :: "obj option \<Rightarrow> RedirectionState option" where
  "redirection_fact x = map_option (\<lambda>r. from_enabled_state
     (case map_of r ''EnabledState'' of None \<Rightarrow> VInt (-1) | Some v \<Rightarrow> v) (truthy (get_prop r ''ListenerEnabled''))) x"

definition get_facts :: "'s wsman_api \<Rightarrow> string set \<Rightarrow> ('s, AmtFacts) action" where
  "get_facts w subsets =
     bindA (get_optional w ''AMT_GeneralSettings'' []) (\<lambda>general.
     bindA (get_optional w ''AMT_SetupAndConfigurationService'' []) (\<lambda>setup.
     bindA (get_optional w ''CIM_AssociatedPowerManagementService'' []) (\<lambda>assoc.
     bindA (get_optional w ''AMT_BootCapabilities'' []) (\<lambda>caps.
     bindA (get_optional w ''AMT_RedirectionService'' []) (\<lambda>redirection.
     bindA (get_amt_version w) (\<lambda>version.
     bindA (get_system_uuid w) (\<lambda>uuid.
     bindA (get_ethernet_settings w) (\<lambda>network.
     bindA (get_system_state w) (\<lambda>system.
     bindA (get_bios_version w) (\<lambda>bios.
     bindA (get_hardware_facts w subsets) (\<lambda>hardware.
       let g = or_empty general; p = power_state_fact assoc in
       ret \<lparr>fact_version = version, fact_uuid = uuid,
         fact_control_mode = get_prop (or_empty setup) ''ProvisioningMode'',
         fact_provisioning_state = get_prop (or_empty setup) ''ProvisioningState'',
         fact_power_state = p, fact_reported_hostname = get_prop g ''HostName'',
         fact_capabilities = capability_flags p caps, fact_redirection = redirection_fact redirection,
         fact_reported_domain_name = optional_str (get_prop g ''DomainName''),
         fact_idle_wake_timeout = optional_int (get_prop g ''IdleWakeTimeout''),
         fact_ping_response_enabled = optional_bool (get_prop g ''PingResponseEnabled''),
         fact_rmcp_ping_response_enabled = optional_bool (get_prop g ''RmcpPingResponseEnabled''),
         fact_network_interface_enabled = optional_bool (get_prop g ''NetworkInterfaceEnabled''),
         fact_ddns_update_enabled = optional_bool (get_prop g ''DDNSUpdateEnabled''),
         fact_network = network, fact_system_state = system, fact_bios_version = bios,
         fact_hardware = hardware\<rparr>)))))))))))"

section \<open>The module\<close>

definition power_asdict :: "PowerState \<Rightarrow> val" where
  "power_asdict p = VDict [(''normalized'', VStr (normalized p)), (''raw'', VInt (raw p))]"

definition redirection_asdict :: "RedirectionState \<Rightarrow> val" where
  "redirection_asdict r = VDict [(''enabled_state'', VInt (redir_enabled_state r)),
     (''listener_enabled'', VBool (listener_enabled r)), (''ider_enabled'', VBool (ider_enabled r)),
     (''sol_enabled'', VBool (sol_enabled r))]"

definition capabilities_asdict :: "AmtCapabilities \<Rightarrow> val" where
  "capabilities_asdict c = VDict [(''power'', VBool (cap_power c)), (''boot_once_pxe'', VBool (cap_boot_once_pxe c)),
     (''sol'', VBool (cap_sol c)), (''storage_redirection'', VBool (cap_storage_redirection c))]"

definition ethernet_asdict :: "EthernetSettings \<Rightarrow> val" where
  "ethernet_asdict e = VDict
     [(''mac_address'', opt_val VStr (mac_address e)), (''mac_address_raw'', opt_val VStr (mac_address_raw e)),
      (''ip_address'', opt_val VStr (ip_address e)), (''subnet_mask'', opt_val VStr (subnet_mask e)),
      (''default_gateway'', opt_val VStr (default_gateway e)), (''primary_dns'', opt_val VStr (primary_dns e)),
      (''secondary_dns'', opt_val VStr (secondary_dns e)), (''dhcp_enabled'', opt_val VBool (dhcp_enabled e)),
      (''link_is_up'', opt_val VBool (link_is_up e)), (''ip_sync_enabled'', opt_val VBool (ip_sync_enabled e)),
      (''link_policy'', opt_val int_vals (link_policy e)),
      (''link_policy_names'', opt_val str_vals (link_policy_names e)),
      (''wake_on_lan_capable'', opt_val VBool (wake_on_lan_capable e))]"

definition system_asdict :: "SystemState \<Rightarrow> val" where
  "system_asdict s = VDict
     [(''element_name'', opt_val VStr (element_name s)), (''enabled_state'', opt_val VInt (enabled_state s)),
      (''enabled_state_text'', opt_val VStr (enabled_state_text s)),
      (''requested_state'', opt_val VInt (requested_state s)),
      (''operational_status'', opt_val int_vals (operational_status s)),
      (''operational_status_text'', opt_val str_vals (operational_status_text s))]"

definition amt_facts_to_dict :: "AmtFacts \<Rightarrow> obj" where
  "amt_facts_to_dict f =
     [(''reachable'', VBool True), (''version'', opt_val VStr (fact_version f)), (''uuid'', opt_val VStr (fact_uuid f)),
      (''control_mode'', fact_control_mode f), (''provisioning_state'', fact_provisioning_state f),
      (''hostname'', fact_reported_hostname f), (''power_state'', opt_val power_asdict (fact_power_state f)),
      (''capabilities'', capabilities_asdict (fact_capabilities f)),
      (''redirection_status'', opt_val redirection_asdict (fact_redirection f)),
      (''domain_name'', opt_val VStr (fact_reported_domain_name f)),
      (''idle_wake_timeout'', opt_val VInt (fact_idle_wake_timeout f)),
      (''ping_response_enabled'', opt_val VBool (fact_ping_response_enabled f)),
      (''rmcp_ping_response_enabled'', opt_val VBool (fact_rmcp_ping_response_enabled f)),
      (''network_interface_enabled'', opt_val VBool (fact_network_interface_enabled f)),
      (''ddns_update_enabled'', opt_val VBool (fact_ddns_update_enabled f)),
      (''network'', opt_val ethernet_asdict (fact_network f)),
      (''system_state'', opt_val system_asdict (fact_system_state f)),
      (''bios_version'', opt_val VStr (fact_bios_version f)),
      (''hardware'', opt_val (\<lambda>h. VDict (hardware_to_dict h)) (fact_hardware f))]"

text \<open>The module's result: the facts, and what the read resolved to and cost.\<close>

record info_result =
  info_amt :: obj
  info_gather_subset :: "string list"
  info_requests_estimated :: int
  info_hardware_reads :: "(string \<times> ClassRead) list option"

definition amt_info_main :: "'s wsman_api \<Rightarrow> string list \<Rightarrow> ('s, info_result) action" where
  "amt_info_main w gather_subset =
     (let subsets = resolve_gather_subset gather_subset
      in bindA (get_facts w subsets) (\<lambda>f. ret
        \<lparr>info_amt = amt_facts_to_dict f, info_gather_subset = sorted_list_of_set subsets,
         info_requests_estimated = round_trip_estimate subsets,
         info_hardware_reads = (case fact_hardware f of
             Some h \<Rightarrow> if hf_reads h \<noteq> [] then Some (render_class_reads (hf_reads h)) else None
           | None \<Rightarrow> None)\<rparr>))"

end
