(* ===== verification/Facts_Properties.thy ===== *)
theory Facts_Properties
  imports Facts Wsman_Demo
begin

text \<open>The properties of fact gathering: subsets, the shape census, tolerance, and the inventory's outcomes.\<close>

section \<open>Subsets\<close>

definition included :: "string list \<Rightarrow> string set" where
  "included es = (\<Union>e \<in> set es. fst (subset_entry e))"

definition excluded :: "string list \<Rightarrow> string set" where
  "excluded es = (\<Union>e \<in> set es. snd (subset_entry e))"

lemma subset_fold:
  "foldl (\<lambda>(a, x) entry. case subset_entry entry of (a', x') \<Rightarrow> (a \<union> a', x \<union> x')) (a, x) es
   = (a \<union> included es, x \<union> excluded es)"
  by (induction es arbitrary: a x) (auto simp: included_def excluded_def split: prod.splits)

lemma subset_entry_valid: "fst (subset_entry e) \<subseteq> VALID_SUBSETS"
  by (auto simp: subset_entry_def Let_def MINIMAL_SUBSET_def VALID_SUBSETS_def split: if_splits)

lemma round_trips_simps [simp]:
  "round_trips ''config'' = 10" "round_trips ''system'' = 2" "round_trips ''processor'' = 4"
  "round_trips ''memory'' = 2" "round_trips ''storage'' = 2"
  by (simp_all add: round_trips_def ROUND_TRIPS_BY_SUBSET_def subset_names)

lemma round_trips_nonneg: "0 \<le> round_trips s"
  by (auto simp: round_trips_def ROUND_TRIPS_BY_SUBSET_def subset_names)

text \<open>
  The subset list means what its entries say, in whatever order and however often they are
  repeated: everything included (all, if nothing is), less everything excluded, and always the
  minimal subset.  So only known subsets come out, and the estimated cost is between 10 and 20
  requests.
\<close>

lemma subset_resolution:
  "resolve_gather_subset es
     = ((if included es = {} then VALID_SUBSETS else included es) - excluded es) \<union> {''config''}
   \<and> (set es = set fs \<longrightarrow> resolve_gather_subset es = resolve_gather_subset fs)
   \<and> resolve_gather_subset es \<subseteq> VALID_SUBSETS
   \<and> 10 \<le> round_trip_estimate (resolve_gather_subset es) \<and> round_trip_estimate (resolve_gather_subset es) \<le> 20"
proof -
  have eq: "resolve_gather_subset es
      = ((if included es = {} then VALID_SUBSETS else included es) - excluded es) \<union> {''config''}" for es
    by (auto simp: resolve_gather_subset_def subset_fold Let_def MINIMAL_SUBSET_def subset_names)
  moreover have "included es = included fs \<and> excluded es = excluded fs" if "set es = set fs"
    using that by (simp add: included_def excluded_def)
  moreover have sub: "resolve_gather_subset es \<subseteq> VALID_SUBSETS"
  proof -
    have "included es \<subseteq> VALID_SUBSETS" using subset_entry_valid by (auto simp: included_def)
    moreover have "''config'' \<in> VALID_SUBSETS" by (simp add: VALID_SUBSETS_def subset_names)
    ultimately show ?thesis unfolding eq by auto
  qed
  moreover have fin: "finite VALID_SUBSETS" by (simp add: VALID_SUBSETS_def)
  have "round_trip_estimate (resolve_gather_subset es) \<le> sum round_trips VALID_SUBSETS"
    unfolding round_trip_estimate_def by (rule sum_mono2 [OF fin sub]) (rule round_trips_nonneg)
  moreover have "sum round_trips {''config''} \<le> round_trip_estimate (resolve_gather_subset es)"
    unfolding round_trip_estimate_def
    by (rule sum_mono2 [OF finite_subset [OF sub fin]]) (auto simp: eq round_trips_nonneg)
  ultimately show ?thesis by (simp add: VALID_SUBSETS_def subset_names)
qed

section \<open>Census\<close>

definition parsed_value :: "val \<Rightarrow> bool" where
  "parsed_value v \<longleftrightarrow> (case v of VStr _ \<Rightarrow> True | VDict _ \<Rightarrow> True | VList _ \<Rightarrow> True | _ \<Rightarrow> False)"

text \<open>
  The census explains every null.  For an instance as the XML parser builds it, each well-formed
  property name that is read or was sent appears exactly once with one shape, and the text fact of
  that property is null exactly when the shape is not text; names of another form are only counted.
\<close>

lemma census_explains_null:
  assumes "\<forall>(k, v) \<in> set i. parsed_value v" "n \<in> census_names cls i"
  shows "if cim_property_name n
    then \<exists>!sh. (n, sh) \<in> set (fst (property_shapes cls i)) \<and>
           (optional_str (get_prop i n) = None \<longleftrightarrow> sh \<noteq> SHAPE_TEXT) \<and> (map_of i n = None \<longleftrightarrow> sh = SHAPE_ABSENT)
    else (\<forall>sh. (n, sh) \<notin> set (fst (property_shapes cls i))) \<and> 0 < snd (property_shapes cls i)"
proof -
  let ?sh = "case map_of i n of Some v \<Rightarrow> shape_of v | None \<Rightarrow> SHAPE_ABSENT"
  have fin: "finite (census_names cls i)" by (simp only: census_names_def finite_Un finite_set simp_thms)
  have mem: "(n, sh) \<in> set (fst (property_shapes cls i)) \<longleftrightarrow> cim_property_name n \<and> sh = ?sh" for sh
    using fin assms(2) by (auto simp: property_shapes_def Let_def)
  show ?thesis
  proof (cases "cim_property_name n")
    case True
    have "optional_str (get_prop i n) = None \<longleftrightarrow> ?sh \<noteq> SHAPE_TEXT" "map_of i n = None \<longleftrightarrow> ?sh = SHAPE_ABSENT"
    proof -
      have "parsed_value v" if "map_of i n = Some v" for v
        using assms(1) map_of_SomeD [OF that] by auto
      then show "optional_str (get_prop i n) = None \<longleftrightarrow> ?sh \<noteq> SHAPE_TEXT" "map_of i n = None \<longleftrightarrow> ?sh = SHAPE_ABSENT"
        by (auto simp: get_prop_def optional_str_def shape_of_def parsed_value_def py_str_def
            split: option.splits val.splits if_splits)
    qed
    then show ?thesis unfolding mem if_P [OF True] using True by (intro ex1I [of _ ?sh]) blast+
  next
    case False
    have "Set.filter cim_property_name (census_names cls i) \<subset> census_names cls i"
      using False assms(2) by auto
    then have "card (Set.filter cim_property_name (census_names cls i)) < card (census_names cls i)"
      by (rule psubset_card_mono [OF fin])
    with mem False show ?thesis by (simp add: property_shapes_def Let_def)
  qed
qed

section \<open>Tolerance\<close>

text \<open>An action whose exceptions all satisfy \<open>P\<close>.\<close>

definition raises_only :: "(exn \<Rightarrow> bool) \<Rightarrow> ('s, 'a) action \<Rightarrow> bool" where
  "raises_only P m \<longleftrightarrow> (\<forall>s x. fst (m s) = Raise x \<longrightarrow> P x)"

named_theorems raises_intros \<open>rules about the exceptions of an action\<close>

lemma raises_ret [raises_intros]: "raises_only P (ret x)"
  by (simp add: raises_only_def)

lemma raises_bind [raises_intros]:
  "raises_only P m \<Longrightarrow> (\<And>x. raises_only P (k x)) \<Longrightarrow> raises_only P (bindA m k)"
  unfolding raises_only_def bindA_def by (auto split: prod.splits outcome.splits) (metis fst_conv)+

lemma raises_catch: "(\<And>e. raises_only (\<lambda>x. \<not> p x) (h e)) \<Longrightarrow> raises_only (\<lambda>x. \<not> p x) (catchA m p h)"
  by (auto simp: raises_only_def catchA_def split: prod.splits outcome.splits if_splits)

lemma raises_if [raises_intros]: "(b \<Longrightarrow> raises_only P m) \<Longrightarrow> (\<not> b \<Longrightarrow> raises_only P n) \<Longrightarrow> raises_only P (if b then m else n)"
  by simp

lemma raises_case_option [raises_intros]:
  "raises_only P m \<Longrightarrow> (\<And>y. raises_only P (k y)) \<Longrightarrow> raises_only P (case x of None \<Rightarrow> m | Some y \<Rightarrow> k y)"
  by (cases x) auto

lemma raises_case_list [raises_intros]:
  "raises_only P m \<Longrightarrow> (\<And>y ys. raises_only P (k y ys)) \<Longrightarrow> raises_only P (case xs of [] \<Rightarrow> m | y # ys \<Rightarrow> k y ys)"
  by (cases xs) auto

lemma raises_case_prod [raises_intros]:
  "(\<And>x y. raises_only P (k x y)) \<Longrightarrow> raises_only P (case p of (x, y) \<Rightarrow> k x y)"
  by (cases p) auto

lemma raises_reads [raises_intros]:
  "raises_only (\<lambda>x. \<not> class_absent x) (get_with_error_class w cls sel)"
  "raises_only (\<lambda>x. \<not> class_absent x) (enumerate_with_error_class w cls)"
  "raises_only (\<lambda>x. \<not> class_absent x) (get_optional w cls sel)"
  unfolding get_with_error_class_def enumerate_with_error_class_def get_optional_def
  by (intro raises_catch raises_ret)+

lemma raises_facts [raises_intros]:
  "raises_only (\<lambda>x. \<not> class_absent x) (read_single w cls)"
  "raises_only (\<lambda>x. \<not> class_absent x) (read_many factory w cls)"
  "raises_only (\<lambda>x. \<not> class_absent x) (get_ethernet_settings w)"
  "raises_only (\<lambda>x. \<not> class_absent x) (get_system_state w)"
  "raises_only (\<lambda>x. \<not> class_absent x) (get_bios_version w)"
  "raises_only (\<lambda>x. \<not> class_absent x) (get_amt_version w)"
  "raises_only (\<lambda>x. \<not> class_absent x) (get_system_uuid w)"
  unfolding read_single_def read_many_def get_ethernet_settings_def get_system_state_def get_bios_version_def
    get_amt_version_def get_system_uuid_def Let_def
  by (intro raises_intros)+

lemma raises_when [raises_intros]: "raises_only P m \<Longrightarrow> raises_only P (when_asked b m cls)"
  unfolding when_asked_def by (intro raises_intros)


context wsman_contract
begin

lemma facts_reads_silent:
  "posts log [] (get_with_error_class api cls sel)" "posts log [] (enumerate_with_error_class api cls)"
  "posts log [] (get_optional api cls sel)"
  unfolding get_with_error_class_def enumerate_with_error_class_def get_optional_def
  by (intro posts_intros silent)+

lemma posts_case_pair: "(\<And>x y. posts log es (k x y)) \<Longrightarrow> posts log es (case p of (x, y) \<Rightarrow> k x y)"
  by (cases p) auto

lemma facts_silent_parts:
  "posts log [] (read_single api cls)" "posts log [] (read_many factory api cls)"
  "posts log [] (get_ethernet_settings api)" "posts log [] (get_system_state api)"
  "posts log [] (get_bios_version api)" "posts log [] (get_amt_version api)" "posts log [] (get_system_uuid api)"
  unfolding read_single_def read_many_def get_ethernet_settings_def get_system_state_def get_bios_version_def
    get_amt_version_def get_system_uuid_def Let_def
  by (intro posts_intros posts_case_pair facts_reads_silent)+

lemma when_asked_silent: "posts log [] m \<Longrightarrow> posts log [] (when_asked b m cls)"
  unfolding when_asked_def by (intro posts_intros posts_case_pair)

lemma info_main_silent: "posts log [] (amt_info_main api subsets)"
  unfolding amt_info_main_def get_facts_def get_hardware_facts_def Let_def
  by (intro posts_intros posts_case_pair when_asked_silent facts_silent_parts facts_reads_silent)

end



section \<open>Inventory\<close>



definition is_dict :: "val \<Rightarrow> bool" where
  "is_dict v \<longleftrightarrow> (\<exists>d. v = VDict d)"


lemma enumerate_class_outcome:
  assumes "enumerate_with_error_class w cls s = (Ok (vs, err), t)"
  shows "(vs = None \<longleftrightarrow> err \<noteq> None)"
  using assms by (auto simp: enumerate_with_error_class_def catchA_def bindA_def
      split: prod.splits outcome.splits if_splits)


















end
