(* ===== verification/Media_Session.thy ===== *)
theory Media_Session
  imports Ider_Media Tls
begin

text \<open>
  The bookkeeping of media sessions (\<^verbatim>\<open>plugins/module_utils/media_session.py\<close>): what a session is asked to
  do, the state file and its three writers, process identities, the bounded waits, the validation of
  the images and the spawning of the daemon.  The daemon itself is in theory \<open>Media_Daemon\<close>.

  The controller machine (files, processes, clock, \<^verbatim>\<open>fork\<close>) is the record \<open>host\<close> of functions over a
  world \<open>'e\<close>; nothing is assumed of them.  The text of a state file is abstracted to the JSON value it
  holds; numbers in it are integers.  The clock counts milliseconds.
\<close>

section \<open>Session states and configuration\<close>

definition STATE_STARTING :: string where "STATE_STARTING = ''starting''"
definition STATE_CONNECTING :: string where "STATE_CONNECTING = ''connecting''"
definition STATE_ATTACHED :: string where "STATE_ATTACHED = ''attached''"
definition STATE_DETACHED :: string where "STATE_DETACHED = ''detached''"
definition STATE_ERROR :: string where "STATE_ERROR = ''error''"

lemmas state_names = STATE_STARTING_def STATE_CONNECTING_def STATE_ATTACHED_def STATE_DETACHED_def STATE_ERROR_def

definition TERMINAL_STATES :: "string list" where "TERMINAL_STATES = [STATE_DETACHED, STATE_ERROR]"

definition STATE_POLL_INTERVAL :: int where "STATE_POLL_INTERVAL = 200"
definition FEATURE_TOGGLE_TIMEOUT :: int where "FEATURE_TOGGLE_TIMEOUT = 5000"

record MediaSpec =
  spec_path :: string
  spec_device :: int
  spec_writable :: bool

record SessionConfig =
  cfg_session_id :: string
  cfg_host :: string
  cfg_port :: int
  cfg_use_tls :: bool
  cfg_tls_pin_sha256 :: "string option"
  cfg_connect_timeout :: int
  cfg_start_mode :: int
  cfg_allowed_directory :: "string option"
  cfg_runtime_dir :: string
  cfg_devices :: "MediaSpec list"

definition cfg_endpoint :: "SessionConfig \<Rightarrow> string" where
  "cfg_endpoint c = cfg_host c @ '':'' @ show_int (cfg_port c)"

section \<open>State records\<close>

text \<open>The names of the classes (\<^verbatim>\<open>ErrorClass\<close>), as they stand in a record.\<close>

definition error_class_name :: "error_class \<Rightarrow> string" where
  "error_class_name c = (case c of
      CONNECTION \<Rightarrow> ''connection'' | TLS_VALIDATION \<Rightarrow> ''tls_validation'' | AUTHENTICATION \<Rightarrow> ''authentication''
    | UNSUPPORTED_CAPABILITY \<Rightarrow> ''unsupported_capability'' | INVALID_STATE \<Rightarrow> ''invalid_state''
    | TIMEOUT \<Rightarrow> ''timeout'' | PROTOCOL \<Rightarrow> ''protocol'' | REMOTE_OPERATION \<Rightarrow> ''remote_operation''
    | IDENTITY_MISMATCH \<Rightarrow> ''identity_mismatch'')"

text \<open>\<^verbatim>\<open>d[k] = v\<close> is \<open>AList.update k v d\<close>; \<open>get_prop\<close> is \<^verbatim>\<open>d.get(k)\<close>.\<close>

definition initial_state :: "string \<Rightarrow> string \<Rightarrow> int \<Rightarrow> string \<Rightarrow> obj" where
  "initial_state session_id endpoint pid now =
     [(''session_id'', VStr session_id), (''pid'', VInt pid), (''endpoint'', VStr endpoint),
      (''state'', VStr STATE_STARTING), (''error'', VNone), (''error_class'', VNone),
      (''tls_peer_fingerprint'', VNone), (''devices'', VDict []),
      (''started_at'', VStr now), (''updated_at'', VStr now)]"

text \<open>\<^verbatim>\<open>bool(value)\<close>.\<close>

definition py_bool :: "val \<Rightarrow> bool" where
  "py_bool v = (case v of
      VNone \<Rightarrow> False | VBool b \<Rightarrow> b | VInt n \<Rightarrow> n \<noteq> 0 | VStr s \<Rightarrow> s \<noteq> [] | VList xs \<Rightarrow> xs \<noteq> []
    | VDict d \<Rightarrow> d \<noteq> [] | VRef _ _ \<Rightarrow> True)"

text \<open>\<^verbatim>\<open>int(value)\<close>.\<close>

definition to_int :: "val \<Rightarrow> int outcome" where
  "to_int v = (case v of
      VInt n \<Rightarrow> Ok n
    | VBool b \<Rightarrow> Ok (if b then 1 else 0)
    | VStr s \<Rightarrow> (case py_int 10 s of Some n \<Rightarrow> Ok n | None \<Rightarrow> Raise (PyError ValueError))
    | _ \<Rightarrow> Raise (PyError TypeError))"

fun sum_counters :: "string \<Rightarrow> val list \<Rightarrow> int outcome" where
  "sum_counters k [] = Ok 0"
| "sum_counters k (v # vs) = (case v of
      VDict d \<Rightarrow> (case to_int (case map_of d k of None \<Rightarrow> VInt 0 | Some x \<Rightarrow> x) of
          Raise x \<Rightarrow> Raise x
        | Ok n \<Rightarrow> (case sum_counters k vs of Raise x \<Rightarrow> Raise x | Ok m \<Rightarrow> Ok (n + m)))
    | _ \<Rightarrow> Raise (PyError AttributeError))"

definition aggregate_bytes :: "obj option \<Rightarrow> (int \<times> int) outcome" where
  "aggregate_bytes state = (case state of
      None \<Rightarrow> Ok (0, 0)
    | Some d \<Rightarrow>
        if d = [] then Ok (0, 0)
        else (case (if py_bool (get_prop d ''devices'') then get_prop d ''devices'' else VDict []) of
            VDict ds \<Rightarrow> (case sum_counters ''bytes_read'' (map snd ds) of
                Raise x \<Rightarrow> Raise x
              | Ok r \<Rightarrow> (case sum_counters ''bytes_written'' (map snd ds) of
                    Raise x \<Rightarrow> Raise x
                  | Ok w \<Rightarrow> Ok (r, w)))
          | _ \<Rightarrow> Raise (PyError AttributeError)))"

section \<open>The state file and its writers\<close>

text \<open>What reading the path gives: no file, a failing read, text that is no JSON, or a JSON value.\<close>

datatype file_view = Missing | Unreadable py_exc | Garbled | Json val

definition parse_state :: "file_view \<Rightarrow> obj option outcome" where
  "parse_state f = (case f of
      Missing \<Rightarrow> Ok None
    | Unreadable x \<Rightarrow> Raise (PyError x)
    | Garbled \<Rightarrow> Ok None
    | Json v \<Rightarrow> (case v of VDict d \<Rightarrow> Ok (Some d) | _ \<Rightarrow> Ok None))"

text \<open>
  The file as the kernel sees it: the inode the path names with its text, and the inode that
  \<^verbatim>\<open>spawn_session\<close> holds open after creating it.  The daemon replaces the file by a complete new one
  (\<^verbatim>\<open>_write_state_atomic\<close>: a temporary file and \<^verbatim>\<open>os.replace\<close>); the parent creates it exclusively and
  fills it afterwards (\<^verbatim>\<open>_write_state_if_absent\<close>: \<^verbatim>\<open>O_CREAT | O_EXCL\<close>, then \<^verbatim>\<open>json.dump\<close>).
\<close>

record shared_file =
  named :: "(nat \<times> file_view) option"
  next_inode :: nat
  parent_handle :: "nat option"

datatype file_event = DaemonWrites obj | ParentCreates | ParentFills obj

fun file_step :: "file_event \<Rightarrow> shared_file \<Rightarrow> shared_file" where
  "file_step (DaemonWrites d) f =
     f\<lparr>named := Some (next_inode f, Json (VDict d)), next_inode := next_inode f + 1\<rparr>"
| "file_step ParentCreates f = (case named f of
      Some _ \<Rightarrow> f
    | None \<Rightarrow> f\<lparr>named := Some (next_inode f, Garbled), next_inode := next_inode f + 1,
               parent_handle := Some (next_inode f)\<rparr>)"
| "file_step (ParentFills d) f = (case (named f, parent_handle f) of
      (Some (i, _), Some h) \<Rightarrow> if i = h then f\<lparr>named := Some (i, Json (VDict d))\<rparr> else f
    | _ \<Rightarrow> f)"

definition no_file :: shared_file where
  "no_file = \<lparr>named = None, next_inode = 0, parent_handle = None\<rparr>"

definition file_contents :: "shared_file \<Rightarrow> file_view" where
  "file_contents f = (case named f of None \<Rightarrow> Missing | Some (_, v) \<Rightarrow> v)"

section \<open>The controller machine\<close>

datatype kill_result = Delivered | NoProcess | NotPermitted | KillFailed exn
datatype fork_result = NoFork | Reported string

text \<open>
  Files are addressed by runtime directory and session id.  \<open>h_kill\<close> takes the pid and whether the
  signal is \<^verbatim>\<open>SIGTERM\<close> (else signal 0); \<open>h_create\<close> is the exclusive creation (whether it created);
  \<open>h_spawn\<close> is the double fork with what came back over the pipe.
\<close>

record 'e host =
  h_read :: "string \<Rightarrow> string \<Rightarrow> 'e \<Rightarrow> file_view \<times> 'e"
  h_remove :: "string \<Rightarrow> string \<Rightarrow> 'e \<Rightarrow> 'e"
  h_create :: "string \<Rightarrow> string \<Rightarrow> obj \<Rightarrow> 'e \<Rightarrow> bool \<times> 'e"
  h_kill :: "int \<Rightarrow> bool \<Rightarrow> 'e \<Rightarrow> kill_result \<times> 'e"
  h_clock :: "'e \<Rightarrow> int \<times> 'e"
  h_sleep :: "int \<Rightarrow> 'e \<Rightarrow> 'e"
  h_spawn :: "SessionConfig \<Rightarrow> string \<Rightarrow> string \<Rightarrow> 'e \<Rightarrow> fork_result \<times> 'e"
  h_now_iso :: "'e \<Rightarrow> string"
  h_uuid_hex :: "'e \<Rightarrow> string \<times> 'e"
  h_files :: "'e \<Rightarrow> filesystem"
  h_path :: "string \<Rightarrow> path"

text \<open>What a controller did to its machine, in order.\<close>

datatype effect = Removed string string | Spawned SessionConfig | Created string string | Terminated int | Warned

record 'e controller =
  c_host :: "'e host"
  c_world :: 'e
  c_effects :: "effect list"
  c_rounds :: nat

definition on_world :: "('e host \<Rightarrow> 'e \<Rightarrow> 'a \<times> 'e) \<Rightarrow> ('e controller, 'a) action" where
  "on_world f c = (case f (c_host c) (c_world c) of (x, w) \<Rightarrow> (Ok x, c\<lparr>c_world := w\<rparr>))"

definition did :: "effect \<Rightarrow> ('e controller, unit) action" where
  "did x = modify (\<lambda>c. c\<lparr>c_effects := c_effects c @ [x]\<rparr>)"

definition read_state_file :: "string \<Rightarrow> string \<Rightarrow> ('e controller, obj option) action" where
  "read_state_file dir sid = bindA (on_world (\<lambda>h. h_read h dir sid)) (\<lambda>f. liftA (parse_state f))"

definition remove_state :: "string \<Rightarrow> string \<Rightarrow> ('e controller, unit) action" where
  "remove_state dir sid = thenA (on_world (\<lambda>h w. ((), h_remove h dir sid w))) (did (Removed dir sid))"

definition write_state_if_absent :: "string \<Rightarrow> string \<Rightarrow> obj \<Rightarrow> ('e controller, bool) action" where
  "write_state_if_absent dir sid d = bindA (on_world (\<lambda>h. h_create h dir sid d)) (\<lambda>b.
     if b then thenA (did (Created dir sid)) (ret True) else ret False)"

section \<open>Processes\<close>

text \<open>A pid as it stands in a record: \<^verbatim>\<open>None\<close>, an integer, or something \<^verbatim>\<open><=\<close> does not compare.\<close>

definition pid_of :: "val \<Rightarrow> int option outcome" where
  "pid_of v = (case v of
      VNone \<Rightarrow> Ok None
    | VInt p \<Rightarrow> Ok (Some p)
    | VBool b \<Rightarrow> Ok (Some (if b then 1 else 0))
    | _ \<Rightarrow> Raise (PyError TypeError))"

definition is_pid_alive :: "val \<Rightarrow> ('e controller, bool) action" where
  "is_pid_alive v = bindA (liftA (pid_of v)) (\<lambda>pid. case pid of
      None \<Rightarrow> ret False
    | Some p \<Rightarrow> if p \<le> 0 then ret False
        else bindA (on_world (\<lambda>h. h_kill h p False)) (\<lambda>k. case k of
            NoProcess \<Rightarrow> ret False
          | NotPermitted \<Rightarrow> ret True
          | Delivered \<Rightarrow> ret True
          | KillFailed x \<Rightarrow> throw x))"

text \<open>\<^verbatim>\<open>request_stop\<close>: only a process that is gone is passed over in silence.\<close>

definition request_stop :: "val \<Rightarrow> ('e controller, unit) action" where
  "request_stop v = bindA (liftA (pid_of v)) (\<lambda>pid. case pid of
      None \<Rightarrow> ret ()
    | Some p \<Rightarrow> if p \<le> 0 then ret ()
        else thenA (did (Terminated p)) (bindA (on_world (\<lambda>h. h_kill h p True)) (\<lambda>k. case k of
            NoProcess \<Rightarrow> ret ()
          | Delivered \<Rightarrow> ret ()
          | NotPermitted \<Rightarrow> throw (PyError OSError)
          | KillFailed x \<Rightarrow> throw x)))"

section \<open>Bounded waits\<close>

text \<open>
  Both loops may go round for ever if the clock stands still; they are run with a number of rounds,
  and \<open>OutOfFuel\<close> says that it did not suffice.
\<close>

fun wait_for_state_loop :: "nat \<Rightarrow> string \<Rightarrow> string \<Rightarrow> (obj \<Rightarrow> bool) \<Rightarrow> int \<Rightarrow> ('e controller, obj option) action" where
  "wait_for_state_loop 0 dir sid until deadline = throw OutOfFuel"
| "wait_for_state_loop (Suc n) dir sid until deadline = bindA (read_state_file dir sid) (\<lambda>observed.
     if (case observed of None \<Rightarrow> False | Some d \<Rightarrow> until d) then ret observed
     else bindA (on_world h_clock) (\<lambda>now.
       if deadline \<le> now then ret observed
       else thenA (on_world (\<lambda>h w. ((), h_sleep h STATE_POLL_INTERVAL w)))
              (wait_for_state_loop n dir sid until deadline)))"

definition wait_for_state :: "string \<Rightarrow> string \<Rightarrow> (obj \<Rightarrow> bool) \<Rightarrow> int \<Rightarrow> ('e controller, obj option) action" where
  "wait_for_state dir sid until timeout_ms = bindA (on_world h_clock) (\<lambda>now.
     bindA (gets c_rounds) (\<lambda>n. wait_for_state_loop n dir sid until (now + timeout_ms)))"

fun wait_for_exit_loop :: "nat \<Rightarrow> val \<Rightarrow> int \<Rightarrow> ('e controller, bool) action" where
  "wait_for_exit_loop 0 pid deadline = throw OutOfFuel"
| "wait_for_exit_loop (Suc n) pid deadline = bindA (is_pid_alive pid) (\<lambda>alive.
     if \<not> alive then ret True
     else bindA (on_world h_clock) (\<lambda>now.
       if deadline \<le> now then ret False
       else thenA (on_world (\<lambda>h w. ((), h_sleep h STATE_POLL_INTERVAL w))) (wait_for_exit_loop n pid deadline)))"

definition wait_for_exit :: "val \<Rightarrow> int \<Rightarrow> ('e controller, bool) action" where
  "wait_for_exit pid timeout_ms = bindA (on_world h_clock) (\<lambda>now.
     bindA (gets c_rounds) (\<lambda>n. wait_for_exit_loop n pid (now + timeout_ms)))"

section \<open>Validation and spawning\<close>

text \<open>Every image is opened and closed again; \<^verbatim>\<open>ValueError\<close> and \<^verbatim>\<open>OSError\<close> become a \<^verbatim>\<open>ProtocolError\<close>.\<close>

fun validate_media_specs :: "MediaSpec list \<Rightarrow> string option \<Rightarrow> ('e controller, unit) action" where
  "validate_media_specs [] allowed = ret ()"
| "validate_media_specs (s # ss) allowed =
     bindA (on_world (\<lambda>h w. (open_image (h_files h w) (h_path h (spec_path s)) (spec_device s)
         (spec_writable s) (map_option (h_path h) allowed), w))) (\<lambda>r.
       case r of
         Raise x \<Rightarrow> throw (if x = PyError ValueError \<or> x = PyError OSError then ProtocolError else x)
       | Ok i \<Rightarrow> validate_media_specs ss allowed)"

definition spawn_session :: "SessionConfig \<Rightarrow> string \<Rightarrow> string \<Rightarrow> ('e controller, int) action" where
  "spawn_session config username password =
     bindA (on_world (\<lambda>h. h_spawn h config username password)) (\<lambda>r. case r of
         NoFork \<Rightarrow> throw UnsupportedCapabilityError
       | Reported text \<Rightarrow> thenA (did (Spawned config)) (
           if strip text = [] then throw ProtocolError
           else (case py_int 10 (strip text) of
               None \<Rightarrow> throw (PyError ValueError)
             | Some pid \<Rightarrow> bindA (on_world (\<lambda>h w. (h_now_iso h w, w))) (\<lambda>now.
                 bindA (write_state_if_absent (cfg_runtime_dir config) (cfg_session_id config)
                     (initial_state (cfg_session_id config) (cfg_endpoint config) pid now)) (\<lambda>_. ret pid)))))"

end
