(* ===== verification/Media_Daemon.thy ===== *)
theory Media_Daemon
  imports Media_Session Ider_Feed Redirection
begin

text \<open>
  The session daemon (\<^verbatim>\<open>_run_daemon\<close> of \<^verbatim>\<open>plugins/module_utils/media_session.py\<close>): it opens the images,
  connects a redirection session, runs an IDE-R engine over it and reports in the state file until it
  is told to stop, the peer goes away or something fails.

  This theory puts three components together: \<open>open_image\<close> and the engine of the \<open>Ider\<close> theories, and
  the session of \<open>Redirection\<close>.  The engine sends through the session: \<open>with_engine\<close> lets it see what
  \<^verbatim>\<open>session.send\<close> answers to each frame and then sends the accepted frames over the session (a frame
  whose \<^verbatim>\<open>sendall\<close> failed ends the session, and only \<^verbatim>\<open>close\<close> follows).

  The main loop is driven by a list of rounds, each with what the daemon observes in it: whether
  \<^verbatim>\<open>SIGTERM\<close> has arrived and the two clock readings.  Writing the state file is taken to succeed.
\<close>

section \<open>State\<close>

text \<open>The process: its pid, the clock of its time stamps, the files, and the text of exceptions after redaction.\<close>

record daemon_env =
  de_pid :: int
  de_now_iso :: "nat \<Rightarrow> string"
  de_files :: filesystem
  de_path :: "string \<Rightarrow> path"
  de_text :: "exn \<Rightarrow> string"

record 'w daemon =
  dm_env :: daemon_env
  dm_config :: SessionConfig
  dm_session :: "'w session"
  dm_engine :: IderEngine
  dm_images :: "(string \<times> ref) list"
  dm_opened :: nat
  dm_deadline :: "int option"
  dm_state :: obj
  dm_written :: "obj list"

record round_obs =
  ob_stop :: bool
  ob_armed_at :: int
  ob_checked_at :: int

text \<open>What stands in the store of images where none was opened.\<close>

definition no_image :: MediaImage where
  "no_image = \<lparr>image_path = [], device_code = DEVICE_FLOPPY, sector_shift = 9, image_size = 0, blocks = 0,
     writable = False, bytes_read = 0, bytes_written = 0, media_change_reported = False, content = [], closed = True\<rparr>"

definition new_daemon ::
  "daemon_env \<Rightarrow> SessionConfig \<Rightarrow> bytes \<Rightarrow> bytes \<Rightarrow> 'w net \<Rightarrow> 'w \<Rightarrow> 'w daemon" where
  "new_daemon env config username password n w =
     \<lparr>dm_env = env, dm_config = config,
      dm_session = new_session (cfg_host config) username password (cfg_use_tls config)
        (cfg_tls_pin_sha256 config) (Some (cfg_port config)) START_SESSION_IDER n w,
      dm_engine = new_engine (\<lambda>_ _. None) (cfg_start_mode config) 30000 0 20000 (\<lambda>_. no_image),
      dm_images = [], dm_opened = 0, dm_deadline = None,
      dm_state = initial_state (cfg_session_id config) (cfg_endpoint config) (de_pid env) (de_now_iso env 0),
      dm_written = []\<rparr>"

section \<open>Records\<close>

definition set_state :: "string \<Rightarrow> val \<Rightarrow> ('w daemon, unit) action" where
  "set_state k v = modify (\<lambda>d. d\<lparr>dm_state := AList.update k v (dm_state d)\<rparr>)"

text \<open>\<^verbatim>\<open>_persist\<close>: the time stamp, then the atomic write; \<open>dm_written\<close> is what has been written.\<close>

definition persist :: "('w daemon, unit) action" where
  "persist = modify (\<lambda>d.
     let s = AList.update ''updated_at'' (VStr (de_now_iso (dm_env d) (length (dm_written d) + 1))) (dm_state d)
     in d\<lparr>dm_state := s, dm_written := dm_written d @ [s]\<rparr>)"

definition fail_daemon :: "string \<Rightarrow> error_class \<Rightarrow> ('w daemon, unit) action" where
  "fail_daemon message cls =
     thenA (set_state ''state'' (VStr STATE_ERROR)) (thenA (set_state ''error'' (VStr message))
       (thenA (set_state ''error_class'' (VStr (error_class_name cls))) persist))"

text \<open>\<^verbatim>\<open>str(path)\<close> of a resolved path.\<close>

definition path_text :: "path \<Rightarrow> string" where
  "path_text p = (if p = [] then ''/'' else concat (map (\<lambda>c. CHR ''/'' # c) p))"

definition device_slot :: "int \<Rightarrow> string" where
  "device_slot dev = (if dev = uint DEVICE_CDROM then ''cdrom'' else ''floppy'')"

definition device_state :: "MediaImage \<Rightarrow> val" where
  "device_state i = VDict
     [(''path'', VStr (path_text (image_path i))), (''device'', VStr (device_slot (uint (device_code i)))),
      (''writable'', VBool (writable i)), (''size'', VInt (image_size i)),
      (''bytes_read'', VInt (bytes_read i)), (''bytes_written'', VInt (bytes_written i))]"

text \<open>\<^verbatim>\<open>state["devices"][slot] = ...\<close>.\<close>

definition set_device :: "string \<Rightarrow> MediaImage \<Rightarrow> obj \<Rightarrow> obj" where
  "set_device slot i s = (case map_of s ''devices'' of
      Some (VDict ds) \<Rightarrow> AList.update ''devices'' (VDict (AList.update slot (device_state i) ds)) s
    | _ \<Rightarrow> s)"

definition refresh_devices :: "('w daemon, unit) action" where
  "refresh_devices = modify (\<lambda>d. d\<lparr>dm_state :=
     foldl (\<lambda>s (slot, r). set_device slot (images (dm_engine d) r) s) (dm_state d) (dm_images d)\<rparr>)"

section \<open>Start\<close>

definition open_device :: "MediaSpec \<Rightarrow> ('w daemon, unit) action" where
  "open_device s d =
     (case open_image (de_files (dm_env d)) (de_path (dm_env d) (spec_path s)) (spec_device s) (spec_writable s)
         (map_option (de_path (dm_env d)) (cfg_allowed_directory (dm_config d))) of
        Raise x \<Rightarrow> (Raise x, d)
      | Ok i \<Rightarrow> (Ok (), d
          \<lparr>dm_engine := (dm_engine d)\<lparr>images := (images (dm_engine d))(dm_opened d := i)\<rparr>,
           dm_images := AList.update (device_slot (spec_device s)) (dm_opened d) (dm_images d),
           dm_opened := dm_opened d + 1,
           dm_state := set_device (device_slot (spec_device s)) i (dm_state d)\<rparr>))"

fun open_devices :: "MediaSpec list \<Rightarrow> ('w daemon, unit) action" where
  "open_devices [] = ret ()"
| "open_devices (s # ss) = thenA (open_device s) (open_devices ss)"

definition with_session :: "('w session, 'a) action \<Rightarrow> ('w daemon, 'a) action" where
  "with_session m d = (case m (dm_session d) of (r, s) \<Rightarrow> (r, d\<lparr>dm_session := s\<rparr>))"

fun send_frames :: "bytes list \<Rightarrow> 'w session \<Rightarrow> 'w session" where
  "send_frames [] s = s"
| "send_frames (f # fs) s = send_frames fs (snd (Redirection.send_bytes f s))"

text \<open>What \<^verbatim>\<open>session.send\<close> answers to a frame after the first \<open>k\<close> frames of the list were sent before.\<close>

definition session_send :: "'w session \<Rightarrow> nat \<Rightarrow> bytes list \<Rightarrow> bytes \<Rightarrow> exn option" where
  "session_send s k frames f =
     (case fst (Redirection.send_bytes f (send_frames (drop k frames) s)) of Ok _ \<Rightarrow> None | Raise x \<Rightarrow> Some x)"

definition with_engine :: "(IderEngine, 'a) action \<Rightarrow> ('w daemon, 'a) action" where
  "with_engine m d =
     (let k = length (wire (dm_engine d))
      in case m ((dm_engine d)\<lparr>send_bytes := session_send (dm_session d) k\<rparr>) of
          (r, e) \<Rightarrow> (r, d\<lparr>dm_engine := e, dm_session := send_frames (drop k (wire e)) (dm_session d)\<rparr>))"

fun attach_devices :: "ref list \<Rightarrow> (IderEngine, unit) action" where
  "attach_devices [] = ret ()"
| "attach_devices (r # rs) = thenA (attach_device r) (attach_devices rs)"

definition daemon_setup :: "('w daemon, unit) action" where
  "daemon_setup =
     bindA (gets (\<lambda>d. cfg_devices (dm_config d))) (\<lambda>specs.
     thenA (open_devices specs)
    (thenA (set_state ''state'' (VStr STATE_CONNECTING))
    (thenA persist
    (bindA (with_session connect) (\<lambda>leftover.
     bindA (gets (\<lambda>d. peer_certificate_sha256 (dm_session d))) (\<lambda>fp.
     thenA (set_state ''tls_peer_fingerprint'' (case fp of None \<Rightarrow> VNone | Some h \<Rightarrow> VStr h))
    (bindA (gets (\<lambda>d. map snd (dm_images d))) (\<lambda>refs.
     thenA (with_engine (attach_devices refs))
    (thenA (with_engine start_session)
       (if leftover \<noteq> [] then with_engine (feed leftover) else ret ()))))))))))"

section \<open>The main loop\<close>

definition REFUSED_TEXT :: string where
  "REFUSED_TEXT = ''IDE-R session opened but the endpoint refused the IDE-R feature toggle (STATUS_DATA REGS_TOGGLE reported failure), so no media is being served. Check that IDE-R/redirection is enabled for this endpoint and that no other redirection session holds the device.''"

definition NO_VERDICT_TEXT :: string where
  "NO_VERDICT_TEXT = ''IDE-R session opened but the endpoint never reported the outcome of the IDE-R feature toggle within 5.0s (no STATUS_DATA REGS_TOGGLE frame arrived), so whether media is being served is unknown. The session was not reported as attached.''"

definition CLOSED_TEXT :: string where "CLOSED_TEXT = ''connection closed by peer''"

definition TORN_DOWN_TEXT :: string where
  "TORN_DOWN_TEXT = ''IDE-R session was torn down by the peer or a protocol error, not by a detach request''"

text \<open>After the loop: a requested stop, or an engine that stopped on its own.\<close>

definition loop_ended :: "bool \<Rightarrow> ('w daemon, unit) action" where
  "loop_ended stop = thenA refresh_devices
     (if stop then thenA (set_state ''state'' (VStr STATE_DETACHED)) (thenA (set_state ''error'' VNone) persist)
      else thenA (set_state ''state'' (VStr STATE_ERROR)) (thenA (set_state ''error'' (VStr TORN_DOWN_TEXT))
        (thenA (set_state ''error_class'' (VStr (error_class_name PROTOCOL))) persist)))"

text \<open>
  The gate, once the session is open: the deadline is armed, \<^verbatim>\<open>attached\<close> is set only on the confirmed
  toggle, and a missing verdict fails at the deadline (then the result is \<open>False\<close>).
\<close>

definition attach_gate :: "round_obs \<Rightarrow> ('w daemon, bool) action" where
  "attach_gate ob =
     thenA (modify (\<lambda>d. if dm_deadline d = None
         then d\<lparr>dm_deadline := Some (ob_armed_at ob + FEATURE_TOGGLE_TIMEOUT)\<rparr> else d))
     (bindA (gets (\<lambda>d. feature_toggle_ok (dm_engine d))) (\<lambda>ok.
      bindA (gets (\<lambda>d. the (dm_deadline d))) (\<lambda>deadline.
        if ok = Some True then thenA (set_state ''state'' (VStr STATE_ATTACHED)) (ret True)
        else if deadline \<le> ob_checked_at ob then thenA (fail_daemon NO_VERDICT_TEXT TIMEOUT) (ret False)
        else ret True)))"

text \<open>\<^verbatim>\<open>session.recv()\<close> with its poll timeout; \<open>None\<close> is a wakeup without data.\<close>

definition poll_chunk :: "('w daemon, bytes option) action" where
  "poll_chunk = catchA (bindA (with_session session_recv) (\<lambda>c. ret (Some c)))
     (\<lambda>x. x = PyError SocketTimeout) (\<lambda>_. ret None)"

text \<open>One turn of the loop; the result says whether the loop goes round again.\<close>

definition daemon_round :: "round_obs \<Rightarrow> ('w daemon, bool) action" where
  "daemon_round ob = bindA (gets dm_engine) (\<lambda>e.
     if stopped e \<or> ob_stop ob then thenA (loop_ended (ob_stop ob)) (ret False)
     else if feature_toggle_ok e = Some False
     then thenA (fail_daemon REFUSED_TEXT UNSUPPORTED_CAPABILITY) (ret False)
     else bindA (if session_open e then attach_gate ob else ret True) (\<lambda>go.
       if \<not> go then ret False
       else thenA refresh_devices (thenA persist (bindA poll_chunk (\<lambda>chunk. case chunk of
           None \<Rightarrow> ret True
         | Some c \<Rightarrow>
             if c = [] then
               thenA (set_state ''state'' (VStr STATE_DETACHED))
                 (thenA (set_state ''error'' (VStr CLOSED_TEXT)) (thenA persist (ret False)))
             else thenA (with_engine (feed c)) (ret True))))))"

text \<open>The \<^verbatim>\<open>except\<close> clauses: a classified error keeps its class, anything else is a \<^verbatim>\<open>protocol\<close> failure.\<close>

definition report_exception :: "exn \<Rightarrow> ('w daemon, unit) action" where
  "report_exception x = bindA (gets (\<lambda>d. de_text (dm_env d) x)) (\<lambda>text. case x of
      AmtError e \<Rightarrow> fail_daemon text (error_class e)
    | _ \<Rightarrow> fail_daemon (''unexpected error: '' @ text) PROTOCOL)"

definition guarded :: "('w daemon, bool) action \<Rightarrow> ('w daemon, bool) action" where
  "guarded m = catchA m (\<lambda>_. True) (\<lambda>x. thenA (report_exception x) (ret False))"

fun daemon_rounds :: "round_obs list \<Rightarrow> ('w daemon, bool) action" where
  "daemon_rounds [] = ret True"
| "daemon_rounds (ob # obs) = bindA (guarded (daemon_round ob)) (\<lambda>go. if go then daemon_rounds obs else ret False)"

text \<open>\<^verbatim>\<open>finally\<close>: every image, then the session.\<close>

fun close_images :: "ref list \<Rightarrow> (IderEngine, unit) action" where
  "close_images [] = ret ()"
| "close_images (r # rs) = thenA (on_image r image_close) (close_images rs)"

definition daemon_cleanup :: "('w daemon, unit) action" where
  "daemon_cleanup = bindA (gets (\<lambda>d. map snd (dm_images d))) (\<lambda>refs.
     thenA (with_engine (close_images refs)) (with_session close_session))"

definition daemon_main :: "round_obs list \<Rightarrow> ('w daemon, bool) action" where
  "daemon_main obs = thenA persist
     (bindA (guarded (thenA daemon_setup (ret True))) (\<lambda>go. if go then daemon_rounds obs else ret False))"

text \<open>\<^verbatim>\<open>_run_daemon\<close>; the result says whether it still runs after the given rounds.\<close>

definition run_daemon :: "round_obs list \<Rightarrow> ('w daemon, bool) action" where
  "run_daemon obs = bindA (daemon_main obs) (\<lambda>running.
     if running then ret True else thenA daemon_cleanup (ret False))"

end
