(* ===== verification/Media_Life.thy ===== *)
theory Media_Life
  imports Media_Daemon
begin

text \<open>
  The life of a session daemon: the abstract automaton of its phases (\<open>media_phase\<close>) and lemmas that follow
  the \<open>state\<close> key of the record it keeps (\<open>cur\<close>) and of the records it has written (\<open>log\<close>) through every
  action, up to the run of \<open>run_daemon\<close>.
\<close>

section \<open>Phases of a daemon\<close>

definition phase_of :: "obj \<Rightarrow> val" where
  "phase_of s = get_prop s ''state''"

definition cur :: "'w daemon \<Rightarrow> val" where
  "cur d = phase_of (dm_state d)"

definition log :: "'w daemon \<Rightarrow> val list" where
  "log d = map phase_of (dm_written d)"

text \<open>The abstract life of a session.\<close>

inductive media_phase :: "string \<Rightarrow> string \<Rightarrow> bool" where
  "media_phase STATE_STARTING STATE_CONNECTING"
| "media_phase STATE_CONNECTING STATE_CONNECTING"
| "media_phase STATE_CONNECTING STATE_ATTACHED"
| "media_phase STATE_ATTACHED STATE_ATTACHED"
| "p \<in> {STATE_CONNECTING, STATE_ATTACHED} \<Longrightarrow> media_phase p STATE_DETACHED"
| "p \<in> {STATE_STARTING, STATE_CONNECTING, STATE_ATTACHED} \<Longrightarrow> media_phase p STATE_ERROR"

inductive_cases media_phase_from_detached: "media_phase STATE_DETACHED q"
inductive_cases media_phase_from_error: "media_phase STATE_ERROR q"

lemma phase_names [simp]:
  "STATE_STARTING \<noteq> STATE_CONNECTING" "STATE_STARTING \<noteq> STATE_ATTACHED" "STATE_STARTING \<noteq> STATE_DETACHED"
  "STATE_STARTING \<noteq> STATE_ERROR" "STATE_CONNECTING \<noteq> STATE_STARTING" "STATE_CONNECTING \<noteq> STATE_ATTACHED"
  "STATE_CONNECTING \<noteq> STATE_DETACHED" "STATE_CONNECTING \<noteq> STATE_ERROR" "STATE_ATTACHED \<noteq> STATE_STARTING"
  "STATE_ATTACHED \<noteq> STATE_CONNECTING" "STATE_ATTACHED \<noteq> STATE_DETACHED" "STATE_ATTACHED \<noteq> STATE_ERROR"
  "STATE_DETACHED \<noteq> STATE_STARTING" "STATE_DETACHED \<noteq> STATE_CONNECTING" "STATE_DETACHED \<noteq> STATE_ATTACHED"
  "STATE_DETACHED \<noteq> STATE_ERROR" "STATE_ERROR \<noteq> STATE_STARTING" "STATE_ERROR \<noteq> STATE_CONNECTING"
  "STATE_ERROR \<noteq> STATE_ATTACHED" "STATE_ERROR \<noteq> STATE_DETACHED"
  by (simp_all add: state_names)

lemma terminal_phase: "p \<in> set TERMINAL_STATES \<Longrightarrow> \<not> media_phase p q"
  by (auto simp: TERMINAL_STATES_def elim: media_phase_from_detached media_phase_from_error)

lemma get_prop_update [simp]: "get_prop (AList.update k v d) k' = (if k = k' then v else get_prop d k')"
  by (simp add: get_prop_def update_conv')

lemma phase_update [simp]: "k \<noteq> ''state'' \<Longrightarrow> phase_of (AList.update k v d) = phase_of d"
  "phase_of (AList.update ''state'' v d) = v"
  by (simp_all add: phase_of_def)

lemma phase_set_device [simp]: "phase_of (set_device slot i s) = phase_of s"
  by (simp add: set_device_def split: option.splits val.splits)

lemma phase_fold [simp]: "phase_of (foldl (\<lambda>s (slot, r). set_device slot (f r) s) s xs) = phase_of s"
  by (induction xs arbitrary: s) (auto split: prod.splits)

text \<open>An action that leaves the phase of the record and the log as they are.\<close>

definition silent :: "'w daemon \<Rightarrow> 'w daemon \<Rightarrow> bool" where
  "silent d t \<longleftrightarrow> cur t = cur d \<and> dm_written t = dm_written d"

interpretation silent: contract silent
  by unfold_locales (auto simp: silent_def)

lemma keeps_silent [keeps_intros]:
  "k \<noteq> ''state'' \<Longrightarrow> keeps silent (set_state k v)" "keeps silent refresh_devices" "keeps silent (open_device s)"
  "keeps silent (with_session m)" "keeps silent (with_engine n)" "keeps silent poll_chunk"
proof -
  show ses: "keeps silent (with_session m)" for m
    by (auto simp: keeps_def silent_def with_session_def cur_def split: prod.splits)
  show "keeps silent poll_chunk"
    unfolding poll_chunk_def by (intro keeps_intros ses)
qed (auto simp: keeps_def silent_def set_state_def refresh_devices_def open_device_def with_engine_def Let_def cur_def
       split: prod.splits outcome.splits)

lemma keeps_open_devices: "keeps silent (open_devices ss)"
  by (induction ss) (simp_all only: open_devices.simps, (intro keeps_intros | assumption)+)

lemma silentD: "keeps silent m \<Longrightarrow> m d = (r, t) \<Longrightarrow> cur t = cur d \<and> log t = log d"
  by (drule (1) keepsD) (simp add: silent_def log_def)

lemma set_phase [simp]: "set_state ''state'' v d = (Ok (), d\<lparr>dm_state := AList.update ''state'' v (dm_state d)\<rparr>)"
  by (simp add: set_state_def)

lemma persist_run: "persist d = (Ok (), t) \<Longrightarrow> log t = log d @ [cur d] \<and> cur t = cur d"
  by (auto simp: persist_def log_def cur_def Let_def)

lemma persist_ok: "\<exists>t. persist d = (Ok (), t) \<and> log t = log d @ [cur d] \<and> cur t = cur d \<and> dm_engine t = dm_engine d
    \<and> dm_written t = dm_written d @ [dm_state t]"
  by (simp add: persist_def log_def cur_def Let_def)

lemma fail_run:
  "\<exists>t. fail_daemon m c d = (Ok (), t) \<and> log t = log d @ [VStr STATE_ERROR] \<and> dm_engine t = dm_engine d
     \<and> get_prop (last (dm_written t)) ''error_class'' = VStr (error_class_name c) \<and> dm_images t = dm_images d"
  by (simp add: fail_daemon_def set_state_def persist_def Let_def log_def thenA_def bindA_def)

section \<open>One round\<close>

definition confirmed :: "'w daemon \<Rightarrow> bool" where
  "confirmed d \<longleftrightarrow> \<not> stopped (dm_engine d) \<and> session_open (dm_engine d) \<and> feature_toggle_ok (dm_engine d) = Some True"

text \<open>The record a round that goes on to receive has written.\<close>

definition reported :: "'w daemon \<Rightarrow> val" where
  "reported d = (if confirmed d then VStr STATE_ATTACHED else cur d)"

lemma loop_ended_run:
  "\<exists>t. loop_ended b d = (Ok (), t) \<and> log t = log d @ [VStr (if b then STATE_DETACHED else STATE_ERROR)]"
  by (simp add: loop_ended_def refresh_devices_def set_state_def persist_def Let_def log_def)

text \<open>The deadline of a round: the armed one, or the one this round arms.\<close>

definition deadline_of :: "round_obs \<Rightarrow> 'w daemon \<Rightarrow> int" where
  "deadline_of ob d = (case dm_deadline d of None \<Rightarrow> ob_armed_at ob + FEATURE_TOGGLE_TIMEOUT | Some x \<Rightarrow> x)"

lemma attach_gate_cases:
  "(\<exists>t. attach_gate ob d = (Ok True, t) \<and> dm_engine t = dm_engine d \<and> log t = log d
      \<and> (feature_toggle_ok (dm_engine d) = Some True \<or> ob_checked_at ob < deadline_of ob d)
      \<and> cur t = (if feature_toggle_ok (dm_engine d) = Some True then VStr STATE_ATTACHED else cur d))
   \<or> (\<exists>t. attach_gate ob d = (Ok False, t) \<and> feature_toggle_ok (dm_engine d) \<noteq> Some True
      \<and> deadline_of ob d \<le> ob_checked_at ob
      \<and> log t = log d @ [VStr STATE_ERROR]
      \<and> get_prop (last (dm_written t)) ''error_class'' = VStr (error_class_name TIMEOUT))"
proof -
  define u where "u = (if dm_deadline d = None
      then d\<lparr>dm_deadline := Some (ob_armed_at ob + FEATURE_TOGGLE_TIMEOUT)\<rparr> else d)"
  have d: "dm_engine u = dm_engine d" "log u = log d" "cur u = cur d" by (simp_all add: u_def log_def cur_def)
  have dl: "the (dm_deadline u) = deadline_of ob d" by (simp add: u_def deadline_of_def split: option.splits)
  have run: "attach_gate ob d =
      (if feature_toggle_ok (dm_engine d) = Some True then thenA (set_state ''state'' (VStr STATE_ATTACHED)) (ret True)
       else if deadline_of ob d \<le> ob_checked_at ob then thenA (fail_daemon NO_VERDICT_TEXT TIMEOUT) (ret False)
       else ret True) u"
    unfolding attach_gate_def by (simp add: d(1) dl flip: u_def)
  consider "feature_toggle_ok (dm_engine d) = Some True"
    | "feature_toggle_ok (dm_engine d) \<noteq> Some True" "deadline_of ob d \<le> ob_checked_at ob"
    | "feature_toggle_ok (dm_engine d) \<noteq> Some True" "\<not> deadline_of ob d \<le> ob_checked_at ob" by blast
  then show ?thesis
  proof cases
    case 1
    with d show ?thesis by (simp add: run thenA_def bindA_def log_def cur_def)
  next
    case 2
    obtain t where "fail_daemon NO_VERDICT_TEXT TIMEOUT u = (Ok (), t)" "log t = log u @ [VStr STATE_ERROR]"
      "get_prop (last (dm_written t)) ''error_class'' = VStr (error_class_name TIMEOUT)"
      using fail_run by blast
    with 2 d show ?thesis by (simp add: run thenA_def bindA_def)
  next
    case 3
    with d show ?thesis by (simp add: run)
  qed
qed

text \<open>The two halves of a round that goes on: the gate, and receiving from the session.\<close>

definition round_gate :: "round_obs \<Rightarrow> ('w daemon, bool) action" where
  "round_gate ob = bindA (gets dm_engine) (\<lambda>e. if session_open e then attach_gate ob else ret True)"

definition serve_round :: "('w daemon, bool) action" where
  "serve_round = thenA refresh_devices (thenA persist (bindA poll_chunk (\<lambda>chunk. case chunk of
     None \<Rightarrow> ret True
   | Some c \<Rightarrow>
       if c = [] then
         thenA (set_state ''state'' (VStr STATE_DETACHED))
           (thenA (set_state ''error'' (VStr CLOSED_TEXT)) (thenA persist (ret False)))
       else thenA (with_engine (feed c)) (ret True))))"

lemma round_gate_run:
  assumes "feature_toggle_ok (dm_engine d) \<noteq> Some False" "\<not> stopped (dm_engine d)"
  shows "(\<exists>u. round_gate ob d = (Ok True, u)
       \<and> (session_open (dm_engine d) \<longrightarrow> feature_toggle_ok (dm_engine d) = Some True \<or> ob_checked_at ob < deadline_of ob d)
       \<and> log u = log d \<and> cur u = reported d)
    \<or> (\<exists>u. round_gate ob d = (Ok False, u) \<and> session_open (dm_engine d) \<and> feature_toggle_ok (dm_engine d) = None
       \<and> deadline_of ob d \<le> ob_checked_at ob \<and> log u = log d @ [VStr STATE_ERROR]
       \<and> get_prop (last (dm_written u)) ''error_class'' = VStr (error_class_name TIMEOUT))"
proof (cases "session_open (dm_engine d)")
  case True
  then have g: "round_gate ob d = attach_gate ob d" by (simp add: round_gate_def)
  consider "feature_toggle_ok (dm_engine d) = Some True" | "feature_toggle_ok (dm_engine d) = None"
    using assms(1) by (metis (full_types) not_None_eq)
  then show ?thesis
  proof cases
    case 1
    from attach_gate_cases [of ob d] 1 obtain t where "attach_gate ob d = (Ok True, t)" "log t = log d"
      "cur t = VStr STATE_ATTACHED" by auto
    with g 1 True assms(2) show ?thesis by (intro disjI1 exI [of _ t]) (simp add: reported_def confirmed_def)
  next
    case 2
    with attach_gate_cases [of ob d] True g show ?thesis by (simp add: reported_def confirmed_def) blast
  qed
next
  case False
  then show ?thesis by (simp add: round_gate_def reported_def confirmed_def)
qed

lemma serve_round_run:
  fixes u :: "'w daemon"
  shows "(\<exists>r t. serve_round u = (r, t) \<and> r \<noteq> Ok False \<and> log t = log u @ [cur u] \<and> cur t = cur u)
    \<or> (\<exists>t. serve_round u = (Ok False, t) \<and> log t = log u @ [cur u, VStr STATE_DETACHED])"
proof -
  obtain u1 where u1: "refresh_devices u = (Ok (), u1)" by (simp add: refresh_devices_def)
  obtain u2 where u2: "persist u1 = (Ok (), u2)" by (simp add: persist_def)
  obtain p u3 where u3: "poll_chunk u2 = (p, u3)" by (cases "poll_chunk u2")
  have l: "log u3 = log u @ [cur u]" "cur u3 = cur u"
    using silentD [OF keeps_silent(2) u1] persist_run [OF u2] silentD [OF keeps_silent(6) u3] by auto
  have s: "serve_round u = (case p of Ok None \<Rightarrow> (Ok True, u3) | Raise x \<Rightarrow> (Raise x, u3)
      | Ok (Some c) \<Rightarrow> (if c = [] then
           thenA (set_state ''state'' (VStr STATE_DETACHED))
             (thenA (set_state ''error'' (VStr CLOSED_TEXT)) (thenA persist (ret False)))
         else thenA (with_engine (feed c)) (ret True)) u3)"
    using u1 u2 u3 by (simp add: serve_round_def thenA_def bindA_def split: outcome.splits option.splits)
  show ?thesis
  proof (cases p)
    case (Raise x)
    with s l show ?thesis by simp
  next
    case (Ok chunk)
    show ?thesis
    proof (cases chunk)
      case None
      with Ok s l show ?thesis by simp
    next
      case (Some c)
      show ?thesis
      proof (cases "c = []")
        case True
        with Ok Some s l show ?thesis
          by (simp add: thenA_def bindA_def set_state_def persist_def Let_def log_def)
      next
        case False
        obtain q u4 where f: "with_engine (feed c) u3 = (q, u4)" by (cases "with_engine (feed c) u3")
        from silentD [OF keeps_silent(5) f] l have "log u4 = log u @ [cur u]" "cur u4 = cur u" by auto
        with False Ok Some s f show ?thesis by (cases q) (auto simp: thenA_def bindA_def)
      qed
    qed
  qed
qed

text \<open>What a round comes to: the four ways the gate decides, and the round that goes on to receive.\<close>

lemma daemon_round_cases:
  fixes d :: "'w daemon"
  obtains (ended) t where "stopped (dm_engine d) \<or> ob_stop ob" "daemon_round ob d = (Ok False, t)"
      "log t = log d @ [VStr (if ob_stop ob then STATE_DETACHED else STATE_ERROR)]"
  | (refused) t where "\<not> stopped (dm_engine d)" "\<not> ob_stop ob" "feature_toggle_ok (dm_engine d) = Some False"
      "daemon_round ob d = (Ok False, t)" "log t = log d @ [VStr STATE_ERROR]"
      "get_prop (last (dm_written t)) ''error_class'' = VStr (error_class_name UNSUPPORTED_CAPABILITY)"
  | (no_verdict) t where "\<not> stopped (dm_engine d)" "\<not> ob_stop ob" "feature_toggle_ok (dm_engine d) = None"
      "session_open (dm_engine d)" "deadline_of ob d \<le> ob_checked_at ob"
      "daemon_round ob d = (Ok False, t)" "log t = log d @ [VStr STATE_ERROR]"
      "get_prop (last (dm_written t)) ''error_class'' = VStr (error_class_name TIMEOUT)"
  | (served) r t where "\<not> stopped (dm_engine d)" "\<not> ob_stop ob" "feature_toggle_ok (dm_engine d) \<noteq> Some False"
      "session_open (dm_engine d) \<longrightarrow> feature_toggle_ok (dm_engine d) = Some True \<or> ob_checked_at ob < deadline_of ob d"
      "daemon_round ob d = (r, t)" "r \<noteq> Ok False" "log t = log d @ [reported d]" "cur t = reported d"
  | (closed) t where "\<not> stopped (dm_engine d)" "\<not> ob_stop ob" "feature_toggle_ok (dm_engine d) \<noteq> Some False"
      "session_open (dm_engine d) \<longrightarrow> feature_toggle_ok (dm_engine d) = Some True \<or> ob_checked_at ob < deadline_of ob d"
      "daemon_round ob d = (Ok False, t)" "log t = log d @ [reported d, VStr STATE_DETACHED]"
proof -
  let ?e = "dm_engine d"
  consider "stopped ?e \<or> ob_stop ob" | "\<not> stopped ?e" "\<not> ob_stop ob" "feature_toggle_ok ?e = Some False"
    | "\<not> stopped ?e" "\<not> ob_stop ob" "feature_toggle_ok ?e \<noteq> Some False" by blast
  then show thesis
  proof cases
    case 1
    then obtain t where "loop_ended (ob_stop ob) d = (Ok (), t)"
      "log t = log d @ [VStr (if ob_stop ob then STATE_DETACHED else STATE_ERROR)]" using loop_ended_run by blast
    with 1 show thesis by (intro ended) (auto simp: daemon_round_def thenA_def bindA_def)
  next
    case 2
    obtain t where "fail_daemon REFUSED_TEXT UNSUPPORTED_CAPABILITY d = (Ok (), t)" "log t = log d @ [VStr STATE_ERROR]"
      "get_prop (last (dm_written t)) ''error_class'' = VStr (error_class_name UNSUPPORTED_CAPABILITY)"
      using fail_run by blast
    with 2 show thesis by (intro refused) (auto simp: daemon_round_def thenA_def bindA_def)
  next
    case 3
    then have run: "daemon_round ob d = bindA (round_gate ob) (\<lambda>go. if \<not> go then ret False else serve_round) d"
      unfolding serve_round_def by (simp add: daemon_round_def round_gate_def)
    from round_gate_run [OF 3(3,1), of ob] show thesis
    proof (elim disjE exE conjE)
      fix u assume u: "round_gate ob d = (Ok True, u)"
        "session_open ?e \<longrightarrow> feature_toggle_ok ?e = Some True \<or> ob_checked_at ob < deadline_of ob d" "log u = log d" "cur u = reported d"
      with run have r: "daemon_round ob d = serve_round u" by (simp add: bindA_def)
      from serve_round_run [of u] show thesis
      proof (elim disjE exE conjE)
        fix r t assume "serve_round u = (r, t)" "r \<noteq> Ok False" "log t = log u @ [cur u]" "cur t = cur u"
        with 3 r u show thesis by (intro served [of r t]) auto
      next
        fix t assume "serve_round u = (Ok False, t)" "log t = log u @ [cur u, VStr STATE_DETACHED]"
        with 3 r u show thesis by (intro closed [of t]) auto
      qed
    next
      fix u assume "round_gate ob d = (Ok False, u)" "session_open ?e" "feature_toggle_ok ?e = None"
        "deadline_of ob d \<le> ob_checked_at ob" "log u = log d @ [VStr STATE_ERROR]"
        "get_prop (last (dm_written u)) ''error_class'' = VStr (error_class_name TIMEOUT)"
      with 3 run show thesis by (intro no_verdict [of u]) (auto simp: bindA_def)
    qed
  qed
qed

section \<open>The whole life\<close>

definition connect_and_start :: "('w daemon, unit) action" where
  "connect_and_start = bindA (with_session connect) (\<lambda>leftover.
     bindA (gets (\<lambda>d. peer_certificate_sha256 (dm_session d))) (\<lambda>fp.
     thenA (set_state ''tls_peer_fingerprint'' (case fp of None \<Rightarrow> VNone | Some h \<Rightarrow> VStr h))
    (bindA (gets (\<lambda>d. map snd (dm_images d))) (\<lambda>refs.
     thenA (with_engine (attach_devices refs))
    (thenA (with_engine start_session)
       (if leftover \<noteq> [] then with_engine (feed leftover) else ret ()))))))"

lemma setup_eq: "daemon_setup d = thenA (open_devices (cfg_devices (dm_config d)))
    (thenA (set_state ''state'' (VStr STATE_CONNECTING)) (thenA persist connect_and_start)) d"
  unfolding daemon_setup_def connect_and_start_def by (simp only: bindA_gets)

lemma keeps_connect_and_start: "keeps silent connect_and_start"
proof -
  show ?thesis unfolding connect_and_start_def by (intro keeps_intros) simp
qed

lemma setup_run:
  assumes "daemon_setup d = (r, t)"
  shows "(\<exists>x. r = Raise x) \<and> log t = log d \<and> cur t = cur d
    \<or> log t = log d @ [VStr STATE_CONNECTING] \<and> cur t = VStr STATE_CONNECTING"
proof -
  obtain q u where o: "open_devices (cfg_devices (dm_config d)) d = (q, u)"
    by (cases "open_devices (cfg_devices (dm_config d)) d")
  note u = silentD [OF keeps_open_devices o]
  show ?thesis
  proof (cases q)
    case (Raise x)
    with o u assms show ?thesis by (auto simp: setup_eq thenA_def bindA_def)
  next
    case (Ok z)
    let ?v = "u\<lparr>dm_state := AList.update ''state'' (VStr STATE_CONNECTING) (dm_state u)\<rparr>"
    obtain w where w: "persist ?v = (Ok (), w)" by (simp add: persist_def)
    have "log w = log u @ [VStr STATE_CONNECTING]" "cur w = VStr STATE_CONNECTING"
      using persist_run [OF w] by (simp_all add: log_def cur_def)
    moreover have "connect_and_start w = (r, t)"
      using assms o Ok w by (simp add: setup_eq thenA_def bindA_def)
    ultimately show ?thesis using silentD [OF keeps_connect_and_start] u by metis
  qed
qed

lemma report_run: "\<exists>t. report_exception x d = (Ok (), t) \<and> log t = log d @ [VStr STATE_ERROR]"
proof -
  have f: "\<exists>t. fail_daemon m c d = (Ok (), t) \<and> log t = log d @ [VStr STATE_ERROR]" for m c
    using fail_run [of m c d] by blast
  show ?thesis by (simp add: report_exception_def f split: exn.splits)
qed

lemma guarded_run:
  assumes "m d = (r, t)" "guarded m d = (q, u)"
  shows "(\<exists>b. r = Ok b \<and> q = Ok b \<and> u = t) \<or> (\<exists>x. r = Raise x \<and> q = Ok False \<and> log u = log t @ [VStr STATE_ERROR])"
proof (cases r)
  case (Ok b)
  with assms show ?thesis by (auto simp: guarded_def catchA_def)
next
  case (Raise x)
  obtain v where "report_exception x t = (Ok (), v)" "log v = log t @ [VStr STATE_ERROR]" using report_run by blast
  with Raise assms show ?thesis by (auto simp: guarded_def catchA_def thenA_def bindA_def)
qed

text \<open>A log that follows the abstract life from its start and ends in phase \<open>p\<close>.\<close>

definition life :: "val list \<Rightarrow> string \<Rightarrow> bool" where
  "life l p \<longleftrightarrow> (\<exists>ss. l = map VStr (ss @ [p]) \<and> hd (ss @ [p]) = STATE_STARTING \<and> successively media_phase (ss @ [p]))"

lemma life_start: "life [VStr STATE_STARTING] STATE_STARTING"
  unfolding life_def by (rule exI [of _ "[]"]) simp

lemma life_step: "life l p \<Longrightarrow> media_phase p q \<Longrightarrow> life (l @ [VStr q]) q"
proof -
  assume "life l p" and q: "media_phase p q"
  then obtain ss where ss: "l = map VStr (ss @ [p])" "hd (ss @ [p]) = STATE_STARTING" "successively media_phase (ss @ [p])"
    by (auto simp: life_def)
  have "l @ [VStr q] = map VStr ((ss @ [p]) @ [q])" using ss(1) by simp
  moreover have "hd ((ss @ [p]) @ [q]) = STATE_STARTING" using ss(2) by (cases ss) simp_all
  moreover have "successively media_phase ((ss @ [p]) @ [q])" using ss(3) q by (simp add: successively_append_iff)
  ultimately show ?thesis unfolding life_def by blast
qed

lemma life_last: "life l p \<Longrightarrow> VStr p \<in> set l"
  by (auto simp: life_def)

text \<open>A running daemon has reported the phase it is in; a finished one has ended on a terminal phase.\<close>

definition running :: "'w daemon \<Rightarrow> bool" where
  "running d \<longleftrightarrow> (\<exists>p \<in> {STATE_CONNECTING, STATE_ATTACHED}. life (log d) p \<and> cur d = VStr p)"

definition finished :: "'w daemon \<Rightarrow> bool" where
  "finished d \<longleftrightarrow> (\<exists>p \<in> set TERMINAL_STATES. life (log d) p)"

lemma running_reported:
  assumes "running d"
  obtains q where "q \<in> {STATE_CONNECTING, STATE_ATTACHED}" "reported d = VStr q" "life (log d @ [reported d]) q"
    "q = STATE_ATTACHED \<longrightarrow> confirmed d \<or> VStr STATE_ATTACHED \<in> set (log d)"
proof -
  from assms obtain p where p: "p \<in> {STATE_CONNECTING, STATE_ATTACHED}" "life (log d) p" "cur d = VStr p"
    by (auto simp: running_def)
  show thesis
  proof (cases "confirmed d")
    case True
    from p(1) have "media_phase p STATE_ATTACHED" by (auto intro: media_phase.intros)
    from life_step [OF p(2) this] True show thesis by (intro that [of STATE_ATTACHED]) (auto simp: reported_def)
  next
    case False
    from p(1) have "media_phase p p" by (auto intro: media_phase.intros)
    from life_step [OF p(2) this] False p life_last [OF p(2)] show thesis
      by (intro that [of p]) (auto simp: reported_def)
  qed
qed

lemma life_end:
  "life l p \<Longrightarrow> p \<in> {STATE_CONNECTING, STATE_ATTACHED} \<Longrightarrow> q \<in> set TERMINAL_STATES \<Longrightarrow> life (l @ [VStr q]) q"
  by (rule life_step) (auto simp: TERMINAL_STATES_def intro: media_phase.intros)

lemma running_end:
  "running d \<Longrightarrow> log t = log d @ [VStr q] \<Longrightarrow> q \<in> set TERMINAL_STATES \<Longrightarrow> finished t"
  using life_end unfolding running_def finished_def by metis

lemma terminal_names [simp]: "STATE_ERROR \<in> set TERMINAL_STATES" "STATE_DETACHED \<in> set TERMINAL_STATES"
  by (simp_all add: TERMINAL_STATES_def)

lemma guarded_round:
  assumes "running d" "guarded (daemon_round ob) d = (q, u)"
  shows "(q = Ok True \<and> running u \<or> q = Ok False \<and> finished u)
    \<and> (VStr STATE_ATTACHED \<in> set (log u) \<longrightarrow> VStr STATE_ATTACHED \<in> set (log d) \<or> confirmed d)"
proof -
  obtain r t where rt: "daemon_round ob d = (r, t)" by (cases "daemon_round ob d")
  note g = guarded_run [OF rt assms(2)]
  have stop: ?thesis if "r = Ok False" "log t = log d @ [VStr p]" "p \<in> set TERMINAL_STATES" for p
  proof -
    from that(1) g have u: "q = Ok False" "u = t" by auto
    with running_end [OF assms(1) that(2,3)] that(2,3) show ?thesis by (auto simp: TERMINAL_STATES_def)
  qed
  obtain p where p: "p \<in> {STATE_CONNECTING, STATE_ATTACHED}" "reported d = VStr p" "life (log d @ [reported d]) p"
    "p = STATE_ATTACHED \<longrightarrow> confirmed d \<or> VStr STATE_ATTACHED \<in> set (log d)"
    using running_reported [OF assms(1)] .
  show ?thesis
  proof (cases d ob rule: daemon_round_cases)
    case (ended t')
    with rt stop [of "if ob_stop ob then STATE_DETACHED else STATE_ERROR"] show ?thesis by auto
  next
    case (refused t')
    with rt stop [of STATE_ERROR] show ?thesis by auto
  next
    case (no_verdict t')
    with rt stop [of STATE_ERROR] show ?thesis by auto
  next
    case (closed t')
    with rt g have u: "q = Ok False" "log u = (log d @ [reported d]) @ [VStr STATE_DETACHED]" by auto
    with life_end [OF p(3,1), of STATE_DETACHED] p(2,4) show ?thesis by (auto simp: finished_def)
  next
    case (served r' t')
    then have t: "log t = log d @ [reported d]" "cur t = reported d" "r \<noteq> Ok False" using rt by auto
    show ?thesis
    proof (cases r)
      case (Ok b)
      with t(3) g have "q = Ok True" "u = t" by auto
      with t p show ?thesis by (auto simp: running_def)
    next
      case (Raise x)
      with g t have "q = Ok False" "log u = (log d @ [reported d]) @ [VStr STATE_ERROR]" by auto
      with life_end [OF p(3,1), of STATE_ERROR] p(2,4) show ?thesis by (auto simp: finished_def)
    qed
  qed
qed

section \<open>Runs\<close>

lemma rounds_run:
  "running d \<Longrightarrow> daemon_rounds obs d = (q, u) \<Longrightarrow>
     (q = Ok True \<and> running u \<or> q = Ok False \<and> finished u)
     \<and> (VStr STATE_ATTACHED \<in> set (log u) \<longrightarrow> VStr STATE_ATTACHED \<in> set (log d)
        \<or> (\<exists>n v. n < length obs \<and> daemon_rounds (take n obs) d = (Ok True, v) \<and> confirmed v))"
proof (induction obs arbitrary: d)
  case Nil
  then show ?case by simp
next
  case (Cons ob obs)
  obtain r t where r: "guarded (daemon_round ob) d = (r, t)" by (cases "guarded (daemon_round ob) d")
  note g = guarded_round [OF Cons.prems(1) r]
  have now: "VStr STATE_ATTACHED \<in> set (log d)
      \<or> (\<exists>n v. n < length (ob # obs) \<and> daemon_rounds (take n (ob # obs)) d = (Ok True, v) \<and> confirmed v)"
    if "VStr STATE_ATTACHED \<in> set (log t)"
    using that g by (auto intro!: exI [of _ "0 :: nat"])
  show ?case
  proof (cases "r = Ok True")
    case False
    with g have "r = Ok False" "finished t" by auto
    moreover from this Cons.prems(2) r have "q = Ok False" "u = t" by (auto simp: bindA_def)
    ultimately show ?thesis using now by blast
  next
    case True
    with g have "running t" by auto
    have rest: "daemon_rounds obs t = (q, u)" using Cons.prems(2) r True by (simp add: bindA_def)
    note IH = Cons.IH [OF \<open>running t\<close> rest]
    have later: "\<exists>n v. n < length (ob # obs) \<and> daemon_rounds (take n (ob # obs)) d = (Ok True, v) \<and> confirmed v"
      if "n < length obs" "daemon_rounds (take n obs) t = (Ok True, v)" "confirmed v" for n v
    proof -
      have "daemon_rounds (take (Suc n) (ob # obs)) d = (Ok True, v)" using r True that(2) by (simp add: bindA_def)
      with that show ?thesis by (intro exI [of _ "Suc n"] exI [of _ v]) simp
    qed
    show ?thesis
    proof (intro conjI impI)
      show "q = Ok True \<and> running u \<or> q = Ok False \<and> finished u" using IH by blast
    next
      assume "VStr STATE_ATTACHED \<in> set (log u)"
      with IH now later show "VStr STATE_ATTACHED \<in> set (log d)
          \<or> (\<exists>n v. n < length (ob # obs) \<and> daemon_rounds (take n (ob # obs)) d = (Ok True, v) \<and> confirmed v)"
        by blast
    qed
  qed
qed

lemma main_run:
  assumes "daemon_main obs (new_daemon env config user password n w) = (q, u)"
  shows "(q = Ok True \<and> running u \<or> q = Ok False \<and> finished u)
    \<and> (VStr STATE_ATTACHED \<in> set (log u) \<longrightarrow> (\<exists>k v. k < length obs
        \<and> daemon_main (take k obs) (new_daemon env config user password n w) = (Ok True, v) \<and> confirmed v))"
proof -
  let ?d = "new_daemon env config user password n w"
  have start: "cur ?d = VStr STATE_STARTING" "log ?d = []"
    by (simp_all add: new_daemon_def cur_def log_def initial_state_def phase_of_def get_prop_def)
  obtain d1 where d1: "persist ?d = (Ok (), d1)" by (simp add: persist_def)
  have l1: "log d1 = [VStr STATE_STARTING]" "cur d1 = VStr STATE_STARTING" using persist_run [OF d1] start by simp_all
  obtain r t where r: "daemon_setup d1 = (r, t)" by (cases "daemon_setup d1")
  obtain g d2 where g: "guarded (thenA daemon_setup (ret True)) d1 = (g, d2)"
    by (cases "guarded (thenA daemon_setup (ret True)) d1")
  have main: "daemon_main os ?d = (if g = Ok True then daemon_rounds os d2 else (g, d2))"
    if "g = Ok True \<or> g = Ok False" for os
    using that d1 g by (auto simp: daemon_main_def thenA_def bindA_def)
  have c: "media_phase STATE_STARTING STATE_CONNECTING" by (rule media_phase.intros)
  have lc: "life [VStr STATE_STARTING, VStr STATE_CONNECTING] STATE_CONNECTING"
    using life_step [OF life_start c] by simp
  show ?thesis
  proof (cases r)
    case (Ok z)
    with r have run: "thenA daemon_setup (ret True) d1 = (Ok True, t)" by (simp add: thenA_def bindA_def)
    from guarded_run [OF run g] have b: "g = Ok True" "d2 = t" by auto
    from setup_run [OF r] Ok l1 lc have "running d2" "VStr STATE_ATTACHED \<notin> set (log d2)"
      by (auto simp: running_def b(2))
    moreover have "daemon_rounds obs d2 = (q, u)" using assms main [of obs] b(1) by simp
    ultimately show ?thesis using rounds_run [of d2 obs q u] main b(1) by simp
  next
    case (Raise x)
    with r have run: "thenA daemon_setup (ret True) d1 = (Raise x, t)" by (simp add: thenA_def bindA_def)
    from guarded_run [OF run g] have b: "g = Ok False" "log d2 = log t @ [VStr STATE_ERROR]" by auto
    have e: "media_phase STATE_STARTING STATE_ERROR" "media_phase STATE_CONNECTING STATE_ERROR"
      by (auto intro: media_phase.intros)
    have "life (log d2) STATE_ERROR" "VStr STATE_ATTACHED \<notin> set (log d2)"
      using setup_run [OF r] l1 b(2) life_step [OF life_start e(1)] life_step [OF lc e(2)] by auto
    moreover have "q = Ok False" "u = d2" using assms main [of obs] b(1) by auto
    ultimately show ?thesis by (auto simp: finished_def)
  qed
qed

lemma close_images_run:
  "\<exists>e'. close_images rs e = (Ok (), e') \<and> wire e' = wire e \<and> (\<forall>r \<in> set rs. closed (images e' r))
     \<and> (\<forall>r. closed (images e r) \<longrightarrow> closed (images e' r))"
proof (induction rs arbitrary: e)
  case Nil
  then show ?case by simp
next
  case (Cons r rs)
  let ?e = "e\<lparr>images := (images e)(r := (images e r)\<lparr>closed := True\<rparr>)\<rparr>"
  have "on_image r image_close e = (Ok (), ?e)" by (simp add: on_image_def image_close_def)
  moreover obtain e' where "close_images rs ?e = (Ok (), e')" "wire e' = wire e"
    "\<forall>r \<in> set rs. closed (images e' r)" "\<forall>q. closed (images ?e q) \<longrightarrow> closed (images e' q)"
    using Cons.IH [of ?e] by auto
  ultimately show ?case by (simp add: thenA_def bindA_def)
qed

lemma cleanup_run:
  "\<exists>t. daemon_cleanup d = (Ok (), t) \<and> dm_written t = dm_written d \<and> \<not> se_connected (dm_session t)
     \<and> (\<forall>(slot, r) \<in> set (dm_images t). closed (images (dm_engine t) r))"
proof -
  let ?e = "(dm_engine d)\<lparr>send_bytes := session_send (dm_session d) (length (wire (dm_engine d)))\<rparr>"
  obtain e' where e: "close_images (map snd (dm_images d)) ?e = (Ok (), e')" "wire e' = wire (dm_engine d)"
    "\<forall>r \<in> set (map snd (dm_images d)). closed (images e' r)"
    using close_images_run [of "map snd (dm_images d)" ?e] by auto
  then show ?thesis
    by (auto simp: daemon_cleanup_def with_engine_def Let_def thenA_def bindA_def with_session_def close_session_def modify_def)
qed

end
