(* ===== verification/Media_Properties.thy ===== *)
theory Media_Properties
  imports Media_Life Redirection_Properties
begin

text \<open>The properties of session daemons and of the state file.\<close>

section \<open>A daemon for the witnesses\<close>

definition status_ok :: bytes where
  "status_ok = header CMD_STATUS_DATA 1 False False @ [3, 1, 0, 0, 0]"

definition session_reply :: bytes where
  "session_reply = header CMD_OPEN_SESSION_REPLY 0 False False @
     [1, 0, 2, 1, 0, 0, 0, 0, 0x00, 0x20, 0x00, 0x20, 0, 0, 0, 0, 0, 0x57, 0x01, 0, 0, 0]"

definition demo_env :: daemon_env where
  "demo_env = \<lparr>de_pid = 42, de_now_iso = (\<lambda>_. ''now''),
     de_files = \<lparr>fs_is_symlink = (\<lambda>_. False), fs_resolve = Some, fs_content = (\<lambda>_. replicate 512 7), fs_can_open = (\<lambda>_ _. True)\<rparr>,
     de_path = (\<lambda>s. [s]), de_text = (\<lambda>_. ''text'')\<rparr>"

definition demo_config :: SessionConfig where
  "demo_config = \<lparr>cfg_session_id = ''s'', cfg_host = ''amt'', cfg_port = 16995, cfg_use_tls = True,
     cfg_tls_pin_sha256 = Some ''ab'', cfg_connect_timeout = 10000, cfg_start_mode = START_MODE_ON_REBOOT,
     cfg_allowed_directory = None, cfg_runtime_dir = ''run'',
     cfg_devices = [\<lparr>spec_path = ''boot.img'', spec_device = uint DEVICE_FLOPPY, spec_writable = False\<rparr>]\<rparr>"

text \<open>The peer opens the session, confirms the toggle and then closes the connection.\<close>

definition demo_daemon :: "bytes list daemon" where
  "demo_daemon = new_daemon demo_env demo_config (ascii ''u'') (ascii ''pw'') scripted_net
     [start_ok, offers_digest @ challenges, accepts @ session_reply, status_ok]"

definition tick :: "int \<Rightarrow> round_obs" where
  "tick n = \<lparr>ob_stop = False, ob_armed_at = n, ob_checked_at = n\<rparr>"

lemma demo_run: "case run_daemon [tick 1, tick 2, tick 3] demo_daemon of (r, t) \<Rightarrow>
    r = Ok False \<and> log t = map VStr [STATE_STARTING, STATE_CONNECTING, STATE_CONNECTING, STATE_ATTACHED, STATE_DETACHED]"
  by code_simp

section \<open>The gate\<close>

text \<open>
  C16: \<open>attached\<close> is never reported on the strength of an open session alone.  If a daemon has written
  a record that says \<open>attached\<close>, then at the start of some earlier round it was running with an
  engine that had not stopped, an open session, and the firmware's own confirmation of the feature
  toggle.
\<close>

theorem attached_confirmed:
  assumes "run_daemon obs (new_daemon env config user password n w) = (r, t)"
    and "VStr STATE_ATTACHED \<in> phase_of ` set (dm_written t)"
  shows "\<exists>k v. k < length obs \<and> run_daemon (take k obs) (new_daemon env config user password n w) = (Ok True, v)
    \<and> \<not> stopped (dm_engine v) \<and> session_open (dm_engine v) \<and> feature_toggle_ok (dm_engine v) = Some True"
proof -
  let ?d = "new_daemon env config user password n w"
  obtain q u where m: "daemon_main obs ?d = (q, u)" by (cases "daemon_main obs ?d")
  note main = main_run [OF m]
  obtain x where x: "daemon_cleanup u = (Ok (), x)" "dm_written x = dm_written u" using cleanup_run by blast
  have "dm_written t = dm_written u"
    using assms(1) m main x by (auto simp: run_daemon_def bindA_def thenA_def)
  with assms(2) main obtain k v where k: "k < length obs" "daemon_main (take k obs) ?d = (Ok True, v)" "confirmed v"
    by (auto simp: log_def)
  then have "run_daemon (take k obs) ?d = (Ok True, v)" by (simp add: run_daemon_def bindA_def)
  with k show ?thesis by (auto simp: confirmed_def)
qed

lemma demo_attached: "VStr STATE_ATTACHED \<in> phase_of ` set (dm_written (snd (run_daemon [tick 1, tick 2, tick 3] demo_daemon)))"
  using demo_run by (auto simp: log_def split: prod.splits simp flip: set_map)

theorem attached_confirmed_witness:
  "\<exists>k v. k < 3 \<and> run_daemon (take k [tick 1, tick 2, tick 3]) demo_daemon = (Ok True, v)
     \<and> feature_toggle_ok (dm_engine v) = Some True"
  using attached_confirmed [where obs = "[tick 1, tick 2, tick 3]", OF prod.collapse [symmetric] demo_attached [unfolded demo_daemon_def]]
  by (auto simp: demo_daemon_def numeral_3_eq_3)

text \<open>
  What a round makes of the firmware's verdict.  A refusal ends the session with
  \<open>unsupported_capability\<close>, whatever was reported before; a missing verdict ends it with
  \<open>timeout\<close> once the deadline (five seconds after the session was seen open) is reached; and only
  a confirmed toggle turns the report into \<open>attached\<close>.
\<close>

lemma gate_verdicts:
  assumes "daemon_round ob d = (r, t)" "\<not> stopped (dm_engine d)" "\<not> ob_stop ob"
    and "deadline = (case dm_deadline d of None \<Rightarrow> ob_armed_at ob + 5000 | Some x \<Rightarrow> x)"
  shows "case feature_toggle_ok (dm_engine d) of
      Some False \<Rightarrow> r = Ok False \<and> phase_of (last (dm_written t)) = VStr STATE_ERROR
        \<and> get_prop (last (dm_written t)) ''error_class'' = VStr ''unsupported_capability''
    | Some True \<Rightarrow> session_open (dm_engine d) \<longrightarrow> VStr STATE_ATTACHED \<in> phase_of ` set (drop (length (dm_written d)) (dm_written t))
    | None \<Rightarrow> (if session_open (dm_engine d) \<and> deadline \<le> ob_checked_at ob
        then r = Ok False \<and> phase_of (last (dm_written t)) = VStr STATE_ERROR
          \<and> get_prop (last (dm_written t)) ''error_class'' = VStr ''timeout''
        else phase_of (dm_written t ! length (dm_written d)) = phase_of (dm_state d))"
proof -
  have dl: "deadline = deadline_of ob d"
    by (cases "dm_deadline d") (simp_all add: assms(4) deadline_of_def FEATURE_TOGGLE_TIMEOUT_def)
  have new: "map phase_of (drop (length (dm_written d)) (dm_written t)) = xs" if "log t = log d @ xs" for xs
  proof -
    have "drop (length (dm_written d)) (log t) = xs" using that by (simp add: log_def)
    then show ?thesis by (simp add: log_def drop_map)
  qed
  have ends: "phase_of (last (dm_written t)) = v" if "log t = log d @ [v]" for v
    using that by (cases "dm_written t" rule: rev_cases) (auto simp: log_def)
  have first: "phase_of (dm_written t ! length (dm_written d)) = v" if "log t = log d @ v # vs" for v vs
  proof -
    have len: "length (dm_written d) < length (dm_written t)" using arg_cong [OF that, of length] by (simp add: log_def)
    have "log t ! length (dm_written d) = v" using that by (simp add: log_def nth_append)
    with len show ?thesis by (simp add: log_def)
  qed
  show ?thesis
  proof (cases d ob rule: daemon_round_cases)
    case (ended t')
    with assms(2,3) show ?thesis by simp
  next
    case (refused t')
    with assms(1) ends show ?thesis by (simp add: error_class_name_def)
  next
    case (no_verdict t')
    with assms(1) ends dl show ?thesis by (simp add: error_class_name_def)
  next
    case (served r' t')
    with assms(1) new [of "[reported d]"] first [of "reported d" "[]"] dl assms(2) show ?thesis
      by (auto simp: reported_def confirmed_def cur_def split: option.splits if_splits simp flip: set_map)
  next
    case (closed t')
    with assms(1) new [of "[reported d, VStr STATE_DETACHED]"] first [of "reported d" "[VStr STATE_DETACHED]"] dl assms(2)
    show ?thesis
      by (auto simp: reported_def confirmed_def cur_def split: option.splits if_splits simp flip: set_map)
  qed
qed

definition demo_refused :: "bytes list daemon" where
  "demo_refused = demo_daemon\<lparr>dm_engine := (dm_engine demo_daemon)\<lparr>session_open := True, feature_toggle_ok := Some False\<rparr>\<rparr>"

lemma demo_gate_refused:
  "phase_of (last (dm_written (snd (daemon_round (tick 0) demo_refused)))) = VStr STATE_ERROR"
  using gate_verdicts [where ob = "tick 0" and d = demo_refused, OF prod.collapse [symmetric] _ _ refl]
  by (simp add: demo_refused_def demo_daemon_def new_daemon_def new_engine_def tick_def)

section \<open>The life of a session\<close>



section \<open>The state file\<close>

definition daemon_writes :: "file_event list \<Rightarrow> obj list" where
  "daemon_writes es = List.map_filter (\<lambda>e. case e of DaemonWrites d \<Rightarrow> Some d | _ \<Rightarrow> None) es"

definition by_parent :: "file_event \<Rightarrow> bool" where
  "by_parent e \<longleftrightarrow> (case e of DaemonWrites _ \<Rightarrow> False | _ \<Rightarrow> True)"

definition run_file :: "file_event list \<Rightarrow> shared_file" where
  "run_file es = fold file_step es no_file"

text \<open>
  What holds of the file after every event: as long as the daemon has written nothing it is what the
  parent made it; after that it is the daemon's last record under a newer inode than the parent's.
\<close>

definition file_invariant :: "obj \<Rightarrow> file_event list \<Rightarrow> bool" where
  "file_invariant start es \<longleftrightarrow> (case daemon_writes es of
      [] \<Rightarrow> run_file es = (if filter by_parent es = [] then no_file
        else \<lparr>named = Some (0, if filter by_parent es = [ParentCreates] then Garbled else Json (VDict start)),
              next_inode = 1, parent_handle = Some 0\<rparr>)
    | ds \<Rightarrow> \<exists>i. named (run_file es) = Some (i, Json (VDict (last ds))) \<and> i < next_inode (run_file es)
        \<and> (\<forall>h. parent_handle (run_file es) = Some h \<longrightarrow> h < i))"

lemma file_snoc [simp]:
  "daemon_writes (xs @ [DaemonWrites d]) = daemon_writes xs @ [d]"
  "daemon_writes (xs @ [ParentCreates]) = daemon_writes xs"
  "daemon_writes (xs @ [ParentFills d]) = daemon_writes xs"
  "filter by_parent (xs @ [DaemonWrites d]) = filter by_parent xs"
  "filter by_parent (xs @ [ParentCreates]) = filter by_parent xs @ [ParentCreates]"
  "filter by_parent (xs @ [ParentFills d]) = filter by_parent xs @ [ParentFills d]"
  "run_file (xs @ [x]) = file_step x (run_file xs)"
  by (simp_all add: daemon_writes_def map_filter_def by_parent_def run_file_def)

lemma parent_events:
  assumes "prefix (filter by_parent es) [ParentCreates, ParentFills start]"
  shows "filter by_parent es \<in> {[], [ParentCreates], [ParentCreates, ParentFills start]}"
    and "ParentFills start \<in> set es \<longleftrightarrow> filter by_parent es = [ParentCreates, ParentFills start]"
proof -
  show shape: "filter by_parent es \<in> {[], [ParentCreates], [ParentCreates, ParentFills start]}"
    using assms by (auto simp: prefix_Cons)
  have "ParentFills start \<in> set es \<longleftrightarrow> ParentFills start \<in> set (filter by_parent es)"
    unfolding set_filter by (simp add: by_parent_def)
  with shape show "ParentFills start \<in> set es \<longleftrightarrow> filter by_parent es = [ParentCreates, ParentFills start]"
    by (elim insertE emptyE) simp_all
qed

lemma daemon_write_keeps: "file_invariant start xs \<Longrightarrow> file_invariant start (xs @ [DaemonWrites d])"
  by (cases "daemon_writes xs") (auto simp: file_invariant_def no_file_def)

lemma file_invariant_holds:
  "prefix (filter by_parent es) [ParentCreates, ParentFills start] \<Longrightarrow> file_invariant start es"
proof (induction es rule: rev_induct)
  case Nil
  then show ?case by (simp add: file_invariant_def run_file_def daemon_writes_def map_filter_def)
next
  case (snoc x xs)
  then have IH: "file_invariant start xs" by (metis filter_append prefixI prefix_order.trans)
  note shape = parent_events(1) [OF snoc.prems]
  show ?case
  proof (cases x)
    case (DaemonWrites d)
    with IH show ?thesis by (simp add: daemon_write_keeps)
  next
    case ParentCreates
    with shape have "filter by_parent xs = []" by (auto simp: by_parent_def)
    with IH show ?thesis unfolding ParentCreates file_invariant_def file_snoc
      by (auto simp: no_file_def split: list.splits)
  next
    case (ParentFills d)
    with shape have "filter by_parent xs = [ParentCreates]" "d = start" by (auto simp: by_parent_def)
    with IH show ?thesis unfolding ParentFills file_invariant_def file_snoc
      by (auto split: list.splits option.splits)
  qed
qed

text \<open>
  C18: The parent's record never replaces the daemon's.  In every interleaving of the daemon's writes
  with the parent's exclusive creation and filling, the file holds the daemon's latest record as soon as
  there is one; before that a reader sees no record or the parent's complete starting record.
\<close>

theorem daemon_record_wins:
  assumes "prefix (filter by_parent es) [ParentCreates, ParentFills start]"
  shows "parse_state (file_contents (run_file es)) = Ok (case daemon_writes es of
      [] \<Rightarrow> if ParentFills start \<in> set es then Some start else None
    | ds \<Rightarrow> Some (last ds))"
  using file_invariant_holds [OF assms] parent_events [OF assms]
  by (auto simp: file_invariant_def file_contents_def parse_state_def no_file_def split: list.splits)

theorem daemon_record_wins_witness:
  "parse_state (file_contents (run_file [DaemonWrites [(''state'', VStr STATE_ERROR)], ParentCreates, ParentFills []]))
     = Ok (Some [(''state'', VStr STATE_ERROR)])"
  using daemon_record_wins [of "[DaemonWrites [(''state'', VStr STATE_ERROR)], ParentCreates, ParentFills []]" "[]"]
  by (simp add: by_parent_def daemon_writes_def map_filter_def)

end
