(* ===== verification/Media_Module.thy ===== *)
theory Media_Module
  imports Media_Session Redirection
begin

text \<open>
  The module \<^verbatim>\<open>plugins/modules/amt_media.py\<close>: the policy checks, attaching and detaching a media session
  by its state file and process, over the controller machine of \<open>Media_Session\<close>.

  How a run ends is a value of \<open>module_end\<close>: the result handed to \<^verbatim>\<open>exit_json\<close>, or the failure handed
  to \<^verbatim>\<open>fail_json\<close> with its class.  The messages are not modelled.  An exception that is not an
  \<^verbatim>\<open>AmtError\<close> leaves \<open>amt_media_main\<close>, as it leaves the module.
\<close>

section \<open>Parameters and policy\<close>

record media_params =
  mp_host :: string
  mp_port :: "int option"
  mp_username :: string
  mp_password :: string
  mp_use_tls :: bool
  mp_allow_insecure_transport :: bool
  mp_ca_path :: "string option"
  mp_tls_fingerprint :: "string option"
  mp_connect_timeout :: int
  mp_cdrom :: "string option"
  mp_floppy :: "string option"
  mp_floppy_writable :: bool
  mp_start_mode :: string
  mp_attached :: bool
  mp_session_id :: "string option"
  mp_allowed_directory :: "string option"
  mp_runtime_dir :: string
  mp_attach_timeout :: int
  mp_detach_timeout :: int

definition START_MODE_TO_VALUE :: "(string \<times> int) list" where
  "START_MODE_TO_VALUE = [(''on_reboot'', START_MODE_ON_REBOOT), (''graceful'', START_MODE_GRACEFUL),
     (''immediate'', START_MODE_IMMEDIATE)]"

definition resolve_redirection_port :: "int option \<Rightarrow> bool \<Rightarrow> int" where
  "resolve_redirection_port p use_tls = (case p of Some n \<Rightarrow> n
     | None \<Rightarrow> if use_tls then REDIRECTION_PORT_TLS else REDIRECTION_PORT_PLAIN)"

definition build_media_specs :: "media_params \<Rightarrow> MediaSpec list outcome" where
  "build_media_specs ps =
     (if \<not> given (mp_cdrom ps) \<and> \<not> given (mp_floppy ps) then Raise InvalidStateError
      else if mp_floppy_writable ps \<and> \<not> given (mp_floppy ps) then Raise InvalidStateError
      else Ok
        ((if given (mp_cdrom ps)
          then [\<lparr>spec_path = the (mp_cdrom ps), spec_device = uint DEVICE_CDROM, spec_writable = False\<rparr>] else []) @
         (if given (mp_floppy ps)
          then [\<lparr>spec_path = the (mp_floppy ps), spec_device = uint DEVICE_FLOPPY,
                 spec_writable = mp_floppy_writable ps\<rparr>] else [])))"

definition enforce_redirection_trust_policy :: "media_params \<Rightarrow> unit outcome" where
  "enforce_redirection_trust_policy ps =
     (if given (mp_ca_path ps) then Raise TlsValidationError
      else if mp_use_tls ps \<and> \<not> given (mp_tls_fingerprint ps) then Raise TlsValidationError
      else Ok ())"

definition build_session_config :: "media_params \<Rightarrow> string \<Rightarrow> int \<Rightarrow> MediaSpec list \<Rightarrow> SessionConfig outcome" where
  "build_session_config ps sid p specs =
     (case (if given (mp_tls_fingerprint ps)
            then (case normalize_fingerprint (the (mp_tls_fingerprint ps)) of Raise x \<Rightarrow> Raise x | Ok f \<Rightarrow> Ok (Some f))
            else Ok None) of
        Raise x \<Rightarrow> Raise x
      | Ok pin \<Rightarrow> (case map_of START_MODE_TO_VALUE (mp_start_mode ps) of
            None \<Rightarrow> Raise (PyError KeyError)
          | Some mode \<Rightarrow> Ok
            \<lparr>cfg_session_id = sid, cfg_host = mp_host ps, cfg_port = p, cfg_use_tls = mp_use_tls ps,
             cfg_tls_pin_sha256 = pin, cfg_connect_timeout = mp_connect_timeout ps * 1000, cfg_start_mode = mode,
             cfg_allowed_directory = mp_allowed_directory ps, cfg_runtime_dir = mp_runtime_dir ps,
             cfg_devices = specs\<rparr>))"

section \<open>Results\<close>

record status_fields =
  sf_session_state :: val
  sf_pid :: val
  sf_bytes_read :: int
  sf_bytes_written :: int
  sf_devices :: val
  sf_error :: val
  sf_tls_peer_fingerprint :: val

text \<open>\<^verbatim>\<open>(state or {}).get(key, default)\<close>.\<close>

definition state_get :: "obj option \<Rightarrow> string \<Rightarrow> val \<Rightarrow> val" where
  "state_get st k dflt = (case map_of (case st of None \<Rightarrow> [] | Some d \<Rightarrow> d) k of None \<Rightarrow> dflt | Some v \<Rightarrow> v)"

definition status_fields_of :: "obj option \<Rightarrow> status_fields outcome" where
  "status_fields_of st = (case aggregate_bytes st of
      Raise x \<Rightarrow> Raise x
    | Ok (r, w) \<Rightarrow> Ok \<lparr>sf_session_state = state_get st ''state'' (VStr ''unknown''), sf_pid = state_get st ''pid'' VNone,
        sf_bytes_read = r, sf_bytes_written = w, sf_devices = state_get st ''devices'' (VDict []),
        sf_error = state_get st ''error'' VNone, sf_tls_peer_fingerprint = state_get st ''tls_peer_fingerprint'' VNone\<rparr>)"

definition error_class_of_state :: "obj option \<Rightarrow> val" where
  "error_class_of_state st =
     (let c = state_get st ''error_class'' VNone in if py_bool c then c else VStr (error_class_name PROTOCOL))"

text \<open>What \<^verbatim>\<open>_finalize\<close> puts together: the receipt's content and the module's own keys.\<close>

record media_result =
  mr_action :: string
  mr_changed :: bool
  mr_session_id :: val
  mr_fields :: status_fields
  mr_previous :: "obj option"
  mr_desired :: "string option"
  mr_observed :: "obj option"
  mr_fingerprint :: val
  mr_recovered_stale :: "bool option"
  mr_exited_cleanly :: "bool option"

record media_failure =
  mf_error_class :: val
  mf_indeterminate :: bool
  mf_session :: "(val \<times> status_fields) option"

datatype module_end = Exit media_result | Fail media_failure

definition fail_with :: "obj option \<Rightarrow> string \<Rightarrow> status_fields \<Rightarrow> module_end" where
  "fail_with st sid flds =
     Fail \<lparr>mf_error_class = error_class_of_state st, mf_indeterminate = False, mf_session = Some (VStr sid, flds)\<rparr>"

section \<open>Attach\<close>

text \<open>\<^verbatim>\<open>value in TERMINAL_STATES\<close> (a frozenset: an unhashable value raises).\<close>

definition in_terminal_states :: "val \<Rightarrow> bool outcome" where
  "in_terminal_states v = (case v of
      VStr s \<Rightarrow> Ok (s \<in> set TERMINAL_STATES)
    | VList _ \<Rightarrow> Raise (PyError TypeError)
    | VDict _ \<Rightarrow> Raise (PyError TypeError)
    | _ \<Rightarrow> Ok False)"

text \<open>Whether a live session that has not ended answers to the record.\<close>

definition session_is_live :: "obj option \<Rightarrow> ('e controller, bool) action" where
  "session_is_live existing = (case existing of
      None \<Rightarrow> ret False
    | Some d \<Rightarrow> bindA (is_pid_alive (get_prop d ''pid'')) (\<lambda>alive.
        if \<not> alive then ret False
        else bindA (liftA (in_terminal_states (get_prop d ''state''))) (\<lambda>over. ret (\<not> over))))"

definition attach_settled :: "obj \<Rightarrow> bool" where
  "attach_settled d \<longleftrightarrow> get_prop d ''state'' \<in> {VStr STATE_ATTACHED, VStr STATE_ERROR, VStr STATE_DETACHED}"

text \<open>What the module makes of the record it observed last: only \<^verbatim>\<open>attached\<close> is a success.\<close>

definition attach_verdict ::
  "media_params \<Rightarrow> string \<Rightarrow> obj option \<Rightarrow> bool \<Rightarrow> obj option \<Rightarrow> ('e controller, module_end) action" where
  "attach_verdict ps sid existing stale observed =
     bindA (liftA (status_fields_of observed)) (\<lambda>flds.
       if sf_session_state flds = VStr STATE_ERROR then ret (fail_with observed sid flds)
       else if sf_session_state flds \<noteq> VStr STATE_ATTACHED then
         bindA (is_pid_alive (state_get observed ''pid'' VNone)) (\<lambda>alive.
           if \<not> alive then
             bindA (read_state_file (mp_runtime_dir ps) sid) (\<lambda>again.
               let final = (case again of Some d \<Rightarrow> if d = [] then observed else again | None \<Rightarrow> observed)
               in bindA (liftA (status_fields_of final)) (\<lambda>final_fields. ret (fail_with final sid final_fields)))
           else bindA (liftA (in_terminal_states (sf_session_state flds))) (\<lambda>over.
             if over then ret (fail_with observed sid flds)
             else ret (Fail \<lparr>mf_error_class = VStr (error_class_name TIMEOUT), mf_indeterminate = True,
                         mf_session = Some (VStr sid, flds)\<rparr>)))
       else ret (Exit \<lparr>mr_action = ''amt_media.attach'', mr_changed = True, mr_session_id = VStr sid, mr_fields = flds,
              mr_previous = existing, mr_desired = Some ''attached'', mr_observed = observed,
              mr_fingerprint = sf_tls_peer_fingerprint flds, mr_recovered_stale = Some stale,
              mr_exited_cleanly = None\<rparr>))"

definition start_and_wait ::
  "media_params \<Rightarrow> int \<Rightarrow> string \<Rightarrow> obj option \<Rightarrow> MediaSpec list \<Rightarrow> ('e controller, module_end) action" where
  "start_and_wait ps p sid existing specs =
     bindA (liftA (build_session_config ps sid p specs)) (\<lambda>config.
     bindA (spawn_session config (mp_username ps) (mp_password ps)) (\<lambda>_.
     bindA (wait_for_state (mp_runtime_dir ps) sid attach_settled (mp_attach_timeout ps * 1000)) (\<lambda>observed.
       attach_verdict ps sid existing (existing \<noteq> None) observed)))"

definition starting_fields :: status_fields where
  "starting_fields = \<lparr>sf_session_state = VStr ''starting'', sf_pid = VNone, sf_bytes_read = 0, sf_bytes_written = 0,
     sf_devices = VDict [], sf_error = VNone, sf_tls_peer_fingerprint = VNone\<rparr>"

definition attach :: "bool \<Rightarrow> media_params \<Rightarrow> int \<Rightarrow> ('e controller, module_end) action" where
  "attach check_mode ps p =
     bindA (if given (mp_session_id ps) then ret (the (mp_session_id ps)) else on_world h_uuid_hex) (\<lambda>sid.
     bindA (read_state_file (mp_runtime_dir ps) sid) (\<lambda>existing.
     bindA (session_is_live existing) (\<lambda>live.
       if live then
         bindA (liftA (status_fields_of existing)) (\<lambda>flds.
           ret (Exit \<lparr>mr_action = ''amt_media.attach'', mr_changed = False, mr_session_id = VStr sid, mr_fields = flds,
             mr_previous = existing, mr_desired = None, mr_observed = existing,
             mr_fingerprint = sf_tls_peer_fingerprint flds, mr_recovered_stale = None, mr_exited_cleanly = None\<rparr>))
       else thenA (if existing \<noteq> None then remove_state (mp_runtime_dir ps) sid else ret ())
         (bindA (liftA (build_media_specs ps)) (\<lambda>specs.
          thenA (validate_media_specs specs (mp_allowed_directory ps))
            (if check_mode then
               ret (Exit \<lparr>mr_action = ''amt_media.attach'', mr_changed = True, mr_session_id = VStr sid,
                 mr_fields = starting_fields, mr_previous = existing, mr_desired = Some ''attached'',
                 mr_observed = None, mr_fingerprint = VNone, mr_recovered_stale = Some (existing \<noteq> None),
                 mr_exited_cleanly = None\<rparr>)
             else start_and_wait ps p sid existing specs))))))"

section \<open>Detach\<close>

definition detach_result ::
  "val \<Rightarrow> bool \<Rightarrow> status_fields \<Rightarrow> obj option \<Rightarrow> obj option \<Rightarrow> val \<Rightarrow> bool option \<Rightarrow> bool option \<Rightarrow> module_end" where
  "detach_result sid changed flds previous observed fp stale exited =
     Exit \<lparr>mr_action = ''amt_media.detach'', mr_changed = changed, mr_session_id = sid, mr_fields = flds,
       mr_previous = previous, mr_desired = Some ''detached'', mr_observed = observed, mr_fingerprint = fp,
       mr_recovered_stale = stale, mr_exited_cleanly = exited\<rparr>"

definition stop_and_wait :: "media_params \<Rightarrow> string \<Rightarrow> obj \<Rightarrow> ('e controller, module_end) action" where
  "stop_and_wait ps sid existing =
     (let pid = get_prop existing ''pid''
      in thenA (request_stop pid)
        (bindA (wait_for_exit pid (mp_detach_timeout ps * 1000)) (\<lambda>exited.
         bindA (read_state_file (mp_runtime_dir ps) sid) (\<lambda>again.
         let final = (case again of Some d \<Rightarrow> if d = [] then existing else d | None \<Rightarrow> existing)
         in thenA (remove_state (mp_runtime_dir ps) sid)
           (thenA (if exited then ret () else did Warned)
             (bindA (liftA (status_fields_of (Some final))) (\<lambda>flds.
                ret (detach_result (VStr sid) True flds (Some existing) (Some final)
                  (sf_tls_peer_fingerprint flds) None (Some exited)))))))))"

definition detach :: "bool \<Rightarrow> media_params \<Rightarrow> ('e controller, module_end) action" where
  "detach check_mode ps =
     (let sid = the (mp_session_id ps)
      in bindA (read_state_file (mp_runtime_dir ps) sid) (\<lambda>st. case st of
          None \<Rightarrow> bindA (liftA (status_fields_of None)) (\<lambda>flds.
            ret (detach_result (VStr sid) False flds None None VNone None None))
        | Some existing \<Rightarrow> bindA (is_pid_alive (get_prop existing ''pid'')) (\<lambda>live.
            if check_mode then bindA (liftA (status_fields_of st)) (\<lambda>flds.
              ret (detach_result (VStr sid) live flds st st VNone None None))
            else if \<not> live then thenA (remove_state (mp_runtime_dir ps) sid)
              (bindA (liftA (status_fields_of st)) (\<lambda>flds.
                ret (detach_result (VStr sid) False flds st st VNone (Some True) None)))
            else stop_and_wait ps sid existing)))"

section \<open>The module\<close>

text \<open>\<^verbatim>\<open>except AmtError as err: fail_json(**err.to_result())\<close>.\<close>

definition to_result :: "exn \<Rightarrow> module_end" where
  "to_result x = Fail \<lparr>mf_error_class = (case x of AmtError e \<Rightarrow> VStr (error_class_name (error_class e)) | _ \<Rightarrow> VNone),
     mf_indeterminate = (case x of AmtError e \<Rightarrow> indeterminate e | _ \<Rightarrow> False), mf_session = None\<rparr>"

definition amt_media_main :: "bool \<Rightarrow> media_params \<Rightarrow> ('e controller, module_end) action" where
  "amt_media_main check_mode ps =
     catchA
       (if mp_attached ps then
          bindA (liftA (enforce_transport_policy (mp_use_tls ps) (mp_allow_insecure_transport ps))) (\<lambda>_.
          bindA (liftA (enforce_redirection_trust_policy ps)) (\<lambda>_.
            attach check_mode ps (resolve_redirection_port (mp_port ps) (mp_use_tls ps))))
        else detach check_mode ps)
       is_amt_error (\<lambda>x. ret (to_result x))"

end
