(* ===== verification/Media_Control.thy ===== *)
theory Media_Control
  imports Media_Module
begin

text \<open>
  The properties of the module \<^verbatim>\<open>amt_media\<close>: what it does to the controller machine, what it reports, and that
  its waits end.  \<open>tracks Q m\<close> says that every run of \<open>m\<close> appends effects \<open>es\<close> and ends with an outcome
  \<open>r\<close> such that \<open>Q r es\<close>; its rules follow the constructs of an action.
\<close>

section \<open>Tracking effects\<close>

definition tracks :: "('a outcome \<Rightarrow> effect list \<Rightarrow> bool) \<Rightarrow> ('e controller, 'a) action \<Rightarrow> bool" where
  "tracks Q m \<longleftrightarrow> (\<forall>c r t. m c = (r, t) \<longrightarrow> (\<exists>es. c_effects t = c_effects c @ es \<and> Q r es))"


named_theorems tracks_intros \<open>rules that track the effects of an action\<close>














lemma tracks_case_outcome [tracks_intros]:
  "(\<And>x. r = Ok x \<Longrightarrow> tracks Q (m x)) \<Longrightarrow> (\<And>e. r = Raise e \<Longrightarrow> tracks Q (k e)) \<Longrightarrow>
     tracks Q (case r of Ok x \<Rightarrow> m x | Raise e \<Rightarrow> k e)"
  by (cases r) auto

lemma tracks_case_kill [tracks_intros]:
  "tracks Q a \<Longrightarrow> tracks Q b \<Longrightarrow> tracks Q d \<Longrightarrow> (\<And>x. tracks Q (f x)) \<Longrightarrow>
     tracks Q (case k of Delivered \<Rightarrow> a | NoProcess \<Rightarrow> b | NotPermitted \<Rightarrow> d | KillFailed x \<Rightarrow> f x)"
  by (cases k) auto

section \<open>The operations\<close>









section \<open>A controller for the witnesses\<close>

text \<open>Its daemon, pid 7, reports \<open>attached\<close> as soon as the controller sleeps.\<close>

record demo_world =
  dw_time :: int
  dw_file :: file_view
  dw_running :: bool

definition demo_record :: "string \<Rightarrow> file_view" where
  "demo_record st = Json (VDict [(''pid'', VInt 7), (''state'', VStr st)])"

definition demo_host :: "demo_world host" where
  "demo_host = \<lparr>h_read = (\<lambda>_ _ w. (dw_file w, w)), h_remove = (\<lambda>_ _ w. w\<lparr>dw_file := Missing\<rparr>),
     h_create = (\<lambda>_ _ d w. if dw_file w = Missing then (True, w\<lparr>dw_file := Json (VDict d)\<rparr>) else (False, w)),
     h_kill = (\<lambda>p stop w. (if dw_running w \<and> p = 7 then Delivered else NoProcess, if stop then w\<lparr>dw_running := False\<rparr> else w)),
     h_clock = (\<lambda>w. (dw_time w, w)),
     h_sleep = (\<lambda>n w. w\<lparr>dw_time := dw_time w + n, dw_file := demo_record STATE_ATTACHED\<rparr>),
     h_spawn = (\<lambda>_ _ _ w. (Reported ''7'', w\<lparr>dw_running := True\<rparr>)), h_now_iso = (\<lambda>_. ''now''),
     h_uuid_hex = (\<lambda>w. (''id'', w)),
     h_files = (\<lambda>_. \<lparr>fs_is_symlink = (\<lambda>_. False), fs_resolve = Some, fs_content = (\<lambda>_. replicate 512 7), fs_can_open = (\<lambda>_ _. True)\<rparr>),
     h_path = (\<lambda>s. [s])\<rparr>"

definition demo_controller :: "file_view \<Rightarrow> bool \<Rightarrow> demo_world controller" where
  "demo_controller f alive = \<lparr>c_host = demo_host, c_world = \<lparr>dw_time = 0, dw_file = f, dw_running = alive\<rparr>,
     c_effects = [], c_rounds = 60\<rparr>"

definition demo_params :: "bool \<Rightarrow> media_params" where
  "demo_params attached = \<lparr>mp_host = ''amt'', mp_port = None, mp_username = ''admin'', mp_password = ''pw'', mp_use_tls = False,
     mp_allow_insecure_transport = True, mp_ca_path = None, mp_tls_fingerprint = None, mp_connect_timeout = 10,
     mp_cdrom = Some ''boot.iso'', mp_floppy = None, mp_floppy_writable = False, mp_start_mode = ''on_reboot'',
     mp_attached = attached, mp_session_id = Some ''s'', mp_allowed_directory = None, mp_runtime_dir = ''run'',
     mp_attach_timeout = 10, mp_detach_timeout = 15\<rparr>"

definition is_change :: "module_end outcome \<Rightarrow> bool" where
  "is_change r \<longleftrightarrow> (case r of Ok (Exit res) \<Rightarrow> mr_changed res | _ \<Rightarrow> False)"


lemma demo_check_mode: "case amt_media_main True (demo_params True) (demo_controller (demo_record STATE_ERROR) False) of
    (r, t) \<Rightarrow> is_change r \<and> c_effects t = [Removed ''run'' ''s'']"
  by code_simp


section \<open>Attaching\<close>





















section \<open>Detaching\<close>

lemma read_state_run:
  "read_state_file dir sid c = (case h_read (c_host c) dir sid (c_world c) of (f, w) \<Rightarrow> (parse_state f, c\<lparr>c_world := w\<rparr>))"
  by (simp add: read_state_file_def on_world_def bindA_def split: prod.splits)






section \<open>Waits\<close>

text \<open>
  What the waits need of the machine: a monotonic clock \<open>tm\<close> that reading the state file does not turn back,
  and a sleep that lasts at least as long as asked (\<^verbatim>\<open>time.monotonic\<close>, \<^verbatim>\<open>time.sleep\<close>).
\<close>

definition clock_runs :: "'e host \<Rightarrow> ('e \<Rightarrow> int) \<Rightarrow> bool" where
  "clock_runs h tm \<longleftrightarrow> (\<forall>w. fst (h_clock h w) = tm w \<and> tm w \<le> tm (snd (h_clock h w)))
     \<and> (\<forall>n w. tm w + n \<le> tm (h_sleep h n w)) \<and> (\<forall>dir sid w. tm w \<le> tm (snd (h_read h dir sid w)))"

text \<open>One turn: it returns (or the read raises), or sleeps and goes on before the deadline.\<close>

lemma wait_round:
  assumes "clock_runs (c_host c) tm" "wait_for_state_loop (Suc n) dir sid until deadline c = (r, t)"
  shows "(r \<noteq> Raise OutOfFuel \<and> (\<forall>x. r = Ok x \<longrightarrow> (\<exists>d. x = Some d \<and> until d) \<or> deadline \<le> tm (c_world t)))
    \<or> (\<exists>u. c_host u = c_host c \<and> tm (c_world c) + 200 \<le> tm (c_world u) \<and> tm (c_world c) < deadline
        \<and> wait_for_state_loop n dir sid until deadline u = (r, t))"
proof -
  let ?h = "c_host c"
  obtain f w1 where f: "h_read ?h dir sid (c_world c) = (f, w1)" by (cases "h_read ?h dir sid (c_world c)")
  obtain now w2 where k: "h_clock ?h w1 = (now, w2)" by (cases "h_clock ?h w1")
  from assms(1) f k have tm: "tm (c_world c) \<le> tm w1" "now = tm w1" "tm w1 \<le> tm w2" "tm w2 + 200 \<le> tm (h_sleep ?h 200 w2)"
    unfolding clock_runs_def by (metis snd_conv fst_conv)+
  let ?c1 = "c\<lparr>c_world := w1\<rparr>" and ?c2 = "c\<lparr>c_world := w2\<rparr>"
  have run: "wait_for_state_loop (Suc n) dir sid until deadline c = (case parse_state f of
      Raise x \<Rightarrow> (Raise x, ?c1)
    | Ok observed \<Rightarrow> if (case observed of None \<Rightarrow> False | Some d \<Rightarrow> until d) then (Ok observed, ?c1)
        else if deadline \<le> now then (Ok observed, ?c2)
        else wait_for_state_loop n dir sid until deadline (c\<lparr>c_world := h_sleep ?h 200 w2\<rparr>))"
    using f k by (simp add: read_state_run bindA_def thenA_def on_world_def STATE_POLL_INTERVAL_def split: outcome.splits)
  show ?thesis
  proof (cases "parse_state f")
    case (Raise x)
    with assms(2) run have "r = Raise x" by simp
    moreover have "x \<noteq> OutOfFuel" using Raise by (auto simp: parse_state_def split: file_view.splits val.splits)
    ultimately show ?thesis by simp
  next
    case (Ok observed)
    consider "case observed of None \<Rightarrow> False | Some d \<Rightarrow> until d"
      | "\<not> (case observed of None \<Rightarrow> False | Some d \<Rightarrow> until d)" "deadline \<le> now"
      | "\<not> (case observed of None \<Rightarrow> False | Some d \<Rightarrow> until d)" "\<not> deadline \<le> now" by blast
    then show ?thesis
    proof cases
      case 1
      with assms(2) run Ok show ?thesis by (auto split: option.splits)
    next
      case 2
      with assms(2) run Ok tm show ?thesis by auto
    next
      case 3
      with assms(2) run Ok tm show ?thesis by (intro disjI2 exI [of _ "c\<lparr>c_world := h_sleep ?h 200 w2\<rparr>"]) auto
    qed
  qed
qed

lemma wait_loop_ends:
  "clock_runs (c_host c) tm \<Longrightarrow> deadline - tm (c_world c) \<le> int n * 200 \<Longrightarrow>
    wait_for_state_loop (Suc n) dir sid until deadline c = (r, t) \<Longrightarrow>
    r \<noteq> Raise OutOfFuel \<and> (\<forall>x. r = Ok x \<longrightarrow> (\<exists>d. x = Some d \<and> until d) \<or> deadline \<le> tm (c_world t))"
proof (induction n arbitrary: c)
  case (0 c)
  from wait_round [OF 0(1,3)] 0(2) show ?case by auto
next
  case (Suc n c)
  from wait_round [OF Suc.prems(1,3)] show ?case
  proof
    assume "\<exists>u. c_host u = c_host c \<and> tm (c_world c) + 200 \<le> tm (c_world u) \<and> tm (c_world c) < deadline
      \<and> wait_for_state_loop (Suc n) dir sid until deadline u = (r, t)"
    then obtain u where u: "c_host u = c_host c" "tm (c_world c) + 200 \<le> tm (c_world u)"
      "wait_for_state_loop (Suc n) dir sid until deadline u = (r, t)" by blast
    with Suc.prems(1,2) show ?thesis by (intro Suc.IH [of u]) auto
  qed blast
qed

text \<open>
  Waiting for a state ends.  With a running clock and one round more than the polling intervals in
  the timeout, the wait does not run out of rounds: it returns a record that is what was waited for, or
  whatever it read once the timeout has passed.
\<close>

lemma wait_ends:
  assumes "clock_runs (c_host c) tm" "timeout_ms \<le> (int (c_rounds c) - 1) * 200"
    and "wait_for_state dir sid until timeout_ms c = (r, t)" "0 < c_rounds c"
  shows "r \<noteq> Raise OutOfFuel
    \<and> (\<forall>x. r = Ok x \<longrightarrow> (\<exists>d. x = Some d \<and> until d) \<or> tm (c_world c) + timeout_ms \<le> tm (c_world t))"
proof -
  obtain now w where k: "h_clock (c_host c) (c_world c) = (now, w)" by (cases "h_clock (c_host c) (c_world c)")
  from assms(1) k have tm: "now = tm (c_world c)" "tm (c_world c) \<le> tm w" unfolding clock_runs_def by (metis snd_conv fst_conv)+
  obtain n where n: "c_rounds c = Suc n" using assms(4) by (cases "c_rounds c") auto
  have "wait_for_state_loop (Suc n) dir sid until (now + timeout_ms) (c\<lparr>c_world := w\<rparr>) = (r, t)"
    using assms(3) k n by (simp add: wait_for_state_def on_world_def bindA_def)
  with wait_loop_ends [of "c\<lparr>c_world := w\<rparr>" tm "now + timeout_ms" n] assms(1,2) n tm show ?thesis by auto
qed

end
