(* ===== verification/Redaction.thy ===== *)
theory Redaction
  imports Models
begin

text \<open>
  Secret redaction: \<^verbatim>\<open>redact\<close> of \<^verbatim>\<open>plugins/module_utils/errors.py\<close>.

  The seven patterns are terms of a small regular-expression type with the constructs they use
  (classes, greedy and lazy repetition, groups, backreferences, word boundaries, line starts, a
  tempered dot); \<open>rx_match\<close> is a backtracking matcher that lists the matches in the order the
  engine tries them, and \<open>rx_sub\<close> is \<^verbatim>\<open>pattern.sub\<close>.  Matching ignores case, over Latin-1 text.
  The iteration order of a set of strings and \<^verbatim>\<open>bytes.decode("utf-8", "replace")\<close> are parameters.

  The abstract specification is \<open>masked\<close> of theory \<open>Redaction_Properties\<close>: every change replaces a piece of the text by the marker.
\<close>

section \<open>Regular expressions\<close>

datatype rx =
    Nothing
  | Cls "char \<Rightarrow> bool"
  | Rep nat "nat option" "char \<Rightarrow> bool"
  | Lazy "char \<Rightarrow> bool"
  | Until nat
  | Seq rx rx
  | Alt rx rx
  | Grp nat rx
  | Back nat
  | WordBoundary
  | LineStart

text \<open>A spot of the subject: what precedes it (reversed), what follows it, and the groups set so far.\<close>

type_synonym groups = "(nat \<times> string) list"
type_synonym spot = "string \<times> string \<times> groups"

definition is_word :: "char \<Rightarrow> bool" where
  "is_word c \<longleftrightarrow> (let n = code c in 48 \<le> n \<and> n \<le> 57 \<or> 65 \<le> n \<and> n \<le> 90 \<or> n = 95 \<or> 97 \<le> n \<and> n \<le> 122
     \<or> n \<in> {170, 178, 179, 181, 185, 186, 188, 189, 190} \<or> 192 \<le> n \<and> n \<noteq> 215 \<and> n \<noteq> 247)"

definition word_at :: "string \<Rightarrow> bool" where
  "word_at s = (case s of [] \<Rightarrow> False | c # _ \<Rightarrow> is_word c)"

definition NEWLINE :: char where "NEWLINE = CHR 0x0A"

definition starts_ci :: "string \<Rightarrow> string \<Rightarrow> bool" where
  "starts_ci t r \<longleftrightarrow> lower (take (length t) r) = lower t"

text \<open>The length of \<^verbatim>\<open>(?:(?!\N).)*\<close>: characters up to the group's text or the end of the line.\<close>

fun until_length :: "string \<Rightarrow> string \<Rightarrow> nat" where
  "until_length t [] = 0"
| "until_length t (c # cs) = (if starts_ci t (c # cs) \<or> c = NEWLINE then 0 else Suc (until_length t cs))"

definition advance :: "spot \<Rightarrow> nat \<Rightarrow> spot" where
  "advance s k = (case s of (b, r, g) \<Rightarrow> (rev (take k r) @ b, drop k r, g))"

definition run_length :: "(char \<Rightarrow> bool) \<Rightarrow> nat option \<Rightarrow> string \<Rightarrow> nat" where
  "run_length p hi r = (let n = length (takeWhile p r) in case hi of None \<Rightarrow> n | Some h \<Rightarrow> min h n)"

fun rx_match :: "rx \<Rightarrow> spot \<Rightarrow> spot list" where
  "rx_match Nothing s = [s]"
| "rx_match (Cls p) s = (case s of (b, r, g) \<Rightarrow> (case r of [] \<Rightarrow> [] | c # _ \<Rightarrow> if p c then [advance s 1] else []))"
| "rx_match (Rep lo hi p) s = (case s of (b, r, g) \<Rightarrow> map (advance s) (rev [lo ..< Suc (run_length p hi r)]))"
| "rx_match (Lazy p) s = (case s of (b, r, g) \<Rightarrow> map (advance s) [0 ..< Suc (run_length p None r)])"
| "rx_match (Until n) s = (case s of (b, r, g) \<Rightarrow> map (advance s) (rev [0 ..< Suc (case map_of g n of
       None \<Rightarrow> run_length (\<lambda>c. c \<noteq> NEWLINE) None r | Some t \<Rightarrow> until_length t r)]))"
| "rx_match (Seq x y) s = concat (map (rx_match y) (rx_match x s))"
| "rx_match (Alt x y) s = rx_match x s @ rx_match y s"
| "rx_match (Grp n x) s = (case s of (b, r, g) \<Rightarrow>
     map (\<lambda>(b', r', g'). (b', r', (n, take (length r - length r') r) # g')) (rx_match x s))"
| "rx_match (Back n) s = (case s of (b, r, g) \<Rightarrow> (case map_of g n of
       None \<Rightarrow> [] | Some t \<Rightarrow> if starts_ci t r then [advance s (length t)] else []))"
| "rx_match WordBoundary s = (case s of (b, r, g) \<Rightarrow> if word_at b \<noteq> word_at r then [s] else [])"
| "rx_match LineStart s = (case s of (b, r, g) \<Rightarrow> (case b of [] \<Rightarrow> [s] | c # _ \<Rightarrow> if c = NEWLINE then [s] else []))"

text \<open>A replacement template: literal text and group references; an unset group is empty.\<close>

datatype piece = Text string | Ref nat

definition expand_piece :: "groups \<Rightarrow> piece \<Rightarrow> string" where
  "expand_piece g p = (case p of Text s \<Rightarrow> s | Ref n \<Rightarrow> (case map_of g n of None \<Rightarrow> [] | Some t \<Rightarrow> t))"

definition expand :: "groups \<Rightarrow> piece list \<Rightarrow> string" where
  "expand g ps = concat (map (expand_piece g) ps)"

text \<open>\<^verbatim>\<open>pattern.sub(replacement, text)\<close>: leftmost matches, left to right, not overlapping.\<close>

function rx_sub :: "rx \<Rightarrow> piece list \<Rightarrow> string \<Rightarrow> string \<Rightarrow> string" where
  "rx_sub p t b r = (case rx_match p (b, r, []) of
      [] \<Rightarrow> (case r of [] \<Rightarrow> [] | c # cs \<Rightarrow> c # rx_sub p t (c # b) cs)
    | (b', r', g) # _ \<Rightarrow>
        if length r' < length r then expand g t @ rx_sub p t b' r'
        else expand g t @ (case r of [] \<Rightarrow> [] | c # cs \<Rightarrow> c # rx_sub p t (c # b) cs))"
  by pat_completeness auto
termination
  by (relation "measure (\<lambda>(p, t, b, r). length r)") auto

declare rx_sub.simps [simp del]

section \<open>The patterns\<close>

definition seqs :: "rx list \<Rightarrow> rx" where
  "seqs rs = foldr Seq rs Nothing"

definition same_ci :: "char \<Rightarrow> char \<Rightarrow> bool" where
  "same_ci c x \<longleftrightarrow> lower_char x = lower_char c"

definition word_rx :: "string \<Rightarrow> rx" where
  "word_rx s = seqs (map (\<lambda>c. Cls (same_ci c)) s)"

fun any_of :: "rx list \<Rightarrow> rx" where
  "any_of [] = Nothing"
| "any_of [x] = x"
| "any_of (x # y # xs) = Alt x (any_of (y # xs))"

abbreviation "maybe p \<equiv> Rep 0 (Some 1) p"
abbreviation "many p \<equiv> Rep 0 None p"
abbreviation "some p \<equiv> Rep 1 None p"

definition is_quote :: "char \<Rightarrow> bool" where
  "is_quote c \<longleftrightarrow> c \<in> {CHR 0x27, CHR 0x22}"

definition is_sep :: "char \<Rightarrow> bool" where
  "is_sep c \<longleftrightarrow> c \<in> {CHR '':'', CHR ''=''}"

definition is_eol :: "char \<Rightarrow> bool" where
  "is_eol c \<longleftrightarrow> c \<in> {CHR 0x0D, CHR 0x0A}"

definition is_alpha :: "char \<Rightarrow> bool" where
  "is_alpha c \<longleftrightarrow> 97 \<le> code (lower_char c) \<and> code (lower_char c) \<le> 122"

definition is_digit :: "char \<Rightarrow> bool" where
  "is_digit c \<longleftrightarrow> 48 \<le> code c \<and> code c \<le> 57"

definition is_tag_char :: "char \<Rightarrow> bool" where
  "is_tag_char c \<longleftrightarrow> is_alpha c \<or> is_digit c \<or> c \<in> set ''_:.-''"

definition is_scheme_char :: "char \<Rightarrow> bool" where
  "is_scheme_char c \<longleftrightarrow> is_alpha c \<or> is_digit c \<or> c \<in> set ''+.-''"

definition header_names :: rx where
  "header_names = any_of (map word_rx [''authorization'', ''proxy-authorization'', ''set-cookie'', ''cookie''])"

definition REDACTED :: string where "REDACTED = ''[REDACTED]''"

definition quoted_header :: "rx \<times> piece list" where
  "quoted_header =
     (seqs [WordBoundary, Grp 1 header_names,
        Grp 2 (seqs [Rep 0 (Some 3) (\<lambda>c. \<not> is_word c), many is_space, Cls is_sep, many is_space]),
        Grp 3 (Cls is_quote), Until 3, Back 3],
      [Ref 1, Ref 2, Ref 3, Text REDACTED, Ref 3])"

definition line_header :: "rx \<times> piece list" where
  "line_header =
     (seqs [LineStart, Grp 1 (many is_space), Grp 2 header_names,
        Grp 3 (seqs [many is_space, Cls (\<lambda>c. c = CHR '':''), many is_space]), some (\<lambda>c. \<not> is_eol c)],
      [Ref 1, Ref 2, Ref 3, Text REDACTED])"

definition bare_header :: "rx \<times> piece list" where
  "bare_header =
     (seqs [WordBoundary, Grp 1 header_names,
        Grp 2 (seqs [many is_space, Cls (\<lambda>c. c = CHR '':''), many is_space]), some (\<lambda>c. \<not> is_eol c)],
      [Ref 1, Ref 2, Text REDACTED])"

definition key_separator :: rx where
  "key_separator = seqs [maybe is_quote, many is_space, Cls is_sep, many is_space]"

definition digest_field :: "rx \<times> piece list" where
  "digest_field =
     (seqs [WordBoundary, Grp 1 (any_of (map word_rx [''response'', ''cnonce'', ''nonce'', ''opaque''])),
        Grp 2 key_separator, Grp 3 (maybe is_quote),
        some (\<lambda>c. \<not> (is_space c \<or> c \<in> {CHR '','', CHR '';''} \<or> is_quote c)), Back 3],
      [Ref 1, Ref 2, Ref 3, Text REDACTED, Ref 3])"

definition secret_key :: "rx \<times> piece list" where
  "secret_key =
     (seqs [WordBoundary,
        Grp 1 (any_of [word_rx ''password'', word_rx ''passwd'', word_rx ''pwd'', word_rx ''secret'',
          word_rx ''passphrase'', seqs [word_rx ''api'', maybe (\<lambda>c. c \<in> {CHR ''_'', CHR ''-''}), word_rx ''key''],
          word_rx ''token'', word_rx ''apikey'']),
        Grp 2 key_separator, Grp 3 (maybe is_quote),
        many (\<lambda>c. \<not> (is_space c \<or> c \<in> {CHR '','', CHR '';'', CHR ''&'', CHR ''}''} \<or> is_quote c)), Back 3],
      [Ref 1, Ref 2, Ref 3, Text REDACTED, Ref 3])"

definition secret_element :: "rx \<times> piece list" where
  "secret_element =
     (seqs [word_rx ''<'',
        Grp 1 (seqs [many is_tag_char,
          any_of (map word_rx [''password'', ''secret'', ''passphrase'', ''token'', ''key'']), many is_tag_char]),
        word_rx ''>'', Lazy (\<lambda>_. True), word_rx ''</'', Back 1, word_rx ''>''],
      [Text ''<'', Ref 1, Text (''>'' @ REDACTED @ ''</''), Ref 1, Text ''>''])"

definition url_userinfo :: "rx \<times> piece list" where
  "url_userinfo =
     (seqs [WordBoundary, Grp 1 (seqs [Cls is_alpha, many is_scheme_char, word_rx ''://'']),
        Grp 2 (some (\<lambda>c. \<not> (is_space c \<or> c \<in> set ''/:@''))), word_rx '':'',
        Grp 3 (some (\<lambda>c. \<not> (is_space c \<or> c \<in> set ''/@''))), word_rx ''@''],
      [Ref 1, Ref 2, Text ('':'' @ REDACTED @ ''@'')])"

definition REDACTION_PATTERNS :: "(rx \<times> piece list) list" where
  "REDACTION_PATTERNS =
     [quoted_header, line_header, bare_header, digest_field, secret_key, secret_element, url_userinfo]"

section \<open>Redaction\<close>

text \<open>What the code leaves to the interpreter.\<close>

record py_text =
  utf8_replace :: "bytes \<Rightarrow> string"
  set_order :: "string list \<Rightarrow> string list"

text \<open>
  The extra secrets: none, one value, an iterable of values, or an object that is neither (its
  \<^verbatim>\<open>str\<close> is the secret).  \<^verbatim>\<open>if extra_secrets\<close> is the truth value of the object.
\<close>

datatype extra_secrets = NoSecrets | SecretText string | SecretBytes bytes | SecretItems "val list" | SecretObject val

definition item_text :: "val \<Rightarrow> string option" where
  "item_text v = (if v = VNone then None else Some (py_str v))"

definition given_secrets :: "py_text \<Rightarrow> extra_secrets \<Rightarrow> string list" where
  "given_secrets py x = (case x of
      NoSecrets \<Rightarrow> []
    | SecretText s \<Rightarrow> if s = [] then [] else [s]
    | SecretBytes bs \<Rightarrow> if bs = [] then [] else [utf8_replace py bs]
    | SecretItems vs \<Rightarrow> List.map_filter item_text vs
    | SecretObject v \<Rightarrow> if flag_set v then [py_str v] else [])"

text \<open>\<^verbatim>\<open>sorted({s for s in secrets if s}, key=len, reverse=True)\<close>: stable, so equal lengths keep the set's order.\<close>

definition secrets_in_order :: "py_text \<Rightarrow> string list \<Rightarrow> string list" where
  "secrets_in_order py ss = sort_key (\<lambda>s. - int (length s)) (set_order py (remdups (filter (\<lambda>s. s \<noteq> []) ss)))"

text \<open>\<^verbatim>\<open>text.replace(old, new)\<close> for a needle that is not empty.\<close>

function replace_all :: "string \<Rightarrow> string \<Rightarrow> string \<Rightarrow> string" where
  "replace_all old new [] = []"
| "replace_all old new (c # cs) =
     (if prefix old (c # cs) then new @ replace_all old new (drop (length old - 1) cs)
      else c # replace_all old new cs)"
  by pat_completeness auto
termination
  by (relation "measure (\<lambda>(old, new, t). length t)") auto

definition redact_literals :: "py_text \<Rightarrow> extra_secrets \<Rightarrow> string \<Rightarrow> string" where
  "redact_literals py x t =
     (if given_secrets py x = [] then t
      else foldl (\<lambda>acc s. replace_all s REDACTED acc) t (secrets_in_order py (given_secrets py x)))"

definition redact_patterns :: "string \<Rightarrow> string" where
  "redact_patterns t = foldl (\<lambda>acc (p, repl). rx_sub p repl [] acc) t REDACTION_PATTERNS"

definition MAX_DIAGNOSTIC_BYTES :: nat where "MAX_DIAGNOSTIC_BYTES = 2048"

definition truncation_notice :: "nat \<Rightarrow> string" where
  "truncation_notice omitted = ''... [truncated, '' @ show_int (int omitted) @ '' more characters]''"

definition bound_length :: "string \<Rightarrow> string" where
  "bound_length t = (if MAX_DIAGNOSTIC_BYTES < length t
     then take MAX_DIAGNOSTIC_BYTES t @ truncation_notice (length t - MAX_DIAGNOSTIC_BYTES) else t)"

definition redact :: "py_text \<Rightarrow> extra_secrets \<Rightarrow> string option \<Rightarrow> string" where
  "redact py x text = (case text of
      None \<Rightarrow> []
    | Some t \<Rightarrow> bound_length (redact_patterns (redact_literals py x t)))"

text \<open>\<^verbatim>\<open>AmtError.__init__\<close> followed by \<^verbatim>\<open>to_result\<close>: the message and the diagnostic are redacted, the rest is copied.\<close>

definition error_result :: "py_text \<Rightarrow> extra_secrets \<Rightarrow> string \<Rightarrow> string option \<Rightarrow> string option \<Rightarrow>
    string option \<Rightarrow> amt_error \<Rightarrow> obj" where
  "error_result py x message ep op diag e =
     to_result (redact py x (Some message)) ep op (map_option (\<lambda>d. redact py x (Some d)) diag) e"

end
