(* ===== verification/Redaction_Properties.thy ===== *)
theory Redaction_Properties
  imports Redaction
begin

text \<open>
  What redaction guarantees.  The specification \<open>masked\<close> says that a text is turned into another by
  replacing pieces by the marker; the locale \<open>masking_pattern\<close> states what a pattern and its template
  must do for that, and is interpreted on each of the seven patterns of \<^verbatim>\<open>errors.py\<close>.
\<close>

section \<open>Masking\<close>

inductive masked :: "string \<Rightarrow> string \<Rightarrow> bool" where
  masked_end: "masked [] []"
| masked_keep: "masked t t' \<Longrightarrow> masked (c # t) (c # t')"
| masked_part: "masked t t' \<Longrightarrow> masked (a @ x @ b @ t) (a @ REDACTED @ b @ t')"
| masked_element: "masked t t' \<Longrightarrow> lower m = lower n \<Longrightarrow>
    masked (''<'' @ n @ ''>'' @ x @ ''</'' @ m @ ''>'' @ t) (''<'' @ n @ ''>'' @ REDACTED @ ''</'' @ n @ ''>'' @ t')"

definition mask_piece :: "string \<Rightarrow> string \<Rightarrow> bool" where
  "mask_piece u v \<longleftrightarrow> (\<exists>a x b. u = a @ x @ b \<and> v = a @ REDACTED @ b)
     \<or> (\<exists>n m x. lower m = lower n \<and> u = ''<'' @ n @ ''>'' @ x @ ''</'' @ m @ ''>''
          \<and> v = ''<'' @ n @ ''>'' @ REDACTED @ ''</'' @ n @ ''>'')"

lemma mask_piece_partI: "u = a @ x @ b \<Longrightarrow> v = a @ REDACTED @ b \<Longrightarrow> mask_piece u v"
  by (auto simp: mask_piece_def)

lemma masked_piece:
  assumes "mask_piece u v" "masked t t'"
  shows "masked (u @ t) (v @ t')"
  using assms(1) unfolding mask_piece_def
proof (elim disjE exE conjE)
  fix a x b assume "u = a @ x @ b" "v = a @ REDACTED @ b"
  then show ?thesis using masked_part [OF assms(2), of a x b] by simp
next
  fix n m x assume "lower m = lower n" "u = ''<'' @ n @ ''>'' @ x @ ''</'' @ m @ ''>''"
    "v = ''<'' @ n @ ''>'' @ REDACTED @ ''</'' @ n @ ''>''"
  then show ?thesis using masked_element [OF assms(2), of m n x] by simp
qed

lemma masked_refl: "masked t t"
  by (induction t) (auto intro: masked.intros)

subsection \<open>Masking brings no text into being\<close>

definition plain :: "string \<Rightarrow> bool" where
  "plain s \<longleftrightarrow> set s \<inter> set ''[]/>'' = {}"

lemma cut:
  assumes "sublist s (a @ c # b)" "c \<notin> set s"
  shows "sublist s a \<or> sublist s b"
proof -
  have absent: "s2 = []" if "prefix s2 (c # b)" "set s2 \<subseteq> set s" for s2
    using that assms(2) by (cases s2) auto
  from assms(1) consider "sublist s a" | "sublist s (c # b)"
    | s1 s2 where "s = s1 @ s2" "suffix s1 a" "prefix s2 (c # b)"
    by (auto simp: sublist_append)
  then show ?thesis
  proof cases
    case 2
    then show ?thesis using absent [of s] by (auto simp: sublist_Cons_right)
  next
    case 3
    then show ?thesis using absent [of s2] by (auto dest: suffix_imp_sublist)
  qed simp
qed

lemma plain_cut:
  assumes "plain s" "sublist s (a @ REDACTED @ b)"
  shows "sublist s a \<or> sublist s ''REDACTED'' \<or> sublist s b"
proof -
  have "sublist s (a @ CHR ''['' # (''REDACTED'' @ CHR '']'' # b))" using assms(2) by (simp add: REDACTED_def)
  moreover have "CHR ''['' \<notin> set s" "CHR '']'' \<notin> set s" using assms(1) by (auto simp: plain_def)
  ultimately show ?thesis by (meson cut)
qed

lemma sublist_mid: "sublist s b \<Longrightarrow> sublist s (a @ b @ c)"
  unfolding sublist_def by (metis append.assoc)

lemma masked_plain:
  "masked t t' \<Longrightarrow> plain s \<Longrightarrow> sublist s (p @ t') \<Longrightarrow> sublist s (p @ t) \<or> sublist s ''REDACTED''"
proof (induction arbitrary: p rule: masked.induct)
  case masked_end
  then show ?case by simp
next
  case (masked_keep t t' c)
  then show ?case using masked_keep.IH [of "p @ [c]"] by simp
next
  case (masked_part t t' a x b)
  have "sublist s (p @ a) \<or> sublist s ''REDACTED'' \<or> sublist s (b @ t')"
    using plain_cut [of s "p @ a" "b @ t'"] masked_part.prems by simp
  moreover have "sublist s (b @ t') \<Longrightarrow> sublist s (b @ t) \<or> sublist s ''REDACTED''"
    using masked_part.IH [of b] masked_part.prems by simp
  moreover have "sublist s (p @ a) \<Longrightarrow> sublist s (p @ a @ x @ b @ t)"
    using sublist_mid [of s "p @ a" "[]" "x @ b @ t"] by simp
  moreover have "sublist s (b @ t) \<Longrightarrow> sublist s (p @ a @ x @ b @ t)"
    using sublist_mid [of s "b @ t" "p @ a @ x" "[]"] by simp
  ultimately show ?case by blast
next
  case (masked_element t t' m n x)
  let ?src = "p @ ''<'' @ n @ ''>'' @ x @ ''</'' @ m @ ''>'' @ t"
  have "sublist s (p @ ''<'' @ n @ ''>'') \<or> sublist s ''REDACTED'' \<or> sublist s (''</'' @ n @ ''>'' @ t')"
    using plain_cut [of s "p @ ''<'' @ n @ ''>''" "''</'' @ n @ ''>'' @ t'"] masked_element.prems by simp
  moreover have "sublist s (''</'' @ n @ ''>'' @ t') \<Longrightarrow> sublist s ''<'' \<or> sublist s n \<or> sublist s t'"
  proof -
    assume "sublist s (''</'' @ n @ ''>'' @ t')"
    then have "sublist s (''<'' @ CHR ''/'' # (n @ CHR ''>'' # t'))" by simp
    moreover have "CHR ''/'' \<notin> set s" "CHR ''>'' \<notin> set s" using masked_element.prems by (auto simp: plain_def)
    ultimately show ?thesis by (meson cut)
  qed
  moreover have "sublist s t' \<Longrightarrow> sublist s t \<or> sublist s ''REDACTED''"
    using masked_element.IH [of "[]"] masked_element.prems by simp
  moreover have "sublist s (p @ ''<'' @ n @ ''>'') \<Longrightarrow> sublist s ?src"
    using sublist_mid [of s "p @ ''<'' @ n @ ''>''" "[]" "x @ ''</'' @ m @ ''>'' @ t"] by simp
  moreover have "sublist s ''<'' \<Longrightarrow> sublist s ?src"
    using sublist_mid [of s "''<''" p "n @ ''>'' @ x @ ''</'' @ m @ ''>'' @ t"] by simp
  moreover have "sublist s n \<Longrightarrow> sublist s ?src"
    using sublist_mid [of s n "p @ ''<''" "''>'' @ x @ ''</'' @ m @ ''>'' @ t"] by simp
  moreover have "sublist s t \<Longrightarrow> sublist s ?src"
    using sublist_mid [of s t "p @ ''<'' @ n @ ''>'' @ x @ ''</'' @ m @ ''>''" "[]"] by simp
  ultimately show ?case by blast
qed

section \<open>The matcher\<close>

fun groups_in :: "rx \<Rightarrow> nat set" where
  "groups_in (Seq x y) = groups_in x \<union> groups_in y"
| "groups_in (Alt x y) = groups_in x \<union> groups_in y"
| "groups_in (Grp n x) = insert n (groups_in x)"
| "groups_in _ = {}"

lemma advance_split: "(b', r', g') = advance (b, r, g) k \<Longrightarrow> \<exists>u. r = u @ r' \<and> g' = g"
  by (auto simp: advance_def intro: exI [of _ "take k r"])

text \<open>Every match consumes a prefix of what follows, and sets only the groups of the expression.\<close>

lemma rx_match_sound:
  "(b', r', g') \<in> set (rx_match x (b, r, g)) \<Longrightarrow> \<exists>u h. r = u @ r' \<and> g' = h @ g \<and> fst ` set h \<subseteq> groups_in x"
proof (induction x arbitrary: b r g b' r' g')
  case (Seq x y)
  from Seq.prems obtain b1 r1 g1 where
    1: "(b1, r1, g1) \<in> set (rx_match x (b, r, g))" and 2: "(b', r', g') \<in> set (rx_match y (b1, r1, g1))" by auto
  from Seq.IH(1) [OF 1] obtain u h where u: "r = u @ r1" "g1 = h @ g" "fst ` set h \<subseteq> groups_in x" by blast
  from Seq.IH(2) [OF 2] obtain v k where v: "r1 = v @ r'" "g' = k @ g1" "fst ` set k \<subseteq> groups_in y" by blast
  have "r = (u @ v) @ r'" "g' = (k @ h) @ g" "fst ` set (k @ h) \<subseteq> groups_in (Seq x y)" using u v by auto
  then show ?case by blast
next
  case (Alt x y)
  then show ?case by fastforce
next
  case (Grp n x)
  from Grp.prems obtain gi where
    g: "(b', r', gi) \<in> set (rx_match x (b, r, g))" "g' = (n, take (length r - length r') r) # gi" by auto
  from Grp.IH [OF g(1)] obtain u h where u: "r = u @ r'" "gi = h @ g" "fst ` set h \<subseteq> groups_in x" by blast
  then have "g' = ((n, u) # h) @ g" "fst ` set ((n, u) # h) \<subseteq> groups_in (Grp n x)" using g by auto
  with u(1) show ?case by blast
qed (auto dest!: advance_split split: list.splits option.splits if_splits)

text \<open>\<open>takes x g u g'\<close>: somewhere in a text, the expression matches \<open>u\<close> and turns the groups \<open>g\<close> into \<open>g'\<close>.\<close>

definition takes :: "rx \<Rightarrow> groups \<Rightarrow> string \<Rightarrow> groups \<Rightarrow> bool" where
  "takes x g u g' \<longleftrightarrow> (\<exists>b b' r. (b', r, g') \<in> set (rx_match x (b, u @ r, g)))"

lemma match_takes: "(b', r', g') \<in> set (rx_match x (b, r, g)) \<Longrightarrow> \<exists>u. r = u @ r' \<and> takes x g u g'"
  using rx_match_sound [of b' r' g' x b r g] by (auto simp: takes_def)

named_theorems takes_dests \<open>what the constructs take\<close>

lemma takes_seq [takes_dests]:
  assumes "takes (seqs (x # xs)) g u g'"
  shows "\<exists>v w h. u = v @ w \<and> takes x g v h \<and> takes (seqs xs) h w g'"
proof -
  from assms obtain b b' r b1 r1 h where
    1: "(b1, r1, h) \<in> set (rx_match x (b, u @ r, g))" and 2: "(b', r, g') \<in> set (rx_match (seqs xs) (b1, r1, h))"
    by (auto simp: takes_def seqs_def)
  from match_takes [OF 1] match_takes [OF 2] show ?thesis by fastforce
qed

lemma takes_Nil [takes_dests]: "takes (seqs []) g u g' \<Longrightarrow> u = [] \<and> g' = g"
  by (auto simp: takes_def seqs_def)

lemma takes_opaque: "takes x g u g' \<Longrightarrow> groups_in x = {} \<Longrightarrow> g' = g"
  using rx_match_sound by (fastforce simp: takes_def)

lemma takes_group: "takes (Grp n x) g u g' \<Longrightarrow> groups_in x = {} \<Longrightarrow> takes x g u g \<and> g' = (n, u) # g"
proof -
  assume t: "takes (Grp n x) g u g'" and none: "groups_in x = {}"
  from t obtain b b' r h where m: "(b', r, h) \<in> set (rx_match x (b, u @ r, g))" "g' = (n, u) # h"
    by (auto simp: takes_def)
  then have "takes x g u h" by (auto simp: takes_def)
  with takes_opaque [OF this none] m(2) show ?thesis by simp
qed

lemma taken_length: "r = drop k (u @ r) \<Longrightarrow> k \<le> length (u @ r) \<Longrightarrow> k = length u"
  by (metis add_diff_cancel_right' diff_diff_cancel length_append length_drop)

lemma takes_class [takes_dests]: "takes (Cls p) g u g' \<Longrightarrow> g' = g \<and> (\<exists>c. u = [c] \<and> p c)"
proof -
  assume "takes (Cls p) g u g'"
  then obtain b b' r where m: "(b', r, g') \<in> set (rx_match (Cls p) (b, u @ r, g))"
    unfolding takes_def by blast
  obtain c cs where c: "u @ r = c # cs" using m by (cases "u @ r") auto
  with m have r: "p c" "r = drop 1 (u @ r)" "g' = g" by (auto simp: advance_def split: if_splits)
  with c have "1 = length u" using taken_length [of r 1 u] by simp
  with r c show ?thesis by (cases u) auto
qed

lemma takes_repeat: "takes (Rep lo hi p) g u g' \<Longrightarrow> \<forall>c\<in>set u. p c"
proof -
  assume "takes (Rep lo hi p) g u g'"
  then obtain r k where k: "k \<le> run_length p hi (u @ r)" "r = drop k (u @ r)"
    by (force simp: takes_def advance_def less_Suc_eq_le simp del: upt_Suc split: if_splits)
  have le: "k \<le> length (takeWhile p (u @ r))"
    using k(1) by (auto simp: run_length_def Let_def split: option.splits)
  also have "\<dots> \<le> length (u @ r)" by (rule length_takeWhile_le)
  finally have "k = length u" using k(2) taken_length by blast
  with le have "u = take k (takeWhile p (u @ r))"
    by (metis append_eq_conv_conj takeWhile_eq_take take_take min.absorb1)
  then show "\<forall>c\<in>set u. p c" by (metis in_set_takeD set_takeWhileD)
qed

text \<open>Texts that differ from a text of quotes or punctuation only by case are that text.\<close>

lemma lower_char_fixed: "lower_char x = lower_char c \<Longrightarrow> code c < 65 \<Longrightarrow> x = c"
  by (auto simp: lower_char_def code_def split: if_splits)

lemma lower_fixed: "lower u = lower t \<Longrightarrow> \<forall>c\<in>set t. code c < 65 \<Longrightarrow> u = t"
proof (induction t arbitrary: u)
  case (Cons c t)
  then obtain x v where "u = x # v" "lower_char x = lower_char c" "lower v = lower t"
    by (auto simp: lower_def)
  then show ?case using Cons lower_char_fixed by auto
qed (simp add: lower_def)

lemma takes_back: "takes (Back n) g u g' \<Longrightarrow> g' = g \<and> (\<exists>t. map_of g n = Some t \<and> lower u = lower t)"
proof -
  assume "takes (Back n) g u g'"
  then obtain b b' r where m: "(b', r, g') \<in> set (rx_match (Back n) (b, u @ r, g))"
    unfolding takes_def by blast
  obtain t where "map_of g n = Some t" using m by (cases "map_of g n") auto
  with m have t: "map_of g n = Some t" "starts_ci t (u @ r)" "r = drop (length t) (u @ r)" "g' = g"
    by (auto simp: advance_def simp del: drop_append split: if_splits)
  from t(2) have "length t \<le> length (u @ r)"
    unfolding starts_ci_def lower_def by (metis length_map length_take min.cobounded1 min_def)
  with t(3) have "length t = length u" using taken_length by blast
  then have "take (length t) (u @ r) = u" by simp
  with t show ?thesis by (simp add: starts_ci_def)
qed

lemma takes_word: "takes (word_rx w) g u g' \<Longrightarrow> lower u = lower w \<and> g' = g"
proof (induction w arbitrary: u g)
  case Nil
  then show ?case by (auto simp: word_rx_def dest: takes_Nil)
next
  case (Cons c w)
  then show ?case
    by (auto simp: word_rx_def lower_def same_ci_def dest!: takes_seq takes_class)
qed

lemma takes_anchor: "takes WordBoundary g u g' \<Longrightarrow> u = [] \<and> g' = g" "takes LineStart g u g' \<Longrightarrow> u = [] \<and> g' = g"
  by (fastforce simp: takes_def split: if_splits, unfold takes_def, elim exE, case_tac b) (auto split: if_splits)

lemma is_quote_code: "is_quote c \<Longrightarrow> code c < 65"
  by (auto simp: is_quote_def code_def)

lemma takes_quoted_back:
  "takes (Back 3) ((3, q) # g) u g' \<Longrightarrow> \<forall>c\<in>set q. is_quote c \<Longrightarrow> u = q \<and> g' = (3, q) # g"
  using lower_fixed [of u q] is_quote_code by (auto dest!: takes_back)

section \<open>Patterns that mask\<close>

text \<open>What a pattern and its template must do for a substitution to mask.\<close>

locale masking_pattern =
  fixes p :: rx and repl :: "piece list"
  assumes masks: "takes p [] u g \<Longrightarrow> mask_piece u (expand g repl)"
begin

lemma sub_masked: "masked r (rx_sub p repl b r)"
proof (induction r arbitrary: b rule: length_induct)
  case (1 r)
  have IH: "length r' < length r \<Longrightarrow> masked r' (rx_sub p repl b' r')" for r' b' using 1 by blast
  have rest: "masked r (case r of [] \<Rightarrow> [] | c # cs \<Rightarrow> c # rx_sub p repl (c # b) cs)"
    using IH by (auto split: list.splits intro: masked.intros)
  show ?case
  proof (cases "rx_match p (b, r, [])")
    case Nil
    then show ?thesis using rest by (subst rx_sub.simps) simp
  next
    case (Cons s ss)
    obtain b' r' g where s: "s = (b', r', g)" by (cases s)
    then have "(b', r', g) \<in> set (rx_match p (b, r, []))" using Cons by simp
    from match_takes [OF this] obtain u where u: "r = u @ r'" "mask_piece u (expand g repl)"
      using masks by blast
    show ?thesis
    proof (cases "length r' < length r")
      case True
      then show ?thesis using Cons s u IH masked_piece [OF u(2)] by (subst rx_sub.simps) simp
    next
      case False
      then have "u = []" using u(1) by simp
      then show ?thesis using Cons s False masked_piece [OF u(2) rest] by (subst rx_sub.simps) simp
    qed
  qed
qed

lemma sub_plain: "plain s \<Longrightarrow> sublist s (rx_sub p repl b r) \<Longrightarrow> sublist s r \<or> sublist s ''REDACTED''"
  using masked_plain [OF sub_masked, of s "[]"] by simp

end

named_theorems opaque_groups \<open>expressions without groups\<close>

lemma groups_word [opaque_groups]: "groups_in (word_rx w) = {}"
  by (induction w) (simp_all add: word_rx_def seqs_def)

lemma groups_any: "\<forall>x\<in>set xs. groups_in x = {} \<Longrightarrow> groups_in (any_of xs) = {}"
  by (induction xs rule: any_of.induct) simp_all

lemma groups_any_word [opaque_groups]: "groups_in (any_of (map word_rx ws)) = {}"
  by (rule groups_any) (simp add: groups_word)

lemma groups_seqs [opaque_groups]:
  "groups_in (seqs []) = {}" "groups_in (seqs (x # xs)) = groups_in x \<union> groups_in (seqs xs)"
  by (simp_all add: seqs_def)

lemma groups_names [opaque_groups]: "groups_in header_names = {}" "groups_in key_separator = {}"
  by (simp_all only: header_names_def key_separator_def opaque_groups groups_in.simps Un_empty)

lemma expand_simps [simp]:
  "expand g [] = []" "expand g (Text s # ps) = s @ expand g ps"
  "expand g (Ref n # ps) = (case map_of g n of None \<Rightarrow> [] | Some t \<Rightarrow> t) @ expand g ps"
  by (simp_all add: expand_def expand_piece_def)

text \<open>The seven patterns.\<close>

lemma takes_plain_group: "takes (Grp n x) g u g' \<Longrightarrow> groups_in x = {} \<Longrightarrow> g' = (n, u) # g"
  using takes_group by blast

lemmas takes_dest = takes_seq takes_Nil takes_anchor takes_plain_group

interpretation line: masking_pattern "fst line_header" "snd line_header"
proof
  fix u g assume "takes (fst line_header) [] u g"
  then obtain x y w v where "u = x @ y @ w @ v" "g = [(3, w), (2, y), (1, x)]"
    by (auto simp: line_header_def opaque_groups dest!: takes_dest dest: takes_opaque)
  then show "mask_piece u (expand g (snd line_header))"
    by (auto simp: line_header_def intro!: mask_piece_partI [where b = "[]" and x = v and a = "x @ y @ w"])
qed

interpretation bare: masking_pattern "fst bare_header" "snd bare_header"
proof
  fix u g assume "takes (fst bare_header) [] u g"
  then obtain x y v where "u = x @ y @ v" "g = [(2, y), (1, x)]"
    by (auto simp: bare_header_def opaque_groups dest!: takes_dest dest: takes_opaque)
  then show "mask_piece u (expand g (snd bare_header))"
    by (auto simp: bare_header_def intro!: mask_piece_partI [where b = "[]" and x = v and a = "x @ y"])
qed

text \<open>The three patterns whose value may be quoted end in the quote they began with.\<close>

lemma takes_key:
  assumes "takes (seqs (WordBoundary # Grp 1 a # Grp 2 b # rest)) [] u g" "groups_in a = {}" "groups_in b = {}"
  shows "\<exists>x y z. u = x @ y @ z \<and> takes (seqs rest) [(2, y), (1, x)] z g"
  using assms by (fastforce dest!: takes_seq takes_anchor takes_plain_group)

lemma takes_quoted:
  assumes "takes (seqs [Grp 3 k, w, Back 3]) h u g" "\<And>q. takes k h q h \<Longrightarrow> \<forall>c\<in>set q. is_quote c"
    "groups_in k = {}" "groups_in w = {}"
  shows "\<exists>q v. u = q @ v @ q \<and> g = (3, q) # h"
proof -
  from takes_seq [OF assms(1)] obtain q u1 h1 where
    q: "u = q @ u1" "takes (Grp 3 k) h q h1" "takes (seqs [w, Back 3]) h1 u1 g" by blast
  have k: "takes k h q h" "h1 = (3, q) # h" using takes_group [OF q(2) assms(3)] by auto
  from takes_seq [OF q(3)] obtain v u2 h2 where
    v: "u1 = v @ u2" "takes w h1 v h2" "takes (seqs [Back 3]) h2 u2 g" by blast
  have "h2 = h1" using takes_opaque [OF v(2) assms(4)] .
  with v(3) have "takes (Back 3) ((3, q) # h) u2 g" using k(2) by (auto dest!: takes_seq takes_Nil)
  from takes_quoted_back [OF this assms(2) [OF k(1)]] q(1) v(1) show ?thesis by auto
qed

lemma quoted_value:
  assumes "takes (seqs (WordBoundary # Grp 1 a # Grp 2 b # [Grp 3 k, w, Back 3])) [] u g"
    and "groups_in a = {}" "groups_in b = {}" "groups_in k = {}" "groups_in w = {}"
    and "\<And>h q. takes k h q h \<Longrightarrow> \<forall>c\<in>set q. is_quote c"
  shows "mask_piece u (expand g [Ref 1, Ref 2, Ref 3, Text REDACTED, Ref 3])"
proof -
  from takes_key [OF assms(1-3)] obtain x y z where
    z: "u = x @ y @ z" "takes (seqs [Grp 3 k, w, Back 3]) [(2, y), (1, x)] z g" by blast
  have "\<exists>q v. z = q @ v @ q \<and> g = (3, q) # [(2, y), (1, x)]"
    by (rule takes_quoted [OF z(2) assms(6) assms(4,5)])
  then obtain q v where "z = q @ v @ q" "g = [(3, q), (2, y), (1, x)]" by (elim exE conjE) (rule that)
  with z(1) show ?thesis by (auto intro!: mask_piece_partI [where b = q and x = v and a = "x @ y @ q"])
qed

interpretation quoted: masking_pattern "fst quoted_header" "snd quoted_header"
proof
  fix u g assume "takes (fst quoted_header) [] u g"
  then show "mask_piece u (expand g (snd quoted_header))"
    unfolding quoted_header_def fst_conv snd_conv
    by (rule quoted_value) (simp_all only: opaque_groups groups_in.simps Un_empty_right, auto dest: takes_class)
qed

interpretation digest: masking_pattern "fst digest_field" "snd digest_field"
proof
  fix u g assume "takes (fst digest_field) [] u g"
  then show "mask_piece u (expand g (snd digest_field))"
    unfolding digest_field_def fst_conv snd_conv
    by (rule quoted_value) (simp_all only: opaque_groups groups_in.simps Un_empty_right, erule takes_repeat)
qed

lemma groups_keys: "groups_in (any_of [word_rx ''password'', word_rx ''passwd'', word_rx ''pwd'', word_rx ''secret'',
    word_rx ''passphrase'', seqs [word_rx ''api'', maybe p, word_rx ''key''], word_rx ''token'', word_rx ''apikey'']) = {}"
  by (simp only: any_of.simps groups_in.simps groups_word groups_seqs Un_empty_right)

interpretation key: masking_pattern "fst secret_key" "snd secret_key"
proof
  fix u g assume "takes (fst secret_key) [] u g"
  then show "mask_piece u (expand g (snd secret_key))"
    unfolding secret_key_def fst_conv snd_conv
    by (rule quoted_value) (simp_all only: groups_keys groups_names groups_in.simps Un_empty_right, erule takes_repeat)
qed

interpretation element: masking_pattern "fst secret_element" "snd secret_element"
proof
  fix u g assume "takes (fst secret_element) [] u g"
  then obtain l n r v e m f where t: "u = l @ n @ r @ v @ e @ m @ f" "g = [(1, n)]" "lower l = lower ''<''"
      "lower r = lower ''>''" "lower e = lower ''</''" "lower m = lower n" "lower f = lower ''>''"
    by (fastforce simp: secret_element_def opaque_groups dest!: takes_seq takes_Nil takes_plain_group takes_word
        takes_back dest: takes_opaque)
  then have "l = ''<''" "r = ''>''" "e = ''</''" "f = ''>''"
    by (auto dest!: lower_fixed simp: code_def)
  with t show "mask_piece u (expand g (snd secret_element))"
    unfolding mask_piece_def by (intro disjI2 exI [of _ n] exI [of _ m] exI [of _ v]) (simp add: secret_element_def)
qed

interpretation url: masking_pattern "fst url_userinfo" "snd url_userinfo"
proof
  fix u g assume "takes (fst url_userinfo) [] u g"
  then obtain x y c v a where t: "u = x @ y @ c @ v @ a" "g = [(3, v), (2, y), (1, x)]" "lower c = lower '':''"
      "lower a = lower ''@''"
    by (fastforce simp: url_userinfo_def opaque_groups dest!: takes_seq takes_Nil takes_anchor takes_plain_group
        takes_word)
  then have "c = '':''" "a = ''@''" by (auto dest!: lower_fixed simp: code_def)
  with t show "mask_piece u (expand g (snd url_userinfo))"
    by (auto simp: url_userinfo_def intro!: mask_piece_partI [where b = "''@''" and x = v and a = "x @ y @ '':''"])
qed

section \<open>The literal phase\<close>

lemma replace_all_masked: "masked t (replace_all old REDACTED t)"
proof (induction old "REDACTED" t rule: replace_all.induct)
  case (2 old c cs)
  show ?case
  proof (cases "prefix old (c # cs)")
    case True
    have "masked (drop (length old - 1) cs) (replace_all old REDACTED (drop (length old - 1) cs))"
      using 2(1) True by simp
    then have "masked ([] @ (c # take (length old - 1) cs) @ [] @ drop (length old - 1) cs)
        ([] @ REDACTED @ [] @ replace_all old REDACTED (drop (length old - 1) cs))"
      by (rule masked_part)
    then show ?thesis using True by simp
  next
    case False
    then show ?thesis using 2(2) by (simp add: masked_keep)
  qed
qed (simp add: masked_end)

lemma prefix_replace: "plain s \<Longrightarrow> prefix s (replace_all old REDACTED t) \<Longrightarrow> prefix s t"
proof (induction t arbitrary: s)
  case (Cons c t)
  show ?case
  proof (cases s)
    case (Cons d s')
    with Cons.prems have "d \<noteq> CHR ''[''" "plain s'" by (auto simp: plain_def)
    with Cons.prems Cons have "\<not> prefix old (c # t)" by (auto simp: REDACTED_def)
    with Cons.prems Cons Cons.IH [OF \<open>plain s'\<close>] show ?thesis by simp
  qed simp
qed simp

lemma replace_all_removes:
  "plain s \<Longrightarrow> \<not> sublist s ''REDACTED'' \<Longrightarrow> \<not> sublist s (replace_all s REDACTED t)"
proof (induction s "REDACTED" t rule: replace_all.induct)
  case (1 old)
  then show ?case by auto
next
  case (2 old c cs)
  show ?case
  proof (cases "prefix old (c # cs)")
    case True
    then show ?thesis using 2 plain_cut [of old "[]" "replace_all old REDACTED (drop (length old - 1) cs)"]
      by auto
  next
    case False
    then have "\<not> prefix old (c # replace_all old REDACTED cs)"
      using prefix_replace [of "tl old" old cs] 2(3) by (cases old) (auto simp: plain_def)
    then show ?thesis using False 2 by (simp add: sublist_Cons_right)
  qed
qed

lemma masked_absent: "masked t t' \<Longrightarrow> plain s \<Longrightarrow> \<not> sublist s ''REDACTED'' \<Longrightarrow> \<not> sublist s t \<Longrightarrow> \<not> sublist s t'"
  using masked_plain [of t t' s "[]"] by auto

lemma masked_absent_rtrancl:
  "masked\<^sup>*\<^sup>* t t' \<Longrightarrow> plain s \<Longrightarrow> \<not> sublist s ''REDACTED'' \<Longrightarrow> \<not> sublist s t \<Longrightarrow> \<not> sublist s t'"
  by (induction rule: rtranclp_induct) (auto dest: masked_absent)

lemma foldl_masked:
  assumes "\<And>acc x. x \<in> set xs \<Longrightarrow> masked acc (f acc x)"
  shows "masked\<^sup>*\<^sup>* t (foldl f t xs)"
  using assms
proof (induction xs arbitrary: t)
  case (Cons x xs)
  then have "masked t (f t x)" "masked\<^sup>*\<^sup>* (f t x) (foldl f (f t x) xs)" by simp_all
  then show ?case by simp
qed simp

lemma literals_masked: "masked\<^sup>*\<^sup>* t (redact_literals py x t)"
  unfolding redact_literals_def by (simp, rule impI, rule foldl_masked) (rule replace_all_masked)

lemma patterns_masked: "masked\<^sup>*\<^sup>* t (redact_patterns t)"
  unfolding redact_patterns_def
proof (rule foldl_masked)
  fix acc pr assume "pr \<in> set REDACTION_PATTERNS"
  then show "masked acc (case pr of (p, repl) \<Rightarrow> rx_sub p repl [] acc)"
    using quoted.sub_masked line.sub_masked bare.sub_masked digest.sub_masked key.sub_masked
      element.sub_masked url.sub_masked
    by (auto simp: REDACTION_PATTERNS_def case_prod_beta)
qed

lemma literals_remove:
  assumes "s \<in> set ss" "plain s" "\<not> sublist s ''REDACTED''"
  shows "\<not> sublist s (foldl (\<lambda>acc s. replace_all s REDACTED acc) t ss)"
proof -
  from assms(1) obtain as bs where ss: "ss = as @ s # bs" by (auto simp: in_set_conv_decomp)
  let ?r = "\<lambda>acc s. replace_all s REDACTED acc"
  have "\<not> sublist s (?r (foldl ?r t as) s)" by (rule replace_all_removes [OF assms(2,3)])
  moreover have "masked\<^sup>*\<^sup>* (?r (foldl ?r t as) s) (foldl ?r (?r (foldl ?r t as) s) bs)"
    by (rule foldl_masked) (rule replace_all_masked)
  ultimately show ?thesis using masked_absent_rtrancl assms(2,3) ss by simp
qed

lemma secret_in_order:
  assumes "s \<in> set ss" "s \<noteq> []" "\<forall>xs. set (set_order py xs) = set xs"
  shows "s \<in> set (secrets_in_order py ss)"
  using assms by (simp add: secrets_in_order_def)

lemma redacted_body:
  assumes "s \<in> set (given_secrets py x)" "plain s" "\<not> sublist s ''REDACTED''"
    and "\<forall>xs. set (set_order py xs) = set xs"
  shows "\<not> sublist s (redact_patterns (redact_literals py x t))"
proof -
  have "s \<noteq> []" using assms(3) by auto
  then have "\<not> sublist s (redact_literals py x t)"
    unfolding redact_literals_def using secret_in_order assms literals_remove by auto
  then show ?thesis using masked_absent_rtrancl [OF patterns_masked] assms(2,3) by blast
qed

lemma bound_length_parts:
  "take MAX_DIAGNOSTIC_BYTES (bound_length t) = take MAX_DIAGNOSTIC_BYTES t"
  "drop MAX_DIAGNOSTIC_BYTES (bound_length t) = [] \<or>
    (\<exists>n>0. drop MAX_DIAGNOSTIC_BYTES (bound_length t) = truncation_notice n)"
proof -
  show "take MAX_DIAGNOSTIC_BYTES (bound_length t) = take MAX_DIAGNOSTIC_BYTES t"
    by (simp add: bound_length_def)
  show "drop MAX_DIAGNOSTIC_BYTES (bound_length t) = [] \<or>
      (\<exists>n>0. drop MAX_DIAGNOSTIC_BYTES (bound_length t) = truncation_notice n)"
    using zero_less_diff [of "length t" MAX_DIAGNOSTIC_BYTES] by (auto simp: bound_length_def simp del: zero_less_diff)
qed

section \<open>Documents\<close>

text \<open>Every text of a document, at any depth.\<close>

fun texts_in :: "val \<Rightarrow> string set" where
  "texts_in (VStr s) = {s}"
| "texts_in (VDict d) = (\<Union>(k, v)\<in>set d. texts_in v)"
| "texts_in (VList xs) = (\<Union>v\<in>set xs. texts_in v)"
| "texts_in _ = {}"

lemma texts_redacted: "texts_in (redact_strings f v) \<subseteq> range f"
  by (induction v) fastforce+

lemma redact_plain: "redact py NoSecrets (Some s) = bound_length (redact_patterns s)"
  by (simp add: redact_def redact_literals_def given_secrets_def)

definition receipt_document :: "py_text \<Rightarrow> OperationReceipt \<Rightarrow> val" where
  "receipt_document py r = receipt_to_dict (\<lambda>s. redact py NoSecrets (Some s)) r"

definition within_bounds :: "string \<Rightarrow> bool" where
  "within_bounds s \<longleftrightarrow> length s \<le> MAX_DIAGNOSTIC_BYTES
     \<or> (\<exists>n. drop MAX_DIAGNOSTIC_BYTES s = truncation_notice n)"

lemma redact_within_bounds: "within_bounds (redact py x t)"
  using bound_length_parts(2) by (auto simp: within_bounds_def redact_def split: option.splits)

text \<open>The longest secret goes first, so a secret that begins another leaves no rest of it behind.\<close>

lemma demo_longest_first:
  "redact_literals \<lparr>utf8_replace = (\<lambda>_. []), set_order = (\<lambda>xs. xs)\<rparr> (SecretItems [VStr ''carp'', VStr ''carp99''])
     ''a carp99'' = ''a [REDACTED]''"
proof -
  let ?py = "\<lparr>utf8_replace = (\<lambda>_ :: bytes. [] :: string), set_order = (\<lambda>xs. xs)\<rparr>"
  have given: "given_secrets ?py (SecretItems [VStr ''carp'', VStr ''carp99'']) = [''carp'', ''carp99'']" by code_simp
  have order: "secrets_in_order ?py [''carp'', ''carp99''] = [''carp99'', ''carp'']" by code_simp
  have "foldl (\<lambda>acc s. replace_all s REDACTED acc) ''a carp99'' [''carp99'', ''carp''] = ''a [REDACTED]''" by code_simp
  then show ?thesis by (simp only: redact_literals_def given order list.distinct if_False)
qed

text \<open>The closing tag of an element comes back in the case of the opening one.\<close>

lemma demo_element: "rx_sub (fst secret_element) (snd secret_element) [] ''<key>x</KEY>'' = ''<key>[REDACTED]</key>''"
  by code_simp

section \<open>Properties\<close>

text \<open>
  C13: no secret survives redaction.  For every secret the caller passes, as one text or among several,
  which does not contain a bracket, a slash or a greater-than sign and is no part of the marker's
  word: whatever the text, and in whatever order the set of secrets is walked, the first 2048
  characters of the result do not contain the secret anywhere, and what follows them is nothing
  or the fixed notice of how much was cut off.  Neither the replacement of the other secrets nor the
  seven patterns, which rewrite the text afterwards, can put it back together.
\<close>

theorem secret_never_survives:
  assumes "s \<in> set (given_secrets py x)" "plain s" "\<not> sublist s ''REDACTED''"
    and "\<forall>xs. set (set_order py xs) = set xs"
  shows "\<not> sublist s (take MAX_DIAGNOSTIC_BYTES (redact py x msg)) \<and>
    (drop MAX_DIAGNOSTIC_BYTES (redact py x msg) = [] \<or>
     (\<exists>n>0. drop MAX_DIAGNOSTIC_BYTES (redact py x msg) = truncation_notice n))"
proof (cases msg)
  case None
  have "s \<noteq> []" using assms(3) by auto
  with None show ?thesis by (simp add: redact_def)
next
  case (Some t)
  let ?body = "redact_patterns (redact_literals py x t)"
  have "\<not> sublist s (take n ?body)" for n
    using redacted_body [OF assms] by (metis append_take_drop_id sublist_append)
  then show ?thesis using Some bound_length_parts by (simp add: redact_def)
qed

definition demo_text :: py_text where
  "demo_text = \<lparr>utf8_replace = (\<lambda>_. []), set_order = (\<lambda>xs. xs)\<rparr>"

theorem secret_never_survives_witness:
  "\<not> sublist ''hunter2'' (take MAX_DIAGNOSTIC_BYTES
     (redact demo_text (SecretText ''hunter2'') (Some ''login hunter2 refused; token=hunter2&x'')))"
  using secret_never_survives [of "''hunter2''" demo_text "SecretText ''hunter2''"]
  by (simp add: given_secrets_def plain_def demo_text_def sublist_code)

text \<open>
  C30: redaction only masks.  The text before truncation is reached from the original by steps each of
  which replaces pieces of the text by the marker (or the contents of an element, whose closing tag
  then repeats the opening one), for any secrets and any order: nothing else of a diagnostic is
  reordered, dropped or made up.  Truncation keeps its first 2048 characters.
\<close>

theorem redaction_only_masks:
  "\<exists>body. masked\<^sup>*\<^sup>* t body \<and> redact py x (Some t) = bound_length body
     \<and> take MAX_DIAGNOSTIC_BYTES (redact py x (Some t)) = take MAX_DIAGNOSTIC_BYTES body"
proof (intro exI conjI)
  let ?body = "redact_patterns (redact_literals py x t)"
  show "masked\<^sup>*\<^sup>* t ?body" using rtranclp_trans [OF literals_masked patterns_masked] .
  show "redact py x (Some t) = bound_length ?body" by (simp add: redact_def)
  then show "take MAX_DIAGNOSTIC_BYTES (redact py x (Some t)) = take MAX_DIAGNOSTIC_BYTES ?body"
    by (simp only: bound_length_parts)
qed

text \<open>
  C31: a receipt is redacted throughout.  Every text of the rendered operation receipt, at any depth of
  its previous, desired and observed documents and of its extra keys, is a result of redaction and at
  most 2048 characters long, or 2048 characters and the notice of how much was cut off.
\<close>

theorem receipt_redacted:
  "\<forall>s \<in> texts_in (receipt_document py r). (\<exists>t. s = redact py NoSecrets (Some t)) \<and> within_bounds s"
  using texts_redacted redact_within_bounds
  unfolding receipt_document_def receipt_to_dict_def by fast

definition demo_receipt :: OperationReceipt where
  "demo_receipt = \<lparr>receipt_action = ''get_facts'', receipt_endpoint = ''h:16992'', receipt_changed = False,
     receipt_previous = VNone, receipt_desired = VNone, receipt_observed = VList [VStr ''cookie: a''],
     tls_peer_fingerprint = VNone, receipt_error_class = VNone, extra = []\<rparr>"

lemma demo_cookie: "redact demo_text NoSecrets (Some ''cookie: a'') = ''cookie: [REDACTED]''"
  by code_simp

theorem receipt_redacted_witness: "''cookie: [REDACTED]'' \<in> texts_in (receipt_document demo_text demo_receipt) \<and>
    within_bounds ''cookie: [REDACTED]''"
proof -
  have "redact demo_text NoSecrets (Some ''cookie: a'') \<in> texts_in (receipt_document demo_text demo_receipt)"
    by (simp add: receipt_document_def receipt_to_dict_def dict_update_def demo_receipt_def)
  then have "''cookie: [REDACTED]'' \<in> texts_in (receipt_document demo_text demo_receipt)"
    by (simp only: demo_cookie)
  then show ?thesis using receipt_redacted by blast
qed

end
