(* ===== verification/Documented.thy ===== *)
theory Documented
  imports Redaction_Properties Hardware
begin

text \<open>
  The types the \<^verbatim>\<open>RETURN\<close> documentation of a module gives its result: scalar types, dicts with and
  without a description of their keys, lists of an element type, and texts from a fixed set.  A
  described key has a flag for \<^verbatim>\<open>returned: always\<close>.  A null is allowed wherever a value may be
  missing, as the descriptions say.

  \<open>conforms\<close> is the typing judgement: every described key that occurs has its type, at any depth, and
  the keys that are always returned occur.  \<open>undescribed\<close> lists the keys the documentation does not
  name.  Redaction changes neither, as long as it leaves the fixed texts alone.
\<close>

datatype doc_type =
    D_str | D_int | D_bool | D_dict
  | D_choice "string list"
  | D_list doc_type
  | D_map doc_type
  | D_record "(string \<times> bool \<times> doc_type) list"

type_synonym doc_fields = "(string \<times> bool \<times> doc_type) list"

definition always_keys :: "doc_fields \<Rightarrow> string set" where
  "always_keys fs = set (map fst (filter (\<lambda>(_, always, _). always) fs))"

fun conforms :: "doc_type \<Rightarrow> val \<Rightarrow> bool" where
  "conforms t VNone \<longleftrightarrow> True"
| "conforms t (VStr s) \<longleftrightarrow> (case t of D_str \<Rightarrow> True | D_choice cs \<Rightarrow> s \<in> set cs | _ \<Rightarrow> False)"
| "conforms t (VInt n) \<longleftrightarrow> t = D_int"
| "conforms t (VBool b) \<longleftrightarrow> t = D_bool"
| "conforms t (VList vs) \<longleftrightarrow> (case t of D_list e \<Rightarrow> \<forall>v\<in>set vs. conforms e v | _ \<Rightarrow> False)"
| "conforms t (VDict d) \<longleftrightarrow> (case t of
      D_dict \<Rightarrow> True
    | D_map e \<Rightarrow> \<forall>(k, v)\<in>set d. conforms e v
    | D_record fs \<Rightarrow>
        (\<forall>(k, v)\<in>set d. case map_of fs k of None \<Rightarrow> True | Some (_, e) \<Rightarrow> conforms e v)
        \<and> always_keys fs \<subseteq> fst ` set d
    | _ \<Rightarrow> False)"
| "conforms t (VRef c sel) \<longleftrightarrow> False"

text \<open>The undescribed keys of a document, in order, at any depth.\<close>

fun undescribed :: "doc_type \<Rightarrow> val \<Rightarrow> string list" where
  "undescribed t (VList vs) = (case t of D_list e \<Rightarrow> concat (map (undescribed e) vs) | _ \<Rightarrow> [])"
| "undescribed t (VDict d) = (case t of
      D_map e \<Rightarrow> concat (map (\<lambda>(k, v). undescribed e v) d)
    | D_record fs \<Rightarrow> concat (map (\<lambda>(k, v). case map_of fs k of None \<Rightarrow> [k] | Some (_, e) \<Rightarrow> undescribed e v) d)
    | _ \<Rightarrow> [])"
| "undescribed t _ = []"

section \<open>Lemmas\<close>

named_theorems documented \<open>the documented parts of a result\<close>

lemma conforms_dicts [simp]:
  "conforms D_dict (VDict d)" "undescribed D_dict v = []"
  "conforms (D_list e) (VList vs) \<longleftrightarrow> (\<forall>v\<in>set vs. conforms e v)"
  "undescribed (D_list e) (VList vs) = concat (map (undescribed e) vs)"
  "conforms (D_map e) (VDict d) \<longleftrightarrow> (\<forall>(k, v)\<in>set d. conforms e v)"
  "undescribed (D_map e) (VDict d) = concat (map (\<lambda>(k, v). undescribed e v) d)"
  by simp_all (cases v; simp)

lemma conforms_str: "conforms D_str v \<longleftrightarrow> (case v of VNone \<Rightarrow> True | VStr _ \<Rightarrow> True | _ \<Rightarrow> False)"
  by (cases v) simp_all

lemma undescribed_scalar [simp]: "undescribed D_str v = []" "undescribed D_int v = []" "undescribed D_bool v = []"
  "undescribed (D_choice cs) v = []"
  by (cases v; simp)+

definition fields_conform :: "doc_fields \<Rightarrow> obj \<Rightarrow> bool" where
  "fields_conform fs d \<longleftrightarrow> (\<forall>(k, v)\<in>set d. case map_of fs k of None \<Rightarrow> True | Some (_, e) \<Rightarrow> conforms e v)"

lemma fields_conform_simps [simp]:
  "fields_conform fs []"
  "fields_conform fs ((k, v) # d) \<longleftrightarrow>
     (case map_of fs k of None \<Rightarrow> True | Some (_, e) \<Rightarrow> conforms e v) \<and> fields_conform fs d"
  by (auto simp: fields_conform_def)

lemma fields_conform_append [simp]: "fields_conform fs (d @ e) \<longleftrightarrow> fields_conform fs d \<and> fields_conform fs e"
  by (auto simp: fields_conform_def)

lemma fields_conform_filter: "fields_conform fs d \<Longrightarrow> fields_conform fs (filter P d)"
  by (auto simp: fields_conform_def)

lemma conforms_record:
  "conforms (D_record fs) (VDict d) \<longleftrightarrow> fields_conform fs d \<and> always_keys fs \<subseteq> fst ` set d"
  by (simp add: fields_conform_def)

definition fields_undescribed :: "doc_fields \<Rightarrow> obj \<Rightarrow> string list" where
  "fields_undescribed fs d =
     concat (map (\<lambda>(k, v). case map_of fs k of None \<Rightarrow> [k] | Some (_, e) \<Rightarrow> undescribed e v) d)"

lemma fields_undescribed_simps [simp]:
  "fields_undescribed fs [] = []"
  "fields_undescribed fs ((k, v) # d) =
     (case map_of fs k of None \<Rightarrow> [k] | Some (_, e) \<Rightarrow> undescribed e v) @ fields_undescribed fs d"
  by (simp_all add: fields_undescribed_def)

lemma fields_undescribed_append [simp]:
  "fields_undescribed fs (d @ e) = fields_undescribed fs d @ fields_undescribed fs e"
  by (simp add: fields_undescribed_def)

lemma fields_undescribed_filter: "fields_undescribed fs d = [] \<Longrightarrow> fields_undescribed fs (filter P d) = []"
  by (auto simp: fields_undescribed_def)

lemma undescribed_record: "undescribed (D_record fs) (VDict d) = fields_undescribed fs d"
  by (simp add: fields_undescribed_def)

lemma conforms_opt [simp]:
  "conforms t (opt_val f x) \<longleftrightarrow> (\<forall>y. x = Some y \<longrightarrow> conforms t (f y))"
  by (cases x) (simp_all add: opt_val_def)

lemma undescribed_opt: "(\<And>y. undescribed t (f y) = []) \<Longrightarrow> undescribed t (opt_val f x) = []"
  by (cases x) (simp_all add: opt_val_def)

lemma conforms_vals [simp]:
  "conforms (D_list D_int) (int_vals ns)" "conforms (D_list D_str) (str_vals ss)"
  by (simp_all add: int_vals_def str_vals_def)

lemma undescribed_vals [simp]: "undescribed t (int_vals ns) = []" "undescribed t (str_vals ss) = []"
  by (induction ns, induction ss) (auto simp: int_vals_def str_vals_def split: doc_type.splits)

subsection \<open>Redaction\<close>

fun fixed_texts :: "doc_type \<Rightarrow> string set" where
  "fixed_texts (D_choice cs) = set cs"
| "fixed_texts (D_list e) = fixed_texts e"
| "fixed_texts (D_map e) = fixed_texts e"
| "fixed_texts (D_record fs) = (\<Union>(k, a, e)\<in>set fs. fixed_texts e)"
| "fixed_texts _ = {}"

lemma fixed_in_record: "map_of fs k = Some (a, e) \<Longrightarrow> fixed_texts e \<subseteq> fixed_texts (D_record fs)"
  by (auto dest!: map_of_SomeD)

lemma redact_keys: "fst ` set (map (\<lambda>(k, v). (k, redact_strings f v)) d) = fst ` set d"
  by (force simp: image_image)

lemma conforms_redacted:
  "conforms t v \<Longrightarrow> (\<And>s. s \<in> fixed_texts t \<Longrightarrow> f s = s) \<Longrightarrow> conforms t (redact_strings f v)"
proof (induction t v rule: conforms.induct)
  case (6 t d)
  show ?case
  proof (cases t)
    case (D_map e)
    then show ?thesis using 6 by auto
  next
    case (D_record fs)
    have "conforms e (redact_strings f v)" if kv: "(k, v) \<in> set d" and fs: "map_of fs k = Some (a, e)" for k v a e
    proof (rule 6(2) [OF D_record kv refl fs refl])
      show "conforms e v" using 6(3) D_record kv fs by fastforce
      show "f s = s" if "s \<in> fixed_texts e" for s using 6(4) fixed_in_record [OF fs] that D_record by blast
    qed
    moreover have "always_keys fs \<subseteq> fst ` set (map (\<lambda>(k, v). (k, redact_strings f v)) d)"
      using 6(3) D_record unfolding redact_keys by simp
    ultimately have "conforms (D_record fs) (VDict (map (\<lambda>(k, v). (k, redact_strings f v)) d))"
      unfolding conforms_record fields_conform_def by (auto split: option.splits)
    then show ?thesis using D_record by simp
  qed (use 6 in auto)
qed (auto split: doc_type.splits)

lemma undescribed_redacted: "undescribed t (redact_strings f v) = undescribed t v"
proof (induction t v rule: undescribed.induct)
  case (1 t vs)
  then show ?case by (auto split: doc_type.splits intro: arg_cong [where f = concat])
next
  case (2 t d)
  then show ?case
    by (auto split: doc_type.splits option.splits intro!: arg_cong [where f = concat])
qed simp_all

text \<open>From here on lists and dicts are judged by the shape of their type.\<close>

declare conforms.simps(5,6) [simp del] undescribed.simps(1,2) [simp del]

lemmas judge = conforms_record undescribed_record always_keys_def

end
