(* ===== verification/Info_Results.thy ===== *)
theory Info_Results
  imports Facts_Properties Documented
begin

text \<open>
  The result of \<^verbatim>\<open>amt_info\<close> against its \<^verbatim>\<open>RETURN\<close> documentation: the documented types of the facts, of
  the hardware inventory and of the receipt, each next to the rendering it describes.  Where a
  description lists the values of a key in full, its type is that choice.
\<close>

section \<open>The documentation\<close>

definition power_state_doc :: doc_type where
  "power_state_doc =
     D_record [(''normalized'', False, D_choice [''on'', ''off'', ''sleep'', ''hibernate'', ''unknown'']),
      (''raw'', False, D_int)]"

definition capabilities_doc :: doc_type where
  "capabilities_doc =
     D_record [(''power'', False, D_bool), (''boot_once_pxe'', False, D_bool), (''sol'', False, D_bool),
      (''storage_redirection'', False, D_bool)]"

definition network_doc :: doc_type where
  "network_doc =
     D_record [(''mac_address'', False, D_str), (''mac_address_raw'', False, D_str), (''ip_address'', False, D_str),
      (''subnet_mask'', False, D_str), (''default_gateway'', False, D_str), (''primary_dns'', False, D_str),
      (''secondary_dns'', False, D_str), (''dhcp_enabled'', False, D_bool), (''link_is_up'', False, D_bool),
      (''ip_sync_enabled'', False, D_bool), (''link_policy'', False, D_list D_int),
      (''link_policy_names'', False, D_list D_str), (''wake_on_lan_capable'', False, D_bool)]"

definition system_state_doc :: doc_type where
  "system_state_doc =
     D_record [(''element_name'', False, D_str), (''enabled_state'', False, D_int), (''enabled_state_text'', False, D_str),
      (''requested_state'', False, D_int), (''operational_status'', False, D_list D_int),
      (''operational_status_text'', False, D_list D_str)]"

definition redirection_status_doc :: doc_type where
  "redirection_status_doc =
     D_record [(''enabled_state'', False, D_int), (''listener_enabled'', False, D_bool), (''ider_enabled'', False, D_bool),
      (''sol_enabled'', False, D_bool)]"

definition chassis_doc :: doc_type where
  "chassis_doc =
     D_record [(''serial_number'', False, D_str), (''model'', False, D_str), (''manufacturer'', False, D_str),
      (''version'', False, D_str), (''tag'', False, D_str), (''element_name'', False, D_str),
      (''chassis_package_type'', False, D_int), (''chassis_package_type_text'', False, D_str),
      (''package_type'', False, D_int), (''package_type_text'', False, D_str),
      (''operational_status'', False, D_list D_int), (''operational_status_text'', False, D_list D_str)]"

definition baseboard_doc :: doc_type where
  "baseboard_doc =
     D_record [(''serial_number'', False, D_str), (''model'', False, D_str), (''manufacturer'', False, D_str),
      (''version'', False, D_str), (''tag'', False, D_str), (''element_name'', False, D_str),
      (''can_be_frued'', False, D_bool), (''package_type'', False, D_int), (''package_type_text'', False, D_str),
      (''operational_status'', False, D_list D_int), (''operational_status_text'', False, D_list D_str)]"

definition processors_doc :: doc_type where
  "processors_doc =
     D_list (D_record [(''device_id'', False, D_str), (''element_name'', False, D_str), (''role'', False, D_str),
      (''family'', False, D_int), (''other_family_description'', False, D_str),
      (''max_clock_speed_mhz'', False, D_int), (''current_clock_speed_mhz'', False, D_int),
      (''external_bus_clock_speed_mhz'', False, D_int), (''stepping'', False, D_str),
      (''cpu_status'', False, D_int), (''cpu_status_text'', False, D_str), (''upgrade_method'', False, D_int),
      (''upgrade_method_text'', False, D_str), (''health_state'', False, D_int),
      (''health_state_text'', False, D_str), (''enabled_state'', False, D_int),
      (''enabled_state_text'', False, D_str), (''requested_state'', False, D_int),
      (''operational_status'', False, D_list D_int), (''operational_status_text'', False, D_list D_str)])"

definition chips_doc :: doc_type where
  "chips_doc =
     D_list (D_record [(''version'', False, D_str), (''tag'', False, D_str), (''element_name'', False, D_str),
      (''manufacturer'', False, D_str), (''can_be_frued'', False, D_bool),
      (''operational_status'', False, D_list D_int), (''operational_status_text'', False, D_list D_str)])"

definition memory_doc :: doc_type where
  "memory_doc =
     D_list (D_record [(''bank_label'', False, D_str), (''capacity_bytes'', False, D_int), (''memory_type'', False, D_int),
      (''memory_type_text'', False, D_str), (''form_factor'', False, D_int), (''speed_ns'', False, D_int),
      (''max_memory_speed_mhz'', False, D_int), (''configured_clock_speed_mhz'', False, D_int),
      (''is_speed_in_mhz'', False, D_bool), (''manufacturer'', False, D_str), (''part_number'', False, D_str),
      (''serial_number'', False, D_str), (''tag'', False, D_str), (''element_name'', False, D_str),
      (''operational_status'', False, D_list D_int), (''operational_status_text'', False, D_list D_str)])"

definition storage_doc :: doc_type where
  "storage_doc =
     D_list (D_record [(''device_id'', False, D_str), (''element_name'', False, D_str), (''max_media_size_kb'', False, D_int),
      (''capabilities'', False, D_list D_int), (''capabilities_text'', False, D_list D_str),
      (''security'', False, D_int), (''security_text'', False, D_str), (''enabled_state'', False, D_int),
      (''enabled_state_text'', False, D_str), (''enabled_default'', False, D_int),
      (''enabled_default_text'', False, D_str), (''requested_state'', False, D_int),
      (''operational_status'', False, D_list D_int), (''operational_status_text'', False, D_list D_str)])"

definition hardware_doc :: doc_type where
  "hardware_doc =
     D_record [(''chassis'', False, chassis_doc), (''baseboard'', False, baseboard_doc),
      (''processors'', False, processors_doc), (''chips'', False, chips_doc), (''memory'', False, memory_doc),
      (''storage'', False, storage_doc)]"

definition amt_doc :: doc_type where
  "amt_doc =
     D_record [(''reachable'', True, D_bool), (''version'', False, D_str), (''uuid'', False, D_str),
      (''control_mode'', False, D_str), (''provisioning_state'', False, D_str), (''hostname'', False, D_str),
      (''domain_name'', False, D_str), (''idle_wake_timeout'', False, D_int),
      (''ping_response_enabled'', False, D_bool), (''rmcp_ping_response_enabled'', False, D_bool),
      (''network_interface_enabled'', False, D_bool), (''ddns_update_enabled'', False, D_bool),
      (''bios_version'', False, D_str), (''power_state'', False, power_state_doc),
      (''capabilities'', False, capabilities_doc), (''network'', False, network_doc),
      (''system_state'', False, system_state_doc), (''redirection_status'', False, redirection_status_doc),
      (''hardware'', False, hardware_doc)]"

definition class_read_doc :: doc_type where
  "class_read_doc =
     D_record [(''fact_group'', False, D_str), (''outcome'', False, D_choice [''read'', ''empty'', ''absent'']),
      (''verb'', False, D_choice [''Get'', ''Enumerate'']), (''instances'', False, D_int),
      (''error_class'', False, D_str),
      (''property_shapes'', False, D_map (D_choice [''absent'', ''empty'', ''text'', ''nested'', ''repeated''])),
      (''property_names_dropped'', False, D_int)]"

definition info_operation_doc :: doc_type where
  "info_operation_doc =
     D_record [(''schema'', False, D_str), (''action'', False, D_str), (''endpoint'', False, D_str),
      (''changed'', False, D_bool), (''previous'', False, D_str), (''desired'', False, D_str),
      (''observed'', False, D_str), (''tls_peer_fingerprint'', False, D_str), (''error_class'', False, D_str),
      (''gather_subset'', False, D_list D_str), (''wsman_requests_estimated'', False, D_int),
      (''hardware_reads'', False, D_map class_read_doc)]"

section \<open>The receipt\<close>

fun shape_text :: "shape \<Rightarrow> string" where
  "shape_text SHAPE_ABSENT = ''absent''"
| "shape_text SHAPE_EMPTY = ''empty''"
| "shape_text SHAPE_TEXT = ''text''"
| "shape_text SHAPE_NESTED = ''nested''"
| "shape_text SHAPE_REPEATED = ''repeated''"

fun outcome_text :: "read_outcome \<Rightarrow> string" where
  "outcome_text READ_OUTCOME_READ = ''read''"
| "outcome_text READ_OUTCOME_EMPTY = ''empty''"
| "outcome_text READ_OUTCOME_ABSENT = ''absent''"

definition class_read_asdict :: "ClassRead \<Rightarrow> val" where
  "class_read_asdict r = VDict
     [(''fact_group'', VStr (cr_fact_group r)), (''outcome'', VStr (outcome_text (cr_outcome r))),
      (''verb'', VStr (cr_verb r)), (''instances'', opt_val (\<lambda>n. VInt (int n)) (cr_instances r)),
      (''error_class'', opt_val (\<lambda>c. VStr (class_name c)) (cr_error_class r)),
      (''property_shapes'', opt_val (\<lambda>ps. VDict (map (\<lambda>(n, s). (n, VStr (shape_text s))) ps)) (cr_property_shapes r)),
      (''property_names_dropped'', VInt (int (cr_property_names_dropped r)))]"

definition reads_to_dict :: "(string \<times> ClassRead) list \<Rightarrow> val" where
  "reads_to_dict reads = VDict (map (\<lambda>(cls, r). (cls, class_read_asdict r)) reads)"

definition info_receipt :: "string \<Rightarrow> string option \<Rightarrow> info_result \<Rightarrow> OperationReceipt" where
  "info_receipt ep fp res =
     \<lparr>receipt_action = ''get_facts'', receipt_endpoint = ep, receipt_changed = False, receipt_previous = VNone,
      receipt_desired = VNone, receipt_observed = VNone, tls_peer_fingerprint = opt_val VStr fp,
      receipt_error_class = VNone,
      extra = [(''gather_subset'', str_vals (info_gather_subset res)),
          (''wsman_requests_estimated'', VInt (info_requests_estimated res))]
        @ (case info_hardware_reads res of None \<Rightarrow> [] | Some reads \<Rightarrow> [(''hardware_reads'', reads_to_dict reads)])\<rparr>"

section \<open>What the facts render to\<close>

lemmas doc_defs = power_state_doc_def capabilities_doc_def network_doc_def system_state_doc_def
  redirection_status_doc_def chassis_doc_def baseboard_doc_def processors_doc_def chips_doc_def
  memory_doc_def storage_doc_def

lemma documented_parts [documented]:
  "conforms capabilities_doc (capabilities_asdict c)" "undescribed capabilities_doc (capabilities_asdict c) = []"
  "conforms network_doc (ethernet_asdict e)" "undescribed network_doc (ethernet_asdict e) = []"
  "conforms system_state_doc (system_asdict s)" "undescribed system_state_doc (system_asdict s) = []"
  "conforms redirection_status_doc (redirection_asdict r)" "undescribed redirection_status_doc (redirection_asdict r) = []"
  "undescribed power_state_doc (power_asdict p) = []"
  by (simp_all add: doc_defs capabilities_asdict_def ethernet_asdict_def system_asdict_def redirection_asdict_def
      power_asdict_def judge undescribed_opt)

lemma documented_single [documented]:
  "conforms chassis_doc (chassis_asdict a)" "undescribed chassis_doc (chassis_asdict a) = []"
  "conforms baseboard_doc (board_asdict b)" "undescribed baseboard_doc (board_asdict b) = []"
  by (simp_all add: doc_defs chassis_asdict_def board_asdict_def judge undescribed_opt)

lemma documented_processors [documented]:
  "conforms processors_doc (VList (map cpu_asdict ps))" "undescribed processors_doc (VList (map cpu_asdict ps)) = []"
  by (simp_all add: doc_defs cpu_asdict_def judge undescribed_opt)

lemma documented_chips [documented]:
  "conforms chips_doc (VList (map chip_asdict ps))" "undescribed chips_doc (VList (map chip_asdict ps)) = []"
  by (simp_all add: doc_defs chip_asdict_def judge undescribed_opt)

lemma documented_memory [documented]:
  "conforms memory_doc (VList (map dimm_asdict ps))" "undescribed memory_doc (VList (map dimm_asdict ps)) = []"
  by (simp_all add: doc_defs dimm_asdict_def judge undescribed_opt)

lemma documented_storage [documented]:
  "conforms storage_doc (VList (map disk_asdict ps))" "undescribed storage_doc (VList (map disk_asdict ps)) = []"
  by (simp_all add: doc_defs disk_asdict_def judge undescribed_opt)

lemma documented_groups:
  "fields_conform [(''chassis'', False, chassis_doc), (''baseboard'', False, baseboard_doc),
     (''processors'', False, processors_doc), (''chips'', False, chips_doc), (''memory'', False, memory_doc),
     (''storage'', False, storage_doc)] (hardware_groups h)"
  "fields_undescribed [(''chassis'', False, chassis_doc), (''baseboard'', False, baseboard_doc),
     (''processors'', False, processors_doc), (''chips'', False, chips_doc), (''memory'', False, memory_doc),
     (''storage'', False, storage_doc)] (hardware_groups h) = []"
  by (simp_all add: hardware_groups_def documented undescribed_opt)

lemma documented_hardware [documented]:
  "conforms hardware_doc (VDict (hardware_to_dict h))" "undescribed hardware_doc (VDict (hardware_to_dict h)) = []"
  unfolding hardware_to_dict_def hardware_doc_def judge
  by (simp_all add: fields_conform_filter fields_undescribed_filter documented_groups del: filter.simps)

lemma documented_power: "conforms power_state_doc (opt_val power_asdict (power_state_fact a))"
  by (simp add: power_state_fact_def from_cim_value_def power_asdict_def power_state_doc_def POWER_STATE_TABLE_def judge
      split: option.splits)

definition text_or_null :: "val \<Rightarrow> bool" where
  "text_or_null v \<longleftrightarrow> (case v of VNone \<Rightarrow> True | VStr _ \<Rightarrow> True | _ \<Rightarrow> False)"

lemma text_or_null_opt [simp]: "text_or_null (opt_val VStr x)"
  by (simp add: text_or_null_def opt_val_def split: option.splits)

lemma documented_facts:
  assumes "fact_power_state f = power_state_fact a"
  shows "conforms amt_doc (VDict (amt_facts_to_dict f)) \<longleftrightarrow>
      text_or_null (fact_control_mode f) \<and> text_or_null (fact_provisioning_state f) \<and> text_or_null (fact_reported_hostname f)"
    and "undescribed amt_doc (VDict (amt_facts_to_dict f)) = []"
  using documented_power [of a] assms
  by (simp_all add: amt_doc_def amt_facts_to_dict_def judge documented undescribed_opt conforms_str text_or_null_def [symmetric])

section \<open>The run\<close>

lemma read_verbs:
  "when_asked b (read_single w cls) cls s = (Ok (x, rs), t) \<Longrightarrow> \<forall>(c, r)\<in>set rs. cr_verb r \<in> {''Get'', ''Enumerate''}"
  "when_asked b (read_many factory w cls) cls s = (Ok (y, rs), t) \<Longrightarrow> \<forall>(c, r)\<in>set rs. cr_verb r \<in> {''Get'', ''Enumerate''}"
  by (auto simp: when_asked_def read_single_def read_many_def single_read_def plain_read_def Let_def
      elim!: bindA_OkE split: if_splits option.splits list.splits)

lemma hardware_verbs:
  assumes "get_hardware_facts w subsets s = (Ok (Some h), t)"
  shows "\<forall>(c, r)\<in>set (hf_reads h). cr_verb r \<in> {''Get'', ''Enumerate''}"
  using assms
  by (clarsimp simp: get_hardware_facts_def Let_def elim!: bindA_OkE split: if_splits prod.splits)
     (auto dest!: read_verbs)

lemma get_facts_parts:
  assumes "get_facts w subsets s = (Ok f, t)"
  shows "(\<exists>a. fact_power_state f = power_state_fact a)
    \<and> (\<forall>h. fact_hardware f = Some h \<longrightarrow> (\<forall>(c, r)\<in>set (hf_reads h). cr_verb r \<in> {''Get'', ''Enumerate''}))"
  using assms by (clarsimp simp: get_facts_def Let_def elim!: bindA_OkE) (blast dest: hardware_verbs)

section \<open>Redaction leaves the fixed texts alone\<close>

lemma untouched:
  "bound_length (redact_patterns ''read'') = ''read''" "bound_length (redact_patterns ''empty'') = ''empty''"
  "bound_length (redact_patterns ''absent'') = ''absent''" "bound_length (redact_patterns ''text'') = ''text''"
  "bound_length (redact_patterns ''nested'') = ''nested''" "bound_length (redact_patterns ''repeated'') = ''repeated''"
  "bound_length (redact_patterns ''Get'') = ''Get''" "bound_length (redact_patterns ''Enumerate'') = ''Enumerate''"
  by code_simp+

lemma documented_read [documented]:
  "cr_verb r \<in> {''Get'', ''Enumerate''} \<Longrightarrow> conforms class_read_doc (class_read_asdict r)"
  "undescribed class_read_doc (class_read_asdict r) = []"
proof -
  have shape: "conforms (D_choice [''absent'', ''empty'', ''text'', ''nested'', ''repeated'']) (VStr (shape_text x))" for x
    by (cases x) simp_all
  have "outcome_text (cr_outcome r) \<in> {''read'', ''empty'', ''absent''}" by (cases "cr_outcome r") simp_all
  then show "cr_verb r \<in> {''Get'', ''Enumerate''} \<Longrightarrow> conforms class_read_doc (class_read_asdict r)"
    using shape by (auto simp: class_read_doc_def class_read_asdict_def judge)
  show "undescribed class_read_doc (class_read_asdict r) = []"
    by (auto simp: class_read_doc_def class_read_asdict_def judge intro!: undescribed_opt)
qed

definition fixed_info :: "string set" where
  "fixed_info = {''read'', ''empty'', ''absent'', ''text'', ''nested'', ''repeated'', ''Get'', ''Enumerate''}"

lemma fixed_texts_operation: "fixed_texts info_operation_doc \<subseteq> fixed_info"
  by (simp add: info_operation_doc_def class_read_doc_def fixed_info_def)

lemma documented_receipt:
  assumes "\<And>reads c r. info_hardware_reads res = Some reads \<Longrightarrow> (c, r) \<in> set reads \<Longrightarrow> cr_verb r \<in> {''Get'', ''Enumerate''}"
  shows "conforms info_operation_doc (receipt_document py (info_receipt ep fp res))"
    and "undescribed info_operation_doc (receipt_document py (info_receipt ep fp res)) = []"
proof -
  have reads: "conforms (D_map class_read_doc) (reads_to_dict rs)" "undescribed (D_map class_read_doc) (reads_to_dict rs) = []"
    if "info_hardware_reads res = Some rs" for rs
    using assms [OF that] by (auto simp: reads_to_dict_def documented)
  have fixed: "redact py NoSecrets (Some s) = s" if "s \<in> fixed_texts info_operation_doc" for s
    using that fixed_texts_operation untouched by (auto simp: fixed_info_def redact_plain)
  show "conforms info_operation_doc (receipt_document py (info_receipt ep fp res))"
    unfolding receipt_document_def receipt_to_dict_def
    by (rule conforms_redacted [OF _ fixed])
       (use reads in \<open>auto simp: info_operation_doc_def info_receipt_def dict_update_def judge split: option.splits\<close>)
  show "undescribed info_operation_doc (receipt_document py (info_receipt ep fp res)) = []"
    unfolding receipt_document_def receipt_to_dict_def undescribed_redacted
    using reads
    by (auto simp: info_operation_doc_def info_receipt_def dict_update_def judge intro!: undescribed_opt split: option.splits)
qed

lemma rendered_verbs:
  assumes "\<forall>(c, r)\<in>set reads. cr_verb r \<in> V" "(c, r) \<in> set (render_class_reads reads)"
  shows "cr_verb r \<in> V"
proof -
  from assms(2) have "map_of reads c = Some r"
    by (auto simp: render_class_reads_def map_filter_def split: if_splits)
  then show ?thesis using assms(1) by (auto dest: map_of_SomeD)
qed

lemma info_result_documented:
  assumes "amt_info_main w subsets s = (Ok res, s')"
  shows "(conforms amt_doc (VDict (info_amt res)) \<longleftrightarrow>
      (\<forall>k \<in> {''control_mode'', ''provisioning_state'', ''hostname''}. text_or_null (get_prop (info_amt res) k)))
    \<and> undescribed amt_doc (VDict (info_amt res)) = []
    \<and> conforms info_operation_doc (receipt_document py (info_receipt ep fp res))
    \<and> undescribed info_operation_doc (receipt_document py (info_receipt ep fp res)) = []"
proof -
  from assms obtain f t where run: "get_facts w (resolve_gather_subset subsets) s = (Ok f, t)"
    and amt: "info_amt res = amt_facts_to_dict f"
    and reads: "info_hardware_reads res = (case fact_hardware f of
        Some h \<Rightarrow> if hf_reads h \<noteq> [] then Some (render_class_reads (hf_reads h)) else None | None \<Rightarrow> None)"
    by (auto simp: amt_info_main_def Let_def elim!: bindA_OkE)
  note parts = get_facts_parts [OF run]
  from parts obtain a where a: "fact_power_state f = power_state_fact a" by blast
  have verbs: "cr_verb r \<in> {''Get'', ''Enumerate''}"
    if "info_hardware_reads res = Some rs" "(c, r) \<in> set rs" for rs c r
    using that parts rendered_verbs [of _ "{''Get'', ''Enumerate''}" c r] unfolding reads
    by (auto split: option.splits if_splits)
  have "get_prop (info_amt res) ''control_mode'' = fact_control_mode f"
    "get_prop (info_amt res) ''provisioning_state'' = fact_provisioning_state f"
    "get_prop (info_amt res) ''hostname'' = fact_reported_hostname f"
    by (simp_all add: amt amt_facts_to_dict_def get_prop_def)
  then show ?thesis
    using documented_facts [OF a] documented_receipt [of res, OF verbs] by (simp add: amt)
qed

text \<open>
  C38: What \<^verbatim>\<open>amt_info\<close> returns is what its documentation says.  After a successful run, whatever the
  endpoint answered and whichever subsets were asked for, the facts contain no key the documentation
  does not describe, at any depth, and every key has its documented type, except that the control
  mode, the provisioning state and the host name are passed on as read: the facts are of the
  documented type exactly when these three are a text or null.  The rendered receipt, after
  redaction, has its documented type, including the outcomes, verbs and shapes of the class reads.
\<close>

theorem info_documented:
  assumes "amt_info_main w subsets s = (Ok res, s')"
  shows "(conforms amt_doc (VDict (info_amt res)) \<longleftrightarrow>
      (\<forall>k \<in> {''control_mode'', ''provisioning_state'', ''hostname''}. text_or_null (get_prop (info_amt res) k)))
    \<and> undescribed amt_doc (VDict (info_amt res)) = []
    \<and> conforms info_operation_doc (receipt_document py (info_receipt ep fp res))
    \<and> undescribed info_operation_doc (receipt_document py (info_receipt ep fp res)) = []"
  by (rule info_result_documented [OF assms])

definition facts_typed :: "info_result \<Rightarrow> bool" where
  "facts_typed res \<longleftrightarrow>
     (\<forall>k \<in> {''control_mode'', ''provisioning_state'', ''hostname''}. text_or_null (get_prop (info_amt res) k))"

lemma demo_info: "case amt_info_main the_client [''config''] demo_client of (Ok res, _) \<Rightarrow> facts_typed res | _ \<Rightarrow> False"
  by code_simp

theorem info_documented_witness:
  "\<exists>res s'. amt_info_main the_client [''config''] demo_client = (Ok res, s')
     \<and> conforms amt_doc (VDict (info_amt res)) \<and> undescribed amt_doc (VDict (info_amt res)) = []"
proof -
  from demo_info obtain res s' where run: "amt_info_main the_client [''config''] demo_client = (Ok res, s')"
    and "facts_typed res" by (auto split: prod.splits outcome.splits)
  then show ?thesis using info_documented [OF run] by (auto simp: facts_typed_def)
qed

end
