(* ===== verification/Module_Results.thy ===== *)
theory Module_Results
  imports Info_Results Power_Control Redirection_Service Message_Log Media_Module
begin

text \<open>
  The results of the other modules as they reach the caller, and their \<^verbatim>\<open>RETURN\<close> documentation:
  \<^verbatim>\<open>amt_power\<close>, \<^verbatim>\<open>amt_boot\<close>, \<^verbatim>\<open>amt_redirection\<close>, \<^verbatim>\<open>amt_event_log\<close>, \<^verbatim>\<open>amt_log_clear\<close> and \<^verbatim>\<open>amt_media\<close>.  Each rendering takes
  what the model of the module computed, the endpoint, the observed certificate fingerprint and the
  receipt rendering, and builds the dictionary handed to \<^verbatim>\<open>exit_json\<close>.
\<close>

section \<open>The documentation\<close>

definition power_operation_doc :: doc_type where
  "power_operation_doc =
     D_record [(''schema'', False, D_str), (''action'', False, D_str), (''endpoint'', False, D_str),
      (''changed'', False, D_bool), (''previous'', False, power_state_doc), (''desired'', False, D_str),
      (''observed'', False, power_state_doc), (''tls_peer_fingerprint'', False, D_str),
      (''error_class'', False, D_str)]"

definition power_doc :: doc_type where
  "power_doc =
     D_record [(''state'', True, D_str), (''previous_state'', True, power_state_doc), (''desired_state'', False, D_str),
      (''return_value'', False, D_int), (''probes'', False, D_list power_state_doc),
      (''operation'', True, power_operation_doc)]"

definition boot_operation_doc :: doc_type where
  "boot_operation_doc =
     D_record [(''schema'', False, D_str), (''action'', False, D_str), (''endpoint'', False, D_str),
      (''changed'', False, D_bool), (''previous'', False, D_dict), (''desired'', False, D_dict),
      (''observed'', False, D_dict), (''tls_peer_fingerprint'', False, D_str), (''error_class'', False, D_str)]"

definition boot_doc :: doc_type where
  "boot_doc =
     D_record [(''changed'', True, D_bool), (''device'', True, D_str), (''boot_config_selector'', True, D_dict),
      (''boot_source_selector'', True, D_dict), (''operation'', True, boot_operation_doc)]"

definition redirection_operation_doc :: doc_type where
  "redirection_operation_doc =
     D_record [(''schema'', False, D_str), (''action'', False, D_str), (''endpoint'', False, D_str),
      (''changed'', False, D_bool), (''previous'', False, D_str), (''desired'', False, D_str),
      (''observed'', False, D_dict), (''tls_peer_fingerprint'', False, D_str), (''error_class'', False, D_str)]"

definition redirection_doc :: doc_type where
  "redirection_doc =
     D_record [(''changed'', True, D_bool), (''supported'', True, D_dict), (''enabled'', True, D_dict),
      (''transport_reachable'', True, D_dict), (''operation'', True, redirection_operation_doc)]"

definition event_records_doc :: doc_type where
  "event_records_doc =
     D_list (D_record [(''raw_base64'', False, D_str), (''raw_hex'', False, D_str), (''raw_length'', False, D_int),
      (''decode_error'', False, D_str), (''timestamp'', False, D_int), (''timestamp_utc'', False, D_str),
      (''device_address'', False, D_int), (''event_sensor_type'', False, D_int), (''event_type'', False, D_int),
      (''event_offset'', False, D_int), (''event_source_type'', False, D_int), (''event_severity'', False, D_int),
      (''event_severity_text'', False, D_str), (''sensor_number'', False, D_int), (''entity'', False, D_int),
      (''entity_text'', False, D_str), (''entity_instance'', False, D_int), (''event_data'', False, D_list D_int),
      (''description'', False, D_str)])"

definition log_properties_doc :: doc_type where
  "log_properties_doc =
     D_record [(''current_number_of_records'', False, D_int), (''max_number_of_records'', False, D_int),
      (''max_record_size'', False, D_int), (''element_name'', False, D_str), (''is_frozen'', False, D_bool),
      (''log_state'', False, D_int), (''overwrite_policy'', False, D_int), (''capabilities'', False, D_list D_int)]"

definition event_log_operation_doc :: doc_type where
  "event_log_operation_doc =
     D_record [(''schema'', False, D_str), (''action'', False, D_str), (''endpoint'', False, D_str),
      (''changed'', False, D_bool), (''previous'', False, D_dict), (''desired'', False, D_dict),
      (''observed'', False, log_properties_doc), (''tls_peer_fingerprint'', False, D_str),
      (''error_class'', False, D_str)]"

definition event_log_doc :: doc_type where
  "event_log_doc =
     D_record [(''records'', True, event_records_doc), (''total_records'', True, D_int), (''records_read'', True, D_int),
      (''empty_slots'', True, D_int), (''filtered_out'', True, D_int), (''truncated'', True, D_bool),
      (''complete'', True, D_bool),
      (''stop_reason'', True, D_choice [''no_more_records'', ''no_record_exists'', ''no_record_exists_in_log'', ''max_records'',
        ''invalid_record_pointed'', ''no_iteration_identifier'', ''iteration_stalled'']),
      (''batches'', True, D_int), (''log'', True, log_properties_doc),
      (''operation'', True, event_log_operation_doc)]"

definition log_clear_operation_doc :: doc_type where
  "log_clear_operation_doc =
     D_record [(''schema'', False, D_str), (''action'', False, D_str), (''endpoint'', False, D_str),
      (''changed'', False, D_bool), (''previous'', False, D_dict), (''desired'', False, D_dict),
      (''observed'', False, D_dict), (''tls_peer_fingerprint'', False, D_str), (''error_class'', False, D_str)]"

definition log_clear_doc :: doc_type where
  "log_clear_doc =
     D_record [(''records_before'', True, D_int), (''records_after'', True, D_int), (''cleared'', True, D_bool),
      (''return_value'', False, D_int), (''log'', True, D_dict), (''operation'', True, log_clear_operation_doc)]"

definition media_devices_doc :: doc_type where
  "media_devices_doc =
     D_map (D_record [(''path'', False, D_str), (''writable'', False, D_bool), (''size'', False, D_int),
      (''bytes_read'', False, D_int), (''bytes_written'', False, D_int)])"

definition media_operation_doc :: doc_type where
  "media_operation_doc =
     D_record [(''schema'', False, D_str), (''action'', False, D_str), (''endpoint'', False, D_str),
      (''changed'', False, D_bool), (''previous'', False, D_dict), (''desired'', False, D_str),
      (''observed'', False, D_dict), (''tls_peer_fingerprint'', False, D_str), (''error_class'', False, D_str)]"

definition media_doc :: doc_type where
  "media_doc =
     D_record [(''changed'', True, D_bool), (''session_id'', True, D_str), (''session_state'', True, D_str),
      (''pid'', False, D_int), (''bytes_read'', True, D_int), (''bytes_written'', True, D_int),
      (''devices'', True, media_devices_doc), (''error'', False, D_str), (''operation'', True, media_operation_doc)]"

section \<open>Power\<close>

definition state_dict :: "PowerState option \<Rightarrow> val" where
  "state_dict p = opt_val (\<lambda>s. VDict [(''normalized'', VStr (normalized s)), (''raw'', VInt (raw s))]) p"

text \<open>
  The receipt of a run that sent nothing (a query, a state already reached, check mode), and the one
  \<^verbatim>\<open>request_power_state\<close> builds.
\<close>

definition planned_receipt :: "string \<Rightarrow> string \<Rightarrow> power_receipt \<Rightarrow> OperationReceipt" where
  "planned_receipt ep st pr =
     \<lparr>receipt_action = ''amt_power.'' @ st, receipt_endpoint = ep, receipt_changed = pr_changed pr,
      receipt_previous = power_asdict (pr_previous pr), receipt_desired = opt_val VStr (pr_desired pr),
      receipt_observed = VNone, tls_peer_fingerprint = VNone, receipt_error_class = VNone, extra = []\<rparr>"

definition requested_receipt :: "string \<Rightarrow> string option \<Rightarrow> string \<Rightarrow> power_receipt \<Rightarrow> OperationReceipt" where
  "requested_receipt ep fp st pr =
     \<lparr>receipt_action = ''amt_power.'' @ st, receipt_endpoint = ep, receipt_changed = True,
      receipt_previous = power_asdict (pr_previous pr), receipt_desired = opt_val VStr (pr_desired pr),
      receipt_observed = opt_val power_asdict (pr_observed pr), tls_peer_fingerprint = opt_val VStr fp,
      receipt_error_class = VNone,
      extra = [(''return_value'', opt_val VInt (pr_return_value pr)),
        (''probes'', VList (map power_asdict (pr_probes pr)))]\<rparr>"

definition power_operation :: "string \<Rightarrow> string option \<Rightarrow> string \<Rightarrow> power_receipt \<Rightarrow> OperationReceipt" where
  "power_operation ep fp st pr =
     (if pr_return_value pr = None then planned_receipt ep st pr else requested_receipt ep fp st pr)"

definition power_result :: "py_text \<Rightarrow> string \<Rightarrow> string option \<Rightarrow> string \<Rightarrow> power_receipt \<Rightarrow> obj" where
  "power_result py ep fp st pr =
     [(''changed'', VBool (pr_changed pr)), (''state'', VStr st), (''previous_state'', state_dict (Some (pr_previous pr))),
      (''desired_state'', opt_val VStr (pr_desired pr)), (''return_value'', opt_val VInt (pr_return_value pr)),
      (''probes'', VList (map power_asdict (pr_probes pr))),
      (''operation'', receipt_document py (power_operation ep fp st pr))]"

section \<open>Boot\<close>

definition selector_dict :: "selectors \<Rightarrow> val" where
  "selector_dict sel = VDict (map (\<lambda>(k, v). (k, VStr v)) sel)"

definition boot_receipt :: "string \<Rightarrow> string option \<Rightarrow> boot_result \<Rightarrow> OperationReceipt" where
  "boot_receipt ep fp res =
     \<lparr>receipt_action = ''amt_boot'', receipt_endpoint = ep, receipt_changed = True,
      receipt_previous = VDict (br_previous res), receipt_desired = VDict (br_desired res),
      receipt_observed = VDict (br_observed res), tls_peer_fingerprint = opt_val VStr fp,
      receipt_error_class = VNone, extra = []\<rparr>"

definition boot_result_dict :: "py_text \<Rightarrow> string \<Rightarrow> string option \<Rightarrow> boot_result \<Rightarrow> obj" where
  "boot_result_dict py ep fp res =
     [(''changed'', VBool True), (''device'', VStr (br_device res)),
      (''boot_config_selector'', selector_dict (br_config_selector res)),
      (''boot_source_selector'', opt_val selector_dict (br_source_selector res)),
      (''operation'', receipt_document py (boot_receipt ep fp res))]"

section \<open>Redirection\<close>

definition supported_dict :: "RedirectionStatus \<Rightarrow> val" where
  "supported_dict s = VDict [(''ider'', VBool (ider_supported (capabilities s))),
     (''sol'', VBool (sol_supported (capabilities s)))]"

definition enabled_dict :: "RedirectionStatus \<Rightarrow> val" where
  "enabled_dict s = redirection_asdict (state s)"

text \<open>A dictionary with the port numbers as keys; they are texts in the JSON result.\<close>

definition reachable_dict :: "RedirectionStatus \<Rightarrow> val" where
  "reachable_dict s = VDict (map (\<lambda>(p, b). (show_int p, VBool b)) (transport_reachable s))"

definition redirection_receipt :: "string \<Rightarrow> string option \<Rightarrow> string option \<Rightarrow> redirection_result \<Rightarrow> OperationReceipt" where
  "redirection_receipt ep fp desired res =
     \<lparr>receipt_action = ''amt_redirection'', receipt_endpoint = ep, receipt_changed = rr_changed res,
      receipt_previous = opt_val VStr (rr_previous res), receipt_desired = opt_val VStr desired,
      receipt_observed = enabled_dict (rr_status res), tls_peer_fingerprint = opt_val VStr fp,
      receipt_error_class = VNone, extra = []\<rparr>"

definition redirection_result_dict ::
  "py_text \<Rightarrow> string \<Rightarrow> string option \<Rightarrow> string option \<Rightarrow> redirection_result \<Rightarrow> obj" where
  "redirection_result_dict py ep fp desired res =
     [(''changed'', VBool (rr_changed res)), (''supported'', supported_dict (rr_status res)),
      (''enabled'', enabled_dict (rr_status res)), (''transport_reachable'', reachable_dict (rr_status res)),
      (''operation'', receipt_document py (redirection_receipt ep fp desired res))]"

section \<open>Event log\<close>

text \<open>The wording of a decoding failure is a parameter: part of it comes from the base64 decoder.\<close>

definition int_of_nat :: "nat \<Rightarrow> val" where "int_of_nat n = VInt (int n)"

definition event_asdict :: "(decode_failure \<Rightarrow> string) \<Rightarrow> EventRecord \<Rightarrow> val" where
  "event_asdict wording r = VDict
     [(''raw_base64'', VStr (raw_base64 r)), (''raw_hex'', opt_val VStr (raw_hex r)),
      (''raw_length'', opt_val int_of_nat (raw_length r)),
      (''decode_error'', opt_val (\<lambda>e. VStr (wording e)) (decode_error r)),
      (''timestamp'', opt_val VInt (timestamp r)), (''timestamp_utc'', opt_val VStr (timestamp_utc r)),
      (''device_address'', opt_val VInt (device_address r)),
      (''event_sensor_type'', opt_val VInt (event_sensor_type r)), (''event_type'', opt_val VInt (event_type r)),
      (''event_offset'', opt_val VInt (event_offset r)), (''event_source_type'', opt_val VInt (event_source_type r)),
      (''event_severity'', opt_val VInt (event_severity r)),
      (''event_severity_text'', opt_val VStr (event_severity_text r)),
      (''sensor_number'', opt_val VInt (sensor_number r)), (''entity'', opt_val VInt (entity r)),
      (''entity_text'', opt_val VStr (entity_text r)), (''entity_instance'', opt_val VInt (entity_instance r)),
      (''event_data'', opt_val int_vals (event_data r)), (''description'', opt_val VStr (description r))]"

definition log_asdict :: "MessageLogProperties \<Rightarrow> val" where
  "log_asdict p = VDict
     [(''current_number_of_records'', opt_val VInt (current_number_of_records p)),
      (''max_number_of_records'', opt_val VInt (max_number_of_records p)),
      (''max_record_size'', opt_val VInt (max_record_size p)), (''element_name'', opt_val VStr (log_element_name p)),
      (''is_frozen'', opt_val VBool (is_frozen p)), (''log_state'', opt_val VInt (log_state p)),
      (''overwrite_policy'', opt_val VInt (overwrite_policy p)), (''capabilities'', int_vals (log_capabilities p))]"

fun stop_reason_text :: "stop_reason \<Rightarrow> string" where
  "stop_reason_text no_record_exists = ''no_record_exists''"
| "stop_reason_text no_more_records = ''no_more_records''"
| "stop_reason_text max_records = ''max_records''"
| "stop_reason_text no_record_exists_in_log = ''no_record_exists_in_log''"
| "stop_reason_text invalid_record_pointed = ''invalid_record_pointed''"
| "stop_reason_text no_iteration_identifier = ''no_iteration_identifier''"
| "stop_reason_text iteration_stalled = ''iteration_stalled''"

definition log_read_receipt :: "string \<Rightarrow> string option \<Rightarrow> MessageLogRead \<Rightarrow> OperationReceipt" where
  "log_read_receipt ep fp rd =
     \<lparr>receipt_action = ''amt_event_log.read'', receipt_endpoint = ep, receipt_changed = False,
      receipt_previous = VNone, receipt_desired = VNone, receipt_observed = log_asdict (mlr_properties rd),
      tls_peer_fingerprint = opt_val VStr fp, receipt_error_class = VNone, extra = []\<rparr>"

definition event_log_dict :: "(decode_failure \<Rightarrow> string) \<Rightarrow> py_text \<Rightarrow> string \<Rightarrow> string option \<Rightarrow>
    MessageLogRead \<Rightarrow> string list option \<Rightarrow> obj" where
  "event_log_dict wording py ep fp rd severities =
     (let res = build_result rd severities
      in [(''changed'', VBool False), (''records'', VList (map (event_asdict wording) (el_records res))),
          (''total_records'', opt_val VInt (total_records rd)), (''records_read'', int_of_nat (el_records_read res)),
          (''empty_slots'', int_of_nat (empty_slots rd)), (''filtered_out'', int_of_nat (el_filtered_out res)),
          (''truncated'', VBool (truncated rd)), (''complete'', VBool (complete rd)),
          (''stop_reason'', VStr (stop_reason_text (mlr_stop_reason rd))), (''batches'', int_of_nat (batches rd)),
          (''log'', log_asdict (mlr_properties rd)),
          (''operation'', receipt_document py (log_read_receipt ep fp rd))])"

text \<open>\<^verbatim>\<open>main\<close>: a limit below 1 is refused before the client is built (\<open>None\<close>: a failure without a class).\<close>

definition amt_event_log_main :: "nat \<Rightarrow> 's wsman_api \<Rightarrow> int \<Rightarrow> int \<Rightarrow> ('s, MessageLogRead option) action" where
  "amt_event_log_main fuel w limit batch_size =
     (if limit < 1 then ret None else bindA (read_records fuel w limit batch_size) (\<lambda>rd. ret (Some rd)))"

section \<open>Clearing the log\<close>

definition count_dict :: "int option \<Rightarrow> val" where
  "count_dict n = opt_val (\<lambda>k. VDict [(''current_number_of_records'', VInt k)]) n"

definition clear_receipt :: "string \<Rightarrow> string option \<Rightarrow> log_clear_result \<Rightarrow> OperationReceipt" where
  "clear_receipt ep fp res =
     \<lparr>receipt_action = ''amt_log_clear.clear'', receipt_endpoint = ep, receipt_changed = lc_changed res,
      receipt_previous = count_dict (lc_records_before res),
      receipt_desired = VDict [(''current_number_of_records'', VInt 0)],
      receipt_observed = count_dict (lc_records_after res), tls_peer_fingerprint = opt_val VStr fp,
      receipt_error_class = VNone, extra = []\<rparr>"

definition log_clear_dict :: "py_text \<Rightarrow> string \<Rightarrow> string option \<Rightarrow> log_clear_result \<Rightarrow> obj" where
  "log_clear_dict py ep fp res =
     [(''changed'', VBool (lc_changed res)), (''records_before'', opt_val VInt (lc_records_before res)),
      (''records_after'', opt_val VInt (lc_records_after res)), (''cleared'', VBool (lc_cleared res)),
      (''return_value'', opt_val VInt (lc_return_value res)), (''log'', log_asdict (lc_properties res)),
      (''operation'', receipt_document py (clear_receipt ep fp res))]"

section \<open>Media\<close>

definition media_receipt :: "string \<Rightarrow> media_result \<Rightarrow> OperationReceipt" where
  "media_receipt ep res =
     \<lparr>receipt_action = mr_action res, receipt_endpoint = ep, receipt_changed = mr_changed res,
      receipt_previous = opt_val VDict (mr_previous res), receipt_desired = opt_val VStr (mr_desired res),
      receipt_observed = opt_val VDict (mr_observed res), tls_peer_fingerprint = mr_fingerprint res,
      receipt_error_class = VNone, extra = []\<rparr>"

definition media_result_dict :: "py_text \<Rightarrow> string \<Rightarrow> media_result \<Rightarrow> obj" where
  "media_result_dict py ep res =
     [(''changed'', VBool (mr_changed res)), (''session_id'', mr_session_id res),
      (''session_state'', sf_session_state (mr_fields res)), (''pid'', sf_pid (mr_fields res)),
      (''bytes_read'', VInt (sf_bytes_read (mr_fields res))),
      (''bytes_written'', VInt (sf_bytes_written (mr_fields res))), (''devices'', sf_devices (mr_fields res)),
      (''error'', sf_error (mr_fields res)), (''operation'', receipt_document py (media_receipt ep res))]
     @ (case mr_recovered_stale res of None \<Rightarrow> [] | Some b \<Rightarrow> [(''recovered_stale_session'', VBool b)])
     @ (case mr_exited_cleanly res of None \<Rightarrow> [] | Some b \<Rightarrow> [(''exited_cleanly'', VBool b)])"

end
