(* ===== verification/Result_Properties.thy ===== *)
theory Result_Properties
  imports Module_Results Wsman_Demo
begin

text \<open>The results of the modules are of the type their documentation gives them.\<close>

section \<open>Power states that were read\<close>

definition documented_state :: "PowerState \<Rightarrow> bool" where
  "documented_state p \<longleftrightarrow> conforms power_state_doc (power_asdict p)"

lemma read_state_documented: "documented_state (from_cim_value v)"
  by (simp add: documented_state_def from_cim_value_def power_asdict_def power_state_doc_def POWER_STATE_TABLE_def judge
      split: option.splits)

lemma get_power_state_documented: "get_power_state w s = (Ok p, t) \<Longrightarrow> documented_state p"
  by (auto simp: get_power_state_def read_state_documented elim!: bindA_OkE)

lemma probe_documented: "probe w s = (Ok (Some p), t) \<Longrightarrow> documented_state p"
  by (auto simp: probe_def catchA_def bindA_def dest: get_power_state_documented
      split: prod.splits outcome.splits if_splits)

lemma probe_loop_documented:
  "probe_loop w expected n observed probes s = (Ok (obs, ps), t) \<Longrightarrow>
   (\<forall>p. observed = Some p \<longrightarrow> documented_state p) \<Longrightarrow> (\<forall>p\<in>set probes. documented_state p) \<Longrightarrow>
   (\<forall>p. obs = Some p \<longrightarrow> documented_state p) \<and> (\<forall>p\<in>set ps. documented_state p)"
proof (induction n arbitrary: observed probes s)
  case (Suc n)
  from Suc.prems(1) obtain x u where x: "probe w s = (Ok x, u)" and
    rest: "(case x of None \<Rightarrow> probe_loop w expected n observed probes
      | Some p \<Rightarrow> (if normalized p = expected then ret (Some p, probes @ [p])
                 else probe_loop w expected n (Some p) (probes @ [p]))) u = (Ok (obs, ps), t)"
    unfolding probe_loop.simps by (rule bindA_OkE)
  show ?case
  proof (cases x)
    case None
    with rest Suc.IH [of observed probes u] Suc.prems show ?thesis by simp
  next
    case (Some p)
    with x have "documented_state p" by (auto dest: probe_documented)
    with rest Some Suc.IH [of "Some p" "probes @ [p]" u] Suc.prems show ?thesis
      by (cases "normalized p = expected") auto
  qed
qed simp

definition documented_run :: "power_receipt \<Rightarrow> bool" where
  "documented_run pr \<longleftrightarrow> documented_state (pr_previous pr) \<and> (\<forall>p. pr_observed pr = Some p \<longrightarrow> documented_state p)
     \<and> (\<forall>p\<in>set (pr_probes pr). documented_state p)"

lemma request_documented: "request_power_state w k a s = (Ok pr, t) \<Longrightarrow> documented_run pr"
proof -
  assume run: "request_power_state w k a s = (Ok pr, t)"
  then obtain p u v obs ps where p: "get_power_state w s = (Ok p, u)"
    and loop: "probe_loop w (action_expected_state a) (nat k) None [] v = (Ok (obs, ps), t)"
    and pr: "pr_previous pr = p" "pr_observed pr = obs" "pr_probes pr = ps"
    by (auto simp: request_power_state_def elim!: bindA_OkE)
  from probe_loop_documented [OF loop] get_power_state_documented [OF p] pr show ?thesis
    by (simp add: documented_run_def)
qed

lemma planned_documented [intro]:
  "documented_state p \<Longrightarrow> documented_run \<lparr>pr_changed = c, pr_previous = p, pr_desired = d, pr_observed = None,
     pr_return_value = r, pr_probes = []\<rparr>"
  by (simp add: documented_run_def)

lemma power_main_documented:
  assumes "amt_power_main w k st check s = (Ok pr, t)"
  shows "documented_run pr"
  using assms
  by (auto simp: amt_power_main_def elim!: bindA_OkE split: if_splits option.splits)
     (blast intro: get_power_state_documented request_documented)+

section \<open>Rendered receipts\<close>

lemma untouched_states:
  "bound_length (redact_patterns ''on'') = ''on''" "bound_length (redact_patterns ''off'') = ''off''"
  "bound_length (redact_patterns ''sleep'') = ''sleep''" "bound_length (redact_patterns ''hibernate'') = ''hibernate''"
  "bound_length (redact_patterns ''unknown'') = ''unknown''"
  by code_simp+

lemma power_texts: "s \<in> fixed_texts power_operation_doc \<Longrightarrow> redact py NoSecrets (Some s) = s"
  using untouched_states by (auto simp: power_operation_doc_def power_state_doc_def redact_plain)

lemma power_operation_documented:
  assumes "documented_run pr"
  shows "conforms power_operation_doc (receipt_document py (power_operation ep fp st pr))"
    and "undescribed power_operation_doc (receipt_document py (power_operation ep fp st pr))
      = (if pr_return_value pr = None then [] else [''return_value'', ''probes''])"
proof -
  have run: "conforms power_state_doc (power_asdict (pr_previous pr))"
    "\<And>p. pr_observed pr = Some p \<Longrightarrow> conforms power_state_doc (power_asdict p)"
    using assms by (auto simp: documented_run_def documented_state_def)
  show "conforms power_operation_doc (receipt_document py (power_operation ep fp st pr))"
    unfolding receipt_document_def receipt_to_dict_def
    by (rule conforms_redacted [OF _ power_texts])
       (use run in \<open>auto simp: power_operation_doc_def power_operation_def planned_receipt_def requested_receipt_def
          dict_update_def judge\<close>)
  show "undescribed power_operation_doc (receipt_document py (power_operation ep fp st pr))
      = (if pr_return_value pr = None then [] else [''return_value'', ''probes''])"
    unfolding receipt_document_def receipt_to_dict_def undescribed_redacted
    by (simp add: power_operation_doc_def power_operation_def planned_receipt_def requested_receipt_def
        dict_update_def judge documented undescribed_opt)
qed

lemma power_result_documented:
  assumes "documented_run pr"
  shows "conforms power_doc (VDict (power_result py ep fp st pr))
    \<and> undescribed power_doc (VDict (power_result py ep fp st pr))
      = ''changed'' # (if pr_return_value pr = None then [] else [''return_value'', ''probes''])"
proof -
  have "state_dict (Some (pr_previous pr)) = power_asdict (pr_previous pr)"
    by (simp add: state_dict_def opt_val_def power_asdict_def)
  then show ?thesis
    using assms power_operation_documented [OF assms, of py ep fp st]
    by (simp add: power_doc_def power_result_def judge documented documented_run_def documented_state_def
        undescribed_opt del: if_split)
qed

text \<open>The receipts without fixed texts: redaction changes nothing about their type.\<close>

lemmas receipt_judge = receipt_document_def receipt_to_dict_def undescribed_redacted

lemma boot_result_documented:
  "conforms boot_doc (VDict (boot_result_dict py ep fp res))" "undescribed boot_doc (VDict (boot_result_dict py ep fp res)) = []"
proof -
  have "conforms boot_operation_doc (receipt_document py (boot_receipt ep fp res))"
    unfolding receipt_judge
    by (rule conforms_redacted) (auto simp: boot_operation_doc_def boot_receipt_def dict_update_def judge)
  then show "conforms boot_doc (VDict (boot_result_dict py ep fp res))"
    by (simp add: boot_doc_def boot_result_dict_def selector_dict_def judge)
  have "undescribed boot_operation_doc (receipt_document py (boot_receipt ep fp res)) = []"
    unfolding receipt_judge by (simp add: boot_operation_doc_def boot_receipt_def dict_update_def judge undescribed_opt)
  then show "undescribed boot_doc (VDict (boot_result_dict py ep fp res)) = []"
    by (simp add: boot_doc_def boot_result_dict_def judge undescribed_opt)
qed

lemma redirection_result_documented:
  "conforms redirection_doc (VDict (redirection_result_dict py ep fp d res))"
  "undescribed redirection_doc (VDict (redirection_result_dict py ep fp d res)) = []"
proof -
  have "conforms redirection_operation_doc (receipt_document py (redirection_receipt ep fp d res))"
    unfolding receipt_judge
    by (rule conforms_redacted)
       (auto simp: redirection_operation_doc_def redirection_receipt_def enabled_dict_def redirection_asdict_def
         dict_update_def judge)
  then show "conforms redirection_doc (VDict (redirection_result_dict py ep fp d res))"
    by (simp add: redirection_doc_def redirection_result_dict_def supported_dict_def enabled_dict_def
        redirection_asdict_def reachable_dict_def judge)
  have "undescribed redirection_operation_doc (receipt_document py (redirection_receipt ep fp d res)) = []"
    unfolding receipt_judge
    by (simp add: redirection_operation_doc_def redirection_receipt_def dict_update_def judge undescribed_opt)
  then show "undescribed redirection_doc (VDict (redirection_result_dict py ep fp d res)) = []"
    by (simp add: redirection_doc_def redirection_result_dict_def judge undescribed_opt)
qed

lemma log_properties_documented [documented]:
  "conforms log_properties_doc (log_asdict p)" "undescribed log_properties_doc (log_asdict p) = []"
  by (simp_all add: log_properties_doc_def log_asdict_def judge undescribed_opt)

lemma log_dict [simp]: "conforms D_dict (log_asdict p)"
  by (simp add: log_asdict_def)

lemma records_documented [documented]:
  "conforms event_records_doc (VList (map (event_asdict wording) rs))"
  "undescribed event_records_doc (VList (map (event_asdict wording) rs)) = []"
  by (simp_all add: event_records_doc_def event_asdict_def int_of_nat_def judge undescribed_opt)

lemma stop_reasons: "stop_reason_text r \<in> {''no_more_records'', ''no_record_exists'', ''no_record_exists_in_log'',
    ''max_records'', ''invalid_record_pointed'', ''no_iteration_identifier'', ''iteration_stalled''}"
  by (cases r) simp_all

lemma event_log_documented:
  "conforms event_log_doc (VDict (event_log_dict wording py ep fp rd sev))"
  "undescribed event_log_doc (VDict (event_log_dict wording py ep fp rd sev)) = [''changed'']"
proof -
  have "conforms event_log_operation_doc (receipt_document py (log_read_receipt ep fp rd))"
    unfolding receipt_judge
    by (rule conforms_redacted)
       (auto simp: event_log_operation_doc_def log_properties_doc_def log_read_receipt_def log_asdict_def dict_update_def judge)
  then show "conforms event_log_doc (VDict (event_log_dict wording py ep fp rd sev))"
    using stop_reasons [of "mlr_stop_reason rd"]
    by (simp add: event_log_doc_def event_log_dict_def Let_def int_of_nat_def documented judge)
  have "undescribed event_log_operation_doc (receipt_document py (log_read_receipt ep fp rd)) = []"
    unfolding receipt_judge
    by (simp add: event_log_operation_doc_def log_read_receipt_def dict_update_def documented judge undescribed_opt)
  then show "undescribed event_log_doc (VDict (event_log_dict wording py ep fp rd sev)) = [''changed'']"
    by (simp add: event_log_doc_def event_log_dict_def Let_def int_of_nat_def documented judge undescribed_opt)
qed

lemma log_clear_documented:
  "conforms log_clear_doc (VDict (log_clear_dict py ep fp res))"
  "undescribed log_clear_doc (VDict (log_clear_dict py ep fp res)) = [''changed'']"
proof -
  have "conforms log_clear_operation_doc (receipt_document py (clear_receipt ep fp res))"
    unfolding receipt_judge
    by (rule conforms_redacted)
       (auto simp: log_clear_operation_doc_def clear_receipt_def count_dict_def dict_update_def judge)
  then show "conforms log_clear_doc (VDict (log_clear_dict py ep fp res))"
    by (simp add: log_clear_doc_def log_clear_dict_def judge)
  have "undescribed log_clear_operation_doc (receipt_document py (clear_receipt ep fp res)) = []"
    unfolding receipt_judge
    by (simp add: log_clear_operation_doc_def clear_receipt_def dict_update_def judge undescribed_opt)
  then show "undescribed log_clear_doc (VDict (log_clear_dict py ep fp res)) = [''changed'']"
    by (simp add: log_clear_doc_def log_clear_dict_def judge undescribed_opt)
qed

text \<open>The media module passes on what the state file holds; the receipt's fingerprint comes from there too.\<close>

definition media_fields_documented :: "media_result \<Rightarrow> bool" where
  "media_fields_documented res \<longleftrightarrow> text_or_null (mr_session_id res)
     \<and> text_or_null (sf_session_state (mr_fields res)) \<and> conforms D_int (sf_pid (mr_fields res))
     \<and> conforms media_devices_doc (sf_devices (mr_fields res))
     \<and> undescribed media_devices_doc (sf_devices (mr_fields res)) = []
     \<and> text_or_null (sf_error (mr_fields res)) \<and> text_or_null (mr_fingerprint res)"

lemma media_result_documented:
  assumes "media_fields_documented res"
  shows "conforms media_doc (VDict (media_result_dict py ep res))"
    and "undescribed media_doc (VDict (media_result_dict py ep res))
      = (if mr_recovered_stale res = None then [] else [''recovered_stale_session''])
        @ (if mr_exited_cleanly res = None then [] else [''exited_cleanly''])"
proof -
  note fields = assms [unfolded media_fields_documented_def text_or_null_def, folded conforms_str]
  have "conforms media_operation_doc (receipt_document py (media_receipt ep res))"
    unfolding receipt_judge
    by (rule conforms_redacted) (use fields in \<open>auto simp: media_operation_doc_def media_receipt_def dict_update_def judge\<close>)
  then show "conforms media_doc (VDict (media_result_dict py ep res))"
    using fields by (auto simp: media_doc_def media_result_dict_def judge split: option.splits)
  have "undescribed media_operation_doc (receipt_document py (media_receipt ep res)) = []"
    unfolding receipt_judge
    by (simp add: media_operation_doc_def media_receipt_def dict_update_def judge undescribed_opt)
  then show "undescribed media_doc (VDict (media_result_dict py ep res))
      = (if mr_recovered_stale res = None then [] else [''recovered_stale_session''])
        @ (if mr_exited_cleanly res = None then [] else [''exited_cleanly''])"
    using fields by (auto simp: media_doc_def media_result_dict_def judge split: option.splits)
qed

section \<open>Properties\<close>

text \<open>
  What \<^verbatim>\<open>amt_power\<close> returns is of its documented type.  After any successful run (a query, a state
  already reached, check mode, or a request with its probes, whatever the firmware's power values),
  the result and its redacted receipt have the documented types, and every normalized power state
  is one of the five documented names.  The keys the documentation does not describe are Ansible's
  own \<^verbatim>\<open>changed\<close> and, exactly when a request was sent, the receipt's \<^verbatim>\<open>return_value\<close> and \<^verbatim>\<open>probes\<close>.
\<close>

lemma power_documented:
  assumes "amt_power_main w poll_count st check_mode s = (Ok pr, s')"
  shows "conforms power_doc (VDict (power_result py ep fp st pr))
    \<and> undescribed power_doc (VDict (power_result py ep fp st pr))
      = ''changed'' # (if pr_return_value pr = None then [] else [''return_value'', ''probes''])"
  by (rule power_result_documented [OF power_main_documented [OF assms]])

lemma demo_power_result: "case amt_power_main the_client 1 ''on'' False demo_client of
    (Ok pr, _) \<Rightarrow> pr_return_value pr = Some 0 | _ \<Rightarrow> False"
  by code_simp

text \<open>
  What the boot, redirection, event log and log clearing modules return is of its documented type.
  For every outcome the modules can compute, the result and its redacted receipt have the documented
  types at every depth, and describe every key but Ansible's own \<^verbatim>\<open>changed\<close>, which the two log modules
  leave out.  The event log's counts add up: the records returned and those filtered out are the
  records read.
\<close>

lemma results_documented:
  "conforms boot_doc (VDict (boot_result_dict py ep fp b)) \<and> undescribed boot_doc (VDict (boot_result_dict py ep fp b)) = []
   \<and> conforms redirection_doc (VDict (redirection_result_dict py ep fp d r))
   \<and> undescribed redirection_doc (VDict (redirection_result_dict py ep fp d r)) = []
   \<and> conforms event_log_doc (VDict (event_log_dict wording py ep fp rd sev))
   \<and> undescribed event_log_doc (VDict (event_log_dict wording py ep fp rd sev)) = [''changed'']
   \<and> conforms log_clear_doc (VDict (log_clear_dict py ep fp c))
   \<and> undescribed log_clear_doc (VDict (log_clear_dict py ep fp c)) = [''changed'']
   \<and> length (el_records (build_result rd sev)) + el_filtered_out (build_result rd sev)
     = el_records_read (build_result rd sev)"
proof -
  have "length (filter_by_severity rs sev) \<le> length rs" for rs
    by (auto simp: filter_by_severity_def Let_def split: option.splits intro: order_trans [OF length_filter_le])
  then show ?thesis
    using boot_result_documented redirection_result_documented event_log_documented log_clear_documented
    by (simp add: build_result_def Let_def)
qed

end
