(* ===== verification/Arguments.thy ===== *)
theory Arguments
  imports Module_Results
begin

text \<open>
  The options of the seven modules: the argument specs their code hands to \<^verbatim>\<open>AnsibleModule\<close>, the options
  their documentation describes (with the shared fragment \<^verbatim>\<open>doc_fragments/connection.py\<close>), and what it
  means that parameters were accepted.  Ansible's own parsing is not part of this repository: its
  documented effect is the predicate \<open>admitted\<close>, which the properties assume.
\<close>

record arg =
  arg_type :: string
  arg_required :: bool
  arg_default :: val
  arg_choices :: "string set"
  arg_elements :: string
  arg_no_log :: bool

type_synonym arg_spec = "(string \<times> arg) list"

definition plain :: "string \<Rightarrow> arg" where
  "plain t = \<lparr>arg_type = t, arg_required = False, arg_default = VNone, arg_choices = {}, arg_elements = [],
     arg_no_log = False\<rparr>"

text \<open>\<^verbatim>\<open>hardware.GATHER_SUBSET_CHOICES\<close>: every subset name and its negation.\<close>

definition SUBSET_NAMES :: "string set" where
  "SUBSET_NAMES = {''all'', ''min'', SUBSET_HARDWARE} \<union> VALID_SUBSETS"

definition GATHER_SUBSET_CHOICES :: "string list" where
  "GATHER_SUBSET_CHOICES = sorted_list_of_set (SUBSET_NAMES \<union> (#) CHR ''!'' ` SUBSET_NAMES)"

definition DEFAULT_RUNTIME_DIR :: string where
  "DEFAULT_RUNTIME_DIR = ''~/.ansible/intel_amt/media-sessions''"

section \<open>The argument specs\<close>

definition connection_argument_spec :: arg_spec where
  "connection_argument_spec =
     [(''host'', (plain ''str'')\<lparr>arg_required := True\<rparr>),
      (''port'', plain ''int''),
      (''username'', (plain ''str'')\<lparr>arg_default := VStr ''admin''\<rparr>),
      (''password'', (plain ''str'')\<lparr>arg_required := True, arg_no_log := True\<rparr>),
      (''use_tls'', (plain ''bool'')\<lparr>arg_default := VBool True\<rparr>),
      (''allow_insecure_transport'', (plain ''bool'')\<lparr>arg_default := VBool False\<rparr>),
      (''validate_certs'', (plain ''bool'')\<lparr>arg_default := VBool True\<rparr>),
      (''ca_path'', plain ''path''),
      (''tls_fingerprint'', plain ''str''),
      (''timeout'', (plain ''int'')\<lparr>arg_default := VInt 30\<rparr>),
      (''connect_timeout'', (plain ''int'')\<lparr>arg_default := VInt 10\<rparr>)]"

definition power_argument_spec :: arg_spec where
  "power_argument_spec = connection_argument_spec @
     [(''state'', (plain ''str'')\<lparr>arg_default := VStr ''query'', arg_choices := set [''on'', ''off'',
         ''reboot'', ''reset'', ''cycle'', ''sleep-light'', ''sleep-deep'', ''hibernate'', ''query'']\<rparr>)]"

definition info_argument_spec :: arg_spec where
  "info_argument_spec = connection_argument_spec @
     [(''gather_subset'', (plain ''list'')\<lparr>arg_default := VList [VStr SUBSET_CONFIG], arg_choices :=
         set GATHER_SUBSET_CHOICES, arg_elements := ''str''\<rparr>)]"

definition boot_argument_spec :: arg_spec where
  "boot_argument_spec = connection_argument_spec @
     [(''device'', (plain ''str'')\<lparr>arg_required := True, arg_choices := set BOOT_TARGETS\<rparr>),
      (''mode'', (plain ''str'')\<lparr>arg_default := VStr ''once'', arg_choices := set [''once'']\<rparr>),
      (''action_token'', (plain ''str'')\<lparr>arg_required := True\<rparr>)]"

definition redirection_argument_spec :: arg_spec where
  "redirection_argument_spec = connection_argument_spec @
     [(''state'', (plain ''str'')\<lparr>arg_choices := set [''disabled'', ''ider'', ''sol'', ''all'']\<rparr>)]"

definition event_log_argument_spec :: arg_spec where
  "event_log_argument_spec = connection_argument_spec @
     [(''max_records'', (plain ''int'')\<lparr>arg_default := VInt DEFAULT_MAX_RECORDS\<rparr>),
      (''severity'', (plain ''list'')\<lparr>arg_choices := set SEVERITY_CHOICES, arg_elements := ''str''\<rparr>)]"

definition log_clear_argument_spec :: arg_spec where
  "log_clear_argument_spec = connection_argument_spec @
     [(''confirm_destructive'', (plain ''bool'')\<lparr>arg_default := VBool False\<rparr>)]"

definition media_argument_spec :: arg_spec where
  "media_argument_spec = connection_argument_spec @
     [(''cdrom'', plain ''path''),
      (''floppy'', plain ''path''),
      (''floppy_writable'', (plain ''bool'')\<lparr>arg_default := VBool False\<rparr>),
      (''start_mode'', (plain ''str'')\<lparr>arg_default := VStr ''on_reboot'', arg_choices := set (map fst
         START_MODE_TO_VALUE)\<rparr>),
      (''state'', (plain ''str'')\<lparr>arg_required := True, arg_choices := set [''attached'',
         ''detached'']\<rparr>),
      (''session_id'', plain ''str''),
      (''allowed_directory'', plain ''path''),
      (''runtime_dir'', (plain ''path'')\<lparr>arg_default := VStr DEFAULT_RUNTIME_DIR\<rparr>),
      (''attach_timeout'', (plain ''int'')\<lparr>arg_default := VInt 10\<rparr>),
      (''detach_timeout'', (plain ''int'')\<lparr>arg_default := VInt 15\<rparr>)]"

section \<open>The documented options\<close>











section \<open>Accepted parameters\<close>

text \<open>
  What \<^verbatim>\<open>AnsibleModule\<close> leaves in \<^verbatim>\<open>params\<close>: every option of the spec, converted to its type and, where
  there are choices, one of them (each element, for a list); null only for an option that is neither
  required nor has a default.
\<close>

fun texts_of :: "val \<Rightarrow> string list" where
  "texts_of (VStr s) = [s]"
| "texts_of (VList vs) = List.map_filter (\<lambda>v. case v of VStr s \<Rightarrow> Some s | _ \<Rightarrow> None) vs"
| "texts_of _ = []"

fun is_text :: "val \<Rightarrow> bool" where
  "is_text (VStr _) = True"
| "is_text _ = False"

definition of_type :: "arg \<Rightarrow> val \<Rightarrow> bool" where
  "of_type a v \<longleftrightarrow> (case v of
      VStr _ \<Rightarrow> arg_type a \<in> {''str'', ''path''}
    | VInt _ \<Rightarrow> arg_type a = ''int''
    | VBool _ \<Rightarrow> arg_type a = ''bool''
    | VList vs \<Rightarrow> arg_type a = ''list'' \<and> arg_elements a = ''str'' \<and> list_all is_text vs
    | _ \<Rightarrow> False)"

definition accepts :: "arg \<Rightarrow> val \<Rightarrow> bool" where
  "accepts a v \<longleftrightarrow>
     (if v = VNone then \<not> arg_required a \<and> arg_default a = VNone
      else of_type a v \<and> (arg_choices a \<noteq> {} \<longrightarrow> set (texts_of v) \<subseteq> arg_choices a))"

definition admitted :: "arg_spec \<Rightarrow> obj \<Rightarrow> bool" where
  "admitted spec params \<longleftrightarrow> (\<forall>(k, a)\<in>set spec. accepts a (get_prop params k))"

section \<open>Lemmas\<close>

lemma set_choices [simp]:
  "set GATHER_SUBSET_CHOICES = SUBSET_NAMES \<union> (#) CHR ''!'' ` SUBSET_NAMES"
  unfolding GATHER_SUBSET_CHOICES_def
  by (rule set_sorted_list_of_set) (simp add: SUBSET_NAMES_def VALID_SUBSETS_def)

lemma accepts_choice:
  assumes "accepts a v" "arg_type a = ''str''" "arg_choices a \<noteq> {}" "arg_required a \<or> arg_default a \<noteq> VNone"
  obtains s where "v = VStr s" "s \<in> arg_choices a"
  using assms by (cases v) (auto simp: accepts_def of_type_def)

lemma accepts_optional_choice:
  assumes "accepts a v" "arg_type a = ''str''" "arg_choices a \<noteq> {}"
  shows "v = VNone \<or> (\<exists>s. v = VStr s \<and> s \<in> arg_choices a)"
  using assms by (cases v) (auto simp: accepts_def of_type_def)

lemma accepts_list:
  assumes "accepts a v" "arg_type a = ''list''" "arg_choices a \<noteq> {}"
  shows "v = VNone \<or> (\<exists>vs. v = VList vs \<and> set (texts_of v) \<subseteq> arg_choices a)"
  using assms by (cases v) (auto simp: accepts_def of_type_def)

lemma admittedD: "admitted spec params \<Longrightarrow> (k, a) \<in> set spec \<Longrightarrow> accepts a (get_prop params k)"
  by (auto simp: admitted_def)

section \<open>Properties\<close>



lemmas spec_defs = info_argument_spec_def power_argument_spec_def boot_argument_spec_def
  redirection_argument_spec_def event_log_argument_spec_def log_clear_argument_spec_def media_argument_spec_def
  connection_argument_spec_def plain_def


lemma choices_agree:
  "SUBSET_NAMES \<union> (#) CHR ''!'' ` SUBSET_NAMES = {''all'', ''!all'', ''min'', ''!min'', ''config'', ''!config'',
     ''hardware'', ''!hardware'', ''system'', ''!system'', ''processor'', ''!processor'', ''memory'', ''!memory'',
     ''storage'', ''!storage''}"
  "set SEVERITY_CHOICES = {''unspecified'', ''monitor'', ''information'', ''ok'', ''non_critical'', ''critical'',
     ''non_recoverable''}"
  "map fst START_MODE_TO_VALUE = [''on_reboot'', ''graceful'', ''immediate'']"
  by (auto simp: SUBSET_NAMES_def VALID_SUBSETS_def subset_names SEVERITY_CHOICES_def EVENT_SEVERITY_TABLE_def
      START_MODE_TO_VALUE_def)











text \<open>An option of a spec, looked up by its name.\<close>

lemma accepted_text:
  assumes "admitted spec ps" "map_of spec k = Some a" "arg_type a = ''str''" "arg_choices a \<noteq> {}"
    and "arg_required a \<or> arg_default a \<noteq> VNone"
  shows "\<exists>s \<in> arg_choices a. get_prop ps k = VStr s"
  using accepts_choice [OF admittedD [OF assms(1) map_of_SomeD [OF assms(2)]] assms(3-5)] by blast

lemma power_choice: "admitted power_argument_spec ps \<Longrightarrow> \<exists>s. get_prop ps ''state'' = VStr s \<and>
    s \<in> {''on'', ''off'', ''reboot'', ''reset'', ''cycle'', ''sleep-light'', ''sleep-deep'', ''hibernate'', ''query''}"
  by (drule accepted_text [of power_argument_spec ps "''state''"]) (auto simp: spec_defs)

lemma boot_choice: "admitted boot_argument_spec ps \<Longrightarrow> \<exists>s. get_prop ps ''device'' = VStr s \<and> s \<in> set BOOT_TARGETS"
  by (drule accepted_text [of boot_argument_spec ps "''device''"]) (auto simp: spec_defs BOOT_TARGETS_def)

lemma media_choices:
  assumes "admitted media_argument_spec ps"
  shows "\<exists>s. get_prop ps ''start_mode'' = VStr s \<and> s \<in> fst ` set START_MODE_TO_VALUE"
    and "\<exists>s. get_prop ps ''state'' = VStr s \<and> s \<in> {''attached'', ''detached''}"
  using accepted_text [OF assms, of "''start_mode''"] accepted_text [OF assms, of "''state''"]
  by (auto simp: spec_defs START_MODE_TO_VALUE_def)

lemma redirection_choice:
  assumes "admitted redirection_argument_spec ps"
  shows "get_prop ps ''state'' = VNone
    \<or> (\<exists>s. get_prop ps ''state'' = VStr s \<and> s \<in> {''disabled'', ''ider'', ''sol'', ''all''})"
proof -
  let ?a = "(plain ''str'')\<lparr>arg_choices := set [''disabled'', ''ider'', ''sol'', ''all'']\<rparr>"
  have "accepts ?a (get_prop ps ''state'')"
    by (rule admittedD [OF assms]) (simp add: redirection_argument_spec_def)
  from accepts_optional_choice [OF this] show ?thesis by (simp add: plain_def)
qed

lemma subset_choice:
  "s \<in> SUBSET_NAMES \<union> (#) CHR ''!'' ` SUBSET_NAMES \<Longrightarrow> fst (subset_entry s) \<union> snd (subset_entry s) \<noteq> {}"
  unfolding choices_agree
  by (elim insertE emptyE; simp add: subset_entry_def strip_def is_space_def VALID_SUBSETS_def MINIMAL_SUBSET_def
      subset_names expand_subset_def SUBSET_ALIASES_def Let_def)

lemma info_choice: "admitted info_argument_spec ps \<Longrightarrow>
    \<exists>vs. get_prop ps ''gather_subset'' = VList vs
      \<and> (\<forall>s\<in>set (texts_of (VList vs)). fst (subset_entry s) \<union> snd (subset_entry s) \<noteq> {})"
proof -
  let ?a = "(plain ''list'')\<lparr>arg_default := VList [VStr SUBSET_CONFIG], arg_choices := set GATHER_SUBSET_CHOICES,
    arg_elements := ''str''\<rparr>"
  assume "admitted info_argument_spec ps"
  then have a: "accepts ?a (get_prop ps ''gather_subset'')"
    by (rule admittedD) (simp add: info_argument_spec_def)
  from accepts_list [OF a] have "get_prop ps ''gather_subset'' = VNone \<or> (\<exists>vs. get_prop ps ''gather_subset'' = VList vs
      \<and> set (texts_of (get_prop ps ''gather_subset'')) \<subseteq> SUBSET_NAMES \<union> (#) CHR ''!'' ` SUBSET_NAMES)"
    by (auto simp: plain_def SUBSET_NAMES_def)
  moreover have "get_prop ps ''gather_subset'' \<noteq> VNone" using a by (auto simp: accepts_def plain_def)
  ultimately obtain vs where vs: "get_prop ps ''gather_subset'' = VList vs"
    "set (texts_of (VList vs)) \<subseteq> SUBSET_NAMES \<union> (#) CHR ''!'' ` SUBSET_NAMES" by auto
  then show ?thesis using subset_choice by blast
qed

lemma power_names_known:
  assumes "st = ''query'' \<or> map_of STATE_TO_ACTION st \<noteq> None"
  shows "\<exists>plan. power_plan st previous = Ok plan"
  using assms by (auto simp: power_plan_def Let_def)

lemma power_states_known:
  "list_all (\<lambda>st. st = ''query'' \<or> map_of STATE_TO_ACTION st \<noteq> None)
     [''on'', ''off'', ''reboot'', ''reset'', ''cycle'', ''sleep-light'', ''sleep-deep'', ''hibernate'', ''query'']"
  by (simp add: STATE_TO_ACTION_def)

lemma redirection_names_known:
  "list_all (\<lambda>s. map_of STATE_NAME_TO_ENABLED_STATE s \<noteq> None) [''disabled'', ''ider'', ''sol'', ''all'']"
  by (simp add: STATE_NAME_TO_ENABLED_STATE_def)

lemma boot_names_known:
  "d \<in> set BOOT_TARGETS \<Longrightarrow> (\<exists>p. build_boot_plan d = Ok p \<and> target p = d) \<and> map_of CAPABILITY_FIELD_BY_TARGET d \<noteq> None"
  by (auto simp: BOOT_TARGETS_def build_boot_plan_def mk_boot_plan_def TARGET_SPECS_def BOOT_SOURCE_INSTANCE_ID_def
      CAPABILITY_FIELD_BY_TARGET_def)

text \<open>Parameters as Ansible hands them over when the user gives only what is required.\<close>

definition demo_connection :: obj where
  "demo_connection = [(''host'', VStr ''amt''), (''username'', VStr ''admin''), (''password'', VStr ''pw''),
     (''use_tls'', VBool True), (''allow_insecure_transport'', VBool False), (''validate_certs'', VBool True),
     (''timeout'', VInt 30), (''connect_timeout'', VInt 10)]"

lemmas admit = admitted_def spec_defs accepts_def of_type_def get_prop_def demo_connection_def

lemma admitted_demos:
  "admitted power_argument_spec ((''state'', VStr ''cycle'') # demo_connection)"
  "admitted boot_argument_spec ([(''device'', VStr ''pxe''), (''mode'', VStr ''once''), (''action_token'', VStr ''t'')]
     @ demo_connection)"
  "admitted redirection_argument_spec demo_connection"
  "admitted media_argument_spec ([(''floppy_writable'', VBool False), (''start_mode'', VStr ''graceful''),
     (''state'', VStr ''detached''), (''runtime_dir'', VStr ''/run''), (''attach_timeout'', VInt 10),
     (''detach_timeout'', VInt 15)] @ demo_connection)"
  "admitted info_argument_spec ((''gather_subset'', VList [VStr ''!memory'']) # demo_connection)"
      apply (simp add: admit)
     apply (simp add: admit BOOT_TARGETS_def)
    apply (simp add: admit)
   apply (simp add: admit START_MODE_TO_VALUE_def)
  apply (simp add: admit SUBSET_NAMES_def VALID_SUBSETS_def subset_names)
  done

text \<open>
  C40: Accepted parameters leave no name unknown.  When Ansible has accepted the parameters of a
  module, every name the module then looks up is there: the power state is \<^verbatim>\<open>query\<close> or has an action and
  a plan whatever the previous state, the boot device has a plan and a capability field, the
  redirection state (when given) has an enabled state, the media start mode has a frame value and the
  media state is one of the two the module handles, and every entry of \<^verbatim>\<open>gather_subset\<close> selects or
  excludes at least one subset.
\<close>

theorem accepted_arguments:
  assumes "admitted power_argument_spec pw" "admitted boot_argument_spec bt"
    "admitted redirection_argument_spec rd" "admitted media_argument_spec md" "admitted info_argument_spec nf"
  shows "(\<exists>st. get_prop pw ''state'' = VStr st \<and> (st = ''query'' \<or> map_of STATE_TO_ACTION st \<noteq> None)
        \<and> (\<forall>previous. \<exists>plan. power_plan st previous = Ok plan))
    \<and> (\<exists>d. get_prop bt ''device'' = VStr d \<and> (\<exists>p. build_boot_plan d = Ok p \<and> target p = d)
        \<and> map_of CAPABILITY_FIELD_BY_TARGET d \<noteq> None)
    \<and> (get_prop rd ''state'' = VNone
        \<or> (\<exists>s. get_prop rd ''state'' = VStr s \<and> map_of STATE_NAME_TO_ENABLED_STATE s \<noteq> None))
    \<and> (\<exists>m. get_prop md ''start_mode'' = VStr m \<and> map_of START_MODE_TO_VALUE m \<noteq> None)
    \<and> get_prop md ''state'' \<in> {VStr ''attached'', VStr ''detached''}
    \<and> (\<exists>vs. get_prop nf ''gather_subset'' = VList vs
        \<and> list_all (\<lambda>s. fst (subset_entry s) \<union> snd (subset_entry s) \<noteq> {}) (texts_of (VList vs)))"
proof (intro conjI)
  show "\<exists>st. get_prop pw ''state'' = VStr st \<and> (st = ''query'' \<or> map_of STATE_TO_ACTION st \<noteq> None)
        \<and> (\<forall>previous. \<exists>plan. power_plan st previous = Ok plan)"
  proof -
    from power_choice [OF assms(1)] obtain st where st: "get_prop pw ''state'' = VStr st"
      "st = ''query'' \<or> map_of STATE_TO_ACTION st \<noteq> None"
      using power_states_known unfolding list_all_iff by force
    then show ?thesis using power_names_known [OF st(2)] by blast
  qed
  show "\<exists>d. get_prop bt ''device'' = VStr d \<and> (\<exists>p. build_boot_plan d = Ok p \<and> target p = d)
        \<and> map_of CAPABILITY_FIELD_BY_TARGET d \<noteq> None"
    using boot_choice [OF assms(2)] boot_names_known by blast
  show "get_prop rd ''state'' = VNone
        \<or> (\<exists>s. get_prop rd ''state'' = VStr s \<and> map_of STATE_NAME_TO_ENABLED_STATE s \<noteq> None)"
    using redirection_choice [OF assms(3)] redirection_names_known unfolding list_all_iff by fastforce
  show "\<exists>m. get_prop md ''start_mode'' = VStr m \<and> map_of START_MODE_TO_VALUE m \<noteq> None"
    using media_choices(1) [OF assms(4)] by (auto simp: map_of_eq_None_iff)
  show "get_prop md ''state'' \<in> {VStr ''attached'', VStr ''detached''}"
    using media_choices(2) [OF assms(4)] by auto
  show "\<exists>vs. get_prop nf ''gather_subset'' = VList vs
        \<and> list_all (\<lambda>s. fst (subset_entry s) \<union> snd (subset_entry s) \<noteq> {}) (texts_of (VList vs))"
    using info_choice [OF assms(5)] by (simp add: list_all_iff)
qed

theorem accepted_arguments_witness:
  "admitted power_argument_spec ((''state'', VStr ''cycle'') # demo_connection)
   \<and> (\<forall>previous. \<exists>plan. power_plan ''cycle'' previous = Ok plan)"
  using conjunct1 [OF accepted_arguments [OF admitted_demos]] admitted_demos(1) by (simp add: get_prop_def)

end
