(* ===== verification/Modules.thy ===== *)
theory Modules
  imports Arguments Result_Properties Control_Properties Message_Log_Properties Tls
begin

text \<open>
  Whole runs of the six modules that talk to the endpoint: \<^verbatim>\<open>main\<close> of \<^verbatim>\<open>amt_info\<close>, \<^verbatim>\<open>amt_power\<close>,
  \<^verbatim>\<open>amt_boot\<close>, \<^verbatim>\<open>amt_redirection\<close>, \<^verbatim>\<open>amt_event_log\<close> and \<^verbatim>\<open>amt_log_clear\<close>, from the accepted parameters
  to the arguments of \<^verbatim>\<open>exit_json\<close> or \<^verbatim>\<open>fail_json\<close>.  A run composes the trust policy of theory \<open>Tls\<close>,
  the client of theory \<open>Wsman\<close>, the body of the module and the rendering of its result.

  \<open>surroundings\<close> is what the run takes from outside the repository: whether \<^verbatim>\<open>requests\<close> could be
  imported, what a session of it does with a request, given how it trusts and as whom it logs in, and
  the texts the raise sites put into an exception.  A module that ends by an exception it does not
  catch is \<open>Escaped\<close>.
\<close>

section \<open>Parameters\<close>

definition param_str :: "obj \<Rightarrow> string \<Rightarrow> string" where
  "param_str ps k = (case get_prop ps k of VStr s \<Rightarrow> s | _ \<Rightarrow> [])"

definition param_opt_str :: "obj \<Rightarrow> string \<Rightarrow> string option" where
  "param_opt_str ps k = (case get_prop ps k of VStr s \<Rightarrow> Some s | _ \<Rightarrow> None)"

definition param_bool :: "obj \<Rightarrow> string \<Rightarrow> bool" where
  "param_bool ps k = (case get_prop ps k of VBool b \<Rightarrow> b | _ \<Rightarrow> False)"

definition param_opt_int :: "obj \<Rightarrow> string \<Rightarrow> int option" where
  "param_opt_int ps k = (case get_prop ps k of VInt n \<Rightarrow> Some n | _ \<Rightarrow> None)"

definition param_int :: "obj \<Rightarrow> string \<Rightarrow> int" where
  "param_int ps k = (case get_prop ps k of VInt n \<Rightarrow> n | _ \<Rightarrow> 0)"

definition param_strs :: "obj \<Rightarrow> string \<Rightarrow> string list option" where
  "param_strs ps k = (case get_prop ps k of VList vs \<Rightarrow> Some (texts_of (VList vs)) | _ \<Rightarrow> None)"

section \<open>The client\<close>

record raise_args =
  ra_message :: string
  ra_endpoint :: "string option"
  ra_operation :: "string option"
  ra_diagnostic :: "string option"
  ra_secrets :: extra_secrets

record 'w surroundings =
  has_requests :: bool
  missing_library :: string
  import_error :: string
  session_post :: "(adapter \<times> verify) option \<Rightarrow> string \<times> string \<Rightarrow> 'w \<Rightarrow> string \<Rightarrow> xml \<Rightarrow> http_result \<times> 'w"
  tcp_connect :: "string \<Rightarrow> int \<Rightarrow> exn option"
  outside :: 'w
  uuids :: "nat \<Rightarrow> string"
  rounds :: nat
  raised :: "amt_error \<Rightarrow> raise_args"
  texts :: py_text
  base64_wording :: "decode_failure \<Rightarrow> string"

definition MAX_RETRIES :: int where "MAX_RETRIES = 2"

definition build_wsman_client :: "obj \<Rightarrow> client_setup outcome" where
  "build_wsman_client ps =
     from_connection_options (param_str ps ''host'') (param_opt_int ps ''port'') (param_bool ps ''use_tls'')
       (param_bool ps ''allow_insecure_transport'') (param_bool ps ''validate_certs'')
       (param_opt_str ps ''ca_path'') (param_opt_str ps ''tls_fingerprint'') MAX_RETRIES"

text \<open>The session \<^verbatim>\<open>WsmanClient.__init__\<close> sets up: whom it trusts and as whom it logs in.\<close>

definition open_client :: "'w surroundings \<Rightarrow> obj \<Rightarrow> client_setup \<Rightarrow> 'w client" where
  "open_client sur ps cset =
     \<lparr>url = cs_url cset, max_retries = cs_max_retries cset,
      transport = session_post sur (cs_trust cset) (param_str ps ''username'', param_str ps ''password''),
      world = outside sur, posted = [], message_ids = uuids sur, ids_used = 0, pull_fuel = rounds sur,
      last_peer_certificate = None\<rparr>"

section \<open>Ends of a run\<close>

datatype module_run = Exited obj | Failed obj | Escaped exn

text \<open>\<^verbatim>\<open>except AmtError as err: module.fail_json(**err.to_result())\<close>.\<close>

definition failure :: "'w surroundings \<Rightarrow> exn \<Rightarrow> module_run" where
  "failure sur x = (case x of
      AmtError e \<Rightarrow>
        (let a = raised sur e
         in Failed (error_result (texts sur) (ra_secrets a) (ra_message a) (ra_endpoint a) (ra_operation a)
              (ra_diagnostic a) e))
    | _ \<Rightarrow> Escaped x)"

text \<open>
  The frame all six share.  \<open>inside\<close>: is the client built inside the \<^verbatim>\<open>try\<close>?  The second component is the
  client as the run leaves it, if there was one.
\<close>

definition with_client ::
  "'w surroundings \<Rightarrow> bool \<Rightarrow> obj \<Rightarrow> (string \<Rightarrow> ('w client, obj) action) \<Rightarrow> module_run \<times> 'w client option" where
  "with_client sur inside ps body =
     (case build_wsman_client ps of
        Raise x \<Rightarrow> (if inside then failure sur x else Escaped x, None)
      | Ok cset \<Rightarrow> (case body (cs_endpoint cset) (open_client sur ps cset) of
          (Ok d, c) \<Rightarrow> (Exited d, Some c)
        | (Raise x, c) \<Rightarrow> (failure sur x, Some c)))"

definition when_importable :: "'w surroundings \<Rightarrow> module_run \<times> 'w client option \<Rightarrow> module_run \<times> 'w client option" where
  "when_importable sur run =
     (if has_requests sur then run
      else (Failed [(''msg'', VStr (missing_library sur)), (''exception'', VStr (import_error sur))], None))"

text \<open>A result is rendered with the certificate the last completed request has left.\<close>

definition render_with :: "('w client, 'a) action \<Rightarrow> (string option \<Rightarrow> 'a \<Rightarrow> obj) \<Rightarrow> ('w client, obj) action" where
  "render_with m render = bindA m (\<lambda>res. bindA (gets last_peer_certificate) (\<lambda>fp. ret (render fp res)))"

section \<open>The modules\<close>

definition DEFAULT_POLL_COUNT :: int where "DEFAULT_POLL_COUNT = 5"

definition run_power :: "'w surroundings \<Rightarrow> bool \<Rightarrow> obj \<Rightarrow> module_run \<times> 'w client option" where
  "run_power sur check_mode ps = when_importable sur
     (with_client sur True ps (\<lambda>ep.
        render_with (amt_power_main the_client DEFAULT_POLL_COUNT (param_str ps ''state'') check_mode)
          (\<lambda>fp. power_result (texts sur) ep fp (param_str ps ''state''))))"

definition run_boot :: "'w surroundings \<Rightarrow> bool \<Rightarrow> obj \<Rightarrow> module_run \<times> 'w client option" where
  "run_boot sur check_mode ps = when_importable sur
     (with_client sur False ps (\<lambda>ep.
        render_with (amt_boot_main the_client (param_str ps ''device'') (param_str ps ''action_token'') check_mode)
          (boot_result_dict (texts sur) ep)))"

definition run_redirection :: "'w surroundings \<Rightarrow> bool \<Rightarrow> obj \<Rightarrow> module_run \<times> 'w client option" where
  "run_redirection sur check_mode ps = when_importable sur
     (with_client sur False ps (\<lambda>ep.
        render_with (amt_redirection_main the_client (tcp_connect sur) (param_str ps ''host'')
            (param_opt_str ps ''state'') check_mode)
          (\<lambda>fp. redirection_result_dict (texts sur) ep fp (param_opt_str ps ''state''))))"

definition run_log_clear :: "'w surroundings \<Rightarrow> bool \<Rightarrow> obj \<Rightarrow> module_run \<times> 'w client option" where
  "run_log_clear sur check_mode ps = when_importable sur
     (with_client sur True ps (\<lambda>ep.
        render_with (amt_log_clear_main the_client (param_bool ps ''confirm_destructive'') check_mode)
          (log_clear_dict (texts sur) ep)))"

definition info_dict :: "py_text \<Rightarrow> string \<Rightarrow> string option \<Rightarrow> info_result \<Rightarrow> obj" where
  "info_dict py ep fp res =
     [(''changed'', VBool False), (''amt'', VDict (info_amt res)),
      (''operation'', receipt_document py (info_receipt ep fp res))]"

definition run_info :: "'w surroundings \<Rightarrow> obj \<Rightarrow> module_run \<times> 'w client option" where
  "run_info sur ps = when_importable sur
     (with_client sur True ps (\<lambda>ep.
        render_with (amt_info_main the_client (texts_of (get_prop ps ''gather_subset'')))
          (info_dict (texts sur) ep)))"

text \<open>A limit below 1 is refused before the client is built, without a class.\<close>

definition limit_refused :: "int \<Rightarrow> module_run" where
  "limit_refused limit = Failed [(''msg'', VStr (''max_records must be at least 1, got '' @ show_int limit))]"

definition run_event_log :: "'w surroundings \<Rightarrow> obj \<Rightarrow> module_run \<times> 'w client option" where
  "run_event_log sur ps = when_importable sur
     (let limit = param_int ps ''max_records''
      in if limit < 1 then (limit_refused limit, None)
         else with_client sur True ps (\<lambda>ep.
           render_with (read_records (rounds sur) the_client limit MAX_READ_RECORDS)
             (\<lambda>fp rd. event_log_dict (base64_wording sur) (texts sur) ep fp rd (param_strs ps ''severity''))))"

section \<open>What a run sends\<close>

text \<open>The requests of a run that are not mere reads, in order.\<close>

definition sent :: "module_run \<times> 'w client option \<Rightarrow> request list" where
  "sent run = (case snd run of None \<Rightarrow> [] | Some c \<Rightarrow> mutations c)"

lemma mutations_open [simp]: "mutations (open_client sur ps cset) = []"
  by (simp add: open_client_def mutations_def)

lemma mutations_rendered [simp]: "mutations (snd (render_with m render c)) = mutations (snd (m c))"
  by (auto simp: render_with_def bindA_def gets_def ret_def split: prod.splits outcome.splits)

lemma sent_importable: "P [] \<Longrightarrow> P (sent run) \<Longrightarrow> P (sent (when_importable sur run))"
  by (simp add: when_importable_def sent_def)

lemma sent_with_client:
  assumes "P []" and "\<And>ep c. mutations c = [] \<Longrightarrow> P (mutations (snd (body ep c)))"
  shows "P (sent (with_client sur inside ps body))"
proof (cases "build_wsman_client ps")
  case (Raise x)
  with assms(1) show ?thesis by (simp add: with_client_def sent_def)
next
  case (Ok cset)
  with assms(2) [OF mutations_open, of "cs_endpoint cset" sur ps cset] show ?thesis
    by (auto simp: with_client_def sent_def split: prod.splits outcome.splits)
qed

text \<open>A run sends what the body of its module sends.\<close>

lemma sent_run:
  assumes "P []" and "\<And>c. mutations c = [] \<Longrightarrow> P (mutations (snd (m c)))"
  shows "P (sent (when_importable sur (with_client sur inside ps (\<lambda>ep. render_with m (render ep)))))"
  by (rule sent_importable [OF assms(1) sent_with_client [where P = P, OF assms(1)]]) (simp add: assms(2))

text \<open>What each module may send: nothing in check mode, and otherwise what it was asked for.\<close>

definition power_sends :: "bool \<Rightarrow> string \<Rightarrow> request list \<Rightarrow> bool" where
  "power_sends check st ds \<longleftrightarrow> ds = [] \<or> (\<exists>a. map_of STATE_TO_ACTION st = Some a \<and> \<not> check \<and> ds = power_request a)"

definition boot_sends :: "bool \<Rightarrow> string \<Rightarrow> string \<Rightarrow> request list \<Rightarrow> bool" where
  "boot_sends check d tok ds \<longleftrightarrow> ds = [] \<or> (\<exists>p previous. build_boot_plan d = Ok p \<and> \<not> check \<and> tok \<noteq> []
     \<and> prefix ds (boot_sequence p previous))"

definition redirection_sends :: "bool \<Rightarrow> string option \<Rightarrow> request list \<Rightarrow> bool" where
  "redirection_sends check desired ds \<longleftrightarrow>
     ds = [] \<or> (\<exists>name. desired = Some name \<and> \<not> check \<and> ds = state_change_request name)"

definition clear_sends :: "bool \<Rightarrow> bool \<Rightarrow> request list \<Rightarrow> bool" where
  "clear_sends check confirm ds \<longleftrightarrow>
     ds = [] \<or> confirm \<and> \<not> check \<and> ds = sent_request (invoke_request MESSAGE_LOG_CLASS ''ClearLog'' [] [])"

lemmas sends_defs = power_sends_def boot_sends_def redirection_sends_def clear_sends_def

lemma sends_nothing [simp]:
  "power_sends check st []" "boot_sends check d tok []" "redirection_sends check desired []" "clear_sends check confirm []"
  by (simp_all add: sends_defs)

lemma body_power:
  assumes "mutations c = []"
  shows "power_sends check st (mutations (snd (amt_power_main the_client k st check c)))"
proof -
  obtain r t where run: "amt_power_main the_client k st check c = (r, t)" by fastforce
  from ws.power_main_trace [OF run] assms show ?thesis unfolding run power_sends_def snd_conv by auto
qed

lemma body_boot:
  assumes "mutations c = []"
  shows "boot_sends check d tok (mutations (snd (amt_boot_main the_client d tok check c)))"
proof -
  obtain r t where run: "arm_one_time_boot the_client d (Some tok) check c = (r, t)" by fastforce
  have "snd (amt_boot_main the_client d tok check c) = t"
    unfolding amt_boot_main_def bindA_def run by (simp add: ret_def split: outcome.split)
  moreover have "boot_sends check d tok (mutations t)"
  proof (cases check)
    case True
    with postsD [OF ws.arm_check_mode_silent, of d "Some tok" c r t] run assms show ?thesis by (auto simp: boot_sends_def)
  next
    case False
    with run have "arm_one_time_boot the_client d (Some tok) False c = (r, t)" by simp
    from ws.arm_trace [OF this] assms False show ?thesis by (auto simp: boot_sends_def)
  qed
  ultimately show ?thesis by simp
qed

lemma body_redirection:
  assumes "mutations c = []"
  shows "redirection_sends check desired (mutations (snd (amt_redirection_main the_client conn host desired check c)))"
proof -
  obtain r t where run: "amt_redirection_main the_client conn host desired check c = (r, t)" by fastforce
  from ws.main_trace [OF run] assms show ?thesis unfolding run redirection_sends_def snd_conv by auto
qed

lemma body_log_clear:
  assumes "mutations c = []"
  shows "clear_sends check confirm (mutations (snd (amt_log_clear_main the_client confirm check c)))"
proof -
  obtain r t where run: "amt_log_clear_main the_client confirm check c = (r, t)" by fastforce
  from ws.clear_main_trace [OF run] assms show ?thesis unfolding run clear_sends_def snd_conv by auto
qed

lemma body_info: "mutations c = [] \<Longrightarrow> mutations (snd (amt_info_main the_client subsets c)) = []"
  using postsD [OF ws.info_main_silent, of subsets c] by (cases "amt_info_main the_client subsets c") auto

lemma body_event_log: "mutations c = [] \<Longrightarrow> list_all reading_request (mutations (snd (read_records n the_client limit bsz c)))"
  using reading_only_reads [of n limit bsz c] by (auto simp: list_all_iff)

lemma sent_power: "power_sends check (param_str ps ''state'') (sent (run_power sur check ps))"
  unfolding run_power_def by (rule sent_run [where P = "power_sends check (param_str ps ''state'')"]) (simp_all add: body_power)

lemma sent_boot:
  "boot_sends check (param_str ps ''device'') (param_str ps ''action_token'') (sent (run_boot sur check ps))"
  unfolding run_boot_def
  by (rule sent_run [where P = "boot_sends check (param_str ps ''device'') (param_str ps ''action_token'')"])
     (simp_all add: body_boot)

lemma sent_redirection: "redirection_sends check (param_opt_str ps ''state'') (sent (run_redirection sur check ps))"
  unfolding run_redirection_def
  by (rule sent_run [where P = "redirection_sends check (param_opt_str ps ''state'')"]) (simp_all add: body_redirection)

lemma sent_log_clear: "clear_sends check (param_bool ps ''confirm_destructive'') (sent (run_log_clear sur check ps))"
  unfolding run_log_clear_def
  by (rule sent_run [where P = "clear_sends check (param_bool ps ''confirm_destructive'')"]) (simp_all add: body_log_clear)

lemma sent_info: "sent (run_info sur ps) = []"
  unfolding run_info_def by (rule sent_run [where P = "\<lambda>ds. ds = []"]) (simp_all add: body_info)

lemma sent_event_log: "list_all reading_request (sent (run_event_log sur ps))"
proof -
  have "list_all reading_request (sent (when_importable sur (with_client sur True ps (\<lambda>ep.
      render_with (read_records n the_client limit bsz) (render ep)))))" for n limit bsz render
    by (rule sent_run [where P = "list_all reading_request"]) (simp_all add: body_event_log)
  then show ?thesis
    by (simp add: run_event_log_def Let_def) (simp add: sent_def when_importable_def)
qed

section \<open>How a run ends\<close>

text \<open>\<^verbatim>\<open>TlsTrustPolicy.create\<close>, the plaintext gate and the fingerprint parser refuse with one class only.\<close>

lemma refused_options: "build_wsman_client ps = Raise x \<Longrightarrow> x = TlsValidationError"
  by (auto simp: build_wsman_client_def from_connection_options_def create_policy_def wsman_init_def
      enforce_transport_policy_def normalize_fingerprint_def Let_def split: outcome.splits if_splits)

text \<open>
  What \<^verbatim>\<open>fail_json\<close> is given: one of the nine classes, a redacted and bounded message, and no key but those
  of \<^verbatim>\<open>to_result\<close>.
\<close>

definition FAILURE_KEYS :: "string set" where
  "FAILURE_KEYS = {''msg'', ''error_class'', ''endpoint'', ''operation'', ''diagnostic'', ''return_value'', ''indeterminate''}"

definition classified_failure :: "error_class set \<Rightarrow> obj \<Rightarrow> bool" where
  "classified_failure classes d \<longleftrightarrow> (\<exists>c \<in> classes. get_prop d ''error_class'' = VStr (class_name c))
     \<and> (\<exists>m. get_prop d ''msg'' = VStr m \<and> within_bounds m)
     \<and> distinct (map fst d) \<and> fst ` set d \<subseteq> FAILURE_KEYS"

text \<open>
  A run ends well when its result has the documented type (apart from the keys \<open>left_out\<close> of the
  documentation), or it fails with a class, or an exception escapes that has none.
\<close>

definition ends_documented :: "doc_type \<Rightarrow> string set \<Rightarrow> module_run \<Rightarrow> bool" where
  "ends_documented doc left_out run = (case run of
      Exited d \<Rightarrow> conforms doc (VDict d) \<and> set (undescribed doc (VDict d)) \<subseteq> left_out
    | Failed d \<Rightarrow> classified_failure UNIV d
    | Escaped x \<Rightarrow> \<not> is_amt_error x)"

text \<open>
  The same for \<^verbatim>\<open>amt_info\<close>, whose result has its type exactly when the three facts passed on as read are
  texts or null.
\<close>

definition info_doc :: doc_type where
  "info_doc = D_record [(''amt'', True, amt_doc), (''operation'', True, info_operation_doc)]"

definition info_ends_documented :: "module_run \<Rightarrow> bool" where
  "info_ends_documented run = (case run of
      Exited d \<Rightarrow> undescribed info_doc (VDict d) = [''changed''] \<and> (\<exists>facts. get_prop d ''amt'' = VDict facts
        \<and> (conforms info_doc (VDict d) \<longleftrightarrow> list_all (\<lambda>k. text_or_null (get_prop facts k))
            [''control_mode'', ''provisioning_state'', ''hostname'']))
    | _ \<Rightarrow> ends_documented info_doc {} run)"

lemma error_result_classified:
  "error_class e \<in> classes \<Longrightarrow> classified_failure classes (error_result py x msg ep op diag e)"
  using redact_within_bounds [of py x "Some msg"]
  by (auto simp: classified_failure_def error_result_def Models.to_result_def get_prop_def FAILURE_KEYS_def
      split: option.splits)

lemma failure_classified: "has_class classes x \<Longrightarrow> \<exists>d. failure sur x = Failed d \<and> classified_failure classes d"
  by (cases x) (auto simp: has_class_def failure_def Let_def error_result_classified)

lemma failure_ends: "ends_documented doc left_out (failure sur x)"
  by (cases x) (auto simp: failure_def ends_documented_def Let_def error_result_classified)

lemma info_failure_ends: "info_ends_documented (failure sur x)"
  using failure_ends [of info_doc "{}" sur x] failure_ends [of info_doc "{}" sur x]
  by (cases x) (auto simp: failure_def info_ends_documented_def Let_def)

lemma run_ends:
  assumes "build_wsman_client ps = Ok cset" "has_requests sur" "\<And>x. E (failure sur x)"
    and "\<And>c r t fp. m c = (Ok r, t) \<Longrightarrow> E (Exited (render (cs_endpoint cset) fp r))"
  shows "E (fst (when_importable sur (with_client sur inside ps (\<lambda>ep. render_with m (render ep)))))"
proof -
  obtain q t where run: "m (open_client sur ps cset) = (q, t)" by fastforce
  show ?thesis
  proof (cases q)
    case (Ok r)
    from assms(4) [OF run [unfolded Ok]] show ?thesis
      by (simp add: when_importable_def with_client_def assms(1,2) render_with_def bindA_def run Ok gets_def ret_def)
  next
    case (Raise x)
    then show ?thesis
      by (simp add: when_importable_def with_client_def assms(1-3) render_with_def bindA_def run)
  qed
qed

lemma run_refused:
  assumes "build_wsman_client ps = Raise x" "has_requests sur"
  shows "when_importable sur (with_client sur inside ps body) = (if inside then failure sur x else Escaped x, None)"
    and "\<exists>d. failure sur x = Failed d \<and> classified_failure {TLS_VALIDATION} d"
  using assms refused_options [OF assms(1)] failure_classified [of "{TLS_VALIDATION}" x sur]
  by (simp_all add: when_importable_def with_client_def)

lemma info_dict_documented:
  assumes "amt_info_main w subsets s = (Ok res, t)"
  shows "info_ends_documented (Exited (info_dict py ep fp res))"
  using info_result_documented [OF assms, of py ep fp]
  by (simp add: info_ends_documented_def info_doc_def info_dict_def judge get_prop_def)

lemmas run_defs = run_power_def run_boot_def run_redirection_def run_log_clear_def run_info_def run_event_log_def

lemma runs_missing:
  assumes "\<not> has_requests sur"
  shows "list_all (\<lambda>run. run = (Failed [(''msg'', VStr (missing_library sur)), (''exception'', VStr (import_error sur))], None))
       [run_power sur check ps, run_boot sur check ps, run_redirection sur check ps, run_log_clear sur check ps,
        run_info sur ps, run_event_log sur ps]"
  by (simp add: run_defs when_importable_def assms)

lemma run_event_log_refused:
  "has_requests sur \<Longrightarrow> param_int ps ''max_records'' < 1 \<Longrightarrow>
     run_event_log sur ps = (limit_refused (param_int ps ''max_records''), None)"
  by (simp add: run_event_log_def when_importable_def)

lemma runs_refused:
  assumes "build_wsman_client ps = Raise x" "has_requests sur"
  shows "list_all (\<lambda>run. \<exists>d. run = (Failed d, None) \<and> classified_failure {TLS_VALIDATION} d)
       [run_power sur check ps, run_log_clear sur check ps, run_info sur ps]"
    and "run_boot sur check ps = (Escaped x, None)" "run_redirection sur check ps = (Escaped x, None)"
    and "\<not> param_int ps ''max_records'' < 1 \<Longrightarrow>
      \<exists>d. run_event_log sur ps = (Failed d, None) \<and> classified_failure {TLS_VALIDATION} d"
  using run_refused(2) [OF assms]
  by (auto simp: run_defs Let_def run_refused(1) [OF assms])

lemma power_ends:
  assumes "build_wsman_client ps = Ok cset" "has_requests sur"
  shows "ends_documented power_doc {''changed'', ''return_value'', ''probes''} (fst (run_power sur check ps))"
  unfolding run_power_def
proof (rule run_ends [where E = "ends_documented power_doc {''changed'', ''return_value'', ''probes''}", OF assms failure_ends])
  fix c t :: "'a client" and r fp
  assume "amt_power_main the_client DEFAULT_POLL_COUNT (param_str ps ''state'') check c = (Ok r, t)"
  from power_result_documented [OF power_main_documented [OF this], of "texts sur" "cs_endpoint cset" fp "param_str ps ''state''"]
  show "ends_documented power_doc {''changed'', ''return_value'', ''probes''}
      (Exited (power_result (texts sur) (cs_endpoint cset) fp (param_str ps ''state'') r))"
    by (simp add: ends_documented_def)
qed

lemma runs_documented:
  assumes "build_wsman_client ps = Ok cset" "has_requests sur"
  shows "ends_documented power_doc {''changed'', ''return_value'', ''probes''} (fst (run_power sur check ps))"
    "ends_documented boot_doc {} (fst (run_boot sur check ps))"
    "ends_documented redirection_doc {} (fst (run_redirection sur check ps))"
    "ends_documented log_clear_doc {''changed''} (fst (run_log_clear sur check ps))"
    "\<not> param_int ps ''max_records'' < 1 \<Longrightarrow> ends_documented event_log_doc {''changed''} (fst (run_event_log sur ps))"
    "info_ends_documented (fst (run_info sur ps))"
proof -
  note ends = run_ends [where E = "ends_documented _ _", OF assms(1,2) failure_ends]
  show "ends_documented power_doc {''changed'', ''return_value'', ''probes''} (fst (run_power sur check ps))"
    by (rule power_ends [OF assms(1,2)])
  show "ends_documented boot_doc {} (fst (run_boot sur check ps))" unfolding run_boot_def
    by (rule ends) (simp add: ends_documented_def boot_result_documented)
  show "ends_documented redirection_doc {} (fst (run_redirection sur check ps))" unfolding run_redirection_def
    by (rule ends) (simp add: ends_documented_def redirection_result_documented)
  show "ends_documented log_clear_doc {''changed''} (fst (run_log_clear sur check ps))" unfolding run_log_clear_def
    by (rule ends) (simp add: ends_documented_def log_clear_documented)
  have log: "\<not> param_int ps ''max_records'' < 1 \<Longrightarrow> run_event_log sur ps = when_importable sur (with_client sur True ps (\<lambda>ep.
      render_with (read_records (rounds sur) the_client (param_int ps ''max_records'') MAX_READ_RECORDS)
        (\<lambda>fp rd. event_log_dict (base64_wording sur) (texts sur) ep fp rd (param_strs ps ''severity''))))"
    by (simp add: run_event_log_def Let_def)
  have logged: "ends_documented event_log_doc {''changed''} (fst (when_importable sur (with_client sur True ps (\<lambda>ep.
      render_with (read_records (rounds sur) the_client (param_int ps ''max_records'') MAX_READ_RECORDS)
        (\<lambda>fp rd. event_log_dict (base64_wording sur) (texts sur) ep fp rd (param_strs ps ''severity''))))))"
    by (rule ends) (simp add: ends_documented_def event_log_documented)
  show "\<not> param_int ps ''max_records'' < 1 \<Longrightarrow> ends_documented event_log_doc {''changed''} (fst (run_event_log sur ps))"
    using logged log by simp
  show "info_ends_documented (fst (run_info sur ps))" unfolding run_info_def
    by (rule run_ends [where E = info_ends_documented, OF assms(1,2) info_failure_ends]) (rule info_dict_documented)
qed

text \<open>A run on the demonstration endpoint, over plain HTTP and then with the gate closed.\<close>

definition demo_surroundings :: "nat surroundings" where
  "demo_surroundings = \<lparr>has_requests = True, missing_library = ''requests'', import_error = [],
     session_post = (\<lambda>trust login. demo_transport), tcp_connect = (\<lambda>h p. None), outside = 0, uuids = (\<lambda>n. ''id''),
     rounds = 10, raised = (\<lambda>e. \<lparr>ra_message = ''no'', ra_endpoint = None, ra_operation = None, ra_diagnostic = None,
       ra_secrets = NoSecrets\<rparr>),
     texts = demo_text, base64_wording = (\<lambda>e. [])\<rparr>"

definition demo_options :: "bool \<Rightarrow> obj" where
  "demo_options insecure = [(''host'', VStr ''amt''), (''username'', VStr ''admin''), (''password'', VStr ''pw''),
     (''use_tls'', VBool False), (''allow_insecure_transport'', VBool insecure), (''validate_certs'', VBool True),
     (''state'', VStr ''on''), (''device'', VStr ''pxe'')]"

lemma sent_opened:
  assumes "build_wsman_client ps = Ok cset" "has_requests sur"
  shows "sent (when_importable sur (with_client sur inside ps (\<lambda>ep. render_with m (render ep))))
    = mutations (snd (m (open_client sur ps cset)))"
  using mutations_rendered [of m "render (cs_endpoint cset)" "open_client sur ps cset"]
  by (auto simp: when_importable_def with_client_def assms sent_def simp del: mutations_rendered
      split: prod.splits outcome.splits)

lemma demo_sends: "length (sent (run_power demo_surroundings False (demo_options True))) = 1"
proof -
  have ok: "has_requests demo_surroundings" by code_simp
  obtain cset where c: "build_wsman_client (demo_options True) = Ok cset"
    "case build_wsman_client (demo_options True) of Ok cset \<Rightarrow>
       length (mutations (snd (amt_power_main the_client DEFAULT_POLL_COUNT ''on'' False
         (open_client demo_surroundings (demo_options True) cset)))) = 1 | Raise _ \<Rightarrow> False"
  proof -
    have "case build_wsman_client (demo_options True) of Ok cset \<Rightarrow>
       length (mutations (snd (amt_power_main the_client DEFAULT_POLL_COUNT ''on'' False
         (open_client demo_surroundings (demo_options True) cset)))) = 1 | Raise _ \<Rightarrow> False"
      by code_simp
    then show thesis using that by (cases "build_wsman_client (demo_options True)") auto
  qed
  have "param_str (demo_options True) ''state'' = ''on''" by code_simp
  with c show ?thesis unfolding run_power_def sent_opened [OF c(1) ok] by simp
qed

lemma demo_gate_closed:
  "snd (run_power demo_surroundings False (demo_options False)) = None"
  "fst (run_boot demo_surroundings False (demo_options False)) = Escaped TlsValidationError"
proof -
  have "build_wsman_client (demo_options False) = Raise TlsValidationError" "has_requests demo_surroundings" by code_simp+
  then show "snd (run_power demo_surroundings False (demo_options False)) = None"
    "fst (run_boot demo_surroundings False (demo_options False)) = Escaped TlsValidationError"
    by (simp_all add: run_defs run_refused(1))
qed

end
