(* ===== verification/Spec2Isabelle.thy ===== *)
theory Spec2Isabelle
  imports Ider_Properties Boot_Properties Control_Properties Message_Log_Properties Redirection_Properties
    Tls_Properties Facts_Properties Media_Properties Media_Control Redaction_Properties Info_Results
    Result_Properties Modules
begin

text \<open>
  A model of the Ansible collection \<^verbatim>\<open>james_crowley.intel_amt\<close>, which manages Intel AMT firmware:
  seven modules (\<^verbatim>\<open>plugins/modules\<close>) over a library of components (\<^verbatim>\<open>plugins/module_utils\<close>).

  \<^bold>\<open>How the program works.\<close>  A module checks its options, builds a WS-Man client under a TLS trust
  policy, reads the endpoint, decides whether a change is needed, sends at most the requests that
  make it, and returns a receipt whose texts have been redacted.  \<^verbatim>\<open>amt_media\<close> is different: it starts a
  daemon that outlives it.  The daemon opens the images, connects a redirection session, runs the
  IDE-R engine over it, and talks to later runs of the module only through a state file and signals.

  \<^bold>\<open>The theories and the code.\<close>

  \<^item> \<open>Prelude\<close>, \<open>Py_Values\<close>, \<open>Models\<close>: the error taxonomy of \<^verbatim>\<open>errors.py\<close>, actions with exceptions, bytes
    and integers; Python values and the coercions and typed results of \<^verbatim>\<open>models.py\<close>.
  \<^item> \<open>Redaction\<close>, \<open>Redaction_Properties\<close>: \<^verbatim>\<open>errors.redact\<close> with its patterns, and what it guarantees.
  \<^item> \<open>Ider_Frames\<close>, \<open>Ider_Media\<close>, \<open>Ider_Engine\<close>, \<open>Ider_Scsi\<close>, \<open>Ider_Feed\<close>: \<^verbatim>\<open>ider.py\<close>, from the frame layouts
    and the backing files to the SCSI target and the cutting of the byte stream.  \<open>Ider_Contract\<close>,
    \<open>Ider_Read\<close>, \<open>Ider_Write\<close>, \<open>Ider_Answers\<close> and \<open>Ider_Properties\<close> hold its contracts, the specifications
    of READ, WRITE and of the answers, and the properties.
  \<^item> \<open>Wsman\<close>, \<open>Wsman_Contract\<close>, \<open>Wsman_Demo\<close>: \<^verbatim>\<open>wsman.py\<close>, the interface \<open>wsman_api\<close> the components above it
    use, and a concrete endpoint for the witnesses.
  \<^item> \<open>Boot\<close>, \<open>Power_Control\<close>, \<open>Redirection_Service\<close>: \<^verbatim>\<open>boot.py\<close>, the power part of \<^verbatim>\<open>client.py\<close> and
    \<^verbatim>\<open>redirection_service.py\<close> with their modules; properties in \<open>Boot_Properties\<close> and \<open>Control_Properties\<close>.
  \<^item> \<open>Message_Log\<close>, \<open>Log_Records\<close>, \<open>Log_Reading\<close>, \<open>Message_Log_Properties\<close>: \<^verbatim>\<open>message_log.py\<close> and its modules.
  \<^item> \<open>Hardware\<close>, \<open>Facts\<close>, \<open>Facts_Properties\<close>: \<^verbatim>\<open>hardware.py\<close>, the reads of \<^verbatim>\<open>client.py\<close> and \<^verbatim>\<open>amt_info.py\<close>.
  \<^item> \<open>Tls\<close>, \<open>Tls_Properties\<close>: \<^verbatim>\<open>tls.py\<close>.  \<open>Redirection\<close>, \<open>Redirection_Handshake\<close>, \<open>Redirection_Properties\<close>:
    \<^verbatim>\<open>redirection.py\<close>.
  \<^item> \<open>Media_Session\<close>, \<open>Media_Daemon\<close>, \<open>Media_Life\<close>, \<open>Media_Properties\<close>: \<^verbatim>\<open>media_session.py\<close>; \<open>Media_Module\<close>,
    \<open>Media_Control\<close>: \<^verbatim>\<open>amt_media.py\<close>.
  \<^item> \<open>Modules\<close>: whole runs of the six modules that speak to an endpoint, from the accepted parameters through
    \<^verbatim>\<open>main\<close> and the client it builds to \<^verbatim>\<open>exit_json\<close> or \<^verbatim>\<open>fail_json\<close>, over what surrounds a run (\<open>surroundings\<close>).
  \<^item> \<open>Documented\<close>, \<open>Info_Results\<close>, \<open>Module_Results\<close>, \<open>Result_Properties\<close>: the \<^verbatim>\<open>RETURN\<close> documentation of the
    modules as types, and the results they return.  \<open>Arguments\<close>: the argument specs and the documented
    options, with the fragment \<^verbatim>\<open>doc_fragments/connection.py\<close>.

  Records carry the fields of the dataclasses, definitions the names of the functions; a function
  that mutates or may raise is an action, from a state to an outcome and the state at that point.
  Each component that calls another takes it as the code does: as an argument (\<open>wsman_api\<close>, \<open>net\<close>,
  \<open>host\<close>, the \<open>send_bytes\<close> of the engine) whose laws, where any are needed, are a locale
  (\<open>wsman_contract\<close>, \<open>block_store\<close>, \<open>engine_contract\<close>, \<open>stream_contract\<close>, \<open>masking_pattern\<close>) interpreted on
  the model of the provider.
\<close>

text \<open>
  \<^bold>\<open>What the lemmas show.\<close>

  \<^item> The IDE-R engine does not depend on how TCP cuts the stream, numbers its frames, answers every
    command once, returns exactly the extent a READ asks for, writes exactly what a WRITE delivers, and
    never touches an image it may not write.
  \<^item> Mutations go on the wire as planned: boot in five steps behind its gates, power and redirection
    changes once and after validation, clearing the log after confirmation; each request is sent a
    bounded number of times and a mutation whose answer was lost is not repeated.
  \<^item> No byte of a redirection session is sent before the pin is verified, the password is used in one hash
    only, and a client is built only under a trust policy that allows it.
  \<^item> A media session is reported attached only after firmware has confirmed it, the daemon's record wins
    over its parent's, its life follows an automaton, and the module affects nothing but its own session.
  \<^item> The event log is decoded and counted without loss; facts survive classes the firmware does not have.
  \<^item> A whole run sends what its parameters ask for and nothing else, nothing but reads in check mode, and
    ends in a documented result, a classified failure, or an exception that has no class (those of
    \<^verbatim>\<open>requests\<close> that no clause of the client catches among them).
  \<^item> No secret survives redaction, and redaction replaces pieces by the marker and does nothing else.
  \<^item> Results have the types the documentation gives them, up to the exceptions the statements name;
    options are what the documentation says; accepted parameters leave no lookup without an answer.

  \<^bold>\<open>Bounds and fuel.\<close>  Loops that the code does not bound run under a fuel, and \<open>OutOfFuel\<close> is an outcome of
  its own.  \<^verbatim>\<open>Enumerate\<close> pulls at most as often as its fuel says.  \<open>read_loop\<close> needs one round more than
  \<^verbatim>\<open>max_records\<close> when every answer brings a record (\<open>reading_ends\<close>); without that it may spin
  (\<open>reading_can_spin\<close>).  The waits of the media module end within the rounds their deadline allows
  (\<open>wait_ends\<close>).  The daemon's main loop runs over the list of what it observes in each round, so its
  properties hold for every finite run.

  \<^bold>\<open>Not modelled.\<close>  HTTP, TLS, sockets, hash functions, \<^verbatim>\<open>fork\<close>, signals, clocks and the file system are
  parameters; writing the daemon's state file is taken to succeed.  XML text is abstracted to trees, the
  text of a state file to its JSON value.  Texts are Latin-1 characters or UTF-8 bytes, as each theory
  says.  \<^verbatim>\<open>set_recv_timeout\<close>, the redirection of the standard file descriptors and the names of temporary
  files do not take part in any decision and are left out, as are \<^verbatim>\<open>CallerSuppliedIdentity\<close> and
  \<^verbatim>\<open>BootConfiguration\<close>, which nothing builds.  Ansible's own parsing is the predicate \<open>admitted\<close>.  The prose
  of the documentation, the examples, the role and the tests are not part of the model.
\<close>

section \<open>Whole runs\<close>

text \<open>
  C11: A run sends what it was asked for and nothing else.  Whatever the parameters, the trust settings
  and the endpoint's answers: in check mode a run of \<^verbatim>\<open>amt_power\<close>, \<^verbatim>\<open>amt_boot\<close>, \<^verbatim>\<open>amt_redirection\<close> or
  \<^verbatim>\<open>amt_log_clear\<close> sends no request but reads; otherwise at most the one power request of the given state,
  a beginning of the boot sequence of the given device (if there is a token), the one change to the
  given redirection state, or the one clearing of the log, if confirmed.  \<^verbatim>\<open>amt_info\<close> only reads, and
  \<^verbatim>\<open>amt_event_log\<close> only sends the two requests that position in and read the log.
\<close>

theorem runs_send_as_asked:
  "power_sends check (param_str ps ''state'') (sent (run_power sur check ps))
   \<and> boot_sends check (param_str ps ''device'') (param_str ps ''action_token'') (sent (run_boot sur check ps))
   \<and> redirection_sends check (param_opt_str ps ''state'') (sent (run_redirection sur check ps))
   \<and> clear_sends check (param_bool ps ''confirm_destructive'') (sent (run_log_clear sur check ps))
   \<and> sent (run_info sur ps) = [] \<and> list_all reading_request (sent (run_event_log sur ps))
   \<and> sent (run_power sur True ps) = [] \<and> sent (run_boot sur True ps) = []
   \<and> sent (run_redirection sur True ps) = [] \<and> sent (run_log_clear sur True ps) = []"
proof -
  have "sent (run_power sur True ps) = []" "sent (run_boot sur True ps) = []"
    "sent (run_redirection sur True ps) = []" "sent (run_log_clear sur True ps) = []"
    using sent_power [of True] sent_boot [of True] sent_redirection [of True] sent_log_clear [of True]
    by (auto simp: sends_defs)
  then show ?thesis
    by (simp add: sent_power sent_boot sent_redirection sent_log_clear sent_info sent_event_log)
qed


end
